(* ===== verification/Prelude.thy ===== *)
theory Prelude
  imports Main "HOL-Library.AList" "HOL-Library.List_Lexorder" "HOL-Library.Char_ord"
begin

text \<open>
  The Go runtime as the other theories use it: strings as byte lists, \<^verbatim>\<open>time.Duration\<close>
  and \<^verbatim>\<open>time.Time\<close> as integers of nanoseconds, maps as association lists with distinct
  keys (their order stands for Go's unspecified iteration order), errors as options and sums,
  and loops with an early return. The lemmas at the end of each part are the ones the component
  theories share.
\<close>

named_theorems go_simps \<open>evaluation and unfolding rules of the runtime layer\<close>

section \<open>Errors and loops\<close>

text \<open>
  A Go function that only reports an error returns \<^typ>\<open>'e option\<close>: \<^term>\<open>None\<close> is
  \<^verbatim>\<open>nil\<close>. A sequence of guards \<^verbatim>\<open>if c { return e }\<close> is \<open>first_error\<close> of its
  checks: the first failing one decides.
\<close>

definition err_if :: "bool \<Rightarrow> 'e \<Rightarrow> 'e option" where
  "err_if c e = (if c then Some e else None)"

fun first_error :: "'e option list \<Rightarrow> 'e option" where
  "first_error [] = None"
| "first_error (None # rest) = first_error rest"
| "first_error (Some e # rest) = Some e"

lemma err_if_None [simp, go_simps]: "err_if c e = None \<longleftrightarrow> \<not> c"
  by (simp add: err_if_def)

lemma err_if_Some [simp, go_simps]: "err_if c e = Some e' \<longleftrightarrow> c \<and> e' = e"
  by (auto simp: err_if_def)

lemma first_error_Cons:
  "first_error (x # xs) = (case x of None \<Rightarrow> first_error xs | Some e \<Rightarrow> Some e)"
  by (cases x) auto

lemma first_error_None [go_simps]: "first_error xs = None \<longleftrightarrow> (\<forall>x \<in> set xs. x = None)"
  by (induction xs) (auto simp: first_error_Cons split: option.splits)

lemma first_error_append:
  "first_error (xs @ ys) = (case first_error xs of None \<Rightarrow> first_error ys | Some e \<Rightarrow> Some e)"
  by (induction xs) (auto simp: first_error_Cons split: option.splits)

text \<open>A loop body that may return an error, over a loop state.\<close>

fun foldE :: "('s \<Rightarrow> 'a \<Rightarrow> 'e + 's) \<Rightarrow> 's \<Rightarrow> 'a list \<Rightarrow> 'e + 's" where
  "foldE f s [] = Inr s"
| "foldE f s (x # xs) = (case f s x of Inl e \<Rightarrow> Inl e | Inr s' \<Rightarrow> foldE f s' xs)"

lemma foldE_append:
  "foldE f s (xs @ ys) = (case foldE f s xs of Inl e \<Rightarrow> Inl e | Inr s' \<Rightarrow> foldE f s' ys)"
  by (induction xs arbitrary: s) (auto split: sum.splits)

lemma foldE_invariant:
  assumes "foldE f s xs = Inr t" and "P s"
    and "\<And>s x s'. x \<in> set xs \<Longrightarrow> P s \<Longrightarrow> f s x = Inr s' \<Longrightarrow> P s'"
  shows "P t"
  using assms
proof (induction xs arbitrary: s)
  case Nil
  then show ?case by simp
next
  case (Cons x xs)
  from Cons.prems(1) obtain s' where s': "f s x = Inr s'" "foldE f s' xs = Inr t"
    by (auto split: sum.splits)
  from Cons.prems(3) [OF _ Cons.prems(2) s'(1)] have "P s'" by simp
  with s'(2) show ?case
    by (rule Cons.IH) (use Cons.prems(3) in auto)
qed

lemma foldE_error:
  assumes "foldE f s xs = Inl e"
  shows "\<exists>pre x rest t. xs = pre @ x # rest \<and> foldE f s pre = Inr t \<and> f t x = Inl e"
  using assms
proof (induction xs arbitrary: s)
  case (Cons x xs)
  show ?case
  proof (cases "f s x")
    case (Inl e')
    with Cons.prems have "f s x = Inl e" by simp
    then show ?thesis by (intro exI [of _ "[]"]) simp
  next
    case (Inr s')
    with Cons.prems have "foldE f s' xs = Inl e" by simp
    from Cons.IH [OF this] obtain pre y rest t where
      "xs = pre @ y # rest" "foldE f s' pre = Inr t" "f t y = Inl e" by blast
    with Inr show ?thesis by (intro exI [of _ "x # pre"]) simp
  qed
qed simp

text \<open>A variant that also relates the state to the prefix already processed.\<close>

lemma foldE_prefix_invariant:
  assumes "foldE f s xs = Inr t" and "P [] s"
    and "\<And>done x rest s s'. xs = done @ x # rest \<Longrightarrow> P done s \<Longrightarrow> f s x = Inr s' \<Longrightarrow> P (done @ [x]) s'"
  shows "P xs t"
proof -
  have "\<And>done. pre @ xs' = xs \<Longrightarrow> foldE f s' xs' = Inr t \<Longrightarrow> P pre s' \<Longrightarrow> P xs t" for pre xs' s'
  proof (induction xs' arbitrary: pre s')
    case Nil
    then show ?case by simp
  next
    case (Cons x xs')
    from Cons.prems(2) obtain s'' where s'': "f s' x = Inr s''" "foldE f s'' xs' = Inr t"
      by (auto split: sum.splits)
    have "P (pre @ [x]) s''"
      using assms(3) [of pre x xs' s' s''] Cons.prems s''(1) by simp
    with s''(2) show ?case
      using Cons.IH [of "pre @ [x]" s''] Cons.prems(1) by simp
  qed
  from this [of "[]" xs s] assms(1,2) show ?thesis by simp
qed

text \<open>The error of a result, as Go's second return value.\<close>

fun as_error :: "'e + 'a \<Rightarrow> 'e option" where
  "as_error (Inl e) = Some e"
| "as_error (Inr a) = None"

lemma option_Inr: "(case x of Some e \<Rightarrow> Inl e | None \<Rightarrow> Inr a) = Inr t \<longleftrightarrow> x = None \<and> t = a"
  by (auto split: option.splits)

lemma as_error_None: "as_error r = None \<longleftrightarrow> (\<exists>a. r = Inr a)"
  by (cases r) auto

text \<open>A loop whose state is a function of the prefix accepts exactly when every step does.\<close>

lemma foldE_prefix_iff:
  assumes "\<And>pre x. f (st pre) x = (if ok pre x then Inr (st (pre @ [x])) else Inl (er pre x))"
  shows "(\<exists>t. foldE f (st pre) xs = Inr t) \<longleftrightarrow>
    (\<forall>ys x zs. xs = ys @ x # zs \<longrightarrow> ok (pre @ ys) x)"
proof (induction xs arbitrary: pre)
  case Nil
  then show ?case by simp
next
  case (Cons x xs)
  have split: "(\<forall>ys y zs. x # xs = ys @ y # zs \<longrightarrow> ok (pre @ ys) y) \<longleftrightarrow>
      ok pre x \<and> (\<forall>ys y zs. xs = ys @ y # zs \<longrightarrow> ok ((pre @ [x]) @ ys) y)"
  proof
    assume *: "\<forall>ys y zs. x # xs = ys @ y # zs \<longrightarrow> ok (pre @ ys) y"
    from *[rule_format, of "[]" x xs] have "ok pre x" by simp
    moreover have "ok ((pre @ [x]) @ ys) y" if "xs = ys @ y # zs" for ys y zs
      using *[rule_format, of "x # ys" y zs] that by simp
    ultimately show "ok pre x \<and> (\<forall>ys y zs. xs = ys @ y # zs \<longrightarrow> ok ((pre @ [x]) @ ys) y)" by blast
  next
    assume *: "ok pre x \<and> (\<forall>ys y zs. xs = ys @ y # zs \<longrightarrow> ok ((pre @ [x]) @ ys) y)"
    show "\<forall>ys y zs. x # xs = ys @ y # zs \<longrightarrow> ok (pre @ ys) y"
    proof (intro allI impI)
      fix ys y zs assume "x # xs = ys @ y # zs"
      then show "ok (pre @ ys) y" using * by (cases ys) auto
    qed
  qed
  show ?case
  proof (cases "ok pre x")
    case True
    then have "foldE f (st pre) (x # xs) = foldE f (st (pre @ [x])) xs" by (simp add: assms)
    then show ?thesis using Cons.IH [of "pre @ [x]"] True split by simp
  next
    case False
    then show ?thesis using split by (simp add: assms)
  qed
qed

lemma splits_iff_nth:
  "(\<forall>before x rest. xs = before @ x # rest \<longrightarrow> P before x) \<longleftrightarrow>
     list_all (\<lambda>i. P (take i xs) (xs ! i)) [0..<length xs]"
proof
  assume *: "\<forall>before x rest. xs = before @ x # rest \<longrightarrow> P before x"
  have "P (take i xs) (xs ! i)" if "i < length xs" for i
    using *[rule_format, OF id_take_nth_drop [OF that]] .
  then show "list_all (\<lambda>i. P (take i xs) (xs ! i)) [0..<length xs]"
    by (simp add: list_all_iff)
next
  assume *: "list_all (\<lambda>i. P (take i xs) (xs ! i)) [0..<length xs]"
  show "\<forall>before x rest. xs = before @ x # rest \<longrightarrow> P before x"
  proof (intro allI impI)
    fix before x rest assume xs: "xs = before @ x # rest"
    then have "length before \<in> set [0..<length xs]" by simp
    with * have "P (take (length before) xs) (xs ! length before)"
      unfolding list_all_iff by blast
    then show "P before x" by (simp add: xs)
  qed
qed

section \<open>Maps\<close>

type_synonym ('k, 'v) gomap = "('k \<times> 'v) list"
type_synonym labels = "(string, string) gomap"

text \<open>\<^verbatim>\<open>m[k]\<close> on a \<^verbatim>\<open>map[string]string\<close>: the zero value for an absent key.\<close>

definition sget :: "labels \<Rightarrow> string \<Rightarrow> string" where
  "sget m k = (case map_of m k of None \<Rightarrow> '''' | Some v \<Rightarrow> v)"

abbreviation gput :: "'k \<Rightarrow> 'v \<Rightarrow> ('k, 'v) gomap \<Rightarrow> ('k, 'v) gomap" where
  "gput \<equiv> AList.update"

abbreviation gdel :: "'k \<Rightarrow> ('k, 'v) gomap \<Rightarrow> ('k, 'v) gomap" where
  "gdel \<equiv> AList.delete"

definition well_keyed :: "('k, 'v) gomap \<Rightarrow> bool" where
  "well_keyed m \<longleftrightarrow> distinct (map fst m)"

text \<open>\<^verbatim>\<open>for k, v := range src { dst[k] = v }\<close>.\<close>

fun merge_into :: "('k, 'v) gomap \<Rightarrow> ('k, 'v) gomap \<Rightarrow> ('k, 'v) gomap" where
  "merge_into dst [] = dst"
| "merge_into dst ((k, v) # src) = merge_into (gput k v dst) src"

lemma map_of_gput [simp, go_simps]: "map_of (gput k v m) = (map_of m)(k \<mapsto> v)"
  by (simp add: update_conv')

lemma map_of_gdel [simp, go_simps]: "map_of (gdel k m) = (map_of m)(k := None)"
  by (simp add: delete_conv')

lemma sget_gput [simp]: "sget (gput k v m) x = (if x = k then v else sget m x)"
  by (simp add: sget_def)

lemma well_keyed_Nil [simp]: "well_keyed []"
  by (simp add: well_keyed_def)

lemma well_keyed_gput [simp, intro]: "well_keyed m \<Longrightarrow> well_keyed (gput k v m)"
  by (simp add: well_keyed_def distinct_update)

lemma well_keyed_gdel [simp, intro]: "well_keyed m \<Longrightarrow> well_keyed (gdel k m)"
  by (simp add: well_keyed_def distinct_delete)

lemma well_keyed_merge_into [simp, intro]: "well_keyed d \<Longrightarrow> well_keyed (merge_into d s)"
  by (induction d s rule: merge_into.induct) auto

lemma map_of_merge_into:
  "distinct (map fst s) \<Longrightarrow> map_of (merge_into d s) = map_of d ++ map_of s"
proof (induction d s rule: merge_into.induct)
  case (2 d k v s)
  then have "k \<notin> dom (map_of s)" by (simp add: dom_map_of_conv_image_fst)
  with 2 show ?case by (auto simp: map_add_def fun_eq_iff split: option.splits)
qed simp

section \<open>Strings\<close>

text \<open>
  A Go string is its bytes, so \<^verbatim>\<open>len\<close> is \<open>length\<close>. \<^verbatim>\<open>strings.TrimSpace\<close> removes
  the runes of \<^verbatim>\<open>unicode.IsSpace\<close>; their UTF-8 encodings have one byte (tab, LF, VT, FF,
  CR, blank), two (U+0085, U+00A0) or three (U+1680, U+2000 to U+200A, U+2028, U+2029, U+202F,
  U+205F, U+3000).
\<close>

definition byte :: "char \<Rightarrow> nat" where
  "byte c = of_char c"

definition is_space1 :: "char \<Rightarrow> bool" where
  "is_space1 a \<longleftrightarrow> byte a \<in> {9, 10, 11, 12, 13, 32}"

definition is_space2 :: "char \<Rightarrow> char \<Rightarrow> bool" where
  "is_space2 a b \<longleftrightarrow> byte a = 194 \<and> (byte b = 133 \<or> byte b = 160)"

definition is_space3 :: "char \<Rightarrow> char \<Rightarrow> char \<Rightarrow> bool" where
  "is_space3 a b c \<longleftrightarrow>
     byte a = 225 \<and> byte b = 154 \<and> byte c = 128 \<or>
     byte a = 226 \<and> byte b = 128 \<and> (128 \<le> byte c \<and> byte c \<le> 138 \<or> byte c \<in> {168, 169, 175}) \<or>
     byte a = 226 \<and> byte b = 129 \<and> byte c = 159 \<or>
     byte a = 227 \<and> byte b = 128 \<and> byte c = 128"

fun trim_left :: "string \<Rightarrow> string" where
  "trim_left [] = []"
| "trim_left (a # s) =
     (if is_space1 a then trim_left s
      else case s of
        [] \<Rightarrow> [a]
      | b # s' \<Rightarrow>
          if is_space2 a b then trim_left s'
          else case s' of
            [] \<Rightarrow> [a, b]
          | c # s'' \<Rightarrow> if is_space3 a b c then trim_left s'' else a # b # c # s'')"

fun trim_right_rev :: "string \<Rightarrow> string" where
  "trim_right_rev [] = []"
| "trim_right_rev (c # s) =
     (if is_space1 c then trim_right_rev s
      else case s of
        [] \<Rightarrow> [c]
      | b # s' \<Rightarrow>
          if is_space2 b c then trim_right_rev s'
          else case s' of
            [] \<Rightarrow> [c, b]
          | a # s'' \<Rightarrow> if is_space3 a b c then trim_right_rev s'' else c # b # a # s'')"

definition trim_space :: "string \<Rightarrow> string" where
  "trim_space s = rev (trim_right_rev (rev (trim_left s)))"

text \<open>\<^verbatim>\<open>strings.ToUpper\<close> and \<^verbatim>\<open>strings.ToLower\<close> on ASCII text.\<close>

definition upper_char :: "char \<Rightarrow> char" where
  "upper_char c = (if 97 \<le> byte c \<and> byte c \<le> 122 then char_of (byte c - 32) else c)"

definition lower_char :: "char \<Rightarrow> char" where
  "lower_char c = (if 65 \<le> byte c \<and> byte c \<le> 90 then char_of (byte c + 32) else c)"

definition to_upper :: "string \<Rightarrow> string" where
  "to_upper s = map upper_char s"

definition to_lower :: "string \<Rightarrow> string" where
  "to_lower s = map lower_char s"

definition equal_fold :: "string \<Rightarrow> string \<Rightarrow> bool" where
  "equal_fold s t \<longleftrightarrow> to_lower s = to_lower t"

definition nul :: string where
  "nul = [char_of (0 :: nat)]"

definition is_alpha :: "char \<Rightarrow> bool" where
  "is_alpha c \<longleftrightarrow> 65 \<le> byte c \<and> byte c \<le> 90 \<or> 97 \<le> byte c \<and> byte c \<le> 122"

definition is_digit :: "char \<Rightarrow> bool" where
  "is_digit c \<longleftrightarrow> 48 \<le> byte c \<and> byte c \<le> 57"

text \<open>Evaluation compares characters and their bits.\<close>

lemma first_byte: "byte c = 225 \<longleftrightarrow> c = CHR 0xE1" "byte c = 226 \<longleftrightarrow> c = CHR 0xE2" "byte c = 227 \<longleftrightarrow> c = CHR 0xE3"
  unfolding byte_def by (cases c; simp add: of_char_Char)+

lemma space_code [code]:
  shows "is_space1 c = (if c = CHR 0x20 then True else c \<in> {CHR 0x09, CHR 0x0A, CHR 0x0B, CHR 0x0C, CHR 0x0D})"
    and "is_space2 a b = (if a = CHR 0xC2 then b = CHR 0x85 \<or> b = CHR 0xA0 else False)"
    and "is_space3 a b c =
      (if a = CHR 0xE1 then byte b = 154 \<and> byte c = 128
       else if a = CHR 0xE2 then
         byte b = 128 \<and> (128 \<le> byte c \<and> byte c \<le> 138 \<or> byte c \<in> {168, 169, 175}) \<or> byte b = 129 \<and> byte c = 159
       else if a = CHR 0xE3 then byte b = 128 \<and> byte c = 128 else False)"
    apply (unfold is_space1_def byte_def, cases c, simp add: of_char_Char)
   apply (unfold is_space2_def byte_def, cases a, cases b, simp add: of_char_Char)
  apply (unfold is_space3_def byte_def [symmetric] first_byte, auto)
  done

lemma letter_code [code]:
  shows "lower_char (Char b0 b1 b2 b3 b4 b5 b6 b7) =
      (if b6 \<and> \<not> b5 \<and> \<not> b7 \<and> (b0 \<or> b1 \<or> b2 \<or> b3 \<or> b4) \<and> \<not> (b3 \<and> b4 \<and> (b2 \<or> b0 \<and> b1))
       then Char b0 b1 b2 b3 b4 True b6 b7 else Char b0 b1 b2 b3 b4 b5 b6 b7)"
    and "upper_char (Char b0 b1 b2 b3 b4 b5 b6 b7) =
      (if b6 \<and> b5 \<and> \<not> b7 \<and> (b0 \<or> b1 \<or> b2 \<or> b3 \<or> b4) \<and> \<not> (b3 \<and> b4 \<and> (b2 \<or> b0 \<and> b1))
       then Char b0 b1 b2 b3 b4 False b6 b7 else Char b0 b1 b2 b3 b4 b5 b6 b7)"
    and "is_alpha (Char b0 b1 b2 b3 b4 b5 b6 b7) =
      (b6 \<and> \<not> b7 \<and> (b0 \<or> b1 \<or> b2 \<or> b3 \<or> b4) \<and> \<not> (b3 \<and> b4 \<and> (b2 \<or> b0 \<and> b1)))"
    and "is_digit (Char b0 b1 b2 b3 b4 b5 b6 b7) = (b4 \<and> b5 \<and> \<not> b6 \<and> \<not> b7 \<and> (\<not> b3 \<or> \<not> b1 \<and> \<not> b2))"
  unfolding lower_char_def upper_char_def is_alpha_def is_digit_def byte_def
  by (cases b7; cases b6; cases b5; cases b4; cases b3; cases b2; cases b1; cases b0;
      simp add: of_char_Char char_of_def bit_simps)+

fun join :: "string \<Rightarrow> string list \<Rightarrow> string" where
  "join sep [] = ''''"
| "join sep [x] = x"
| "join sep (x # xs) = x @ sep @ join sep xs"

text \<open>\<^verbatim>\<open>strconv.Itoa\<close> and the \<^verbatim>\<open>%03d\<close> verb.\<close>

fun nat_str :: "nat \<Rightarrow> string" where
  "nat_str n = (if n < 10 then [char_of (48 + n)] else nat_str (n div 10) @ [char_of (48 + n mod 10)])"

declare nat_str.simps [simp del]

definition itoa :: "int \<Rightarrow> string" where
  "itoa n = (if n < 0 then CHR ''-'' # nat_str (nat (- n)) else nat_str (nat n))"

definition pad3 :: "nat \<Rightarrow> string" where
  "pad3 n = replicate (3 - length (nat_str n)) CHR ''0'' @ nat_str n"

section \<open>Durations and instants\<close>

text \<open>
  A duration is an \<^verbatim>\<open>int64\<close> of nanoseconds; sums whose operands the code has not bounded
  yet wrap around. An instant counts nanoseconds from Go's zero time, so \<^verbatim>\<open>IsZero\<close> is
  equality with 0.
\<close>

type_synonym duration = int
type_synonym time = int

definition wrap64 :: "int \<Rightarrow> int" where
  "wrap64 x = (x + 2 ^ 63) mod 2 ^ 64 - 2 ^ 63"

definition int64 :: "int \<Rightarrow> bool" where
  "int64 x \<longleftrightarrow> - (2 ^ 63) \<le> x \<and> x < 2 ^ 63"

definition millisecond :: duration where "millisecond = 1000000"
definition second :: duration where "second = 1000000000"
definition minute :: duration where "minute = 60 * second"

lemmas duration_units [go_simps] = millisecond_def second_def minute_def

lemma wrap64_id: "int64 x \<Longrightarrow> wrap64 x = x"
  by (simp add: int64_def wrap64_def)

lemma wrap64_int64 [simp]: "int64 (wrap64 x)"
  using pos_mod_bound [of "2 ^ 64" "x + 2 ^ 63"] pos_mod_sign [of "2 ^ 64" "x + 2 ^ 63"]
  by (simp add: int64_def wrap64_def)

text \<open>\<^verbatim>\<open>t.Truncate(d)\<close> for a positive \<^verbatim>\<open>d\<close>, relative to the zero time.\<close>

definition truncate :: "time \<Rightarrow> duration \<Rightarrow> time" where
  "truncate t d = t - t mod d"

section \<open>Lists\<close>

text \<open>
  \<^verbatim>\<open>sort.SliceStable\<close> by a key is the library's \<open>sort_key\<close>, an insertion sort that keeps
  the order of equal keys.
\<close>

lemma set_filter_sort_key [simp]: "set (sort_key f (filter P xs)) = {x \<in> set xs. P x}"
  by simp

lemma sorted_sort_key_nth:
  "i \<le> j \<Longrightarrow> j < length xs \<Longrightarrow> f (sort_key f xs ! i) \<le> f (sort_key f xs ! j)"
  using sorted_nth_mono [OF sorted_sort_key, of i j f xs] by (simp add: nth_map)

lemma sorted_if_steps:
  fixes f :: "'a \<Rightarrow> 'b :: linorder"
  assumes "\<And>before e rest. xs = before @ e # rest \<Longrightarrow> before = [] \<or> f (last before) \<le> f e"
  shows "sorted (map f xs)"
  using assms
proof (induction xs rule: rev_induct)
  case (snoc x xs)
  have "sorted (map f xs)"
  proof (rule snoc.IH)
    fix before e rest assume "xs = before @ e # rest"
    then show "before = [] \<or> f (last before) \<le> f e" using snoc.prems [of before e "rest @ [x]"] by simp
  qed
  moreover have "f y \<le> f x" if "y \<in> set xs" for y
  proof -
    have "f (last xs) \<le> f x" using snoc.prems [of xs x "[]"] that by auto
    moreover have "f y \<le> f (last xs)"
    proof -
      from that obtain init z where "xs = init @ [z]" by (cases xs rule: rev_cases) auto
      with \<open>sorted (map f xs)\<close> that show ?thesis by (auto simp: sorted_append)
    qed
    ultimately show ?thesis by simp
  qed
  ultimately show ?case by (auto simp: sorted_append)
qed simp


lemma list_all2_source: "list_all2 P xs ys \<Longrightarrow> y \<in> set ys \<Longrightarrow> \<exists>x \<in> set xs. P x y"
  by (induction rule: list_all2_induct) auto

end
