(* ===== verification/Json_Doc.thy ===== *)
theory Json_Doc
  imports Prelude
begin

text \<open>
  JSON documents as \<^verbatim>\<open>encoding/json\<close> sees them. A \<^verbatim>\<open>json.RawMessage\<close> is absent, a byte
  string that is not JSON, or a document; an object keeps its fields in input order, so a
  repeated key is decoded in sequence and the last one wins. Field names match struct tags
  without regard to case, and \<^verbatim>\<open>null\<close> leaves a field as it is.
\<close>

datatype json =
    JNull
  | JBool bool
  | JNumber string
  | JString string
  | JArray "json list"
  | JObject "(string \<times> json) list"

datatype raw = NoBytes | BadBytes | Doc json

text \<open>\<^verbatim>\<open>json.Valid\<close> and \<^verbatim>\<open>len(raw) > 0\<close>.\<close>

fun json_valid :: "raw \<Rightarrow> bool" where
  "json_valid (Doc j) = True"
| "json_valid _ = False"

definition raw_present :: "raw \<Rightarrow> bool" where
  "raw_present r \<longleftrightarrow> r \<noteq> NoBytes"

text \<open>
  Decoding into a struct: every field of the object whose name matches is decoded in turn; a
  value of the wrong type is an error of the whole call. The decoder of one field gets the
  field's previous value and returns \<^term>\<open>None\<close> on a type mismatch.
\<close>

fun decode_field ::
  "string \<Rightarrow> (json \<Rightarrow> 'a \<Rightarrow> 'a option) \<Rightarrow> (string \<times> json) list \<Rightarrow> 'a \<Rightarrow> 'a option" where
  "decode_field tag d [] acc = Some acc"
| "decode_field tag d ((k, v) # fields) acc =
     (if equal_fold k tag then
        (case d v acc of None \<Rightarrow> None | Some acc' \<Rightarrow> decode_field tag d fields acc')
      else decode_field tag d fields acc)"

fun decode_string :: "json \<Rightarrow> string \<Rightarrow> string option" where
  "decode_string JNull old = Some old"
| "decode_string (JString s) old = Some s"
| "decode_string _ old = None"

fun decode_count :: "json \<Rightarrow> nat \<Rightarrow> nat option" where
  "decode_count JNull old = Some 0"
| "decode_count (JArray xs) old = Some (length xs)"
| "decode_count _ old = None"

fun decode_entries :: "(string \<times> json) list \<Rightarrow> labels \<Rightarrow> labels option" where
  "decode_entries [] m = Some m"
| "decode_entries ((k, v) # fields) m =
     (case decode_string v '''' of None \<Rightarrow> None | Some s \<Rightarrow> decode_entries fields (gput k s m))"

fun decode_string_map :: "json \<Rightarrow> labels \<Rightarrow> labels option" where
  "decode_string_map JNull old = Some []"
| "decode_string_map (JObject fields) old = decode_entries fields old"
| "decode_string_map _ old = None"

text \<open>\<^verbatim>\<open>json.Unmarshal(raw, &document)\<close> for a struct with the one field \<open>tag\<close>.\<close>

fun unmarshal_field :: "string \<Rightarrow> (json \<Rightarrow> 'a \<Rightarrow> 'a option) \<Rightarrow> 'a \<Rightarrow> raw \<Rightarrow> 'a option" where
  "unmarshal_field tag d zero (Doc JNull) = Some zero"
| "unmarshal_field tag d zero (Doc (JObject fields)) = decode_field tag d fields zero"
| "unmarshal_field tag d zero _ = None"

text \<open>\<^verbatim>\<open>json.Marshal\<close> of a \<^verbatim>\<open>map[string]string\<close> writes the keys in order.\<close>

definition marshal_strings :: "labels \<Rightarrow> json" where
  "marshal_strings m = JObject (map (\<lambda>(k, v). (k, JString v)) (sort_key fst m))"

end
