(* ===== verification/Go_Format.thy ===== *)
theory Go_Format
  imports Json_Doc
begin

text \<open>
  The standard library's text forms the program stores and reports: UTC instants in
  \<^verbatim>\<open>time.RFC3339Nano\<close>, which is what \<^verbatim>\<open>formatTime\<close> of target\_repository.go writes into the
  database and what \<^verbatim>\<open>json.Marshal\<close> writes for a \<^verbatim>\<open>time.Time\<close>, \<^verbatim>\<open>Duration.String\<close>, and the
  builders of JSON objects (\<^verbatim>\<open>omitempty\<close> fields are left out). An instant counts nanoseconds
  from 0001-01-01T00:00:00Z, the zero \<^verbatim>\<open>time.Time\<close>; years after 9999 are outside the format.
  A nil slice is not distinguished from an empty one.
\<close>

section \<open>Calendar\<close>

definition pad :: "nat \<Rightarrow> nat \<Rightarrow> string" where
  "pad w n = replicate (w - length (nat_str n)) CHR ''0'' @ nat_str n"

definition leap :: "nat \<Rightarrow> bool" where
  "leap y \<longleftrightarrow> y mod 4 = 0 \<and> (y mod 100 \<noteq> 0 \<or> y mod 400 = 0)"

text \<open>Year and day of the year of a day counted from 1 January of the year 1.\<close>

definition year_day :: "nat \<Rightarrow> nat \<times> nat" where
  "year_day days =
     (let n400 = days div 146097; d = days mod 146097;
          n100 = min 3 (d div 36524); d = d - n100 * 36524;
          n4 = d div 1461; d = d mod 1461;
          n1 = min 3 (d div 365); d = d - n1 * 365
      in (400 * n400 + 100 * n100 + 4 * n4 + n1 + 1, d))"

definition month_lengths :: "nat \<Rightarrow> nat list" where
  "month_lengths y = [31, if leap y then 29 else 28, 31, 30, 31, 30, 31, 31, 30, 31, 30, 31]"

fun month_day :: "nat list \<Rightarrow> nat \<Rightarrow> nat \<Rightarrow> nat \<times> nat" where
  "month_day [] m d = (m, Suc d)"
| "month_day (len # lens) m d = (if d < len then (m, Suc d) else month_day lens (Suc m) (d - len))"

definition date_str :: "nat \<Rightarrow> string" where
  "date_str days =
     (let (y, d) = year_day days; (m, day) = month_day (month_lengths y) 1 d
      in pad 4 y @ ''-'' @ pad 2 m @ ''-'' @ pad 2 day)"

definition drop_trailing_zeros :: "string \<Rightarrow> string" where
  "drop_trailing_zeros s = rev (dropWhile (\<lambda>c. c = CHR ''0'') (rev s))"

text \<open>The fraction of \<open>v\<close> at \<open>prec\<close> decimals, without trailing zeros.\<close>

definition frac_str :: "nat \<Rightarrow> nat \<Rightarrow> string" where
  "frac_str prec v =
     (if v mod 10 ^ prec = 0 then ''''
      else CHR ''.'' # drop_trailing_zeros (pad prec (v mod 10 ^ prec)))"

definition rfc3339 :: "time \<Rightarrow> string" where
  "rfc3339 t =
     (let n = nat t; s = n div 1000000000; sod = s mod 86400
      in date_str (s div 86400) @ ''T'' @ pad 2 (sod div 3600) @ '':'' @ pad 2 (sod div 60 mod 60) @ '':'' @
         pad 2 (sod mod 60) @ frac_str 9 n @ ''Z'')"

definition formatTime :: "time \<Rightarrow> string" where
  "formatTime t = rfc3339 t"

text \<open>\<^verbatim>\<open>Duration.String\<close>; the micro sign is the bytes 194 181.\<close>

definition duration_str :: "duration \<Rightarrow> string" where
  "duration_str d =
     (let u = nat (abs d); sign = (if d < 0 then ''-'' else '''');
          s = u div 1000000000; m = s div 60; h = m div 60;
          seconds = nat_str (s mod 60) @ frac_str 9 u @ ''s''
      in if u = 0 then ''0s''
         else sign @
          (if u < 1000 then nat_str u @ ''ns''
           else if u < 1000000 then nat_str (u div 1000) @ frac_str 3 u @ [char_of (194 :: nat), char_of (181 :: nat)] @ ''s''
           else if u < 1000000000 then nat_str (u div 1000000) @ frac_str 6 u @ ''ms''
           else if m = 0 then seconds
           else if h = 0 then nat_str m @ ''m'' @ seconds
           else nat_str h @ ''h'' @ nat_str (m mod 60) @ ''m'' @ seconds))"

text \<open>\<^verbatim>\<open>%q\<close> of a text without quotes, backslashes and control characters.\<close>

definition go_quote :: "string \<Rightarrow> string" where
  "go_quote s = CHR 0x22 # s @ [CHR 0x22]"

text \<open>\<^verbatim>\<open>strconv.Atoi\<close>: an optional sign, decimal digits, the range of \<^verbatim>\<open>int\<close>.\<close>

fun digits_value :: "string \<Rightarrow> nat \<Rightarrow> nat option" where
  "digits_value [] v = Some v"
| "digits_value (c # s) v = (if is_digit c then digits_value s (v * 10 + (byte c - 48)) else None)"

definition atoi :: "string \<Rightarrow> int option" where
  "atoi s =
     (let (sign, digits) = (case s of
            c # rest \<Rightarrow> if c = CHR ''-'' then (-1, rest) else if c = CHR ''+'' then (1, rest) else (1, s)
          | [] \<Rightarrow> (1, s))
      in if digits = [] then None
         else (case digits_value digits 0 of
             None \<Rightarrow> None
           | Some v \<Rightarrow> if int64 (sign * int v) then Some (sign * int v) else None))"

section \<open>JSON objects\<close>

text \<open>A field of a struct: always written, or left out when the value is the zero value.\<close>

definition fld :: "string \<Rightarrow> json \<Rightarrow> (string \<times> json) list" where
  "fld tag v = [(tag, v)]"

definition fld_unless :: "bool \<Rightarrow> string \<Rightarrow> json \<Rightarrow> (string \<times> json) list" where
  "fld_unless zero tag v = (if zero then [] else [(tag, v)])"

definition jint :: "int \<Rightarrow> json" where "jint n = JNumber (itoa n)"
definition jtime :: "time \<Rightarrow> json" where "jtime t = JString (rfc3339 t)"
definition jstrings :: "string list \<Rightarrow> json" where "jstrings xs = JArray (map JString xs)"

definition fld_string :: "string \<Rightarrow> string \<Rightarrow> (string \<times> json) list" where
  "fld_string tag s = fld_unless (s = '''') tag (JString s)"

definition fld_ostring :: "string \<Rightarrow> string option \<Rightarrow> (string \<times> json) list" where
  "fld_ostring tag v = (case v of None \<Rightarrow> [] | Some s \<Rightarrow> fld tag (JString s))"

text \<open>A \<^verbatim>\<open>json.RawMessage\<close> inside a document.\<close>

fun jraw :: "raw \<Rightarrow> json" where
  "jraw (Doc j) = j"
| "jraw _ = JNull"

lemmas json_fields [go_simps] =
  fld_def fld_unless_def fld_string_def fld_ostring_def

text \<open>
  Decoding a field of an object whose fields were written with distinct names: the fields in
  front of it do not match, the ones behind it neither.
\<close>

lemma decode_field_append:
  "decode_field tag d (xs @ ys) acc =
     (case decode_field tag d xs acc of None \<Rightarrow> None | Some a \<Rightarrow> decode_field tag d ys a)"
  by (induction tag d xs acc rule: decode_field.induct) (auto split: option.splits)

lemma decode_field_skip:
  "list_all (\<lambda>(k, v). \<not> equal_fold k tag) xs \<Longrightarrow> decode_field tag d xs acc = Some acc"
  by (induction tag d xs acc rule: decode_field.induct) auto

text \<open>Evaluation: a numeral is unfolded only while its guard can be decided.\<close>

lemma nat_str_digit [simp]: "n < 10 \<Longrightarrow> nat_str n = [char_of (48 + n)]"
  by (simp add: nat_str.simps)
lemma nat_str_step: "\<not> n < 10 \<Longrightarrow> nat_str n = nat_str (n div 10) @ [char_of (48 + n mod 10)]"
  by (simp add: nat_str.simps [of n])
lemma digit_chars [simp]:
  "char_of (48 :: nat) = CHR ''0''" "char_of (49 :: nat) = CHR ''1''" "char_of (50 :: nat) = CHR ''2''"
  "char_of (51 :: nat) = CHR ''3''" "char_of (52 :: nat) = CHR ''4''" "char_of (53 :: nat) = CHR ''5''"
  "char_of (54 :: nat) = CHR ''6''" "char_of (55 :: nat) = CHR ''7''" "char_of (56 :: nat) = CHR ''8''"
  "char_of (57 :: nat) = CHR ''9''"
  by code_simp+
lemma replicate_step: "replicate (numeral k) x = x # replicate (pred_numeral k) x"
  by (simp add: numeral_eq_Suc)
lemmas format_simps =
  formatTime_def rfc3339_def frac_str_def date_str_def year_day_def month_lengths_def leap_def pad_def
  drop_trailing_zeros_def nat_str_step replicate_step Let_def

text \<open>Field names compare letter by letter.\<close>

lemma lower_letters [simp]:
  "lower_char CHR ''a'' = CHR ''a''"
  "lower_char CHR ''b'' = CHR ''b''"
  "lower_char CHR ''c'' = CHR ''c''"
  "lower_char CHR ''d'' = CHR ''d''"
  "lower_char CHR ''e'' = CHR ''e''"
  "lower_char CHR ''f'' = CHR ''f''"
  "lower_char CHR ''g'' = CHR ''g''"
  "lower_char CHR ''h'' = CHR ''h''"
  "lower_char CHR ''i'' = CHR ''i''"
  "lower_char CHR ''j'' = CHR ''j''"
  "lower_char CHR ''k'' = CHR ''k''"
  "lower_char CHR ''l'' = CHR ''l''"
  "lower_char CHR ''m'' = CHR ''m''"
  "lower_char CHR ''n'' = CHR ''n''"
  "lower_char CHR ''o'' = CHR ''o''"
  "lower_char CHR ''p'' = CHR ''p''"
  "lower_char CHR ''q'' = CHR ''q''"
  "lower_char CHR ''r'' = CHR ''r''"
  "lower_char CHR ''s'' = CHR ''s''"
  "lower_char CHR ''t'' = CHR ''t''"
  "lower_char CHR ''u'' = CHR ''u''"
  "lower_char CHR ''v'' = CHR ''v''"
  "lower_char CHR ''w'' = CHR ''w''"
  "lower_char CHR ''x'' = CHR ''x''"
  "lower_char CHR ''y'' = CHR ''y''"
  "lower_char CHR ''z'' = CHR ''z''"
  "lower_char CHR ''A'' = CHR ''a''"
  "lower_char CHR ''B'' = CHR ''b''"
  "lower_char CHR ''C'' = CHR ''c''"
  "lower_char CHR ''D'' = CHR ''d''"
  "lower_char CHR ''E'' = CHR ''e''"
  "lower_char CHR ''F'' = CHR ''f''"
  "lower_char CHR ''G'' = CHR ''g''"
  "lower_char CHR ''H'' = CHR ''h''"
  "lower_char CHR ''I'' = CHR ''i''"
  "lower_char CHR ''J'' = CHR ''j''"
  "lower_char CHR ''K'' = CHR ''k''"
  "lower_char CHR ''L'' = CHR ''l''"
  "lower_char CHR ''M'' = CHR ''m''"
  "lower_char CHR ''N'' = CHR ''n''"
  "lower_char CHR ''O'' = CHR ''o''"
  "lower_char CHR ''P'' = CHR ''p''"
  "lower_char CHR ''Q'' = CHR ''q''"
  "lower_char CHR ''R'' = CHR ''r''"
  "lower_char CHR ''S'' = CHR ''s''"
  "lower_char CHR ''T'' = CHR ''t''"
  "lower_char CHR ''U'' = CHR ''u''"
  "lower_char CHR ''V'' = CHR ''v''"
  "lower_char CHR ''W'' = CHR ''w''"
  "lower_char CHR ''X'' = CHR ''x''"
  "lower_char CHR ''Y'' = CHR ''y''"
  "lower_char CHR ''Z'' = CHR ''z''"
  "lower_char CHR ''0'' = CHR ''0''"
  "lower_char CHR ''1'' = CHR ''1''"
  "lower_char CHR ''2'' = CHR ''2''"
  "lower_char CHR ''3'' = CHR ''3''"
  "lower_char CHR ''4'' = CHR ''4''"
  "lower_char CHR ''5'' = CHR ''5''"
  "lower_char CHR ''6'' = CHR ''6''"
  "lower_char CHR ''7'' = CHR ''7''"
  "lower_char CHR ''8'' = CHR ''8''"
  "lower_char CHR ''9'' = CHR ''9''"
  "lower_char CHR ''_'' = CHR ''_''"
  by code_simp+

lemmas fold_names = equal_fold_def to_lower_def

text \<open>The same forms by integer arithmetic, which is what evaluation uses.\<close>

function int_digits :: "int \<Rightarrow> string" where
  "int_digits n = (if n < 10 then [char_of (48 + nat n)] else int_digits (n div 10) @ [char_of (48 + nat (n mod 10))])"
  by pat_completeness auto
termination by (relation "measure nat") auto

declare int_digits.simps [simp del]

lemma int_digits_nat_str: "int_digits (int n) = nat_str n"
proof (induction n rule: nat_str.induct)
  case (1 n)
  then show ?case
    by (subst int_digits.simps, subst nat_str.simps) (auto simp: zdiv_int nat_mod_distrib)
qed

lemma itoa_code [code]: "itoa n = (if n < 0 then CHR ''-'' # int_digits (- n) else int_digits n)"
  using int_digits_nat_str [of "nat n"] int_digits_nat_str [of "nat (- n)"] by (auto simp: itoa_def)

definition int_pad :: "nat \<Rightarrow> int \<Rightarrow> string" where
  "int_pad w n = replicate (w - length (int_digits n)) CHR ''0'' @ int_digits n"

lemma int_pad: "int_pad w (int n) = pad w n"
  by (simp add: int_pad_def pad_def int_digits_nat_str)

definition int_date :: "int \<Rightarrow> string" where
  "int_date days =
     (let d = days mod 146097; n100 = min 3 (d div 36524); d = d - n100 * 36524;
          n4 = d div 1461; d = d mod 1461; n1 = min 3 (d div 365); d = d - n1 * 365;
          y = 400 * (days div 146097) + 100 * n100 + 4 * n4 + n1 + 1;
          leap = (y mod 4 = 0 \<and> (y mod 100 \<noteq> 0 \<or> y mod 400 = 0));
          (m, day) = month_day [31, if leap then 29 else 28, 31, 30, 31, 30, 31, 31, 30, 31, 30, 31] 1 (nat d)
      in int_pad 4 y @ ''-'' @ pad 2 m @ ''-'' @ pad 2 day)"

lemma min_div_le: "min a (x div k) * k \<le> (x :: nat)"
  by (metis div_times_less_eq_dividend le_trans min.cobounded2 mult_le_mono1)

lemma int_date: "int_date (int n) = date_str n"
proof -
  let ?d = "n mod 146097" let ?c = "min 3 (?d div 36524)" let ?e = "?d - ?c * 36524"
  let ?f = "?e mod 1461" let ?g = "min 3 (?f div 365)" let ?h = "?f - ?g * 365"
  have le: "?c * 36524 \<le> ?d" "?g * 365 \<le> ?f" by (rule min_div_le)+
  have d: "int n mod 146097 = int ?d" by (simp add: zmod_int)
  have c: "min 3 (int ?d div 36524) = int ?c" by (simp add: zdiv_int)
  have e: "int ?d - int ?c * 36524 = int ?e" by (simp only: of_nat_diff [OF le(1)] of_nat_mult of_nat_numeral)
  have f: "int ?e mod 1461 = int ?f" "int ?e div 1461 = int (?e div 1461)" by (simp_all add: zmod_int zdiv_int)
  have "min 3 (int m div 365) = int (min 3 (m div 365))" for m by (simp add: zdiv_int)
  then have g: "min 3 (int ?f div 365) = int ?g" .
  have h: "int ?f - int ?g * 365 = int ?h" by (simp only: of_nat_diff [OF le(2)] of_nat_mult of_nat_numeral)
  have y: "400 * (int n div 146097) + 100 * int ?c + 4 * int (?e div 1461) + int ?g + 1 =
      int (400 * (n div 146097) + 100 * ?c + 4 * (?e div 1461) + ?g + 1)" (is "_ = int ?y")
    by (simp only: of_nat_add of_nat_mult of_nat_numeral of_nat_1 zdiv_int)
  have l: "int m mod 4 = 0 \<longleftrightarrow> m mod 4 = 0" "int m mod 100 = 0 \<longleftrightarrow> m mod 100 = 0" "int m mod 400 = 0 \<longleftrightarrow> m mod 400 = 0"
    for m by presburger+
  show ?thesis
    unfolding int_date_def date_str_def year_day_def month_lengths_def leap_def Let_def d c e f g h y l int_pad nat_int prod.case
    by (rule refl)
qed

lemma rfc3339_code [code]:
  "rfc3339 t =
     (let n = max 0 t; s = n div 1000000000; sod = s mod 86400; f = n mod 1000000000
      in int_date (s div 86400) @ ''T'' @ int_pad 2 (sod div 3600) @ '':'' @ int_pad 2 (sod div 60 mod 60) @ '':'' @
         int_pad 2 (sod mod 60) @
         (if f = 0 then '''' else CHR ''.'' # drop_trailing_zeros (int_pad 9 f)) @ ''Z'')"
proof -
  define k where "k = nat t"
  have n: "max 0 t = int k" by (simp add: k_def)
  have s: "int k div 1000000000 = int (k div 1000000000)" by (simp add: zdiv_int)
  have f: "int k mod 1000000000 = int (k mod 1000000000)" by (simp add: zmod_int)
  have d: "int m div 86400 = int (m div 86400)" "int m mod 86400 = int (m mod 86400)" "int m div 3600 = int (m div 3600)"
    "int m div 60 = int (m div 60)" "int m mod 60 = int (m mod 60)" for m by (simp_all add: zdiv_int zmod_int)
  show ?thesis
    unfolding rfc3339_def Let_def n k_def [symmetric] s f d int_pad int_date frac_str_def by simp
qed

section \<open>Stored instants do not sort as text\<close>

text \<open>
  The text order of stored instants is not their time order: of two instants of one second,
  the later one has the smaller text when only it has a fraction, so \<^verbatim>\<open>ORDER BY created_at\<close> and
  the range filters of the store can disagree with time inside a second.
\<close>

theorem stored_text_order:
  "formatTime (63000000000 * second + 500 * millisecond) < formatTime (63000000000 * second)"
proof -
  have date: "date_str 729166 = ''1997-05-23''" by (simp add: format_simps)
  have pads: "pad 2 16 = ''16''" "pad 2 0 = ''00''" by (simp_all add: format_simps)
  have frac: "frac_str 9 63000000000500000000 = ''.5''" "frac_str 9 63000000000000000000 = ''''"
    by (simp_all add: format_simps)
  have "rfc3339 63000000000500000000 = ''1997-05-23T16:00:00.5Z''"
    unfolding rfc3339_def Let_def nat_numeral by (simp add: date pads frac)
  moreover have "rfc3339 63000000000000000000 = ''1997-05-23T16:00:00Z''"
    unfolding rfc3339_def Let_def nat_numeral by (simp add: date pads frac)
  moreover have "''1997-05-23T16:00:00.5Z'' < ''1997-05-23T16:00:00Z''" by code_simp
  ultimately show ?thesis by (simp add: formatTime_def second_def millisecond_def)
qed

end
