(* ===== verification/Run_Domain.thy ===== *)
theory Run_Domain
  imports Json_Doc "HOL-Library.Word"
begin

unbundle bit_operations_syntax

text \<open>
  Package \<^verbatim>\<open>internal/domain\<close>: run identifiers, the run lifecycle and its state machine,
  verdicts and cleanup states, the ownership record of an external resource, artifacts, the
  facts that finalize a run, and the conservative guard that decides whether alert inputs may
  have been sent. A Go string type with documented constants is a datatype whose last
  constructor holds any other string.
\<close>

section \<open>Identifiers (id.go)\<close>

definition crockford :: string where
  "crockford = ''0123456789ABCDEFGHJKMNPQRSTVWXYZ''"

text \<open>
  One input byte of the encoder: shift it into the 32-bit accumulator, then emit a symbol for
  every five pending bits. The inner loop is \<open>emit\<close>.
\<close>

fun emit :: "nat \<Rightarrow> 32 word \<Rightarrow> nat \<Rightarrow> string \<Rightarrow> nat \<times> string" where
  "emit 0 acc bits out = (bits, out)"
| "emit (Suc fuel) acc bits out =
     (if 5 \<le> bits
      then emit fuel acc (bits - 5)
             (out @ [crockford ! unat (drop_bit (bits - 5) acc AND 31)])
      else (bits, out))"

fun encode_bytes :: "8 word list \<Rightarrow> 32 word \<Rightarrow> nat \<Rightarrow> string \<Rightarrow> string" where
  "encode_bytes [] acc bits out = out"
| "encode_bytes (v # raw) acc bits out =
     (let acc' = push_bit 8 acc OR ucast v;
          (bits', out') = emit (bits + 8) acc' (bits + 8) out
      in encode_bytes raw acc' bits' out')"

text \<open>
  \<^verbatim>\<open>NewRunID\<close> reads 16 bytes from the entropy source; a shorter stream is the error of
  \<^verbatim>\<open>io.ReadFull\<close>.
\<close>

definition NewRunID :: "8 word list \<Rightarrow> string option" where
  "NewRunID random =
     (if length random < 16 then None
      else Some (''crt_'' @ encode_bytes (take 16 random) 0 2 []))"

definition Short :: "string \<Rightarrow> string" where
  "Short value = (if length value < 12 then '''' else take 8 (drop 4 value))"

definition NewTargetID :: "8 word list \<Rightarrow> string option" where
  "NewTargetID random = map_option (\<lambda>runID. ''tgt_'' @ drop 4 runID) (NewRunID random)"

subsection \<open>The encoding is a base-32 numeral of the 128 input bits\<close>

text \<open>
  The loop invariant: after \<open>t\<close> bits (the two leading zeros included) whose big-endian value
  is \<open>v\<close>, the output holds the \<open>t div 5\<close> leading symbols of \<open>v\<close>, \<open>t mod 5\<close> bits
  are pending and the 32-bit accumulator is \<open>v\<close> modulo \<open>2^32\<close>.
\<close>

definition symbol :: "nat \<Rightarrow> nat \<Rightarrow> char" where
  "symbol v p = crockford ! (v div 2 ^ p mod 32)"

lemma accumulate_unat:
  fixes acc :: "32 word" and v :: "8 word"
  shows "unat (push_bit 8 acc OR ucast v) = (unat acc * 256 + unat v) mod 2 ^ 32"
proof -
  have "push_bit 8 acc OR ucast v = push_bit 8 acc + ucast v"
    by (rule disjunctive_add_eq_or [symmetric])
      (auto simp: bit_eq_iff bit_simps dest: bit_imp_le_length)
  then show ?thesis
    by (simp add: push_bit_eq_mult unat_word_ariths unsigned_ucast_eq mod_simps take_bit_eq_mod)
qed

lemma symbol_unat:
  assumes "p + 5 \<le> 32" and "unat (acc :: 32 word) = v mod 2 ^ 32"
  shows "crockford ! unat (drop_bit p acc AND 31) = symbol v p"
proof -
  have "drop_bit p acc AND 31 = take_bit 5 (drop_bit p acc)"
    by (simp add: take_bit_eq_mask mask_eq_exp_minus_1)
  then have "unat (drop_bit p acc AND 31) = take_bit 5 (drop_bit p (unat acc))"
    by (simp only: unsigned_take_bit_eq unat_drop_bit_eq)
  also have "\<dots> = take_bit 5 (drop_bit p (take_bit 32 v))"
    by (simp add: assms(2) take_bit_eq_mod)
  also have "\<dots> = take_bit 5 (drop_bit p v)"
    using assms(1) by (simp add: take_bit_drop_bit min_def)
  also have "\<dots> = v div 2 ^ p mod 32" by (simp add: take_bit_eq_mod drop_bit_eq_div)
  finally show ?thesis by (simp add: symbol_def)
qed

lemma emit_symbols:
  assumes "bits \<le> fuel" "bits \<le> 32" and "unat (acc :: 32 word) = v mod 2 ^ 32"
  shows "emit fuel acc bits out =
    (bits mod 5, out @ map (\<lambda>k. symbol v (bits - 5 * Suc k)) [0..<bits div 5])"
  using assms(1,2)
proof (induction fuel arbitrary: bits out)
  case 0
  then show ?case by simp
next
  case (Suc fuel)
  show ?case
  proof (cases "5 \<le> bits")
    case True
    then obtain b where b: "bits = b + 5" by (metis le_add_diff_inverse2)
    have "bits div 5 = Suc (b div 5)" by (simp add: b)
    then have "[0..<bits div 5] = 0 # map Suc [0..<b div 5]"
      by (simp add: upt_conv_Cons map_Suc_upt del: upt_Suc)
    then have "map (\<lambda>k. symbol v (bits - 5 * Suc k)) [0..<bits div 5] =
        symbol v b # map (\<lambda>k. symbol v (b - 5 * Suc k)) [0..<b div 5]"
      by (simp add: b)
    with Suc.IH [of b] Suc.prems symbol_unat [of b acc v] assms(3) show ?thesis
      by (simp add: b)
  qed simp
qed

fun be_value :: "8 word list \<Rightarrow> nat \<Rightarrow> nat" where
  "be_value [] v = v"
| "be_value (b # bs) v = be_value bs (v * 256 + unat b)"

definition symbols :: "nat \<Rightarrow> nat \<Rightarrow> string" where
  "symbols v t = map (\<lambda>k. symbol v (t - 5 * Suc k)) [0..<t div 5]"

lemma symbols_extend:
  assumes "b < 256" and t: "t = 5 * n + r" and "r < 5"
  shows "symbols (v * 256 + b) (t + 8) =
     symbols v t @ map (\<lambda>k. symbol (v * 256 + b) (r + 8 - 5 * Suc k)) [0..<(r + 8) div 5]"
proof -
  have n: "t div 5 = n" and len: "(t + 8) div 5 = n + (r + 8) div 5"
    using t \<open>r < 5\<close> by (simp_all add: add.assoc)
  have old: "symbol (v * 256 + b) (t + 8 - 5 * Suc k) = symbol v (t - 5 * Suc k)" if "k < n" for k
  proof -
    have "t + 8 - 5 * Suc k = 8 + (t - 5 * Suc k)" using t \<open>k < n\<close> by simp
    moreover have "(v * 256 + b) div 2 ^ (8 + p) = v div 2 ^ p" for p
    proof -
      have "(v * 256 + b) div 2 ^ (8 + p) = (v * 256 + b) div 256 div 2 ^ p"
        unfolding power_add div_mult2_eq by simp
      then show ?thesis using \<open>b < 256\<close> by simp
    qed
    ultimately show ?thesis unfolding symbol_def by (simp only:)
  qed
  have new: "t + 8 - 5 * Suc (n + k) = r + 8 - 5 * Suc k" for k
    using t by simp
  have split_upt: "[0..<n + m] = [0..<n] @ map ((+) n) [0..<m]" for m
    by (induction m) auto
  let ?f = "\<lambda>k. symbol (v * 256 + b) (t + 8 - 5 * Suc k)"
  have "symbols (v * 256 + b) (t + 8) = map ?f ([0..<n] @ map ((+) n) [0..<(r + 8) div 5])"
    by (simp only: symbols_def len split_upt)
  also have "\<dots> = map ?f [0..<n] @ map (\<lambda>k. ?f (n + k)) [0..<(r + 8) div 5]"
    by (simp only: map_append map_map comp_def)
  also have "map ?f [0..<n] = symbols v t"
    unfolding symbols_def n by (rule map_cong [OF refl]) (rule old, simp)
  also have "map (\<lambda>k. ?f (n + k)) [0..<(r + 8) div 5] =
      map (\<lambda>k. symbol (v * 256 + b) (r + 8 - 5 * Suc k)) [0..<(r + 8) div 5]"
    by (simp only: new)
  finally show ?thesis .
qed

lemma encode_bytes_symbols:
  "unat acc = v mod 2 ^ 32 \<Longrightarrow>
   encode_bytes raw acc (t mod 5) (symbols v t) = symbols (be_value raw v) (t + 8 * length raw)"
proof (induction raw arbitrary: acc v t)
  case Nil
  then show ?case by simp
next
  case (Cons b raw)
  let ?acc = "push_bit 8 acc OR ucast b" and ?v = "v * 256 + unat b"
  have acc: "unat ?acc = ?v mod 2 ^ 32"
    unfolding accumulate_unat Cons.prems by (metis mod_add_left_eq mod_mult_left_eq)
  have "unat b < 256" using unsigned_less [of b] by simp
  have "emit (t mod 5 + 8) ?acc (t mod 5 + 8) (symbols v t) =
      ((t + 8) mod 5, symbols ?v (t + 8))"
    using emit_symbols [of "t mod 5 + 8" "t mod 5 + 8" ?acc ?v "symbols v t"] acc
      symbols_extend [OF \<open>unat b < 256\<close>, of t "t div 5" "t mod 5" v]
    by (simp add: mod_simps)
  with Cons.IH [OF acc, of "t + 8"] show ?case by (simp add: add.assoc)
qed

lemma digits_determine:
  "(\<forall>k < n. a div b ^ k mod b = c div b ^ k mod b) \<Longrightarrow> a mod b ^ n = c mod (b ^ n :: nat)"
proof (induction n)
  case (Suc n)
  then have "a mod b ^ n = c mod b ^ n" "a div b ^ n mod b = c div b ^ n mod b" by auto
  then show ?case by (simp only: power_Suc2 mod_mult2_eq)
qed simp

lemma be_value_bound: "be_value raw v < (v + 1) * 256 ^ length raw"
proof (induction raw arbitrary: v)
  case (Cons b raw)
  have "unat b < 256" using unsigned_less [of b] by simp
  then have "v * 256 + unat b + 1 \<le> (v + 1) * 256" by simp
  then have "(v * 256 + unat b + 1) * 256 ^ length raw \<le> (v + 1) * 256 * 256 ^ length raw"
    by (rule mult_right_mono) simp
  with Cons.IH [of "v * 256 + unat b"] have "be_value (b # raw) v < (v + 1) * 256 * 256 ^ length raw"
    by (simp only: be_value.simps)
  then show ?case by (simp only: list.size power_Suc mult.assoc add_Suc_right add_0_right)
qed simp

lemma be_value_inject:
  "length raw = length raw' \<Longrightarrow> be_value raw v = be_value raw' v' \<Longrightarrow> raw = raw' \<and> v = v'"
proof (induction raw raw' arbitrary: v v' rule: list_induct2)
  case (Cons b raw b' raw')
  from Cons have eq: "raw = raw'" "v * 256 + unat b = v' * 256 + unat b'" by auto
  have "unat b < 256" "unat b' < 256" using unsigned_less [of b] unsigned_less [of b'] by simp_all
  then have "v = (v * 256 + unat b) div 256" "v' = (v' * 256 + unat b') div 256" by simp_all
  with eq(2) have "v = v'" by simp
  with eq show ?case by (simp add: word_unat_eq_iff)
qed simp

lemma crockford_inject: "i < 32 \<Longrightarrow> j < 32 \<Longrightarrow> crockford ! i = crockford ! j \<longleftrightarrow> i = j"
proof -
  have "distinct crockford" "length crockford = 32" by (simp_all add: crockford_def)
  then show "i < 32 \<Longrightarrow> j < 32 \<Longrightarrow> ?thesis" by (simp add: nth_eq_iff_index_eq)
qed

lemma symbols_inject:
  assumes "symbols v 130 = symbols w 130" and "v < 2 ^ 130" "w < 2 ^ 130"
  shows "v = w"
proof -
  have "v div 32 ^ k mod 32 = w div 32 ^ k mod 32" if "k < 26" for k
  proof -
    have "symbols x 130 ! (25 - k) = symbol x (130 - 5 * Suc (25 - k))" for x
      unfolding symbols_def using \<open>k < 26\<close> by (subst nth_map) simp_all
    moreover have "130 - 5 * Suc (25 - k) = 5 * k" using \<open>k < 26\<close> by simp
    ultimately have "symbol v (5 * k) = symbol w (5 * k)" using assms(1) by metis
    then show ?thesis by (simp add: symbol_def crockford_inject power_mult)
  qed
  then have "v mod 32 ^ 26 = w mod 32 ^ 26" by (intro digits_determine) simp
  with assms(2,3) show ?thesis by simp
qed

lemma NewRunID_symbols:
  "16 \<le> length random \<Longrightarrow> NewRunID random = Some (''crt_'' @ symbols (be_value (take 16 random) 0) 130)"
  using encode_bytes_symbols [of 0 0 "take 16 random" 2]
  by (simp add: NewRunID_def symbols_def [of 0 2])

section \<open>Run lifecycle (run.go)\<close>

datatype RunStatus =
    RunQueued | RunPreflight | RunSettingUp | RunInjecting | RunObserving | RunAsserting
  | RunCancelling | RunCleaningUp | RunInterrupted | RunRecovering | RunCompleted
  | RunStatusOther string

datatype Verdict =
    VerdictPass | VerdictFail | VerdictInconclusive | VerdictError | VerdictSkipped
  | VerdictOther string

datatype CleanupStatus =
    CleanupClean | CleanupDirty | CleanupNotRequired | CleanupUnknown
  | CleanupOther string

text \<open>The stored strings.\<close>

fun status_str :: "RunStatus \<Rightarrow> string" where
  "status_str RunQueued = ''QUEUED''"
| "status_str RunPreflight = ''PREFLIGHT''"
| "status_str RunSettingUp = ''SETTING_UP''"
| "status_str RunInjecting = ''INJECTING''"
| "status_str RunObserving = ''OBSERVING''"
| "status_str RunAsserting = ''ASSERTING''"
| "status_str RunCancelling = ''CANCELLING''"
| "status_str RunCleaningUp = ''CLEANING_UP''"
| "status_str RunInterrupted = ''INTERRUPTED''"
| "status_str RunRecovering = ''RECOVERING''"
| "status_str RunCompleted = ''COMPLETED''"
| "status_str (RunStatusOther s) = s"

definition documented_statuses :: "RunStatus list" where
  "documented_statuses =
     [RunQueued, RunPreflight, RunSettingUp, RunInjecting, RunObserving, RunAsserting,
      RunCancelling, RunCleaningUp, RunInterrupted, RunRecovering, RunCompleted]"

text \<open>The \<^typ>\<open>RunStatus\<close> a stored or decoded string denotes.\<close>

definition status_of :: "string \<Rightarrow> RunStatus" where
  "status_of s =
     (case find (\<lambda>st. status_str st = s) documented_statuses of
        Some st \<Rightarrow> st | None \<Rightarrow> RunStatusOther s)"

fun status_Valid :: "RunStatus \<Rightarrow> bool" where
  "status_Valid (RunStatusOther s) = False"
| "status_Valid _ = True"

definition Active :: "RunStatus \<Rightarrow> bool" where
  "Active status \<longleftrightarrow> status_Valid status \<and> status \<noteq> RunInterrupted \<and> status \<noteq> RunCompleted"

fun verdict_Valid :: "Verdict \<Rightarrow> bool" where
  "verdict_Valid (VerdictOther s) = False"
| "verdict_Valid _ = True"

fun cleanup_Valid :: "CleanupStatus \<Rightarrow> bool" where
  "cleanup_Valid (CleanupOther s) = False"
| "cleanup_Valid _ = True"

abbreviation no_verdict :: Verdict where
  "no_verdict \<equiv> VerdictOther ''''"

fun allowed :: "RunStatus \<Rightarrow> RunStatus list" where
  "allowed RunQueued = [RunPreflight, RunCancelling]"
| "allowed RunPreflight = [RunSettingUp, RunCancelling]"
| "allowed RunSettingUp = [RunInjecting, RunCancelling]"
| "allowed RunInjecting = [RunObserving, RunCancelling]"
| "allowed RunObserving = [RunAsserting, RunCancelling]"
| "allowed RunAsserting = [RunCleaningUp, RunCancelling]"
| "allowed RunCancelling = [RunCleaningUp]"
| "allowed RunCleaningUp = [RunCompleted]"
| "allowed RunInterrupted = [RunRecovering]"
| "allowed RunRecovering = [RunCleaningUp]"
| "allowed _ = []"

definition CanTransition :: "RunStatus \<Rightarrow> RunStatus \<Rightarrow> bool" where
  "CanTransition cur next \<longleftrightarrow>
     (if next = RunInterrupted \<and> Active cur then True
      else list_ex (\<lambda>candidate. candidate = next) (allowed cur))"

record Run =
  run_ID :: string
  run_ShortToken :: string
  run_TargetID :: string
  run_ScenarioID :: string
  run_Status :: RunStatus
  run_Verdict :: Verdict
  run_CleanupStatus :: CleanupStatus
  run_HarnessVersion :: string
  run_CapabilitySnapshotJSON :: raw
  run_CompiledPlanJSON :: raw
  run_CanonicalReportJSON :: raw
  run_StartedAt :: "time option"
  run_EndedAt :: "time option"
  run_CreatedAt :: time
  run_UpdatedAt :: time
  run_TerminalError :: string

record RunEvent =
  re_RunID :: string
  re_CaseID :: string
  re_Sequence :: int
  re_Type :: string
  re_Level :: string
  re_OccurredAt :: time
  re_Summary :: string
  re_DetailJSON :: raw

datatype RunError =
    RunIdentityInvalid | RunStatusInvalid RunStatus | RunVerdictInvalid Verdict
  | RunCleanupInvalid CleanupStatus | RunMetadataIncomplete

definition run_Validate :: "Run \<Rightarrow> RunError option" where
  "run_Validate run = first_error
     [err_if (run_ID run = '''' \<or> length (run_ShortToken run) \<noteq> 8) RunIdentityInvalid,
      err_if (\<not> status_Valid (run_Status run)) (RunStatusInvalid (run_Status run)),
      err_if (run_Verdict run \<noteq> no_verdict \<and> \<not> verdict_Valid (run_Verdict run))
        (RunVerdictInvalid (run_Verdict run)),
      err_if (\<not> cleanup_Valid (run_CleanupStatus run)) (RunCleanupInvalid (run_CleanupStatus run)),
      err_if (run_HarnessVersion run = '''' \<or> run_CreatedAt run = 0 \<or> run_UpdatedAt run = 0)
        RunMetadataIncomplete]"

definition run_InputPath :: "Run \<Rightarrow> string" where
  "run_InputPath run =
     (case unmarshal_field ''coverage'' decode_string_map [] (run_CanonicalReportJSON run) of
        Some coverage \<Rightarrow>
          if sget coverage ''inputPath'' \<noteq> '''' then sget coverage ''inputPath''
          else (case unmarshal_field ''inputPath'' decode_string '''' (run_CompiledPlanJSON run) of
                  Some path \<Rightarrow> if path \<noteq> '''' then path else ''alert-engine''
                | None \<Rightarrow> ''alert-engine'')
      | None \<Rightarrow>
          (case unmarshal_field ''inputPath'' decode_string '''' (run_CompiledPlanJSON run) of
             Some path \<Rightarrow> if path \<noteq> '''' then path else ''alert-engine''
           | None \<Rightarrow> ''alert-engine''))"

subsection \<open>The lifecycle as a transition system\<close>

text \<open>
  The statuses a run goes through from its creation, each step allowed by \<open>CanTransition\<close>.
\<close>

inductive lifecycle :: "RunStatus list \<Rightarrow> bool" where
  created: "lifecycle [RunQueued]"
| step: "lifecycle h \<Longrightarrow> CanTransition (last h) next \<Longrightarrow> lifecycle (h @ [next])"

inductive_cases lifecycle_NilE: "lifecycle []"

lemma lifecycle_nonempty: "lifecycle h \<Longrightarrow> h \<noteq> []"
  by (induction rule: lifecycle.induct) auto

text \<open>
  How far a run has got: the position of a status on the forward path; every status from which
  no stimulus can follow any more has the last one.
\<close>

fun stage :: "RunStatus \<Rightarrow> nat" where
  "stage RunQueued = 0"
| "stage RunPreflight = 1"
| "stage RunSettingUp = 2"
| "stage RunInjecting = 3"
| "stage RunObserving = 4"
| "stage RunAsserting = 5"
| "stage _ = 6"

lemma CanTransition_cases:
  assumes "CanTransition s t"
  obtains "t = RunInterrupted" "Active s" | "t \<in> set (allowed s)"
  using assms by (auto simp: CanTransition_def list_ex_iff split: if_splits)

lemma CanTransition_stage:
  assumes "CanTransition s t"
  shows "stage s < stage t \<or> stage s = 6 \<and> stage t = 6"
  using assms
proof (cases rule: CanTransition_cases)
  case 1
  then show ?thesis by (cases s) auto
next
  case 2
  then show ?thesis by (cases s) auto
qed

lemma Completed_final: "\<not> CanTransition RunCompleted t"
  by (auto simp: CanTransition_def Active_def)

lemma stage_le: "stage s \<le> 6"
  by (cases s) auto

lemma lifecycle_stages:
  assumes "lifecycle h"
  shows "(\<forall>s \<in> set h. stage s \<le> stage (last h)) \<and>
    (\<forall>s. stage s < 6 \<longrightarrow> count_list h s \<le> (if stage s \<le> stage (last h) then 1 else 0)) \<and>
    (RunCompleted \<in> set h \<longrightarrow> last h = RunCompleted)"
  using assms
proof (induction rule: lifecycle.induct)
  case created
  then show ?case by auto
next
  case (step h t)
  note st = CanTransition_stage [OF step.hyps(2)] stage_le [of t]
  have "count_list (h @ [t]) s \<le> (if stage s \<le> stage t then 1 else 0)" if "stage s < 6" for s
  proof (cases "s = t")
    case True
    then have "\<not> stage s \<le> stage (last h)" using st that by auto
    then have "count_list h s = 0" using step.IH that by fastforce
    with True show ?thesis by simp
  next
    case False
    then have "count_list (h @ [t]) s = count_list h s" by simp
    with step.IH that st show ?thesis by (auto split: if_splits)
  qed
  moreover have "last h \<noteq> RunCompleted" using step.hyps(2) Completed_final by auto
  ultimately show ?case using step.IH st by (auto intro: order_trans less_imp_le)
qed

definition winding_down :: "RunStatus \<Rightarrow> bool" where
  "winding_down s \<longleftrightarrow>
     s \<in> {RunCancelling, RunCleaningUp, RunInterrupted, RunRecovering, RunCompleted}"

lemma winding_down_stage: "status_Valid s \<Longrightarrow> winding_down s \<longleftrightarrow> stage s = 6"
  by (cases s) (auto simp: winding_down_def)

lemma CanTransition_Valid: "CanTransition s t \<Longrightarrow> status_Valid t"
  by (erule CanTransition_cases) (cases s; auto)+

lemma lifecycle_Valid: "lifecycle h \<Longrightarrow> \<forall>s \<in> set h. status_Valid s"
  by (induction rule: lifecycle.induct) (auto dest: CanTransition_Valid)

lemma lifecycle_prefix: "lifecycle (h @ rest) \<Longrightarrow> h \<noteq> [] \<Longrightarrow> lifecycle h"
proof (induction rest rule: rev_induct)
  case (snoc t rest)
  then have "lifecycle ((h @ rest) @ [t])" by simp
  then have "lifecycle (h @ rest)"
    by (cases rule: lifecycle.cases) (use snoc.prems in auto)
  with snoc show ?case by simp
qed simp

lemma lifecycle_split:
  assumes "lifecycle (h @ s # rest)"
  shows "(stage s = 6 \<longrightarrow> (\<forall>t \<in> set rest. stage t = 6)) \<and> (stage s < 6 \<longrightarrow> s \<notin> set rest) \<and>
    (s = RunCompleted \<longrightarrow> rest = [])"
  using assms
proof (induction rest rule: rev_induct)
  case (snoc t rest)
  then have h: "lifecycle (h @ s # rest)"
    using lifecycle_prefix [of "h @ s # rest" "[t]"] by simp
  have "CanTransition (last (s # rest)) t"
    using snoc.prems by (cases rule: lifecycle.cases) auto
  note t = CanTransition_stage [OF this] this
  note all = lifecycle_stages [OF snoc.prems]
  have "s \<noteq> t" if "stage s < 6"
  proof
    assume "s = t"
    then have "count_list (h @ s # rest @ [t]) t \<ge> 2" by simp
    moreover have "count_list (h @ s # rest @ [t]) t \<le> 1"
      using all that \<open>s = t\<close> by (auto split: if_splits)
    ultimately show False by simp
  qed
  moreover have "stage t = 6" if "stage s = 6"
  proof -
    have "stage (last (s # rest)) = 6" using snoc.IH [OF h] that by auto
    then show ?thesis using t stage_le [of t] by auto
  qed
  moreover have "s \<noteq> RunCompleted" using snoc.IH [OF h] t Completed_final by auto
  ultimately show ?case using snoc.IH [OF h] by auto
qed simp

section \<open>Resources (resource.go)\<close>

datatype ResourceState =
    ResourceProposed | ResourceCreated | ResourceDeleted | ResourceUnknown
  | ResourceOther string

record Resource =
  rs_ID :: string
  rs_RunID :: string
  rs_Kind :: string
  rs_ExternalID :: string
  rs_ExternalName :: string
  rs_OwnershipToken :: string
  rs_LifecycleState :: ResourceState
  rs_CreatedAt :: "time option"
  rs_DeletedAt :: "time option"
  rs_CleanupError :: string

datatype ResourceError =
    ResourceIncomplete | ResourceTokenMismatch | ResourceProposedWithEvidence
  | ResourceStateInvalid string

definition resource_Validate :: "Resource \<Rightarrow> ResourceError option" where
  "resource_Validate r = first_error
     [err_if (rs_ID r = '''' \<or> rs_RunID r = '''' \<or> rs_Kind r = '''' \<or> rs_ExternalName r = '''' \<or>
              rs_OwnershipToken r = '''') ResourceIncomplete,
      err_if (rs_OwnershipToken r \<noteq> rs_RunID r) ResourceTokenMismatch,
      (case rs_LifecycleState r of
         ResourceProposed \<Rightarrow>
           err_if (rs_ExternalID r \<noteq> '''' \<or> rs_CreatedAt r \<noteq> None \<or> rs_DeletedAt r \<noteq> None)
             ResourceProposedWithEvidence
       | ResourceOther s \<Rightarrow> Some (ResourceStateInvalid s)
       | _ \<Rightarrow> None)]"

section \<open>Artifacts (artifact.go)\<close>

datatype ArtifactAvailability = ArtifactPending | ArtifactAvailable | ArtifactOther string

record Artifact =
  af_ID :: string
  af_RunID :: string
  af_CaseID :: string
  af_Kind :: string
  af_RelativePath :: string
  af_MIMEType :: string
  af_SHA256 :: string
  af_ByteSize :: int
  af_RedactionState :: string
  af_Availability :: ArtifactAvailability
  af_CreatedAt :: time

datatype ArtifactError =
    ArtifactIncomplete | ArtifactPendingWithHash | ArtifactHashRequired | ArtifactStateInvalid string

definition artifact_Validate :: "Artifact \<Rightarrow> ArtifactError option" where
  "artifact_Validate a = first_error
     [err_if (af_ID a = '''' \<or> af_RunID a = '''' \<or> af_Kind a = '''' \<or> af_RelativePath a = '''' \<or>
              af_MIMEType a = '''' \<or> af_RedactionState a = '''' \<or> af_CreatedAt a = 0)
        ArtifactIncomplete,
      (case af_Availability a of
         ArtifactPending \<Rightarrow> err_if (af_SHA256 a \<noteq> '''' \<or> af_ByteSize a \<noteq> 0) ArtifactPendingWithHash
       | ArtifactAvailable \<Rightarrow> err_if (af_SHA256 a = '''' \<or> af_ByteSize a < 0) ArtifactHashRequired
       | ArtifactOther s \<Rightarrow> Some (ArtifactStateInvalid s))]"

section \<open>Execution facts (evidence.go)\<close>

record AssertionFact =
  xf_StableKey :: string
  xf_Kind :: string
  xf_ExpectedJSON :: raw
  xf_ObservedJSON :: raw
  xf_Verdict :: Verdict
  xf_Explanation :: string
  xf_ObservationStart :: time
  xf_ObservationEnd :: time

record CaseFact =
  cf_StableKey :: string
  cf_Verdict :: Verdict
  cf_StartedAt :: time
  cf_EndedAt :: time
  cf_Assertions :: "AssertionFact list"
  cf_Evidence :: raw

record AlertAttemptFact =
  aa_StartsAt :: time
  aa_CaseStableKey :: string
  aa_EventID :: string
  aa_EventIndex :: int
  aa_SendState :: string
  aa_InjectionClass :: string
  aa_StatusCode :: int
  aa_Fingerprint :: string

record AlertResolutionFact =
  ar_AlertName :: string
  ar_Fingerprint :: string
  ar_InjectionClass :: string
  ar_StatusCode :: int
  ar_Accepted :: bool

record ExecutionFacts =
  ef_Cases :: "CaseFact list"
  ef_Attempts :: "AlertAttemptFact list"
  ef_Resolutions :: "AlertResolutionFact list"
  ef_Artifacts :: "Artifact list"

datatype FactError =
    CaseFactInvalid string | AssertionFactInvalid string | AttemptFactInvalid string int
  | ResolutionFactInvalid string | ArtifactFactInvalid ArtifactError

definition assertion_fact_check :: "AssertionFact \<Rightarrow> FactError option" where
  "assertion_fact_check a =
     err_if (xf_StableKey a = '''' \<or> xf_Kind a = '''' \<or> \<not> verdict_Valid (xf_Verdict a) \<or>
             \<not> json_valid (xf_ExpectedJSON a) \<or> \<not> json_valid (xf_ObservedJSON a) \<or>
             xf_ObservationStart a = 0 \<or> xf_ObservationEnd a < xf_ObservationStart a)
       (AssertionFactInvalid (xf_StableKey a))"

definition case_fact_check :: "CaseFact \<Rightarrow> FactError option" where
  "case_fact_check c = first_error
     (err_if (cf_StableKey c = '''' \<or> \<not> verdict_Valid (cf_Verdict c) \<or> cf_StartedAt c = 0 \<or>
              cf_EndedAt c < cf_StartedAt c \<or> \<not> json_valid (cf_Evidence c))
        (CaseFactInvalid (cf_StableKey c))
      # map assertion_fact_check (cf_Assertions c))"

definition attempt_fact_check :: "AlertAttemptFact \<Rightarrow> FactError option" where
  "attempt_fact_check a =
     err_if (aa_CaseStableKey a = '''' \<or> aa_EventID a = '''' \<or> aa_EventIndex a \<le> 0 \<or>
             aa_SendState a = '''' \<or> aa_InjectionClass a = '''' \<or>
             \<not> (100 \<le> aa_StatusCode a \<and> aa_StatusCode a \<le> 599 \<or>
                aa_StatusCode a = 0 \<and> aa_SendState a = ''ATTEMPTED'' \<and>
                aa_InjectionClass a = ''indeterminate''))
       (AttemptFactInvalid (aa_CaseStableKey a) (aa_EventIndex a))"

definition resolution_fact_check :: "AlertResolutionFact \<Rightarrow> FactError option" where
  "resolution_fact_check r =
     err_if (ar_AlertName r = '''' \<or> ar_Fingerprint r = '''' \<or> ar_InjectionClass r = '''' \<or>
             ar_StatusCode r < 100 \<or> 599 < ar_StatusCode r)
       (ResolutionFactInvalid (ar_AlertName r))"

definition facts_Validate :: "ExecutionFacts \<Rightarrow> FactError option" where
  "facts_Validate f = first_error
     (map case_fact_check (ef_Cases f) @ map attempt_fact_check (ef_Attempts f) @
      map resolution_fact_check (ef_Resolutions f) @
      map (\<lambda>a. map_option ArtifactFactInvalid (artifact_Validate a)) (ef_Artifacts f))"

section \<open>Input responsibility (input\_responsibility.go)\<close>

definition afterIngest :: "RunStatus \<Rightarrow> bool" where
  "afterIngest status \<longleftrightarrow> status = RunInjecting \<or> status = RunObserving \<or> status = RunAsserting"

text \<open>The status fields of a transition detail: \<^verbatim>\<open>from\<close>, \<^verbatim>\<open>to\<close>, \<^verbatim>\<open>previousStatus\<close>.\<close>

definition decode_detail :: "raw \<Rightarrow> (RunStatus \<times> RunStatus \<times> RunStatus) option" where
  "decode_detail detail =
     (case (unmarshal_field ''from'' decode_string '''' detail,
            unmarshal_field ''to'' decode_string '''' detail,
            unmarshal_field ''previousStatus'' decode_string '''' detail) of
        (Some f, Some t, Some p) \<Rightarrow> Some (status_of f, status_of t, status_of p)
      | _ \<Rightarrow> None)"

definition event_shows_input :: "RunEvent \<Rightarrow> bool" where
  "event_shows_input event =
     (if re_Type event \<in> {''alert.attempting'', ''alert.prepared'', ''checkpoint.started'',
                          ''checkpoint.completed''} then True
      else if re_Type event \<in> {''run.transition'', ''run.interrupted''} then
        (case decode_detail (re_DetailJSON event) of
           None \<Rightarrow> True
         | Some (f, t, p) \<Rightarrow>
             afterIngest f \<or> afterIngest t \<or> afterIngest p \<or> p = RunCleaningUp \<or> p = RunRecovering)
      else False)"

definition PossibleAlertInputs :: "Run \<Rightarrow> RunEvent list \<Rightarrow> bool" where
  "PossibleAlertInputs run events =
     (if afterIngest (run_Status run) \<or> run_Status run = RunCleaningUp \<or>
         run_Status run = RunRecovering then True
      else if raw_present (run_CanonicalReportJSON run) \<and>
        (case unmarshal_field ''attempts'' decode_count 0 (run_CanonicalReportJSON run) of
           None \<Rightarrow> True | Some n \<Rightarrow> 0 < n) then True
      else list_ex event_shows_input events)"

lemma status_of_str [simp]: "status_Valid s \<Longrightarrow> status_of (status_str s) = s"
  by (cases s) (simp_all add: status_of_def documented_statuses_def)

section \<open>Properties\<close>

text \<open>
  C27. Two run identifiers are equal only if the 16 entropy bytes they were made from are
  equal: the Crockford encoding with its 32-bit accumulator loses no bit.
\<close>

theorem NewRunID_injective:
  assumes "NewRunID random = Some rid" and "NewRunID random' = Some rid"
  shows "take 16 random = take 16 random'"
proof -
  have len: "16 \<le> length random" "16 \<le> length random'"
    using assms by (auto simp: NewRunID_def split: if_splits)
  let ?v = "be_value (take 16 random) 0" and ?w = "be_value (take 16 random') 0"
  have "symbols ?v 130 = symbols ?w 130"
    using assms len by (auto simp: NewRunID_symbols)
  moreover have "?v < 2 ^ 130" "?w < 2 ^ 130"
    using be_value_bound [of "take 16 random" 0] be_value_bound [of "take 16 random'" 0] len by simp_all
  ultimately have "?v = ?w" by (rule symbols_inject)
  with len show ?thesis using be_value_inject [of "take 16 random" "take 16 random'" 0 0] by simp
qed

lemma NewRunID_injective_witness:
  "NewRunID (replicate 16 255) = Some ''crt_7ZZZZZZZZZZZZZZZZZZZZZZZZZ'' \<and>
   take 16 (replicate 16 (255 :: 8 word)) = take 16 (replicate 17 255)"
proof -
  have a: "NewRunID (replicate 16 255) = Some ''crt_7ZZZZZZZZZZZZZZZZZZZZZZZZZ''"
    and b: "NewRunID (replicate 17 255) = Some ''crt_7ZZZZZZZZZZZZZZZZZZZZZZZZZ''"
    by code_simp+
  show ?thesis using a NewRunID_injective [OF a b] by blast
qed

text \<open>
  C31. Along every sequence of statuses the state machine allows, each phase before the end
  game (queued, preflight, set-up, injection, observation, assertion) is entered at most once,
  none of them is entered again once the run is cancelling, cleaning up, interrupted, recovering
  or completed, and nothing follows completion.
\<close>

theorem lifecycle_never_resumes:
  assumes "lifecycle (h @ s # rest)"
  shows "(if winding_down s then list_all winding_down rest else s \<notin> set rest) \<and>
    (s = RunCompleted \<longrightarrow> rest = [])"
proof -
  have "\<forall>t \<in> set (s # rest). status_Valid t" using lifecycle_Valid [OF assms] by simp
  with lifecycle_split [OF assms] show ?thesis
    using stage_le [of s] by (auto simp: winding_down_stage list_all_iff)
qed

lemma lifecycle_never_resumes_witness:
  "lifecycle ([RunQueued] @ RunPreflight # [RunInterrupted, RunRecovering, RunCleaningUp]) \<and>
   RunPreflight \<notin> set [RunInterrupted, RunRecovering, RunCleaningUp]"
proof -
  have l: "lifecycle ([RunQueued] @ RunPreflight # [RunInterrupted, RunRecovering, RunCleaningUp])"
    using lifecycle.step [OF lifecycle.step [OF lifecycle.step [OF lifecycle.step [OF lifecycle.created,
      of RunPreflight], of RunInterrupted], of RunRecovering], of RunCleaningUp]
    by (simp add: CanTransition_def Active_def)
  show ?thesis using l lifecycle_never_resumes [OF l] by (simp add: winding_down_def)
qed

end
