(* ===== verification/Scenario_Model.thy ===== *)
theory Scenario_Model
  imports Prelude
begin

text \<open>
  The scenario documents of \<^verbatim>\<open>internal/scenario\<close> (model.go) and the constants of the
  public contract (contract.go): what a scenario, a case, an event, an assertion and a
  checkpoint hold, the budgets, the supported patterns and the label names a scenario may not
  set. Go slices are lists, maps are association lists, durations are nanoseconds.
\<close>

section \<open>Documents (model.go)\<close>

record Event =
  ev_Role :: string
  ev_Source :: string
  ev_Status :: string
  ev_Labels :: labels
  ev_Delay :: duration

record Assertion =
  as_Kind :: string
  as_Outcome :: string
  as_Equals :: int

record Checkpoint =
  cp_Name :: string
  cp_AfterEvent :: int
  cp_Window :: duration
  cp_Assertions :: "Assertion list"

record Case =
  cs_Control :: string
  cs_Name :: string
  cs_Code :: string
  cs_Polarity :: string
  cs_Role :: string
  cs_Repeat :: int
  cs_Window :: duration
  cs_GroupBy :: "string list"
  cs_Labels :: labels
  cs_SuppressForNotifiers :: "string list"
  cs_TagForNotifiers :: "string list"
  cs_Assertions :: "Assertion list"
  cs_Checkpoints :: "Checkpoint list"
  cs_Events :: "Event list"

record Scenario =
  sc_APIVersion :: string
  sc_Kind :: string
  sc_Name :: string
  sc_Suite :: string
  sc_InputPath :: string
  sc_Pattern :: string
  sc_MaxDuration :: duration
  sc_Cases :: "Case list"

text \<open>A named source is keyed by role and source, an unnamed one by its role alone.\<close>

definition IdentityKey :: "Event \<Rightarrow> string" where
  "IdentityKey e = ev_Role e @ nul @ ev_Source e"

section \<open>The contract (contract.go)\<close>

definition APIVersion :: string where "APIVersion = ''corrtest.oscar/v1alpha1''"
definition Kind :: string where "Kind = ''CorrelationScenario''"
definition MaxScenarioNameLength :: nat where "MaxScenarioNameLength = 100"
definition MaxSuiteLength :: nat where "MaxSuiteLength = 100"
definition RequiredCaseCount :: nat where "RequiredCaseCount = 2"
definition MaxCaseNameLength :: nat where "MaxCaseNameLength = 120"
definition MaxRoleLength :: nat where "MaxRoleLength = 100"
definition MaxLabelNameLength :: nat where "MaxLabelNameLength = 100"
definition MaxLabelValueLength :: nat where "MaxLabelValueLength = 500"
definition MaxOutcomeLength :: nat where "MaxOutcomeLength = 100"
definition MaxNotifierNameLength :: nat where "MaxNotifierNameLength = 100"
definition MaxScenarioDuration :: duration where "MaxScenarioDuration = 5 * minute"
definition MaxCaseWindow :: duration where "MaxCaseWindow = 2 * minute"
definition MaxGroupByLabels :: nat where "MaxGroupByLabels = 16"
definition MaxLabels :: nat where "MaxLabels = 64"
definition MaxEvents :: nat where "MaxEvents = 100"
definition MaxAssertions :: nat where "MaxAssertions = 32"
definition MaxCheckpoints :: nat where "MaxCheckpoints = 16"
definition MaxNotifierNames :: nat where "MaxNotifierNames = 16"
definition MaxExpectedCount :: int where "MaxExpectedCount = 100"

lemmas contract_limits [go_simps] =
  MaxScenarioNameLength_def MaxSuiteLength_def RequiredCaseCount_def MaxCaseNameLength_def
  MaxRoleLength_def MaxLabelNameLength_def MaxLabelValueLength_def MaxOutcomeLength_def
  MaxNotifierNameLength_def MaxScenarioDuration_def MaxCaseWindow_def MaxGroupByLabels_def
  MaxLabels_def MaxEvents_def MaxAssertions_def MaxCheckpoints_def MaxNotifierNames_def
  MaxExpectedCount_def

definition supportedPatterns :: "string list" where
  "supportedPatterns =
     [''flood'', ''co_occurrence'', ''sequence'', ''persistence'', ''absence'', ''parent_child'',
      ''cross_source'', ''threshold'']"

definition reservedLabels :: "string list" where
  "reservedLabels =
     [''alertname'', ''am_fingerprint'', ''category'', ''oscar_fingerprint'', ''oscar_test'',
      ''oscar_test_alert_class'', ''oscar_test_alert_role'', ''oscar_test_case'',
      ''oscar_test_case_code'', ''oscar_test_event_id'', ''oscar_test_event_index'',
      ''oscar_test_harness'', ''oscar_test_pattern'', ''oscar_test_polarity'',
      ''oscar_test_rule_name'', ''oscar_test_run_id'', ''oscar_test_run_short'',
      ''oscar_test_scenario'', ''oscar_test_schema_version'', ''oscar_test_suite'', ''severity'']"

definition IsReservedLabel :: "string \<Rightarrow> bool" where
  "IsReservedLabel label \<longleftrightarrow> label \<in> set reservedLabels"

definition isSupportedPattern :: "string \<Rightarrow> bool" where
  "isSupportedPattern pattern \<longleftrightarrow> pattern \<in> set supportedPatterns"

end
