(* ===== verification/Scenario_Semantics.thy ===== *)
theory Scenario_Semantics
  imports Scenario_Model
begin

text \<open>
  The per-pattern meaning checks of \<^verbatim>\<open>internal/scenario/semantics.go\<close>: a case is expanded
  to the alerts it will cause, and the positive case P01 must, the negative case N01 must not,
  meet the pattern's criterion. The functions run after the structural checks have bounded
  every delay by five minutes and every window by two, so the sums and differences of
  durations below stay far inside \<^verbatim>\<open>int64\<close> and are plain integer arithmetic.

  The second half gives each criterion as a formula over the set of expanded alerts and shows
  that the loops decide it.
\<close>

section \<open>Expansion\<close>

record semanticEvent =
  se_Role :: string
  se_Status :: string
  se_Labels :: labels
  se_At :: duration
  se_Ordinal :: nat
  se_GroupKey :: string
  se_Identity :: string

datatype SemanticError =
    SingleRoleRequired string | ResolutionRole string
  | FloodPositive | FloodNegative | CoOccurrencePositive | CoOccurrenceNegative
  | SequencePositive | SequenceNegative | PersistencePositive | PersistenceNegative
  | AbsencePositive | AbsenceNegative | ParentChildPositive | ParentChildNegative
  | CrossSourcePositive | CrossSourceNegative | ThresholdPositive | ThresholdNegative
  | UnsupportedPattern string
  | SemanticCase string SemanticError

definition source_events :: "Case \<Rightarrow> Event list" where
  "source_events c =
     (if cs_Events c = []
      then replicate (nat (cs_Repeat c))
             \<lparr>ev_Role = cs_Role c, ev_Source = '''', ev_Status = ''firing'', ev_Labels = [], ev_Delay = 0\<rparr>
      else cs_Events c)"

definition semanticGroupKey :: "string list \<Rightarrow> labels \<Rightarrow> string" where
  "semanticGroupKey groupBy ls =
     (if groupBy = [] then ''*'' else join nul (map (\<lambda>key. key @ ''='' @ sget ls key) groupBy))"

type_synonym event_table = "(string, semanticEvent) gomap"

text \<open>One iteration of the expansion loop over its two tables and the result so far.\<close>

definition expand_event ::
  "Case \<Rightarrow> event_table \<times> event_table \<times> semanticEvent list \<Rightarrow> nat \<times> Event \<Rightarrow>
   event_table \<times> event_table \<times> semanticEvent list" where
  "expand_event c = (\<lambda>(active, retained, result) (index, event).
     let ls = merge_into (merge_into [] (cs_Labels c)) (ev_Labels event);
         key = IdentityKey event;
         observation = \<lparr>se_Role = ev_Role event, se_Status = ev_Status event, se_Labels = ls,
           se_At = ev_Delay event, se_Ordinal = index,
           se_GroupKey = semanticGroupKey (cs_GroupBy c) ls, se_Identity = ''''\<rparr>
     in if ev_Status event = ''resolved'' then
          (case map_of active key of
             Some firing \<Rightarrow>
               (gdel key active, retained, result @ [observation
                 \<lparr>se_Labels := se_Labels firing, se_GroupKey := se_GroupKey firing,
                  se_Identity := se_Identity firing\<rparr>])
           | None \<Rightarrow> (active, retained, result @ [observation]))
        else if ev_Source event = '''' then
          (let o1 = observation\<lparr>se_Identity := ev_Role event @ ''#'' @ itoa (int index)\<rparr>
           in (gput key o1 active, retained, result @ [o1]))
        else
          (let o1 = observation\<lparr>se_Identity := key\<rparr>
           in case map_of retained key of
                Some previous \<Rightarrow>
                  (let o2 = o1\<lparr>se_Labels := se_Labels previous, se_GroupKey := se_GroupKey previous\<rparr>
                   in (gput key o2 active, retained, result @ [o2]))
              | None \<Rightarrow> (gput key o1 active, gput key o1 retained, result @ [o1])))"

definition expandSemanticEvents :: "Case \<Rightarrow> semanticEvent list" where
  "expandSemanticEvents c =
     snd (snd (foldl (expand_event c) ([], [], []) (List.enumerate 0 (source_events c))))"

section \<open>Helpers of the checks\<close>

definition firing :: "semanticEvent \<Rightarrow> bool" where
  "firing e \<longleftrightarrow> se_Status e = ''firing''"

definition chronological :: "semanticEvent list \<Rightarrow> semanticEvent list" where
  "chronological events = sort_key se_At events"

definition precedes :: "semanticEvent \<Rightarrow> semanticEvent \<Rightarrow> bool" where
  "precedes a b \<longleftrightarrow>
     se_At a < se_At b \<or> se_At a = se_At b \<and> se_Ordinal a < se_Ordinal b"

text \<open>\<^verbatim>\<open>groups[event.GroupKey] = append(groups[event.GroupKey], event)\<close> over the firing events.\<close>

fun group_firing ::
  "(string, semanticEvent list) gomap \<Rightarrow> semanticEvent list \<Rightarrow> (string, semanticEvent list) gomap" where
  "group_firing groups [] = groups"
| "group_firing groups (e # events) =
     (if firing e then
        group_firing
          (gput (se_GroupKey e)
             ((case map_of groups (se_GroupKey e) of None \<Rightarrow> [] | Some es \<Rightarrow> es) @ [e]) groups) events
      else group_firing groups events)"

text \<open>
  The inner loop of the windowed patterns: from one event on, collect the values of the
  events up to the first that is more than the window later. The outer loop tries every start.
\<close>

fun window_values ::
  "(semanticEvent \<Rightarrow> string list) \<Rightarrow> duration \<Rightarrow> duration \<Rightarrow> semanticEvent list \<Rightarrow> string list \<Rightarrow> string list" where
  "window_values f window start [] seen = seen"
| "window_values f window start (e # es) seen =
     (if window < se_At e - start then seen
      else window_values f window start es (fold List.insert (f e) seen))"

fun any_window ::
  "(semanticEvent \<Rightarrow> string list) \<Rightarrow> (string list \<Rightarrow> bool) \<Rightarrow> duration \<Rightarrow> semanticEvent list \<Rightarrow> bool" where
  "any_window f enough window [] = False"
| "any_window f enough window (e # es) =
     (enough (window_values f window (se_At e) (e # es) []) \<or> any_window f enough window es)"

definition any_group_window ::
  "(semanticEvent \<Rightarrow> string list) \<Rightarrow> (string list \<Rightarrow> bool) \<Rightarrow> duration \<Rightarrow> semanticEvent list \<Rightarrow> bool" where
  "any_group_window f enough window events =
     list_ex (\<lambda>(key, group). any_window f enough window (chronological group)) (group_firing [] events)"

definition polarity_check :: "Case \<Rightarrow> bool \<Rightarrow> bool \<Rightarrow> SemanticError \<Rightarrow> SemanticError \<Rightarrow> SemanticError option" where
  "polarity_check c missing present positive negative = first_error
     [err_if (cs_Code c = ''P01'' \<and> missing) positive,
      err_if (cs_Code c = ''N01'' \<and> present) negative]"

section \<open>The pattern checks\<close>

definition validateSingleSourceRole :: "Case \<Rightarrow> semanticEvent list \<Rightarrow> SemanticError option" where
  "validateSingleSourceRole c events =
     (let roles = fold List.insert (map se_Role (filter firing events)) []
      in first_error
        [err_if (length roles \<noteq> 1) (SingleRoleRequired (cs_Code c)),
         err_if (list_ex (\<lambda>e. se_Role e \<notin> set roles) events) (ResolutionRole (cs_Code c))])"

definition flood_values :: "semanticEvent \<Rightarrow> string list" where
  "flood_values e = [se_Identity e]"

definition validateFloodSemantics :: "Case \<Rightarrow> semanticEvent list \<Rightarrow> SemanticError option" where
  "validateFloodSemantics c events =
     (let reachesFive = any_group_window flood_values (\<lambda>s. 5 \<le> length s) (cs_Window c) events
      in polarity_check c (\<not> reachesFive) reachesFive FloodPositive FloodNegative)"

definition validateCoOccurrenceSemantics ::
  "string list \<Rightarrow> Case \<Rightarrow> semanticEvent list \<Rightarrow> SemanticError option" where
  "validateCoOccurrenceSemantics requiredRoles c events =
     (let complete = any_group_window (\<lambda>e. [se_Role e])
            (\<lambda>s. list_all (\<lambda>required. required \<in> set s) requiredRoles) (cs_Window c) events
      in polarity_check c (\<not> complete) complete CoOccurrencePositive CoOccurrenceNegative)"

definition validateSequenceSemantics :: "Case \<Rightarrow> semanticEvent list \<Rightarrow> SemanticError option" where
  "validateSequenceSemantics c events =
     (let valid = list_ex (\<lambda>login. firing login \<and> se_Role login = ''login_failure'' \<and>
            list_ex (\<lambda>command. firing command \<and> se_Role command = ''privileged_command'' \<and>
              se_GroupKey command = se_GroupKey login \<and> precedes login command \<and>
              se_At command - se_At login \<le> cs_Window c) events) events
      in polarity_check c (\<not> valid) valid SequencePositive SequenceNegative)"

text \<open>The persistence loop: active firings by identity and the two flags.\<close>

definition persistence_step ::
  "event_table \<times> bool \<times> bool \<Rightarrow> semanticEvent \<Rightarrow> event_table \<times> bool \<times> bool" where
  "persistence_step = (\<lambda>(active, persists, resolvesEarly) event.
     if firing event then (gput (se_Identity event) event active, persists, resolvesEarly)
     else case map_of active (se_Identity event) of
        Some started \<Rightarrow>
          if se_At event - se_At started < 30 * second
          then (gdel (se_Identity event) active, persists, True)
          else (gdel (se_Identity event) active, True, resolvesEarly)
      | None \<Rightarrow> (active, persists, resolvesEarly))"

definition validatePersistenceSemantics :: "Case \<Rightarrow> semanticEvent list \<Rightarrow> SemanticError option" where
  "validatePersistenceSemantics c events =
     (let (active, persists0, resolvesEarly) =
            foldl persistence_step ([], False, False) (chronological events);
          persists = persists0 \<or>
            list_ex (\<lambda>(_, started). se_At started + 30 * second \<le> cs_Window c + 15 * second) active
      in polarity_check c (\<not> persists) (\<not> resolvesEarly \<or> persists)
           PersistencePositive PersistenceNegative)"

fun heartbeat_gap :: "duration list \<Rightarrow> bool" where
  "heartbeat_gap [] = False"
| "heartbeat_gap (t # ts) =
     (30 * second \<le> (case ts of [] \<Rightarrow> 55 * second | u # _ \<Rightarrow> u) - t \<or> heartbeat_gap ts)"

definition validateAbsenceSemantics :: "Case \<Rightarrow> semanticEvent list \<Rightarrow> SemanticError option" where
  "validateAbsenceSemantics c events =
     (let hasGap = list_ex (\<lambda>(_, group). heartbeat_gap (sort (map se_At group))) (group_firing [] events)
      in polarity_check c (\<not> hasGap) hasGap AbsencePositive AbsenceNegative)"

definition parent_child_step ::
  "duration \<Rightarrow> (string, event_table) gomap \<times> nat \<times> bool \<Rightarrow> semanticEvent \<Rightarrow>
   (string, event_table) gomap \<times> nat \<times> bool" where
  "parent_child_step window = (\<lambda>(activeParents, childCount, matchedChild) event.
     let group = (case map_of activeParents (se_GroupKey event) of None \<Rightarrow> [] | Some m \<Rightarrow> m)
     in if se_Role event = ''parent'' \<and> se_Status event = ''firing'' then
          (gput (se_GroupKey event) (gput (se_Identity event) event group) activeParents,
           childCount, matchedChild)
        else if se_Role event = ''parent'' \<and> se_Status event = ''resolved'' then
          ((case map_of activeParents (se_GroupKey event) of
              None \<Rightarrow> activeParents
            | Some m \<Rightarrow> gput (se_GroupKey event) (gdel (se_Identity event) m) activeParents),
           childCount, matchedChild)
        else if se_Role event = ''child'' \<and> se_Status event = ''firing'' then
          (activeParents, Suc childCount,
           matchedChild \<or> list_ex (\<lambda>(_, parent). precedes parent event \<and>
             se_At event - se_At parent \<le> window) group)
        else (activeParents, childCount, matchedChild))"

definition validateParentChildSemantics :: "Case \<Rightarrow> semanticEvent list \<Rightarrow> SemanticError option" where
  "validateParentChildSemantics c events =
     (let (_, childCount, matchedChild) =
            foldl (parent_child_step (cs_Window c)) ([], 0, False) (chronological events)
      in polarity_check c (\<not> matchedChild) (childCount = 0 \<or> matchedChild)
           ParentChildPositive ParentChildNegative)"

definition validateCrossSourceSemantics :: "Case \<Rightarrow> semanticEvent list \<Rightarrow> SemanticError option" where
  "validateCrossSourceSemantics c events =
     (let complete = any_group_window (\<lambda>e. [sget (se_Labels e) ''oscar_source''])
            (\<lambda>s. ''snmp'' \<in> set s \<and> ''api'' \<in> set s) (cs_Window c) events
      in polarity_check c (\<not> complete) complete CrossSourcePositive CrossSourceNegative)"

definition device_values :: "semanticEvent \<Rightarrow> string list" where
  "device_values e =
     (let device = sget (se_Labels e) ''device'' in if device \<noteq> '''' then [device] else [])"

definition validateThresholdSemantics :: "Case \<Rightarrow> semanticEvent list \<Rightarrow> SemanticError option" where
  "validateThresholdSemantics c events =
     (let reachesThree = any_group_window device_values (\<lambda>s. 3 \<le> length s) (cs_Window c) events
      in polarity_check c (\<not> reachesThree) reachesThree ThresholdPositive ThresholdNegative)"

section \<open>Dispatch\<close>

record semanticContract =
  ct_Pattern :: string
  ct_RequiredRoles :: "string list"

text \<open>\<^verbatim>\<open>roles\<close> starts with the two fixed roles and gains every firing role; it is sorted.\<close>

definition required_roles :: "Case list \<Rightarrow> string list" where
  "required_roles cases = sort (fold List.insert
     (concat (map (\<lambda>item. (if cs_Role item \<noteq> '''' then [cs_Role item] else []) @
        map ev_Role (filter (\<lambda>event. ev_Status event = ''firing'') (cs_Events item))) cases))
     [''disk_full'', ''cpu_high''])"

definition buildSemanticContract :: "Scenario \<Rightarrow> semanticContract" where
  "buildSemanticContract document =
     \<lparr>ct_Pattern = sc_Pattern document,
      ct_RequiredRoles =
        (if sc_Pattern document \<noteq> ''co_occurrence'' then [] else required_roles (sc_Cases document))\<rparr>"

definition validateCaseSemantics ::
  "semanticContract \<Rightarrow> Case \<Rightarrow> semanticEvent list \<Rightarrow> SemanticError option" where
  "validateCaseSemantics contract c events =
     (let pattern = ct_Pattern contract; single = validateSingleSourceRole c events
      in if pattern = ''flood'' then first_error
           [single,
            if cs_Control c = ''downstream-unmatched'' then None else validateFloodSemantics c events]
         else if pattern = ''co_occurrence'' then
           validateCoOccurrenceSemantics (ct_RequiredRoles contract) c events
         else if pattern = ''sequence'' then validateSequenceSemantics c events
         else if pattern = ''persistence'' then first_error [single, validatePersistenceSemantics c events]
         else if pattern = ''absence'' then first_error [single, validateAbsenceSemantics c events]
         else if pattern = ''parent_child'' then validateParentChildSemantics c events
         else if pattern = ''cross_source'' then first_error [single, validateCrossSourceSemantics c events]
         else if pattern = ''threshold'' then first_error [single, validateThresholdSemantics c events]
         else Some (UnsupportedPattern pattern))"

definition validatePatternSemantics :: "Scenario \<Rightarrow> SemanticError option" where
  "validatePatternSemantics document =
     (let contract = buildSemanticContract document
      in first_error (map (\<lambda>c. map_option (SemanticCase (cs_Code c))
           (validateCaseSemantics contract c (expandSemanticEvents c))) (sc_Cases document)))"

section \<open>The criteria as formulas\<close>

text \<open>The firing events of one group inside one closed time window.\<close>

definition group_window ::
  "semanticEvent list \<Rightarrow> string \<Rightarrow> duration \<Rightarrow> duration \<Rightarrow> semanticEvent set" where
  "group_window events key start window =
     {e \<in> set events. firing e \<and> se_GroupKey e = key \<and> start \<le> se_At e \<and> se_At e \<le> start + window}"

lemma map_of_group_firing:
  "map_of (group_firing groups events) key =
     (let old = (case map_of groups key of None \<Rightarrow> [] | Some es \<Rightarrow> es);
          new = filter (\<lambda>e. firing e \<and> se_GroupKey e = key) events
      in if new = [] then map_of groups key else Some (old @ new))"
  by (induction groups events rule: group_firing.induct) (auto simp: Let_def)

lemma well_keyed_group_firing: "well_keyed groups \<Longrightarrow> well_keyed (group_firing groups events)"
  by (induction groups events rule: group_firing.induct) auto

lemma group_firing_entries:
  "(key, grp) \<in> set (group_firing [] events) \<longleftrightarrow>
     grp = filter (\<lambda>e. firing e \<and> se_GroupKey e = key) events \<and> grp \<noteq> []"
proof -
  have "distinct (map fst (group_firing [] events))"
    using well_keyed_group_firing [of "[]" events] by (simp add: well_keyed_def)
  then have "(key, grp) \<in> set (group_firing [] events) \<longleftrightarrow> map_of (group_firing [] events) key = Some grp"
    by (simp add: map_of_eq_Some_iff)
  then show ?thesis by (auto simp: map_of_group_firing Let_def)
qed

lemma group_firing_ex:
  "list_ex (\<lambda>(_, grp). Q grp) (group_firing [] events) \<longleftrightarrow>
     (\<exists>key. filter (\<lambda>e. firing e \<and> se_GroupKey e = key) events \<noteq> [] \<and>
        Q (filter (\<lambda>e. firing e \<and> se_GroupKey e = key) events))"
proof -
  have "list_ex (\<lambda>(_, grp). Q grp) (group_firing [] events) \<longleftrightarrow>
      (\<exists>key grp. (key, grp) \<in> set (group_firing [] events) \<and> Q grp)"
    by (auto simp: list_ex_iff)
  then show ?thesis unfolding group_firing_entries by blast
qed

lemma distinct_fold_insert: "distinct s \<Longrightarrow> distinct (fold List.insert xs s)"
  by (induction xs arbitrary: s) auto

lemma set_fold_insert [simp]: "set (fold List.insert xs s) = set xs \<union> set s"
  by (induction xs arbitrary: s) auto

lemma window_values_distinct: "distinct seen \<Longrightarrow> distinct (window_values f w t es seen)"
  by (induction f w t es seen rule: window_values.induct) (auto simp: distinct_fold_insert)

lemma window_values_set:
  "sorted (map se_At es) \<Longrightarrow>
   set (window_values f w t es seen) = set seen \<union> (\<Union>e \<in> {e \<in> set es. se_At e \<le> t + w}. set (f e))"
proof (induction f w t es seen rule: window_values.induct)
  case (2 f w t e es seen)
  show ?case
  proof (cases "w < se_At e - t")
    case True
    then have "{x \<in> set (e # es). se_At x \<le> t + w} = {}" using "2.prems" by auto
    with True show ?thesis
      by (simp only: window_values.simps if_True UN_empty Un_empty_right)
  next
    case False
    then have "{x \<in> set (e # es). se_At x \<le> t + w} = insert e {x \<in> set es. se_At x \<le> t + w}"
      by auto
    with False "2.IH" "2.prems" show ?thesis by (simp add: Un_ac)
  qed
qed simp

lemma any_window_iff:
  assumes "sorted (map se_At es)" and "\<not> P {}"
    and mono: "\<And>A B. finite B \<Longrightarrow> A \<subseteq> B \<Longrightarrow> P A \<Longrightarrow> P B"
    and enough: "\<And>s. distinct s \<Longrightarrow> enough s \<longleftrightarrow> P (set s)"
  shows "any_window f enough w es \<longleftrightarrow>
    (\<exists>t. P (\<Union>e \<in> {e \<in> set es. t \<le> se_At e \<and> se_At e \<le> t + w}. set (f e)))"
  using assms(1)
proof (induction es)
  case Nil
  then show ?case using assms(2) by simp
next
  case (Cons e es)
  let ?all = "\<lambda>es t. \<Union>x \<in> {x \<in> set es. t \<le> se_At x \<and> se_At x \<le> t + w}. set (f x)"
  have head: "enough (window_values f w (se_At e) (e # es) []) \<longleftrightarrow> P (?all (e # es) (se_At e))"
  proof -
    have "set (window_values f w (se_At e) (e # es) []) = ?all (e # es) (se_At e)"
      using window_values_set [OF Cons.prems, of f w "se_At e" "[]"] Cons.prems by auto
    with enough [OF window_values_distinct [of "[]" f w "se_At e" "e # es"]] show ?thesis by simp
  qed
  have tail: "P (?all (e # es) t) \<Longrightarrow> P (?all (e # es) (se_At e)) \<or> P (?all es t)" for t
  proof (cases "t \<le> se_At e")
    case True
    assume "P (?all (e # es) t)"
    moreover have "?all (e # es) t \<subseteq> ?all (e # es) (se_At e)"
      using True Cons.prems by fastforce
    ultimately show ?thesis using mono [OF _ \<open>?all (e # es) t \<subseteq> _\<close>] by auto
  next
    case False
    assume "P (?all (e # es) t)"
    moreover have "?all (e # es) t = ?all es t" using False by auto
    ultimately show ?thesis by simp
  qed
  have "P (?all es t) \<Longrightarrow> P (?all (e # es) t)" for t
    by (rule mono [of _ "?all es t"]) auto
  with Cons head tail show ?case by (auto simp del: window_values.simps)
qed

lemma any_group_window_iff:
  assumes "\<not> P {}" and "\<And>A B. finite B \<Longrightarrow> A \<subseteq> B \<Longrightarrow> P A \<Longrightarrow> P B"
    and "\<And>s. distinct s \<Longrightarrow> enough s \<longleftrightarrow> P (set s)"
  shows "any_group_window f enough w events \<longleftrightarrow>
    (\<exists>key t. P (\<Union>e \<in> group_window events key t w. set (f e)))"
proof -
  have w: "any_window f enough w (chronological (filter (\<lambda>e. firing e \<and> se_GroupKey e = key) events)) \<longleftrightarrow>
      (\<exists>t. P (\<Union>e \<in> group_window events key t w. set (f e)))" for key
    by (subst any_window_iff [OF _ assms])
      (simp_all add: chronological_def group_window_def conj_ac)
  have "any_window f enough w (chronological grp) \<Longrightarrow> grp \<noteq> []" for grp
    by (auto simp: chronological_def)
  then show ?thesis
    unfolding any_group_window_def group_firing_ex w [symmetric] by blast
qed

definition flood_criterion :: "Case \<Rightarrow> semanticEvent list \<Rightarrow> bool" where
  "flood_criterion c events \<longleftrightarrow>
     (\<exists>key t. 5 \<le> card (se_Identity ` group_window events key t (cs_Window c)))"

definition threshold_criterion :: "Case \<Rightarrow> semanticEvent list \<Rightarrow> bool" where
  "threshold_criterion c events \<longleftrightarrow>
     (\<exists>key t. 3 \<le> card ((\<lambda>e. sget (se_Labels e) ''device'') ` group_window events key t (cs_Window c) - {''''}))"

definition coverage_criterion ::
  "(semanticEvent \<Rightarrow> string) \<Rightarrow> string set \<Rightarrow> Case \<Rightarrow> semanticEvent list \<Rightarrow> bool" where
  "coverage_criterion value required c events \<longleftrightarrow>
     (\<exists>key t. required \<subseteq> value ` group_window events key t (cs_Window c))"

lemma flood_decided:
  "any_group_window flood_values (\<lambda>s. 5 \<le> length s) (cs_Window c) events \<longleftrightarrow> flood_criterion c events"
proof -
  have "any_group_window flood_values (\<lambda>s. 5 \<le> length s) (cs_Window c) events \<longleftrightarrow>
    (\<exists>key t. 5 \<le> card (\<Union>e \<in> group_window events key t (cs_Window c). set (flood_values e)))"
    by (rule any_group_window_iff) (auto simp: distinct_card dest: card_mono)
  then show ?thesis by (simp add: flood_criterion_def flood_values_def UNION_singleton_eq_range)
qed

lemma threshold_decided:
  "any_group_window device_values (\<lambda>s. 3 \<le> length s) (cs_Window c) events \<longleftrightarrow> threshold_criterion c events"
proof -
  have "any_group_window device_values (\<lambda>s. 3 \<le> length s) (cs_Window c) events \<longleftrightarrow>
    (\<exists>key t. 3 \<le> card (\<Union>e \<in> group_window events key t (cs_Window c). set (device_values e)))"
    by (rule any_group_window_iff) (auto simp: distinct_card dest: card_mono)
  moreover have "(\<Union>e \<in> E. set (device_values e)) = (\<lambda>e. sget (se_Labels e) ''device'') ` E - {''''}" for E
    by (auto simp: device_values_def Let_def split: if_splits)
  ultimately show ?thesis by (simp add: threshold_criterion_def)
qed

lemma coverage_decided:
  assumes "required \<noteq> {}" and "\<And>s. enough s \<longleftrightarrow> required \<subseteq> set s"
  shows "any_group_window (\<lambda>e. [value e]) enough (cs_Window c) events \<longleftrightarrow>
    coverage_criterion value required c events"
proof -
  have "any_group_window (\<lambda>e. [value e]) enough (cs_Window c) events \<longleftrightarrow>
    (\<exists>key t. required \<subseteq> (\<Union>e \<in> group_window events key t (cs_Window c). set [value e]))"
    by (rule any_group_window_iff) (use assms in auto)
  then show ?thesis by (simp add: coverage_criterion_def UNION_singleton_eq_range)
qed

lemma heartbeat_gap_iff:
  "sorted ts \<Longrightarrow> heartbeat_gap ts \<longleftrightarrow>
     (\<exists>t \<in> set ts. (\<forall>u \<in> set ts. t < u \<longrightarrow> t + 30 * second \<le> u) \<and>
        ((\<exists>u \<in> set ts. t < u) \<or> t + 30 * second \<le> 55 * second))"
proof (induction ts)
  case (Cons t ts)
  show ?case
  proof (cases ts)
    case Nil
    then show ?thesis by (auto simp: second_def)
  next
    case (Cons u us)
    have le: "\<forall>x \<in> set ts. u \<le> x" "t \<le> u" "sorted ts" using Cons.prems \<open>ts = u # us\<close> by auto
    have "heartbeat_gap (t # ts) \<longleftrightarrow> 30 * second \<le> u - t \<or> heartbeat_gap ts"
      using \<open>ts = u # us\<close> by simp
    also have "\<dots> \<longleftrightarrow> (\<exists>x \<in> set (t # ts). (\<forall>y \<in> set (t # ts). x < y \<longrightarrow> x + 30 * second \<le> y) \<and>
        ((\<exists>y \<in> set (t # ts). x < y) \<or> x + 30 * second \<le> 55 * second))"
      (is "_ \<longleftrightarrow> (\<exists>x \<in> _. ?gap (t # ts) x)")
    proof (cases "t = u")
      case True
      then have "set (t # ts) = set ts" using \<open>ts = u # us\<close> by auto
      with True Cons.IH [OF le(3)] show ?thesis by (simp add: second_def)
    next
      case False
      then have "t < u" using le by simp
      then have "?gap (t # ts) t \<longleftrightarrow> 30 * second \<le> u - t"
        using le \<open>ts = u # us\<close> by fastforce
      moreover have "?gap (t # ts) x \<longleftrightarrow> ?gap ts x" if "x \<in> set ts" for x
        using that le \<open>t < u\<close> by fastforce
      ultimately show ?thesis using Cons.IH [OF le(3)] by auto
    qed
    finally show ?thesis .
  qed
qed simp

definition absence_criterion :: "semanticEvent list \<Rightarrow> bool" where
  "absence_criterion events \<longleftrightarrow>
     (\<exists>e \<in> set events. firing e \<and>
        (\<forall>x \<in> set events. firing x \<and> se_GroupKey x = se_GroupKey e \<and> se_At e < se_At x \<longrightarrow>
           se_At e + 30 * second \<le> se_At x) \<and>
        ((\<exists>x \<in> set events. firing x \<and> se_GroupKey x = se_GroupKey e \<and> se_At e < se_At x) \<or>
         se_At e + 30 * second \<le> 55 * second))"

lemma absence_decided:
  "list_ex (\<lambda>(_, group). heartbeat_gap (sort (map se_At group))) (group_firing [] events) \<longleftrightarrow>
     absence_criterion events"
proof -
  let ?g = "\<lambda>key. filter (\<lambda>e. firing e \<and> se_GroupKey e = key) events"
  have "list_ex (\<lambda>(_, group). heartbeat_gap (sort (map se_At group))) (group_firing [] events) \<longleftrightarrow>
      (\<exists>key. ?g key \<noteq> [] \<and> heartbeat_gap (sort (map se_At (?g key))))"
    by (rule group_firing_ex)
  also have "\<dots> \<longleftrightarrow> (\<exists>key. heartbeat_gap (sort (map se_At (?g key))))"
  proof -
    have "heartbeat_gap (sort (map se_At grp)) \<Longrightarrow> grp \<noteq> []" for grp by auto
    then show ?thesis by blast
  qed
  also have "\<dots> \<longleftrightarrow> absence_criterion events"
    by (simp add: heartbeat_gap_iff absence_criterion_def) blast
  finally show ?thesis .
qed

text \<open>What a check answers: P01 must meet its criterion and N01 must not.\<close>

definition polarity_result ::
  "Case \<Rightarrow> bool \<Rightarrow> SemanticError \<Rightarrow> SemanticError \<Rightarrow> SemanticError option" where
  "polarity_result c criterion positive negative =
     (if cs_Code c = ''P01'' then (if criterion then None else Some positive)
      else if cs_Code c = ''N01'' then (if criterion then Some negative else None)
      else None)"

lemma polarity_check_result:
  "polarity_check c (\<not> criterion) criterion p n = polarity_result c criterion p n"
  by (simp add: polarity_check_def polarity_result_def err_if_def)

lemma required_roles_nonempty: "set (required_roles cases) \<noteq> {}"
  by (simp add: required_roles_def)

lemma co_occurrence_decided:
  "any_group_window (\<lambda>e. [se_Role e])
     (\<lambda>s. list_all (\<lambda>required. required \<in> set s) (required_roles cases)) (cs_Window c) events \<longleftrightarrow>
   coverage_criterion se_Role (set (required_roles cases)) c events"
  by (rule coverage_decided [OF required_roles_nonempty]) (auto simp: list_all_iff)

lemma cross_source_decided:
  "any_group_window (\<lambda>e. [sget (se_Labels e) ''oscar_source''])
     (\<lambda>s. ''snmp'' \<in> set s \<and> ''api'' \<in> set s) (cs_Window c) events \<longleftrightarrow>
   coverage_criterion (\<lambda>e. sget (se_Labels e) ''oscar_source'') {''snmp'', ''api''} c events"
  by (rule coverage_decided) auto

section \<open>Properties\<close>

text \<open>
  C11. The four windowed checks decide their criteria exactly: the nested loops over sorted
  groups with their early breaks accept P01 if and only if some closed window of the case's
  length over one group holds five distinct identities (flood), three distinct non-empty
  devices (threshold), both sources (cross-source) or every required role (co-occurrence), and
  accept N01 if and only if no such window exists.
\<close>

theorem windowed_checks_exact:
  "validateFloodSemantics c events =
     polarity_result c (flood_criterion c events) FloodPositive FloodNegative \<and>
   validateThresholdSemantics c events =
     polarity_result c (threshold_criterion c events) ThresholdPositive ThresholdNegative \<and>
   validateCrossSourceSemantics c events =
     polarity_result c (coverage_criterion (\<lambda>e. sget (se_Labels e) ''oscar_source'') {''snmp'', ''api''} c events)
       CrossSourcePositive CrossSourceNegative \<and>
   validateCoOccurrenceSemantics (required_roles cases) c events =
     polarity_result c (coverage_criterion se_Role (set (required_roles cases)) c events)
       CoOccurrencePositive CoOccurrenceNegative"
  unfolding validateFloodSemantics_def validateThresholdSemantics_def
    validateCrossSourceSemantics_def validateCoOccurrenceSemantics_def Let_def
    polarity_check_result flood_decided threshold_decided cross_source_decided co_occurrence_decided
  by simp

text \<open>
  C32. The absence check decides its criterion exactly: P01 is accepted if and only if some
  group has a heartbeat whose next one in the group is at least thirty seconds later or, for
  the last heartbeat, that falls at least thirty seconds before the 55 second mark; N01 if and
  only if no group has one.
\<close>

theorem absence_check_exact:
  "validateAbsenceSemantics c events =
     polarity_result c (absence_criterion events) AbsencePositive AbsenceNegative"
  unfolding validateAbsenceSemantics_def Let_def polarity_check_result absence_decided ..

end
