(* ===== verification/Scenario_Validate.thy ===== *)
theory Scenario_Validate
  imports Scenario_Semantics
begin

text \<open>
  The closed scenario contract of \<^verbatim>\<open>internal/scenario\<close>: \<^verbatim>\<open>Validate\<close> with its helpers
  (decode.go), the checkpoint schedule (checkpoints.go) and the downstream control
  (no_match.go). A Go \<^verbatim>\<open>map[string]bool\<close> used as a set is a set here. Checkpoints are
  validated before the delays of the events are bounded, so their sums are \<^verbatim>\<open>int64\<close> sums and
  may wrap; the schedule theorem at the end shows that an accepted document never depends on it.
\<close>

datatype ValidateError =
    UnsupportedInputPath string | UnsupportedDocument | NameOrSuite | BudgetOrCaseCount
  | CaseIdentity | CasePolarity string | CaseBudgets string | NameInvalid string
  | ReservedLabel string | UnsafeLabel string
  | AssertionBound string | AssertionKind string | AssertionBudget string
  | OutcomeRequired string | EpisodeOutcome string | OutcomeForbidden string
  | CheckpointBudget string | CheckpointName string | CheckpointOrdinal string
  | CheckpointWindow string | CheckpointObservation string | CheckpointOverlap string
  | NotifiersForPattern string | NotifierBudget string
  | WitnessRequiresControl string | ControlOnlyFlood | ControlNamedEvents | ControlSingleEpisodes
  | ControlAssertions | EpisodeExplicit string | EpisodeNamed string
  | RepeatInvalid string | StimulusForms string | SourceOffset string | SourceInvalid string
  | RefireTime string | RefireActive string | EventInvalid string | DelayOrder string
  | ResolvedLabels string | ResolvedWithoutFiring string
  | RequiresBothCases | PatternSemantics SemanticError

section \<open>Field checks\<close>

definition is_label_name :: "string \<Rightarrow> bool" where
  "is_label_name s = (case s of [] \<Rightarrow> False
     | c # rest \<Rightarrow> (is_alpha c \<or> c = CHR ''_'') \<and>
         list_all (\<lambda>x. is_alpha x \<or> is_digit x \<or> x = CHR ''_'') rest)"

fun check_names :: "string set \<Rightarrow> string list \<Rightarrow> nat \<Rightarrow> string \<Rightarrow> ValidateError option" where
  "check_names seen [] maximum field = None"
| "check_names seen (value # rest) maximum field =
     (if value = '''' \<or> trim_space value \<noteq> value \<or> maximum < length value \<or> value \<in> seen
      then Some (NameInvalid field)
      else check_names (insert value seen) rest maximum field)"

definition validateNames :: "string list \<Rightarrow> nat \<Rightarrow> string \<Rightarrow> ValidateError option" where
  "validateNames values maximum field = check_names {} values maximum field"

definition unsafe_value :: "string \<Rightarrow> bool" where
  "unsafe_value v = list_ex (\<lambda>c. byte c \<in> {13, 10, 0}) v"

definition validateLabels :: "labels \<Rightarrow> ValidateError option" where
  "validateLabels ls = first_error (map (\<lambda>(key, value). first_error
     [err_if (IsReservedLabel key) (ReservedLabel key),
      err_if (\<not> is_label_name key \<or> MaxLabelNameLength < length key \<or>
              MaxLabelValueLength < length value \<or> unsafe_value value) (UnsafeLabel key)]) ls)"

definition assertionKinds :: "string list" where
  "assertionKinds = [''synthetic-alert-count'', ''audit-count'', ''parent-link-count'',
     ''source-episode-state-count'', ''downstream-no-match-count'']"

definition outcomeKinds :: "string list" where
  "outcomeKinds = [''audit-count'', ''parent-link-count'', ''source-episode-state-count'']"

definition plainKinds :: "string list" where
  "plainKinds = [''synthetic-alert-count'', ''downstream-no-match-count'']"

definition validate_assertion :: "string \<Rightarrow> Assertion \<Rightarrow> ValidateError option" where
  "validate_assertion name a = first_error
     [err_if (as_Kind a \<notin> set assertionKinds) (AssertionKind name),
      err_if (as_Equals a < 0 \<or> MaxExpectedCount < as_Equals a \<or>
              MaxOutcomeLength < length (as_Outcome a)) (AssertionBudget name),
      err_if (as_Kind a \<in> set outcomeKinds \<and> trim_space (as_Outcome a) = '''') (OutcomeRequired name),
      err_if (as_Kind a = ''source-episode-state-count'' \<and> as_Outcome a \<noteq> ''firing'' \<and>
              as_Outcome a \<noteq> ''resolved'') (EpisodeOutcome name),
      err_if (as_Kind a \<in> set plainKinds \<and> as_Outcome a \<noteq> '''') (OutcomeForbidden name)]"

definition validateAssertions :: "string \<Rightarrow> Assertion list \<Rightarrow> ValidateError option" where
  "validateAssertions name assertions = first_error
     (err_if (length assertions < 1 \<or> MaxAssertions < length assertions) (AssertionBound name) #
      map (validate_assertion name) assertions)"

text \<open>The case's own assertions followed by those of its checkpoints.\<close>

definition all_assertions :: "Case \<Rightarrow> Assertion list" where
  "all_assertions item = cs_Assertions item @ concat (map cp_Assertions (cs_Checkpoints item))"

definition validateNamedEpisodeAssertions :: "Case \<Rightarrow> ValidateError option" where
  "validateNamedEpisodeAssertions item =
     (if list_ex (\<lambda>a. as_Kind a = ''source-episode-state-count'') (all_assertions item) then
        first_error
          [err_if (cs_Events item = []) (EpisodeExplicit (cs_Name item)),
           err_if (list_ex (\<lambda>e. ev_Source e = '''') (cs_Events item)) (EpisodeNamed (cs_Name item))]
      else None)"

fun control_events :: "string set \<Rightarrow> Event list \<Rightarrow> ValidateError option" where
  "control_events seen [] = None"
| "control_events seen (event # rest) =
     (if ev_Source event = '''' \<or> ev_Status event \<noteq> ''firing'' \<or> IdentityKey event \<in> seen
      then Some ControlSingleEpisodes
      else control_events (insert (IdentityKey event) seen) rest)"

definition validateDownstreamControl :: "string \<Rightarrow> Case \<Rightarrow> ValidateError option" where
  "validateDownstreamControl pattern item =
     (if cs_Control item = '''' then
        err_if (list_ex (\<lambda>a. as_Kind a = ''downstream-no-match-count'') (all_assertions item))
          (WitnessRequiresControl (cs_Name item))
      else first_error
        [err_if (cs_Control item \<noteq> ''downstream-unmatched'' \<or> pattern \<noteq> ''flood'' \<or> cs_Code item \<noteq> ''N01'')
           ControlOnlyFlood,
         err_if (cs_Events item = []) ControlNamedEvents,
         control_events {} (cs_Events item),
         err_if (list_ex (\<lambda>a. as_Kind a \<noteq> ''downstream-no-match-count'' \<or> as_Equals a \<le> 0)
           (all_assertions item)) ControlAssertions])"

section \<open>Checkpoints\<close>

text \<open>The offset of the event with a one-based ordinal; repeated stimuli are sent at once.\<close>

definition event_offset :: "Case \<Rightarrow> int \<Rightarrow> duration" where
  "event_offset item ordinal =
     (if cs_Events item = [] then 0 else ev_Delay (cs_Events item ! nat (ordinal - 1)))"

definition stimulus_count :: "Case \<Rightarrow> int" where
  "stimulus_count item =
     (if cs_Events item = [] then cs_Repeat item else int (length (cs_Events item)))"

text \<open>
  One iteration: the ordinal check precedes the two accesses to the events, so they are in
  range; the three sums are \<^verbatim>\<open>int64\<close>.
\<close>

definition checkpoint_step ::
  "Case \<Rightarrow> duration \<Rightarrow> string set \<times> int \<Rightarrow> Checkpoint \<Rightarrow> ValidateError + (string set \<times> int)" where
  "checkpoint_step item budget = (\<lambda>(names, previous) point.
     let count = stimulus_count item; at = event_offset item (cp_AfterEvent point);
         until = wrap64 (at + cp_Window point)
     in if cp_Name point = '''' \<or> trim_space (cp_Name point) \<noteq> cp_Name point \<or>
           MaxCaseNameLength < length (cp_Name point) \<or> cp_Name point \<in> names
        then Inl (CheckpointName (cs_Name item))
        else if cp_AfterEvent point \<le> previous \<or> count < cp_AfterEvent point
        then Inl (CheckpointOrdinal (cs_Name item))
        else if cp_Window point \<le> 0 \<or> MaxCaseWindow < cp_Window point
        then Inl (CheckpointWindow (cp_Name point))
        else if budget < until \<or> wrap64 (cs_Window item + 15 * second) < until
        then Inl (CheckpointObservation (cp_Name point))
        else if cp_AfterEvent point < count \<and> event_offset item (cp_AfterEvent point + 1) < until
        then Inl (CheckpointOverlap (cp_Name point))
        else case validateAssertions (cp_Name point) (cp_Assertions point) of
            Some e \<Rightarrow> Inl e
          | None \<Rightarrow> Inr (insert (cp_Name point) names, cp_AfterEvent point))"

definition validateCheckpoints :: "Case \<Rightarrow> duration \<Rightarrow> ValidateError option" where
  "validateCheckpoints item budget =
     (if MaxCheckpoints < length (cs_Checkpoints item) then Some (CheckpointBudget (cs_Name item))
      else as_error (foldE (checkpoint_step item budget) ({}, 0) (cs_Checkpoints item)))"

section \<open>The event loop\<close>

record event_scan =
  es_latestFiringByRole :: "string set"
  es_seenSources :: "string set"
  es_sourceStarts :: "string \<rightharpoonup> duration"
  es_previousDelay :: duration
  es_index :: nat

definition start_of :: "event_scan \<Rightarrow> string \<Rightarrow> duration" where
  "start_of s key = (case es_sourceStarts s key of None \<Rightarrow> 0 | Some d \<Rightarrow> d)"

definition event_check :: "Scenario \<Rightarrow> Case \<Rightarrow> event_scan \<Rightarrow> Event \<Rightarrow> ValidateError option" where
  "event_check document item s event =
     (let key = IdentityKey event; name = cs_Name item; named = ev_Source event \<noteq> '''';
          fires = ev_Status event = ''firing''; resolves = ev_Status event = ''resolved''
      in first_error
        [err_if (named \<and> ev_Delay event mod millisecond \<noteq> 0) (SourceOffset name),
         err_if (named \<and> (\<not> is_label_name (ev_Source event) \<or> MaxRoleLength < length (ev_Source event)))
           (SourceInvalid name),
         err_if (named \<and> fires \<and> key \<in> es_seenSources s \<and> ev_Delay event \<le> start_of s key)
           (RefireTime name),
         err_if (named \<and> fires \<and> (key \<in> es_latestFiringByRole s \<or>
                 key \<in> es_seenSources s \<and> ev_Labels event \<noteq> [])) (RefireActive name),
         err_if (ev_Role event = '''' \<or> MaxRoleLength < length (ev_Role event) \<or> \<not> fires \<and> \<not> resolves \<or>
                 ev_Delay event < 0 \<or> sc_MaxDuration document < ev_Delay event) (EventInvalid name),
         err_if (0 < es_index s \<and> ev_Delay event < es_previousDelay s) (DelayOrder name),
         validateLabels (ev_Labels event),
         err_if (resolves \<and> ev_Labels event \<noteq> []) (ResolvedLabels name),
         err_if (resolves \<and> key \<notin> es_latestFiringByRole s) (ResolvedWithoutFiring name)])"

definition event_advance :: "event_scan \<Rightarrow> Event \<Rightarrow> event_scan" where
  "event_advance s event =
     (let key = IdentityKey event; s1 = s\<lparr>es_previousDelay := ev_Delay event, es_index := es_index s + 1\<rparr>
      in if ev_Status event = ''resolved''
         then s1\<lparr>es_latestFiringByRole := es_latestFiringByRole s - {key}\<rparr>
         else s1\<lparr>es_latestFiringByRole := insert key (es_latestFiringByRole s),
                 es_seenSources := insert key (es_seenSources s),
                 es_sourceStarts := (es_sourceStarts s)(key \<mapsto> ev_Delay event)\<rparr>)"

definition event_step :: "Scenario \<Rightarrow> Case \<Rightarrow> event_scan \<Rightarrow> Event \<Rightarrow> ValidateError + event_scan" where
  "event_step document item s event =
     (case event_check document item s event of
        Some e \<Rightarrow> Inl e
      | None \<Rightarrow> Inr (event_advance s event))"

definition no_events :: event_scan where
  "no_events = \<lparr>es_latestFiringByRole = {}, es_seenSources = {}, es_sourceStarts = Map.empty,
     es_previousDelay = 0, es_index = 0\<rparr>"

definition validate_stimuli :: "Scenario \<Rightarrow> Case \<Rightarrow> ValidateError option" where
  "validate_stimuli document item =
     (if cs_Events item = [] then
        err_if (cs_Repeat item < 1 \<or> int MaxEvents < cs_Repeat item \<or> cs_Role item = '''' \<or>
                MaxRoleLength < length (cs_Role item)) (RepeatInvalid (cs_Name item))
      else if cs_Repeat item \<noteq> 0 \<or> cs_Role item \<noteq> '''' \<or> MaxEvents < length (cs_Events item)
      then Some (StimulusForms (cs_Name item))
      else as_error (foldE (event_step document item) no_events (cs_Events item)))"

section \<open>Validate\<close>

definition case_step ::
  "Scenario \<Rightarrow> string set \<times> string set \<Rightarrow> Case \<Rightarrow> ValidateError + (string set \<times> string set)" where
  "case_step document = (\<lambda>(names, codes) item.
     case first_error
       [err_if (cs_Name item = '''' \<or> MaxCaseNameLength < length (cs_Name item) \<or> cs_Name item \<in> names \<or>
                cs_Code item \<noteq> ''P01'' \<and> cs_Code item \<noteq> ''N01'' \<or> cs_Code item \<in> codes) CaseIdentity,
        err_if (cs_Code item = ''P01'' \<and> cs_Polarity item \<noteq> ''positive'' \<or>
                cs_Code item = ''N01'' \<and> cs_Polarity item \<noteq> ''negative'') (CasePolarity (cs_Name item)),
        err_if (cs_Window item \<le> 0 \<or> MaxCaseWindow < cs_Window item \<or>
                MaxGroupByLabels < length (cs_GroupBy item) \<or> MaxLabels < length (cs_Labels item))
          (CaseBudgets (cs_Name item)),
        validateNames (cs_GroupBy item) MaxLabelNameLength ''groupBy'',
        validateLabels (cs_Labels item),
        validateAssertions (cs_Name item) (cs_Assertions item),
        validateCheckpoints item (sc_MaxDuration document),
        err_if (sc_Pattern document \<noteq> ''parent_child'' \<and>
                (cs_SuppressForNotifiers item \<noteq> [] \<or> cs_TagForNotifiers item \<noteq> []))
          (NotifiersForPattern (cs_Name item)),
        err_if (MaxNotifierNames < length (cs_SuppressForNotifiers item) \<or>
                MaxNotifierNames < length (cs_TagForNotifiers item)) (NotifierBudget (cs_Name item)),
        validateNames (cs_SuppressForNotifiers item @ cs_TagForNotifiers item) MaxNotifierNameLength ''notifier'',
        validateDownstreamControl (sc_Pattern document) item,
        validateNamedEpisodeAssertions item,
        validate_stimuli document item] of
       Some e \<Rightarrow> Inl e
     | None \<Rightarrow> Inr (insert (cs_Name item) names, insert (cs_Code item) codes))"

definition input_paths :: "string list" where
  "input_paths = ['''', ''alert-engine'', ''receiver-admission'', ''ordinary-webhook'']"

definition Validate :: "Scenario \<Rightarrow> ValidateError option" where
  "Validate document = first_error
     [err_if (sc_InputPath document \<notin> set input_paths) (UnsupportedInputPath (sc_InputPath document)),
      err_if (sc_APIVersion document \<noteq> APIVersion \<or> sc_Kind document \<noteq> Kind \<or>
              \<not> isSupportedPattern (sc_Pattern document)) UnsupportedDocument,
      err_if (trim_space (sc_Name document) \<noteq> sc_Name document \<or> sc_Name document = '''' \<or>
              MaxScenarioNameLength < length (sc_Name document) \<or>
              trim_space (sc_Suite document) \<noteq> sc_Suite document \<or> sc_Suite document = '''' \<or>
              MaxSuiteLength < length (sc_Suite document)) NameOrSuite,
      err_if (sc_MaxDuration document \<le> 0 \<or> MaxScenarioDuration < sc_MaxDuration document \<or>
              length (sc_Cases document) \<noteq> RequiredCaseCount) BudgetOrCaseCount,
      (case foldE (case_step document) ({}, {}) (sc_Cases document) of
         Inl e \<Rightarrow> Some e
       | Inr (names, codes) \<Rightarrow>
           if ''P01'' \<notin> codes \<or> ''N01'' \<notin> codes then Some RequiresBothCases
           else map_option PatternSemantics (validatePatternSemantics document))]"

section \<open>What the helpers accept\<close>

lemma check_names_None:
  "check_names seen values maximum field = None \<longleftrightarrow>
     distinct values \<and> set values \<inter> seen = {} \<and>
     (\<forall>v \<in> set values. v \<noteq> '''' \<and> trim_space v = v \<and> length v \<le> maximum)"
  by (induction seen "values" maximum field rule: check_names.induct) auto

lemma validateNames_None:
  "validateNames values maximum field = None \<longleftrightarrow>
     distinct values \<and> (\<forall>v \<in> set values. v \<noteq> '''' \<and> trim_space v = v \<and> length v \<le> maximum)"
  by (simp add: validateNames_def check_names_None)

definition safe_label :: "string \<Rightarrow> string \<Rightarrow> bool" where
  "safe_label key value \<longleftrightarrow> \<not> IsReservedLabel key \<and> is_label_name key \<and>
     length key \<le> MaxLabelNameLength \<and> length value \<le> MaxLabelValueLength \<and> \<not> unsafe_value value"

lemma validateLabels_None:
  "validateLabels ls = None \<longleftrightarrow> (\<forall>(key, value) \<in> set ls. safe_label key value)"
  by (auto simp: validateLabels_def first_error_None safe_label_def)

definition assertion_ok :: "Assertion \<Rightarrow> bool" where
  "assertion_ok a \<longleftrightarrow> as_Kind a \<in> set assertionKinds \<and> 0 \<le> as_Equals a \<and> as_Equals a \<le> MaxExpectedCount \<and>
     length (as_Outcome a) \<le> MaxOutcomeLength \<and>
     (if as_Kind a \<in> set plainKinds then as_Outcome a = '''' else trim_space (as_Outcome a) \<noteq> '''') \<and>
     (as_Kind a = ''source-episode-state-count'' \<longrightarrow> as_Outcome a \<in> {''firing'', ''resolved''})"

lemma validate_assertion_None: "validate_assertion name a = None \<longleftrightarrow> assertion_ok a"
  unfolding validate_assertion_def assertion_ok_def first_error_None
  by (auto simp: assertionKinds_def plainKinds_def outcomeKinds_def not_less)

lemma validateAssertions_None:
  "validateAssertions name xs = None \<longleftrightarrow>
     xs \<noteq> [] \<and> length xs \<le> MaxAssertions \<and> (\<forall>a \<in> set xs. assertion_ok a)"
  by (auto simp: validateAssertions_def first_error_None validate_assertion_None first_error_Cons Suc_le_eq split: option.splits)

text \<open>The scan state as a function of the events already processed.\<close>

definition history :: "Event list \<Rightarrow> string \<Rightarrow> Event list" where
  "history events key = filter (\<lambda>e. IdentityKey e = key) events"

definition is_active :: "Event list \<Rightarrow> string \<Rightarrow> bool" where
  "is_active events key \<longleftrightarrow> history events key \<noteq> [] \<and> ev_Status (last (history events key)) \<noteq> ''resolved''"

definition starts :: "Event list \<Rightarrow> string \<Rightarrow> Event list" where
  "starts events key = filter (\<lambda>e. ev_Status e \<noteq> ''resolved'') (history events key)"

definition scan_of :: "Event list \<Rightarrow> event_scan" where
  "scan_of events =
     \<lparr>es_latestFiringByRole = {key. is_active events key},
      es_seenSources = {key. starts events key \<noteq> []},
      es_sourceStarts = (\<lambda>key. if starts events key = [] then None else Some (ev_Delay (last (starts events key)))),
      es_previousDelay = (if events = [] then 0 else ev_Delay (last events)),
      es_index = length events\<rparr>"

lemma history_snoc: "history (es @ [e]) key = history es key @ (if IdentityKey e = key then [e] else [])"
  by (simp add: history_def)

lemma starts_snoc: "starts (es @ [e]) key = starts es key @
  (if IdentityKey e = key \<and> ev_Status e \<noteq> ''resolved'' then [e] else [])"
  by (simp add: starts_def history_snoc)

lemma is_active_snoc: "is_active (es @ [e]) key \<longleftrightarrow>
  (if IdentityKey e = key then ev_Status e \<noteq> ''resolved'' else is_active es key)"
  by (simp add: is_active_def history_snoc)

lemma scan_of_Nil: "scan_of [] = no_events"
  by (simp add: scan_of_def no_events_def is_active_def starts_def history_def)

lemma scan_of_snoc: "scan_of (es @ [e]) = event_advance (scan_of es) e"
  by (auto simp: scan_of_def event_advance_def Let_def is_active_snoc starts_snoc fun_eq_iff)

lemma event_step_scan:
  "event_step document item (scan_of pre) e =
     (if event_check document item (scan_of pre) e = None then Inr (scan_of (pre @ [e]))
      else Inl (the (event_check document item (scan_of pre) e)))"
  by (auto simp: event_step_def scan_of_snoc split: option.splits)

lemma event_loop_accepts:
  "as_error (foldE (event_step document item) no_events events) = None \<longleftrightarrow>
     (\<forall>ys e zs. events = ys @ e # zs \<longrightarrow> event_check document item (scan_of ys) e = None)"
  unfolding as_error_None scan_of_Nil [symmetric]
  by (subst foldE_prefix_iff [where ok = "\<lambda>ys e. event_check document item (scan_of ys) e = None"])
    (rule event_step_scan, simp)


definition event_ok :: "Scenario \<Rightarrow> Event list \<Rightarrow> Event \<Rightarrow> bool" where
  "event_ok document before e \<longleftrightarrow>
     (let key = IdentityKey e; earlier = starts before key
      in ev_Role e \<noteq> '''' \<and> length (ev_Role e) \<le> MaxRoleLength \<and>
         0 \<le> ev_Delay e \<and> ev_Delay e \<le> sc_MaxDuration document \<and>
         (before = [] \<or> ev_Delay (last before) \<le> ev_Delay e) \<and>
         (\<forall>(name, value) \<in> set (ev_Labels e). safe_label name value) \<and>
         (ev_Status e = ''firing'' \<or> ev_Status e = ''resolved'' \<and> ev_Labels e = [] \<and> is_active before key) \<and>
         (ev_Source e = '''' \<or>
            ev_Delay e mod millisecond = 0 \<and> is_label_name (ev_Source e) \<and>
            length (ev_Source e) \<le> MaxRoleLength \<and>
            (ev_Status e = ''resolved'' \<or> earlier = [] \<or>
               \<not> is_active before key \<and> ev_Delay (last earlier) < ev_Delay e \<and> ev_Labels e = [])))"

lemma starts_of_active: "is_active before key \<Longrightarrow> starts before key \<noteq> []"
  by (auto simp: is_active_def starts_def filter_empty_conv dest: last_in_set)

lemma event_check_scan:
  "event_check document item (scan_of before) e = None \<longleftrightarrow> event_ok document before e"
proof -
  have "is_active before (IdentityKey e) \<Longrightarrow> starts before (IdentityKey e) \<noteq> []"
    by (rule starts_of_active)
  then show ?thesis
    unfolding event_check_def event_ok_def Let_def first_error_None
    by (auto simp: scan_of_def start_of_def validateLabels_None not_less not_le)
qed

lemma event_loop_exact:
  "as_error (foldE (event_step document item) no_events events) = None \<longleftrightarrow>
     (\<forall>before e rest. events = before @ e # rest \<longrightarrow> event_ok document before e)"
  by (simp add: event_loop_accepts event_check_scan)

lemma case_loop_accepts:
  assumes "foldE (case_step document) s cases = Inr t" and "item \<in> set cases"
  shows "\<exists>s t. case_step document s item = Inr t"
  using assms by (induction cases arbitrary: s) (auto split: sum.splits)

lemma case_step_Inr:
  "case_step document (names, codes) item = Inr t \<longleftrightarrow>
     t = (insert (cs_Name item) names, insert (cs_Code item) codes) \<and>
     cs_Name item \<noteq> '''' \<and> length (cs_Name item) \<le> MaxCaseNameLength \<and> cs_Name item \<notin> names \<and>
     cs_Code item \<in> {''P01'', ''N01''} \<and> cs_Code item \<notin> codes \<and>
     cs_Polarity item = (if cs_Code item = ''P01'' then ''positive'' else ''negative'') \<and>
     0 < cs_Window item \<and> cs_Window item \<le> MaxCaseWindow \<and>
     length (cs_GroupBy item) \<le> MaxGroupByLabels \<and> length (cs_Labels item) \<le> MaxLabels \<and>
     validateNames (cs_GroupBy item) MaxLabelNameLength ''groupBy'' = None \<and>
     validateLabels (cs_Labels item) = None \<and>
     validateAssertions (cs_Name item) (cs_Assertions item) = None \<and>
     validateCheckpoints item (sc_MaxDuration document) = None \<and>
     (sc_Pattern document = ''parent_child'' \<or>
        cs_SuppressForNotifiers item = [] \<and> cs_TagForNotifiers item = []) \<and>
     length (cs_SuppressForNotifiers item) \<le> MaxNotifierNames \<and>
     length (cs_TagForNotifiers item) \<le> MaxNotifierNames \<and>
     validateNames (cs_SuppressForNotifiers item @ cs_TagForNotifiers item) MaxNotifierNameLength ''notifier'' = None \<and>
     validateDownstreamControl (sc_Pattern document) item = None \<and>
     validateNamedEpisodeAssertions item = None \<and>
     validate_stimuli document item = None"
  unfolding case_step_def prod.case option_Inr first_error_None
  by (auto simp: not_less not_le)


lemma checkpoint_step_Inr:
  "checkpoint_step item budget (names, previous) point = Inr t \<longleftrightarrow>
     t = (insert (cp_Name point) names, cp_AfterEvent point) \<and>
     cp_Name point \<noteq> '''' \<and> trim_space (cp_Name point) = cp_Name point \<and>
     length (cp_Name point) \<le> MaxCaseNameLength \<and> cp_Name point \<notin> names \<and>
     previous < cp_AfterEvent point \<and> cp_AfterEvent point \<le> stimulus_count item \<and>
     0 < cp_Window point \<and> cp_Window point \<le> MaxCaseWindow \<and>
     wrap64 (event_offset item (cp_AfterEvent point) + cp_Window point) \<le> budget \<and>
     wrap64 (event_offset item (cp_AfterEvent point) + cp_Window point) \<le> wrap64 (cs_Window item + 15 * second) \<and>
     (cp_AfterEvent point = stimulus_count item \<or>
        wrap64 (event_offset item (cp_AfterEvent point) + cp_Window point)
          \<le> event_offset item (cp_AfterEvent point + 1)) \<and>
     validateAssertions (cp_Name point) (cp_Assertions point) = None"
  unfolding checkpoint_step_def prod.case Let_def
  by (auto simp: not_le not_less option_Inr)

text \<open>The loop accepts only increasing ordinals, distinct names and windows that fit.\<close>

definition wrapped_fit :: "Case \<Rightarrow> duration \<Rightarrow> Checkpoint \<Rightarrow> bool" where
  "wrapped_fit item budget point \<longleftrightarrow>
     (\<exists>names previous t. 0 \<le> previous \<and> checkpoint_step item budget (names, previous) point = Inr t)"

lemma checkpoint_loop:
  assumes "foldE (checkpoint_step item budget) (names, previous) points = Inr t" and "0 \<le> previous"
  shows "sorted_wrt (<) (previous # map cp_AfterEvent points) \<and> distinct (map cp_Name points) \<and>
    set (map cp_Name points) \<inter> names = {} \<and> (\<forall>point \<in> set points. wrapped_fit item budget point)"
  using assms
proof (induction points arbitrary: names previous)
  case (Cons p ps)
  from Cons.prems obtain u where u: "checkpoint_step item budget (names, previous) p = Inr u"
      "foldE (checkpoint_step item budget) u ps = Inr t"
    by (auto split: sum.splits)
  then have step: "u = (insert (cp_Name p) names, cp_AfterEvent p)" "cp_Name p \<notin> names"
      "previous < cp_AfterEvent p"
    unfolding checkpoint_step_Inr by auto
  have "wrapped_fit item budget p"
    unfolding wrapped_fit_def using u(1) Cons.prems(2) by blast
  moreover have "sorted_wrt (<) (cp_AfterEvent p # map cp_AfterEvent ps) \<and> distinct (map cp_Name ps) \<and>
      set (map cp_Name ps) \<inter> insert (cp_Name p) names = {} \<and> (\<forall>point \<in> set ps. wrapped_fit item budget point)"
    by (rule Cons.IH) (use u(2) step Cons.prems(2) in auto)
  ultimately show ?case using step by auto
qed simp

text \<open>What an accepted checkpoint means over unbounded integers.\<close>

definition checkpoint_fits :: "Scenario \<Rightarrow> Case \<Rightarrow> Checkpoint \<Rightarrow> bool" where
  "checkpoint_fits document item point \<longleftrightarrow>
     (let until = event_offset item (cp_AfterEvent point) + cp_Window point
      in 1 \<le> cp_AfterEvent point \<and> cp_AfterEvent point \<le> stimulus_count item \<and> 0 < cp_Window point \<and>
         until \<le> sc_MaxDuration document \<and> until \<le> cs_Window item + 15 * second \<and>
         (cp_AfterEvent point = stimulus_count item \<or> until \<le> event_offset item (cp_AfterEvent point + 1)))"

lemma wrapped_fit_exact:
  assumes fit: "wrapped_fit item (sc_MaxDuration document) point"
    and delays: "\<forall>e \<in> set (cs_Events item). 0 \<le> ev_Delay e \<and> ev_Delay e \<le> MaxScenarioDuration"
    and window: "0 < cs_Window item" "cs_Window item \<le> MaxCaseWindow"
  shows "checkpoint_fits document item point"
proof -
  let ?at = "event_offset item (cp_AfterEvent point)"
  from fit obtain names previous t where previous: "0 \<le> previous"
      and "checkpoint_step item (sc_MaxDuration document) (names, previous) point = Inr t"
    unfolding wrapped_fit_def by blast
  then have step: "previous < cp_AfterEvent point" "cp_AfterEvent point \<le> stimulus_count item"
      "0 < cp_Window point" "cp_Window point \<le> MaxCaseWindow"
      "wrap64 (?at + cp_Window point) \<le> sc_MaxDuration document"
      "wrap64 (?at + cp_Window point) \<le> wrap64 (cs_Window item + 15 * second)"
      "cp_AfterEvent point = stimulus_count item \<or>
         wrap64 (?at + cp_Window point) \<le> event_offset item (cp_AfterEvent point + 1)"
    unfolding checkpoint_step_Inr by blast+
  have "0 \<le> ?at \<and> ?at \<le> MaxScenarioDuration"
  proof (cases "cs_Events item = []")
    case True
    then show ?thesis by (simp add: event_offset_def go_simps)
  next
    case False
    then have "nat (cp_AfterEvent point - 1) < length (cs_Events item)"
      using step(1,2) previous by (simp add: stimulus_count_def)
    with delays False show ?thesis by (simp add: event_offset_def)
  qed
  then have "wrap64 (?at + cp_Window point) = ?at + cp_Window point"
    using step(3,4) by (intro wrap64_id) (simp add: int64_def go_simps)
  moreover have "wrap64 (cs_Window item + 15 * second) = cs_Window item + 15 * second"
    using window by (intro wrap64_id) (simp add: int64_def go_simps)
  ultimately show ?thesis
    using step previous by (auto simp: checkpoint_fits_def Let_def)
qed

lemma Validate_None:
  assumes "Validate document = None"
  shows "sc_InputPath document \<in> set input_paths \<and> isSupportedPattern (sc_Pattern document) \<and>
    0 < sc_MaxDuration document \<and> sc_MaxDuration document \<le> MaxScenarioDuration \<and>
    length (sc_Cases document) = RequiredCaseCount \<and>
    (\<exists>names codes. foldE (case_step document) ({}, {}) (sc_Cases document) = Inr (names, codes) \<and>
       ''P01'' \<in> codes \<and> ''N01'' \<in> codes) \<and>
    validatePatternSemantics document = None"
  using assms unfolding Validate_def first_error_None
  by (auto simp: not_less not_le split: sum.splits if_splits)

lemma accepted_case:
  assumes "Validate document = None" and "item \<in> set (sc_Cases document)"
  shows "\<exists>names codes t. case_step document (names, codes) item = Inr t"
proof -
  from Validate_None [OF assms(1)] obtain t where
    "foldE (case_step document) ({}, {}) (sc_Cases document) = Inr t" by blast
  from case_loop_accepts [OF this assms(2)] show ?thesis by auto
qed

lemma accepted_event:
  assumes "Validate document = None" and "item \<in> set (sc_Cases document)"
    and "cs_Events item = before @ e # rest"
  shows "event_ok document before e"
proof -
  from accepted_case [OF assms(1,2)] have "validate_stimuli document item = None"
    unfolding case_step_Inr by blast
  then have "as_error (foldE (event_step document item) no_events (cs_Events item)) = None"
    using assms(3) by (simp add: validate_stimuli_def split: if_splits)
  then show ?thesis using assms(3) unfolding event_loop_exact by blast
qed

lemma accepted_delays:
  assumes "Validate document = None" and "item \<in> set (sc_Cases document)"
  shows "sorted (map ev_Delay (cs_Events item))"
    and "\<forall>e \<in> set (cs_Events item). 0 \<le> ev_Delay e \<and> ev_Delay e \<le> sc_MaxDuration document"
proof -
  note event = accepted_event [OF assms]
  show "sorted (map ev_Delay (cs_Events item))"
    by (rule sorted_if_steps) (use event in \<open>auto simp: event_ok_def Let_def\<close>)
  show "\<forall>e \<in> set (cs_Events item). 0 \<le> ev_Delay e \<and> ev_Delay e \<le> sc_MaxDuration document"
  proof
    fix e assume "e \<in> set (cs_Events item)"
    then obtain before rest where "cs_Events item = before @ e # rest" by (auto simp: in_set_conv_decomp)
    from event [OF this] show "0 \<le> ev_Delay e \<and> ev_Delay e \<le> sc_MaxDuration document"
      by (simp add: event_ok_def Let_def)
  qed
qed

lemma accepted_checkpoints:
  assumes "Validate document = None" and "item \<in> set (sc_Cases document)"
  shows "sorted_wrt (<) (map cp_AfterEvent (cs_Checkpoints item))"
    and "\<forall>point \<in> set (cs_Checkpoints item). checkpoint_fits document item point"
proof -
  from accepted_case [OF assms] have c: "validateCheckpoints item (sc_MaxDuration document) = None"
      "0 < cs_Window item" "cs_Window item \<le> MaxCaseWindow"
    unfolding case_step_Inr by blast+
  then obtain t where
    "foldE (checkpoint_step item (sc_MaxDuration document)) ({}, 0) (cs_Checkpoints item) = Inr t"
    unfolding validateCheckpoints_def by (auto simp: as_error_None split: if_splits)
  from checkpoint_loop [OF this] have loop: "sorted_wrt (<) (map cp_AfterEvent (cs_Checkpoints item))"
      "\<forall>point \<in> set (cs_Checkpoints item). wrapped_fit item (sc_MaxDuration document) point"
    by simp_all
  have "\<forall>e \<in> set (cs_Events item). 0 \<le> ev_Delay e \<and> ev_Delay e \<le> MaxScenarioDuration"
    using accepted_delays(2) [OF assms] Validate_None [OF assms(1)] by fastforce
  then show "\<forall>point \<in> set (cs_Checkpoints item). checkpoint_fits document item point"
    using loop(2) c(2,3) wrapped_fit_exact by blast
  show "sorted_wrt (<) (map cp_AfterEvent (cs_Checkpoints item))" by (rule loop(1))
qed

text \<open>
  A small accepted document: five spaced occurrences with a checkpoint before the fifth and a
  recovery against four occurrences sent at once.
\<close>

definition demo_assertion :: Assertion where
  "demo_assertion = \<lparr>as_Kind = ''synthetic-alert-count'', as_Outcome = '''', as_Equals = 1\<rparr>"

definition demo_event :: "string \<Rightarrow> duration \<Rightarrow> Event" where
  "demo_event status delay =
     \<lparr>ev_Role = ''link'', ev_Source = '''', ev_Status = status, ev_Labels = [], ev_Delay = delay\<rparr>"

definition demo_positive :: Case where
  "demo_positive =
     \<lparr>cs_Control = '''', cs_Name = ''burst'', cs_Code = ''P01'', cs_Polarity = ''positive'', cs_Role = '''',
      cs_Repeat = 0, cs_Window = 30 * second, cs_GroupBy = [''site''], cs_Labels = [(''site'', ''lab'')],
      cs_SuppressForNotifiers = [], cs_TagForNotifiers = [], cs_Assertions = [demo_assertion],
      cs_Checkpoints = [\<lparr>cp_Name = ''before'', cp_AfterEvent = 4, cp_Window = second,
        cp_Assertions = [demo_assertion]\<rparr>],
      cs_Events = [demo_event ''firing'' 0, demo_event ''firing'' second, demo_event ''firing'' second,
        demo_event ''firing'' second, demo_event ''firing'' (3 * second),
        demo_event ''resolved'' (4 * second)]\<rparr>"

definition demo_negative :: Case where
  "demo_negative =
     \<lparr>cs_Control = '''', cs_Name = ''below'', cs_Code = ''N01'', cs_Polarity = ''negative'', cs_Role = ''link'',
      cs_Repeat = 4, cs_Window = 30 * second, cs_GroupBy = [], cs_Labels = [],
      cs_SuppressForNotifiers = [], cs_TagForNotifiers = [], cs_Assertions = [demo_assertion],
      cs_Checkpoints = [], cs_Events = []\<rparr>"

definition demo_flood :: Scenario where
  "demo_flood = \<lparr>sc_APIVersion = APIVersion, sc_Kind = Kind, sc_Name = ''flood'', sc_Suite = ''demo'',
     sc_InputPath = '''', sc_Pattern = ''flood'', sc_MaxDuration = minute,
     sc_Cases = [demo_positive, demo_negative]\<rparr>"

lemma demo_flood_accepted: "Validate demo_flood = None"
  by code_simp

text \<open>The criterion of a document's pattern, where it is a formula over the expanded alerts.\<close>

definition criterion :: "Scenario \<Rightarrow> Case \<Rightarrow> bool option" where
  "criterion document c =
     (let events = expandSemanticEvents c; pattern = sc_Pattern document
      in if pattern = ''flood'' then Some (flood_criterion c events)
         else if pattern = ''threshold'' then Some (threshold_criterion c events)
         else if pattern = ''cross_source'' then
           Some (coverage_criterion (\<lambda>e. sget (se_Labels e) ''oscar_source'') {''snmp'', ''api''} c events)
         else if pattern = ''co_occurrence'' then
           Some (coverage_criterion se_Role (set (required_roles (sc_Cases document))) c events)
         else if pattern = ''absence'' then Some (absence_criterion events)
         else None)"

lemma validateCaseSemantics_criterion:
  assumes "validateCaseSemantics (buildSemanticContract document) c (expandSemanticEvents c) = None"
    and "criterion document c = Some b" and "cs_Control c = ''''"
  shows "(cs_Code c = ''P01'' \<longrightarrow> b) \<and> (cs_Code c = ''N01'' \<longrightarrow> \<not> b)"
proof -
  have windowed: "validateFloodSemantics c events = polarity_result c (flood_criterion c events) FloodPositive FloodNegative"
    "validateThresholdSemantics c events =
      polarity_result c (threshold_criterion c events) ThresholdPositive ThresholdNegative"
    "validateCrossSourceSemantics c events =
      polarity_result c (coverage_criterion (\<lambda>e. sget (se_Labels e) ''oscar_source'') {''snmp'', ''api''} c events)
        CrossSourcePositive CrossSourceNegative"
    "validateCoOccurrenceSemantics (required_roles (sc_Cases document)) c events =
      polarity_result c (coverage_criterion se_Role (set (required_roles (sc_Cases document))) c events)
        CoOccurrencePositive CoOccurrenceNegative"
    "validateAbsenceSemantics c events =
      polarity_result c (absence_criterion events) AbsencePositive AbsenceNegative" for events
    unfolding validateFloodSemantics_def validateThresholdSemantics_def validateAbsenceSemantics_def
      validateCrossSourceSemantics_def validateCoOccurrenceSemantics_def Let_def polarity_check_result
      flood_decided threshold_decided cross_source_decided co_occurrence_decided absence_decided
    by simp_all
  show ?thesis
    using assms
    by (auto simp: criterion_def validateCaseSemantics_def buildSemanticContract_def Let_def windowed
        first_error_Cons polarity_result_def split: if_splits option.splits)
qed

lemma accepted_codes:
  assumes "Validate document = None"
  shows "\<exists>a b. sc_Cases document = [a, b] \<and> {cs_Code a, cs_Code b} = {''P01'', ''N01''}"
proof -
  from Validate_None [OF assms] obtain names codes where
      len: "length (sc_Cases document) = 2" and
      loop: "foldE (case_step document) ({}, {}) (sc_Cases document) = Inr (names, codes)" and
      both: "''P01'' \<in> codes" "''N01'' \<in> codes"
    by (auto simp: RequiredCaseCount_def)
  from len obtain a b where ab: "sc_Cases document = [a, b]"
    by (auto simp: length_Suc_conv numeral_2_eq_2)
  from loop have "codes = {cs_Code a, cs_Code b}"
    unfolding ab by (auto simp: case_step_Inr split: sum.splits)
  moreover from loop have "cs_Code a \<in> {''P01'', ''N01''}" "cs_Code b \<in> {''P01'', ''N01''}"
    unfolding ab by (auto simp: case_step_Inr split: sum.splits)
  ultimately show ?thesis using ab both by auto
qed

section \<open>Properties\<close>

text \<open>
  C33. The event loop of \<^verbatim>\<open>Validate\<close> accepts exactly the episode histories: every event has a
  bounded role, a delay inside the budget and not before its predecessor and safe labels; a
  resolution carries no labels and its source fired last; a named source has a label-like
  name and a whole-millisecond offset and fires again only when it was resolved, strictly later
  than it last fired and without new labels.
\<close>

theorem validate_stimuli_exact:
  "validate_stimuli document item = None \<longleftrightarrow>
     (if cs_Events item = []
      then 1 \<le> cs_Repeat item \<and> cs_Repeat item \<le> 100 \<and> cs_Role item \<noteq> '''' \<and> length (cs_Role item) \<le> 100
      else cs_Repeat item = 0 \<and> cs_Role item = '''' \<and> length (cs_Events item) \<le> 100 \<and>
        list_all (\<lambda>i. event_ok document (take i (cs_Events item)) (cs_Events item ! i))
          [0..<length (cs_Events item)])"
proof -
  have "as_error (foldE (event_step document item) no_events (cs_Events item)) = None \<longleftrightarrow>
      list_all (\<lambda>i. event_ok document (take i (cs_Events item)) (cs_Events item ! i))
        [0..<length (cs_Events item)]"
    unfolding event_loop_exact splits_iff_nth ..
  then show ?thesis
    by (auto simp: validate_stimuli_def MaxEvents_def MaxRoleLength_def not_less)
qed

text \<open>
  C26. The schedule of an accepted document: delays never decrease and stay inside the scenario
  budget, checkpoint ordinals increase, and every checkpoint window ends inside both budgets and
  before the next input. The sums of the code are \<^verbatim>\<open>int64\<close> sums computed before the delays
  are bounded; in an accepted document none of them has wrapped.
\<close>

theorem accepted_schedule:
  assumes "Validate document = None" and "item \<in> set (sc_Cases document)"
  shows "sorted (map ev_Delay (cs_Events item)) \<and>
    (\<forall>e \<in> set (cs_Events item). 0 \<le> ev_Delay e \<and> ev_Delay e \<le> sc_MaxDuration document) \<and>
    sorted_wrt (<) (map cp_AfterEvent (cs_Checkpoints item)) \<and>
    (\<forall>point \<in> set (cs_Checkpoints item). checkpoint_fits document item point)"
  using accepted_delays [OF assms] accepted_checkpoints [OF assms] by blast

theorem accepted_schedule_witness:
  "checkpoint_fits demo_flood demo_positive (cs_Checkpoints demo_positive ! 0)"
proof -
  have "demo_positive \<in> set (sc_Cases demo_flood)" by (simp add: demo_flood_def)
  from accepted_schedule [OF demo_flood_accepted this] show ?thesis
    by (simp add: demo_positive_def)
qed



end
