(* ===== verification/Plan_Compiler.thy ===== *)
theory Plan_Compiler
  imports Run_Domain Scenario_Validate
begin

text \<open>
  \<^verbatim>\<open>internal/compiler\<close>: \<^verbatim>\<open>Compile\<close> turns a validated scenario and a run identity into an
  immutable plan (compiler.go), and \<^verbatim>\<open>ValidateControlExclusion\<close> checks a compiled downstream
  control (no\_match.go). The plan digest, the hex SHA-256 of the plan's JSON, is an argument of
  \<^verbatim>\<open>Compile\<close>: nothing here depends on its value.
\<close>

section \<open>Plans\<close>

text \<open>The dynamic values of a \<^verbatim>\<open>map[string]any\<close> the compiler writes.\<close>

datatype anyval =
    AnyString string | AnyInt int | AnyLabels labels | AnyMap "(string \<times> anyval) list"
  | AnyList "anyval list" | AnyStrings "string list"

type_synonym criteria = "(string, anyval) gomap"

record MutationBudget =
  mb_Rules :: int
  mb_Alerts :: int

record RulePlan =
  rp_Name :: string
  rp_Pattern :: string
  rp_WindowSeconds :: int
  rp_GroupBy :: "string list"
  rp_MatchCriteria :: criteria
  rp_EmitAlertName :: string
  rp_EmitLabels :: labels
  rp_EmitAnnotations :: labels
  rp_Description :: string

record AlertPlan =
  ap_Source :: string
  ap_Name :: string
  ap_Status :: string
  ap_Labels :: labels
  ap_Annotations :: labels
  ap_Delay :: duration
  ap_EpisodeOffset :: "duration option"
  ap_StartsAt :: time
  ap_EndsAt :: time

record Inspection =
  in_ExactRun :: string
  in_AlertNamePrefix :: string
  in_AlertNames :: "string list"
  in_RuleName :: string
  in_Filters :: labels

record CasePlan =
  cl_Control :: string
  cl_EpisodeBase :: time
  cl_Name :: string
  cl_Code :: string
  cl_Polarity :: string
  cl_Rule :: RulePlan
  cl_Alerts :: "AlertPlan list"
  cl_Checkpoints :: "Checkpoint list"
  cl_Assertions :: "Assertion list"
  cl_ObservationWindow :: duration
  cl_Inspection :: Inspection

record Plan =
  pl_APIVersion :: string
  pl_Scenario :: string
  pl_Suite :: string
  pl_Pattern :: string
  pl_InputPath :: string
  pl_RunID :: string
  pl_ShortToken :: string
  pl_MaxDuration :: duration
  pl_MutationBudget :: MutationBudget
  pl_Cases :: "CasePlan list"
  pl_Digest :: string

datatype CompileError =
    CompileInvalid ValidateError | ReceiverAdmissionUnavailable | RunIdentity | PipelineMode string
  | IncompleteScenario | DurationBudget | WebhookOnlyFlood | WebhookNamedSources | WebhookUniqueFiring
  | CaseBudget string | CaseReservedLabel string | CaseNotifierBudget string | CaseNotifierName string
  | ResolvesWithoutFiring string string | ResolutionChangesLabels string string
  | EventReservedLabel string string | DelayBudget string
  | UnsupportedControl | ControlWithoutInputs | ControlUniqueInputs | ControlIncomplete
  | ControlUnprovable string | ControlOverlap string

section \<open>Names and labels\<close>

definition patternCodes :: labels where
  "patternCodes =
     [(''co_occurrence'', ''COOCCURRENCE''), (''flood'', ''FLOOD''), (''sequence'', ''SEQUENCE''),
      (''persistence'', ''PERSISTENCE''), (''absence'', ''ABSENCE''), (''parent_child'', ''PARENTCHILD''),
      (''cross_source'', ''CROSSSOURCE''), (''threshold'', ''THRESHOLD'')]"

text \<open>
  \<^verbatim>\<open>strings.ToUpper\<close> followed by the removal of everything outside \<^verbatim>\<open>A-Z0-9\<close>. Two
  characters outside ASCII survive, because their upper case is ASCII: the dotless i (bytes
  196 177) and the long s (197 191).
\<close>

fun clean_role :: "string \<Rightarrow> string" where
  "clean_role [] = []"
| "clean_role [c] = (if is_alpha c \<or> is_digit c then [upper_char c] else [])"
| "clean_role (c # d # s) =
     (if is_alpha c \<or> is_digit c then upper_char c # clean_role (d # s)
      else if byte c = 196 \<and> byte d = 177 then CHR ''I'' # clean_role s
      else if byte c = 197 \<and> byte d = 191 then CHR ''S'' # clean_role s
      else clean_role (d # s))"

definition physicalName :: "string \<Rightarrow> string \<Rightarrow> string \<Rightarrow> string \<Rightarrow> string" where
  "physicalName patternCode caseCode role short =
     (let cleaned = clean_role role; named = (if cleaned = '''' then ''SOURCE'' else cleaned)
      in ''CORRTEST_'' @ patternCode @ ''_'' @ caseCode @ ''_'' @ take 24 named @ ''_'' @ short)"

definition uniqueNames :: "labels \<Rightarrow> string list" where
  "uniqueNames names = sort (fold List.insert (filter (\<lambda>v. v \<noteq> '''') (map snd names)) [])"

definition first_name :: "labels \<Rightarrow> string" where
  "first_name names = (case uniqueNames names of [] \<Rightarrow> '''' | v # _ \<Rightarrow> v)"

definition by_name :: "string \<Rightarrow> anyval" where
  "by_name name = AnyLabels [(''alertname'', name)]"

definition matchCriteria :: "string \<Rightarrow> labels \<Rightarrow> Case \<Rightarrow> criteria" where
  "matchCriteria pattern names source =
     (if pattern = ''flood'' then
        [(''match'', by_name (first_name names)), (''min_count'', AnyInt 5)]
      else if pattern = ''co_occurrence'' then
        (let matches = map by_name (uniqueNames names)
         in [(''required_matches'', AnyList matches), (''min_matches'', AnyInt (int (length matches)))])
      else if pattern = ''sequence'' then
        [(''sequence'', AnyList [by_name (sget names ''login_failure''),
                                 by_name (sget names ''privileged_command'')])]
      else if pattern = ''cross_source'' then
        [(''required_sources'', AnyList
           [AnyMap [(''source'', AnyString ''snmp''), (''match'', by_name (first_name names))],
            AnyMap [(''source'', AnyString ''api''), (''match'', by_name (first_name names))]])]
      else if pattern = ''threshold'' then
        [(''match'', by_name (first_name names)), (''distinct_label'', AnyString ''device''),
         (''min_distinct_count'', AnyInt 3)]
      else if pattern = ''persistence'' then
        [(''match'', by_name (first_name names)), (''unresolved_for_seconds'', AnyInt 30)]
      else if pattern = ''absence'' then
        [(''expected_match'', by_name (first_name names)), (''expected_every_seconds'', AnyInt 10),
         (''absent_for_seconds'', AnyInt 30)]
      else if pattern = ''parent_child'' then
        [(''parent_match'', by_name (sget names ''parent'')),
         (''child_matches'', AnyList [by_name (sget names ''child'')]),
         (''suppress_children_for_notifiers'', AnyStrings (cs_SuppressForNotifiers source)),
         (''tag_children_for_notifiers'', AnyStrings (cs_TagForNotifiers source))]
      else [])"

definition identityLabels ::
  "Run \<Rightarrow> Scenario \<Rightarrow> Case \<Rightarrow> string \<Rightarrow> string \<Rightarrow> string \<Rightarrow> labels" where
  "identityLabels run input item ruleName alert_class role =
     [(''category'', ''corrtest_'' @ sc_Pattern input), (''oscar_test'', ''true''),
      (''oscar_test_harness'', ''corrtest''), (''oscar_test_schema_version'', ''v1''),
      (''oscar_test_run_id'', run_ID run), (''oscar_test_run_short'', to_upper (run_ShortToken run)),
      (''oscar_test_suite'', sc_Suite input), (''oscar_test_scenario'', sc_Name input),
      (''oscar_test_pattern'', sc_Pattern input), (''oscar_test_case'', cs_Name item),
      (''oscar_test_case_code'', to_upper (cs_Code item)), (''oscar_test_polarity'', cs_Polarity item),
      (''oscar_test_alert_class'', alert_class), (''oscar_test_alert_role'', role),
      (''oscar_test_rule_name'', ruleName), (''severity'', ''warning'')]"

definition requiredCoOccurrenceRoles :: "Scenario \<Rightarrow> string list" where
  "requiredCoOccurrenceRoles input =
     (if sc_Pattern input \<noteq> ''co_occurrence'' then [] else required_roles (sc_Cases input))"

text \<open>The physical names of the roles of the events, in order of first use, then the required ones.\<close>

fun event_names :: "(string \<Rightarrow> string) \<Rightarrow> labels \<Rightarrow> Event list \<Rightarrow> labels" where
  "event_names name names [] = names"
| "event_names name names (event # events) =
     (if map_of names (ev_Role event) = None
      then event_names name (gput (ev_Role event) (name (ev_Role event)) names) events
      else event_names name names events)"

fun add_required :: "(string \<Rightarrow> string) \<Rightarrow> labels \<Rightarrow> string list \<Rightarrow> labels" where
  "add_required name names [] = names"
| "add_required name names (role # roles) =
     (if sget names role = '''' then add_required name (gput role (name role) names) roles
      else add_required name names roles)"

definition requiredRoles :: "Scenario \<Rightarrow> string list" where
  "requiredRoles input =
     (if sc_Pattern input = ''co_occurrence'' then requiredCoOccurrenceRoles input
      else if sc_Pattern input = ''sequence'' then [''login_failure'', ''privileged_command'']
      else if sc_Pattern input = ''parent_child'' then [''parent'', ''child'']
      else [])"

section \<open>The control exclusion (no\_match.go)\<close>

definition fixture_name :: "criteria \<Rightarrow> string" where
  "fixture_name m =
     (case map_of m ''match'' of
        Some (AnyLabels match) \<Rightarrow> if length match = 1 then sget match ''alertname'' else ''''
      | Some (AnyMap match) \<Rightarrow>
          if length match = 1
          then (case map_of match ''alertname'' of Some (AnyString s) \<Rightarrow> s | _ \<Rightarrow> '''') else ''''
      | _ \<Rightarrow> '''')"

definition fixture_check :: "AlertPlan \<Rightarrow> CasePlan \<Rightarrow> CompileError option" where
  "fixture_check alert fixture =
     (let rule = cl_Rule fixture; name = fixture_name (rp_MatchCriteria rule)
      in first_error
        [err_if (rp_Pattern rule \<noteq> ''flood'' \<or> length (rp_MatchCriteria rule) \<noteq> 2 \<or>
                 map_of (rp_MatchCriteria rule) ''min_count'' = None) (ControlUnprovable (rp_Name rule)),
         err_if (name = '''' \<or> ap_Name alert = name) (ControlOverlap (rp_Name rule))])"

fun control_alerts ::
  "Plan \<Rightarrow> string set \<Rightarrow> string set \<Rightarrow> AlertPlan list \<Rightarrow> CompileError option" where
  "control_alerts plan seen seenSources [] = None"
| "control_alerts plan seen seenSources (alert # alerts) =
     (let eventID = sget (ap_Labels alert) ''oscar_test_event_id'';
          sourceKey = ap_Name alert @ nul @ ap_Source alert
      in if eventID = '''' \<or> eventID \<in> seen \<or> sourceKey \<in> seenSources then Some ControlUniqueInputs
         else if ap_Name alert = '''' \<or> sget (ap_Labels alert) ''alertname'' \<noteq> ap_Name alert \<or>
           ap_Source alert = '''' \<or> ap_EpisodeOffset alert = None \<or> ap_Status alert \<noteq> ''firing''
         then Some ControlIncomplete
         else case first_error (map (fixture_check alert) (pl_Cases plan)) of
             Some e \<Rightarrow> Some e
           | None \<Rightarrow> control_alerts plan (insert eventID seen) (insert sourceKey seenSources) alerts)"

definition control_case :: "Plan \<Rightarrow> CasePlan \<Rightarrow> CompileError option" where
  "control_case plan item =
     (if cl_Control item = '''' then None
      else first_error
        [err_if (cl_Control item \<noteq> ''downstream-unmatched'' \<or> pl_Pattern plan \<noteq> ''flood'' \<or>
                 cl_Code item \<noteq> ''N01'') UnsupportedControl,
         err_if (cl_Alerts item = []) ControlWithoutInputs,
         control_alerts plan {} {} (cl_Alerts item)])"

definition ValidateControlExclusion :: "Plan \<Rightarrow> CompileError option" where
  "ValidateControlExclusion plan = first_error (map (control_case plan) (pl_Cases plan))"

section \<open>Alerts\<close>

record alert_scan =
  al_activeByRole :: "(string, labels) gomap"
  al_retainedSources :: "(string, labels) gomap"
  al_episodeOffsets :: "(string, duration) gomap"
  al_eventSequence :: nat
  al_Alerts :: "AlertPlan list"

definition no_alerts :: alert_scan where
  "no_alerts = \<lparr>al_activeByRole = [], al_retainedSources = [], al_episodeOffsets = [],
     al_eventSequence = 0, al_Alerts = []\<rparr>"

text \<open>What the loop over the events of a case knows besides the scan state.\<close>

record case_frame =
  fr_run :: Run
  fr_input :: Scenario
  fr_source :: Case
  fr_ruleName :: string
  fr_names :: labels
  fr_patternCode :: string
  fr_caseCode :: string
  fr_short :: string
  fr_trigger :: string
  fr_count :: nat
  fr_window :: duration

definition resolved_status :: "Event \<Rightarrow> bool" where
  "resolved_status event \<longleftrightarrow> equal_fold (ev_Status event) ''resolved''"

text \<open>The labels of an alert before its name is set, and the new event sequence.\<close>

definition alert_labels :: "case_frame \<Rightarrow> alert_scan \<Rightarrow> Event \<Rightarrow> CompileError + (labels \<times> nat)" where
  "alert_labels f s event =
     (let key = IdentityKey event; source = fr_source f
      in if resolved_status event then
           (case map_of (al_activeByRole s) key of
              None \<Rightarrow> Inl (ResolvesWithoutFiring (cs_Name source) (ev_Role event))
            | Some active \<Rightarrow>
                if ev_Labels event \<noteq> [] then Inl (ResolutionChangesLabels (cs_Name source) (ev_Role event))
                else Inr (active, al_eventSequence s))
         else if ev_Source event \<noteq> '''' \<and> map_of (al_retainedSources s) key \<noteq> None then
           Inr (the (map_of (al_retainedSources s) key), al_eventSequence s)
         else
           (let seq = Suc (al_eventSequence s);
                base = merge_into (identityLabels (fr_run f) (fr_input f) source (fr_ruleName f)
                         ''source'' (ev_Role event)) (cs_Labels source)
            in case find IsReservedLabel (map fst (ev_Labels event)) of
                 Some reserved \<Rightarrow> Inl (EventReservedLabel (cs_Name source) reserved)
               | None \<Rightarrow> Inr
                   (gput ''oscar_test_event_index'' (itoa (int seq))
                     (gput ''oscar_test_event_id'' (run_ID (fr_run f) @ ''-'' @ fr_caseCode f @ ''-'' @ pad3 seq)
                       (merge_into base (ev_Labels event))), seq)))"

definition alert_name :: "case_frame \<Rightarrow> Event \<Rightarrow> string" where
  "alert_name f event =
     (if cs_Control (fr_source f) = ''downstream-unmatched''
      then physicalName (fr_patternCode f) (fr_caseCode f) ''unmatched_control'' (fr_short f)
      else sget (fr_names f) (ev_Role event))"

definition alert_summary :: "case_frame \<Rightarrow> nat \<Rightarrow> string" where
  "alert_summary f index =
     ''[CORRTEST]['' @ sc_Pattern (fr_input f) @ '']['' @ fr_trigger f @ '']['' @ fr_short f @ ''] '' @
     cs_Name (fr_source f) @ '': source alert '' @ itoa (int index + 1) @ '' of '' @ itoa (int (fr_count f))"

definition alert_step :: "case_frame \<Rightarrow> alert_scan \<Rightarrow> nat \<times> Event \<Rightarrow> CompileError + alert_scan" where
  "alert_step f s = (\<lambda>(index, event).
     case alert_labels f s event of
       Inl e \<Rightarrow> Inl e
     | Inr (unnamed, seq) \<Rightarrow>
         let key = IdentityKey event; named = ev_Source event \<noteq> '''';
             fires = \<not> resolved_status event; name = alert_name f event;
             ls = gput ''alertname'' name unnamed;
             offsets = (if fires \<and> named then gput key (ev_Delay event) (al_episodeOffsets s)
                        else al_episodeOffsets s);
             summary = alert_summary f index;
             alert = \<lparr>ap_Source = ev_Source event, ap_Name = name, ap_Status = ev_Status event,
               ap_Labels = ls,
               ap_Annotations =
                 [(''oscar_test_event_id'', sget ls ''oscar_test_event_id''),
                  (''oscar_test_event_index'', sget ls ''oscar_test_event_index''),
                  (''oscar_test_attempt_index'', itoa (int index + 1)),
                  (''summary'', summary), (''description'', summary)],
               ap_Delay = ev_Delay event,
               ap_EpisodeOffset =
                 (if named then Some (case map_of offsets key of None \<Rightarrow> 0 | Some d \<Rightarrow> d) else None),
               ap_StartsAt = 0, ap_EndsAt = 0\<rparr>
         in if fr_window f < ev_Delay event \<or> sc_MaxDuration (fr_input f) < ev_Delay event
            then Inl (DelayBudget (cs_Name (fr_source f)))
            else Inr \<lparr>
              al_activeByRole =
                (if fires then gput key ls (al_activeByRole s) else gdel key (al_activeByRole s)),
              al_retainedSources =
                (if fires \<and> named then gput key ls (al_retainedSources s) else al_retainedSources s),
              al_episodeOffsets = offsets,
              al_eventSequence = seq,
              al_Alerts = al_Alerts s @ [alert]\<rparr>)"

section \<open>Cases\<close>

definition case_limits :: "Case \<Rightarrow> Event list \<Rightarrow> CompileError option" where
  "case_limits source events = first_error
     ([err_if (length events < 1 \<or> MaxEvents < length events \<or> cs_Window source \<le> 0 \<or>
               MaxCaseWindow < cs_Window source) (CaseBudget (cs_Name source)),
       err_if (list_ex (\<lambda>(key, _). IsReservedLabel key) (cs_Labels source)) (CaseReservedLabel (cs_Name source)),
       err_if (MaxNotifierNames < length (cs_SuppressForNotifiers source) \<or>
               MaxNotifierNames < length (cs_TagForNotifiers source)) (CaseNotifierBudget (cs_Name source))] @
      map (\<lambda>notifier. err_if (trim_space notifier \<noteq> notifier \<or> notifier = '''' \<or>
             MaxNotifierNameLength < length notifier) (CaseNotifierName (cs_Name source)))
        (cs_SuppressForNotifiers source @ cs_TagForNotifiers source))"

definition case_frame_of :: "Run \<Rightarrow> Scenario \<Rightarrow> string \<Rightarrow> Case \<Rightarrow> Event list \<Rightarrow> case_frame" where
  "case_frame_of run input patternCode source events =
     (let caseCode = to_upper (cs_Code source); short = to_upper (run_ShortToken run);
          name = (\<lambda>role. physicalName patternCode caseCode role short)
      in \<lparr>fr_run = run, fr_input = input, fr_source = source,
          fr_ruleName = ''corrtest-'' @ sc_Pattern input @ ''-'' @ to_lower caseCode @ ''-'' @ to_lower short,
          fr_names = add_required name (event_names name [] events) (requiredRoles input),
          fr_patternCode = patternCode, fr_caseCode = caseCode, fr_short = short,
          fr_trigger = (if cs_Polarity source = ''negative'' then ''NON-TRIGGER'' else ''TRIGGER''),
          fr_count = length events,
          fr_window = (if sc_Pattern input = ''absence'' then 55 * second
                       else cs_Window source + 15 * second)\<rparr>)"

definition synthetic_name :: "case_frame \<Rightarrow> string" where
  "synthetic_name f =
     (if sc_Pattern (fr_input f) = ''parent_child'' then ''''
      else physicalName (fr_patternCode f) (fr_caseCode f) ''synthetic'' (fr_short f))"

definition rule_plan :: "case_frame \<Rightarrow> RulePlan" where
  "rule_plan f =
     (let source = fr_source f; input = fr_input f;
          summary = ''[CORRTEST]['' @ sc_Pattern input @ '']['' @ fr_trigger f @ '']['' @ fr_short f @ ''] '' @
            cs_Name source @ '': correlation parent''
      in \<lparr>rp_Name = fr_ruleName f, rp_Pattern = sc_Pattern input,
          rp_WindowSeconds = cs_Window source div second, rp_GroupBy = cs_GroupBy source,
          rp_MatchCriteria = matchCriteria (sc_Pattern input) (fr_names f) source,
          rp_EmitAlertName = synthetic_name f,
          rp_EmitLabels = identityLabels (fr_run f) input source (fr_ruleName f) ''synthetic'' ''synthetic_parent'',
          rp_EmitAnnotations =
            (if synthetic_name f \<noteq> '''' then [(''summary'', summary), (''description'', summary)] else []),
          rp_Description = ''Temporary OSCAR correlation test rule; run='' @ run_ID (fr_run f) @
            '' scenario='' @ sc_Name input @ '' case='' @ cs_Name source\<rparr>)"

definition inspection_of :: "case_frame \<Rightarrow> AlertPlan list \<Rightarrow> Inspection" where
  "inspection_of f alerts =
     (let prefix = ''CORRTEST_'' @ fr_patternCode f @ ''_'' @ fr_caseCode f; rid = run_ID (fr_run f)
      in \<lparr>in_ExactRun = rid, in_AlertNamePrefix = prefix,
          in_AlertNames = uniqueNames (fr_names f) @
            (if cs_Control (fr_source f) = ''downstream-unmatched'' then [ap_Name (alerts ! 0)] else []) @
            (if synthetic_name f \<noteq> '''' then [synthetic_name f] else []),
          in_RuleName = fr_ruleName f,
          in_Filters =
            [(''exactRun'', ''oscar_test_run_id = '' @ rid),
             (''pattern'', ''category = corrtest_'' @ sc_Pattern (fr_input f)),
             (''case'', ''oscar_test_run_id = '' @ rid @ '' AND oscar_test_case_code = '' @ fr_caseCode f),
             (''nameFallback'', ''alertname contains '' @ prefix)]\<rparr>)"

definition compile_case :: "Run \<Rightarrow> Scenario \<Rightarrow> string \<Rightarrow> Case \<Rightarrow> CompileError + CasePlan" where
  "compile_case run input patternCode source =
     (let events = source_events source; f = case_frame_of run input patternCode source events
      in case case_limits source events of
           Some e \<Rightarrow> Inl e
         | None \<Rightarrow>
             (case foldE (alert_step f) no_alerts (List.enumerate 0 events) of
                Inl e \<Rightarrow> Inl e
              | Inr s \<Rightarrow> Inr
                  \<lparr>cl_Control = cs_Control source, cl_EpisodeBase = 0, cl_Name = cs_Name source,
                   cl_Code = fr_caseCode f, cl_Polarity = cs_Polarity source, cl_Rule = rule_plan f,
                   cl_Alerts = al_Alerts s, cl_Checkpoints = cs_Checkpoints source,
                   cl_Assertions = cs_Assertions source, cl_ObservationWindow = fr_window f,
                   cl_Inspection = inspection_of f (al_Alerts s)\<rparr>))"

section \<open>Compile\<close>

fun webhook_events :: "string set \<Rightarrow> Event list \<Rightarrow> CompileError option" where
  "webhook_events seen [] = None"
| "webhook_events seen (event # events) =
     (if ev_Source event = '''' \<or> ev_Status event \<noteq> ''firing'' \<or> ev_Source event \<in> seen
      then Some WebhookUniqueFiring
      else webhook_events (insert (ev_Source event) seen) events)"

definition webhook_check :: "Scenario \<Rightarrow> CompileError option" where
  "webhook_check input = first_error
     (err_if (sc_Pattern input \<noteq> ''flood'') WebhookOnlyFlood #
      map (\<lambda>item. first_error
        [err_if (cs_Events item = []) WebhookNamedSources, webhook_events {} (cs_Events item)])
        (sc_Cases input))"

definition compile_guard :: "Run \<Rightarrow> Scenario \<Rightarrow> string \<Rightarrow> CompileError option" where
  "compile_guard run input pipelineMode = first_error
     [map_option CompileInvalid (Validate input),
      err_if (sc_InputPath input = ''receiver-admission'') ReceiverAdmissionUnavailable,
      err_if (run_ID run = '''' \<or> length (run_ShortToken run) \<noteq> 8) RunIdentity,
      err_if (pipelineMode \<noteq> ''phase_a_audit_only'' \<and> pipelineMode \<noteq> ''phase_b_dispatch'')
        (PipelineMode pipelineMode),
      err_if (sc_APIVersion input \<noteq> APIVersion \<or> sc_Kind input \<noteq> Kind \<or>
              map_of patternCodes (sc_Pattern input) = None \<or>
              length (sc_Cases input) \<noteq> RequiredCaseCount) IncompleteScenario,
      err_if (sc_MaxDuration input \<le> 0 \<or> MaxScenarioDuration < sc_MaxDuration input) DurationBudget,
      (if sc_InputPath input = ''ordinary-webhook'' then webhook_check input else None)]"

definition add_case :: "Run \<Rightarrow> Scenario \<Rightarrow> string \<Rightarrow> Plan \<Rightarrow> Case \<Rightarrow> CompileError + Plan" where
  "add_case run input patternCode plan source =
     (case compile_case run input patternCode source of
        Inl e \<Rightarrow> Inl e
      | Inr item \<Rightarrow> Inr (plan
          \<lparr>pl_Cases := pl_Cases plan @ [item],
           pl_MutationBudget :=
             \<lparr>mb_Rules = mb_Rules (pl_MutationBudget plan) + 1,
              mb_Alerts = mb_Alerts (pl_MutationBudget plan) + int (length (source_events source))\<rparr>\<rparr>))"

definition empty_plan :: "Run \<Rightarrow> Scenario \<Rightarrow> Plan" where
  "empty_plan run input =
     \<lparr>pl_APIVersion = sc_APIVersion input, pl_Scenario = sc_Name input, pl_Suite = sc_Suite input,
      pl_Pattern = sc_Pattern input,
      pl_InputPath = (if sc_InputPath input = ''ordinary-webhook'' then ''ordinary-webhook'' else ''alert-engine''),
      pl_RunID = run_ID run, pl_ShortToken = to_upper (run_ShortToken run),
      pl_MaxDuration = sc_MaxDuration input, pl_MutationBudget = \<lparr>mb_Rules = 0, mb_Alerts = 0\<rparr>,
      pl_Cases = [], pl_Digest = ''''\<rparr>"

definition Compile :: "(Plan \<Rightarrow> string) \<Rightarrow> Run \<Rightarrow> Scenario \<Rightarrow> string \<Rightarrow> CompileError + Plan" where
  "Compile digest run input pipelineMode =
     (case compile_guard run input pipelineMode of
        Some e \<Rightarrow> Inl e
      | None \<Rightarrow>
          (case foldE (add_case run input (sget patternCodes (sc_Pattern input)))
                  (empty_plan run input) (sc_Cases input) of
             Inl e \<Rightarrow> Inl e
           | Inr plan \<Rightarrow>
               (case ValidateControlExclusion plan of
                  Some e \<Rightarrow> Inl e
                | None \<Rightarrow> Inr (plan\<lparr>pl_Digest := digest plan\<rparr>))))"

end
