(* ===== verification/Run_Store.thy ===== *)
theory Run_Store
  imports Run_Domain
begin

text \<open>
  The run ledger of \<^verbatim>\<open>internal/persistence/sqlite\<close> (run\_repository.go, resource\_repository.go,
  execution\_repository.go, input\_attempt.go) and the run half of \<^verbatim>\<open>internal/history\<close>. A table
  is the list of its rows in insertion order; \<^verbatim>\<open>NULL\<close> is the empty string, \<^term>\<open>NoBytes\<close> or
  \<^term>\<open>None\<close>, as the code maps it. A statement fails when it violates the schema of
  migrations/0001\_initial.sql (primary keys, unique and foreign keys, checks); an operation that
  fails at any point returns an error and leaves the store as it was, which is what the rollback
  of its transaction does. A run that rows of the feed and pack tables refer to is pinned.
\<close>

section \<open>Tables\<close>

record CaseRow =
  cr_ID :: string
  cr_RunID :: string
  cr_StableKey :: string
  cr_Pattern :: string
  cr_Name :: string
  cr_Status :: string
  cr_Verdict :: "Verdict option"
  cr_StartedAt :: "time option"
  cr_EndedAt :: "time option"

record AttemptRow =
  at_ID :: string
  at_RunID :: string
  at_CaseID :: string
  at_EventID :: string
  at_EventIndex :: int
  at_PhysicalAlertName :: string
  at_SemanticRole :: string
  at_IdentityLabels :: json
  at_Fingerprint :: string
  at_SendState :: string
  at_InjectionClass :: string
  at_ResponseStatus :: "int option"
  at_CreatedAt :: time
  at_UpdatedAt :: time

record AssertionRow =
  ax_ID :: string
  ax_RunID :: string
  ax_CaseID :: string
  ax_StableKey :: string
  ax_Kind :: string
  ax_ExpectedJSON :: raw
  ax_ObservedJSON :: raw
  ax_Verdict :: "Verdict option"
  ax_Explanation :: string
  ax_ObservationStart :: "time option"
  ax_ObservationEnd :: "time option"

record store =
  st_Ready :: bool
  st_TargetIDs :: "string list"
  st_ScenarioIDs :: "string list"
  st_Pinned :: "string list"
  st_Runs :: "Run list"
  st_Cases :: "CaseRow list"
  st_Events :: "RunEvent list"
  st_Attempts :: "AttemptRow list"
  st_Assertions :: "AssertionRow list"
  st_Resources :: "Resource list"
  st_Artifacts :: "Artifact list"

datatype StoreError =
    DatabaseReadOnly | NotFound | RunInvalid RunError | ConstraintViolation
  | EventIncomplete | EventDetailInvalid | TransitionInvalid RunStatus RunStatus
  | PreflightPlanInvalid | PreflightNotQueued | DocumentsInvalid | PlanIdentityInvalid
  | PlanCaseInvalid | PlanAssertionInvalid nat | PlanAlertInvalid nat
  | CleanupMetadataInvalid | CleanupNotEligible | InputNotActive | DeleteUnsafe
  | ResourceInvalid ResourceError | ResourceNameActive string | AdoptionIncomplete | AdoptionNotEligible
  | DeletionTimeRequired | DeletionNotEligible | CleanupMessageRequired
  | CompletionMetadataInvalid | FactsInvalid FactError | CaseFactUnknown string
  | AssertionFactUnknown string string | AttemptFactUnknown string int | CompletionNotEligible
  | EntropyFailed

text \<open>\<^verbatim>\<open>UPDATE ... WHERE\<close> and its number of affected rows.\<close>

definition update_where :: "('r \<Rightarrow> bool) \<Rightarrow> ('r \<Rightarrow> 'r) \<Rightarrow> 'r list \<Rightarrow> 'r list" where
  "update_where P f rows = map (\<lambda>r. if P r then f r else r) rows"

definition affected :: "('r \<Rightarrow> bool) \<Rightarrow> 'r list \<Rightarrow> nat" where
  "affected P rows = length (filter P rows)"

definition has_run :: "store \<Rightarrow> string \<Rightarrow> bool" where
  "has_run s rid \<longleftrightarrow> list_ex (\<lambda>r. run_ID r = rid) (st_Runs s)"

definition has_case :: "store \<Rightarrow> string \<Rightarrow> bool" where
  "has_case s cid \<longleftrightarrow> list_ex (\<lambda>c. cr_ID c = cid) (st_Cases s)"

section \<open>Runs and events\<close>

text \<open>The checks of the \<^verbatim>\<open>runs\<close> table on a row to insert.\<close>

definition run_insertable :: "store \<Rightarrow> Run \<Rightarrow> bool" where
  "run_insertable s run \<longleftrightarrow>
     \<not> has_run s (run_ID run) \<and>
     \<not> list_ex (\<lambda>r. run_ShortToken r = run_ShortToken run) (st_Runs s) \<and>
     (run_TargetID run = '''' \<or> run_TargetID run \<in> set (st_TargetIDs s)) \<and>
     (run_ScenarioID run = '''' \<or> run_ScenarioID run \<in> set (st_ScenarioIDs s))"

definition CreateRun :: "store \<Rightarrow> Run \<Rightarrow> StoreError + store" where
  "CreateRun s run =
     (if \<not> st_Ready s then Inl DatabaseReadOnly
      else case run_Validate run of
          Some e \<Rightarrow> Inl (RunInvalid e)
        | None \<Rightarrow>
            if run_insertable s run then Inr (s\<lparr>st_Runs := st_Runs s @ [run]\<rparr>)
            else Inl ConstraintViolation)"

definition GetRun :: "store \<Rightarrow> string \<Rightarrow> StoreError + Run" where
  "GetRun s rid =
     (case find (\<lambda>r. run_ID r = rid) (st_Runs s) of None \<Rightarrow> Inl NotFound | Some run \<Rightarrow> Inr run)"

definition run_events :: "store \<Rightarrow> string \<Rightarrow> RunEvent list" where
  "run_events s rid = filter (\<lambda>e. re_RunID e = rid) (st_Events s)"

definition next_sequence :: "store \<Rightarrow> string \<Rightarrow> int" where
  "next_sequence s rid = foldl max 0 (map re_Sequence (run_events s rid)) + 1"

definition appendEvent :: "store \<Rightarrow> RunEvent \<Rightarrow> StoreError + (RunEvent \<times> store)" where
  "appendEvent s event =
     (if re_RunID event = '''' \<or> re_Type event = '''' \<or> re_Level event = '''' \<or> re_OccurredAt event = 0 \<or>
         re_Summary event = '''' then Inl EventIncomplete
      else if raw_present (re_DetailJSON event) \<and> \<not> json_valid (re_DetailJSON event)
      then Inl EventDetailInvalid
      else
        let stored = event\<lparr>re_Sequence := next_sequence s (re_RunID event)\<rparr>
        in if has_run s (re_RunID event) \<and> (re_CaseID event = '''' \<or> has_case s (re_CaseID event))
           then Inr (stored, s\<lparr>st_Events := st_Events s @ [stored]\<rparr>)
           else Inl ConstraintViolation)"

definition AppendRunEvent :: "store \<Rightarrow> RunEvent \<Rightarrow> StoreError + (RunEvent \<times> store)" where
  "AppendRunEvent s event = (if \<not> st_Ready s then Inl DatabaseReadOnly else appendEvent s event)"

definition ListRunEvents :: "store \<Rightarrow> string \<Rightarrow> RunEvent list" where
  "ListRunEvents s rid = sort_key re_Sequence (run_events s rid)"

text \<open>An event the store writes itself: no case, sequence still unset.\<close>

definition store_event :: "string \<Rightarrow> string \<Rightarrow> string \<Rightarrow> time \<Rightarrow> string \<Rightarrow> raw \<Rightarrow> RunEvent" where
  "store_event rid kind level at summary detail =
     \<lparr>re_RunID = rid, re_CaseID = '''', re_Sequence = 0, re_Type = kind, re_Level = level,
      re_OccurredAt = at, re_Summary = summary, re_DetailJSON = detail\<rparr>"

definition transition_detail :: "RunStatus \<Rightarrow> RunStatus \<Rightarrow> raw" where
  "transition_detail cur next =
     Doc (marshal_strings [(''from'', status_str cur), (''to'', status_str next)])"

definition TransitionRun :: "store \<Rightarrow> string \<Rightarrow> RunStatus \<Rightarrow> time \<Rightarrow> string \<Rightarrow> StoreError + store" where
  "TransitionRun s rid next at summary =
     (if \<not> st_Ready s then Inl DatabaseReadOnly
      else case GetRun s rid of
          Inl e \<Rightarrow> Inl e
        | Inr run \<Rightarrow>
            if \<not> CanTransition (run_Status run) next then Inl (TransitionInvalid (run_Status run) next)
            else
              let s1 = s\<lparr>st_Runs := update_where (\<lambda>r. run_ID r = rid)
                    (\<lambda>r. r\<lparr>run_Status := next, run_UpdatedAt := at\<rparr>) (st_Runs s)\<rparr>
              in map_sum id snd (appendEvent s1 (store_event rid ''run.transition'' ''info'' at summary
                   (transition_detail (run_Status run) next))))"

text \<open>\<^verbatim>\<open>PrepareRunInput\<close> (input\_attempt.go).\<close>

definition PrepareRunInput :: "store \<Rightarrow> string \<Rightarrow> time \<Rightarrow> raw \<Rightarrow> StoreError + store" where
  "PrepareRunInput s rid at detail =
     (let active = (\<lambda>r. run_ID r = rid \<and> run_Status r \<notin> {RunCompleted, RunInterrupted})
      in if \<not> st_Ready s then Inl DatabaseReadOnly
         else if affected active (st_Runs s) \<noteq> 1 then Inl InputNotActive
         else
           let s1 = s\<lparr>st_Runs := update_where active
                 (\<lambda>r. r\<lparr>run_CleanupStatus := CleanupUnknown, run_UpdatedAt := at\<rparr>) (st_Runs s)\<rparr>
           in map_sum id snd (appendEvent s1 (store_event rid ''alert.prepared'' ''info'' at
                ''External input prepared; cleanup responsibility retained'' detail)))"

definition SetTerminalRunCleanup ::
  "store \<Rightarrow> string \<Rightarrow> CleanupStatus \<Rightarrow> time \<Rightarrow> string \<Rightarrow> StoreError + store" where
  "SetTerminalRunCleanup s rid cleanup at summary =
     (let terminal = (\<lambda>r. run_ID r = rid \<and> run_Status r \<in> {RunCompleted, RunInterrupted})
      in if \<not> cleanup_Valid cleanup \<or> at = 0 \<or> summary = '''' then Inl CleanupMetadataInvalid
         else if affected terminal (st_Runs s) \<noteq> 1 then Inl CleanupNotEligible
         else
           let s1 = s\<lparr>st_Runs := update_where terminal
                 (\<lambda>r. r\<lparr>run_CleanupStatus := cleanup, run_UpdatedAt := at\<rparr>) (st_Runs s)\<rparr>
           in map_sum id snd
                (appendEvent s1 (store_event rid ''cleanup.retry'' ''info'' at summary NoBytes)))"

section \<open>Recovery and deletion\<close>

definition recoverable :: "Run \<Rightarrow> bool" where
  "recoverable r \<longleftrightarrow> run_Status r \<notin> {RunInterrupted, RunCompleted} \<or>
     run_Status r = RunCompleted \<and> run_Verdict r = no_verdict"

definition open_resources :: "store \<Rightarrow> string \<Rightarrow> nat" where
  "open_resources s rid = affected (\<lambda>r. rs_RunID r = rid \<and> rs_DeletedAt r = None) (st_Resources s)"

definition recovered_cleanup :: "store \<Rightarrow> Run \<Rightarrow> CleanupStatus" where
  "recovered_cleanup s item =
     (if 0 < open_resources s (run_ID item) \<or> PossibleAlertInputs item (ListRunEvents s (run_ID item))
      then CleanupUnknown else CleanupNotRequired)"

definition interrupt_run :: "time \<Rightarrow> store \<Rightarrow> Run \<Rightarrow> StoreError + store" where
  "interrupt_run at s item =
     (let cleanup = recovered_cleanup s item;
          s1 = s\<lparr>st_Runs := update_where (\<lambda>r. run_ID r = run_ID item)
            (\<lambda>r. r\<lparr>run_Status := RunInterrupted, run_CleanupStatus := cleanup, run_UpdatedAt := at\<rparr>)
            (st_Runs s)\<rparr>
      in map_sum id snd (appendEvent s1 (store_event (run_ID item) ''run.interrupted'' ''warning'' at
           ''Run interrupted by process restart''
           (Doc (marshal_strings [(''previousStatus'', status_str (run_Status item))])))))"

definition RecoverInterruptedRuns :: "store \<Rightarrow> time \<Rightarrow> StoreError + (nat \<times> store)" where
  "RecoverInterruptedRuns s at =
     (if \<not> st_Ready s then Inl DatabaseReadOnly
      else
        let active = sort_key run_ID (filter recoverable (st_Runs s))
        in map_sum id (\<lambda>t. (length active, t)) (foldE (interrupt_run at) s active))"

definition DeleteTerminalRun :: "store \<Rightarrow> string \<Rightarrow> StoreError + store" where
  "DeleteTerminalRun s rid =
     (case GetRun s rid of
        Inl e \<Rightarrow> Inl e
      | Inr run \<Rightarrow>
          if run_Status run \<noteq> RunCompleted \<and> run_Status run \<noteq> RunInterrupted \<or>
             \<not> verdict_Valid (run_Verdict run) \<or>
             run_CleanupStatus run \<noteq> CleanupClean \<and> run_CleanupStatus run \<noteq> CleanupNotRequired
          then Inl DeleteUnsafe
          else if rid \<in> set (st_Pinned s) then Inl ConstraintViolation
          else Inr (s
            \<lparr>st_Assertions := filter (\<lambda>x. ax_RunID x \<noteq> rid) (st_Assertions s),
             st_Attempts := filter (\<lambda>x. at_RunID x \<noteq> rid) (st_Attempts s),
             st_Artifacts := filter (\<lambda>x. af_RunID x \<noteq> rid) (st_Artifacts s),
             st_Events := filter (\<lambda>x. re_RunID x \<noteq> rid) (st_Events s),
             st_Cases := filter (\<lambda>x. cr_RunID x \<noteq> rid) (st_Cases s),
             st_Resources := filter (\<lambda>x. rs_RunID x \<noteq> rid) (st_Resources s),
             st_Runs := filter (\<lambda>x. run_ID x \<noteq> rid) (st_Runs s)\<rparr>))"

section \<open>Resources\<close>

definition CreateResource :: "store \<Rightarrow> Resource \<Rightarrow> StoreError + store" where
  "CreateResource s resource =
     (case resource_Validate resource of
        Some e \<Rightarrow> Inl (ResourceInvalid e)
      | None \<Rightarrow>
          if affected (\<lambda>r. rs_ExternalName r = rs_ExternalName resource \<and> rs_DeletedAt r = None) (st_Resources s) \<noteq> 0
          then Inl (ResourceNameActive (rs_ExternalName resource))
          else if has_run s (rs_RunID resource) \<and> \<not> list_ex (\<lambda>r. rs_ID r = rs_ID resource) (st_Resources s)
          then Inr (s\<lparr>st_Resources := st_Resources s @ [resource]\<rparr>)
          else Inl ConstraintViolation)"

definition AdoptResource :: "store \<Rightarrow> string \<Rightarrow> string \<Rightarrow> time \<Rightarrow> StoreError + store" where
  "AdoptResource s rid externalID at =
     (let eligible = (\<lambda>r. rs_ID r = rid \<and> rs_LifecycleState r \<in> {ResourceProposed, ResourceUnknown} \<and>
            rs_ExternalID r = '''')
      in if externalID = '''' \<or> at = 0 then Inl AdoptionIncomplete
         else if affected eligible (st_Resources s) \<noteq> 1 then Inl AdoptionNotEligible
         else Inr (s\<lparr>st_Resources := update_where eligible
           (\<lambda>r. r\<lparr>rs_ExternalID := externalID, rs_LifecycleState := ResourceCreated,
                  rs_CreatedAt := Some at, rs_CleanupError := ''''\<rparr>) (st_Resources s)\<rparr>))"

definition MarkResourceDeleted :: "store \<Rightarrow> string \<Rightarrow> time \<Rightarrow> StoreError + store" where
  "MarkResourceDeleted s rid at =
     (let eligible = (\<lambda>r. rs_ID r = rid \<and>
            rs_LifecycleState r \<in> {ResourceProposed, ResourceCreated, ResourceUnknown})
      in if at = 0 then Inl DeletionTimeRequired
         else if affected eligible (st_Resources s) \<noteq> 1 then Inl DeletionNotEligible
         else Inr (s\<lparr>st_Resources := update_where eligible
           (\<lambda>r. r\<lparr>rs_LifecycleState := ResourceDeleted, rs_DeletedAt := Some at, rs_CleanupError := ''''\<rparr>)
           (st_Resources s)\<rparr>))"

definition MarkResourceCleanupError :: "store \<Rightarrow> string \<Rightarrow> string \<Rightarrow> StoreError + store" where
  "MarkResourceCleanupError s rid message =
     (if message = '''' then Inl CleanupMessageRequired
      else Inr (s\<lparr>st_Resources := update_where (\<lambda>r. rs_ID r = rid \<and> rs_DeletedAt r = None)
        (\<lambda>r. r\<lparr>rs_LifecycleState := ResourceUnknown, rs_CleanupError := message\<rparr>) (st_Resources s)\<rparr>))"

definition ListResources :: "store \<Rightarrow> string \<Rightarrow> Resource list" where
  "ListResources s rid = sort_key rs_ID (filter (\<lambda>r. rs_RunID r = rid) (st_Resources s))"

section \<open>Execution documents\<close>

text \<open>\<^verbatim>\<open>SetOrdinaryPreflightPlan\<close> saves a plan on a queued run that has none.\<close>

definition SetOrdinaryPreflightPlan :: "store \<Rightarrow> string \<Rightarrow> raw \<Rightarrow> time \<Rightarrow> StoreError + store" where
  "SetOrdinaryPreflightPlan s rid plan at =
     (let eligible = (\<lambda>r. run_ID r = rid \<and> run_Status r = RunQueued \<and> run_CompiledPlanJSON r = NoBytes)
      in if \<not> st_Ready s then Inl DatabaseReadOnly
         else if unmarshal_field ''runId'' decode_string '''' plan \<noteq> Some rid \<or>
           unmarshal_field ''inputPath'' decode_string '''' plan \<noteq> Some ''ordinary-webhook'' \<or> at = 0
         then Inl PreflightPlanInvalid
         else if affected eligible (st_Runs s) \<noteq> 1 then Inl PreflightNotQueued
         else Inr (s\<lparr>st_Runs := update_where eligible
           (\<lambda>r. r\<lparr>run_CompiledPlanJSON := plan, run_UpdatedAt := at\<rparr>) (st_Runs s)\<rparr>))"

record plan_alert =
  pa_Name :: string
  pa_Labels :: labels
  pa_Annotations :: labels

record plan_case =
  pc_Name :: string
  pc_Code :: string
  pc_Assertions :: "json list"
  pc_Alerts :: "plan_alert list"

fun decode_all :: "(json \<Rightarrow> 'a option) \<Rightarrow> json list \<Rightarrow> 'a list option" where
  "decode_all d [] = Some []"
| "decode_all d (j # js) =
     (case (d j, decode_all d js) of (Some x, Some xs) \<Rightarrow> Some (x # xs) | _ \<Rightarrow> None)"

fun decode_list :: "(json \<Rightarrow> 'a option) \<Rightarrow> json \<Rightarrow> 'a list \<Rightarrow> 'a list option" where
  "decode_list d JNull old = Some []"
| "decode_list d (JArray js) old = decode_all d js"
| "decode_list d _ old = None"

definition decode_plan_alert :: "json \<Rightarrow> plan_alert option" where
  "decode_plan_alert j =
     (case (unmarshal_field ''name'' decode_string '''' (Doc j),
            unmarshal_field ''labels'' decode_string_map [] (Doc j),
            unmarshal_field ''annotations'' decode_string_map [] (Doc j)) of
        (Some name, Some ls, Some annotations) \<Rightarrow>
          Some \<lparr>pa_Name = name, pa_Labels = ls, pa_Annotations = annotations\<rparr>
      | _ \<Rightarrow> None)"

definition decode_plan_case :: "json \<Rightarrow> plan_case option" where
  "decode_plan_case j =
     (case (unmarshal_field ''name'' decode_string '''' (Doc j),
            unmarshal_field ''code'' decode_string '''' (Doc j),
            unmarshal_field ''assertions'' (decode_list Some) [] (Doc j),
            unmarshal_field ''alerts'' (decode_list decode_plan_alert) [] (Doc j)) of
        (Some name, Some code, Some assertions, Some alerts) \<Rightarrow>
          Some \<lparr>pc_Name = name, pc_Code = code, pc_Assertions = assertions, pc_Alerts = alerts\<rparr>
      | _ \<Rightarrow> None)"

definition decode_plan :: "raw \<Rightarrow> (string \<times> string \<times> plan_case list) option" where
  "decode_plan plan =
     (case (unmarshal_field ''runId'' decode_string '''' plan,
            unmarshal_field ''pattern'' decode_string '''' plan,
            unmarshal_field ''cases'' (decode_list decode_plan_case) [] plan) of
        (Some rid, Some pattern, Some cases) \<Rightarrow> Some (rid, pattern, cases)
      | _ \<Rightarrow> None)"

definition index_str :: "nat \<Rightarrow> string" where
  "index_str i = itoa (int i + 1)"

definition add_assertion ::
  "string \<Rightarrow> string \<Rightarrow> store \<Rightarrow> nat \<times> json \<Rightarrow> StoreError + store" where
  "add_assertion rid caseID s = (\<lambda>(i, assertion).
     case unmarshal_field ''kind'' decode_string '''' (Doc assertion) of
       None \<Rightarrow> Inl (PlanAssertionInvalid i)
     | Some kind \<Rightarrow>
         if kind = '''' then Inl (PlanAssertionInvalid i)
         else
           let row = \<lparr>ax_ID = caseID @ '':assertion:'' @ index_str i, ax_RunID = rid, ax_CaseID = caseID,
                 ax_StableKey = kind @ '':'' @ index_str i, ax_Kind = kind, ax_ExpectedJSON = Doc assertion,
                 ax_ObservedJSON = NoBytes, ax_Verdict = None, ax_Explanation = '''',
                 ax_ObservationStart = None, ax_ObservationEnd = None\<rparr>
           in if list_ex (\<lambda>x. ax_ID x = ax_ID row \<or> ax_CaseID x = caseID \<and> ax_StableKey x = ax_StableKey row)
                (st_Assertions s) then Inl ConstraintViolation
              else Inr (s\<lparr>st_Assertions := st_Assertions s @ [row]\<rparr>))"

definition add_attempt ::
  "string \<Rightarrow> string \<Rightarrow> time \<Rightarrow> store \<Rightarrow> nat \<times> plan_alert \<Rightarrow> StoreError + store" where
  "add_attempt rid caseID at s = (\<lambda>(i, alert).
     let annotated = sget (pa_Annotations alert) ''oscar_test_event_id'';
         row = \<lparr>at_ID = caseID @ '':attempt:'' @ index_str i, at_RunID = rid, at_CaseID = caseID,
           at_EventID = (if annotated = '''' then caseID @ '':event:'' @ index_str i else annotated),
           at_EventIndex = int i + 1, at_PhysicalAlertName = pa_Name alert,
           at_SemanticRole = sget (pa_Labels alert) ''oscar_test_alert_role'',
           at_IdentityLabels = marshal_strings (pa_Labels alert), at_Fingerprint = '''',
           at_SendState = ''PLANNED'', at_InjectionClass = '''', at_ResponseStatus = None,
           at_CreatedAt = at, at_UpdatedAt = at\<rparr>
     in if pa_Name alert = '''' then Inl (PlanAlertInvalid i)
        else if list_ex (\<lambda>x. at_ID x = at_ID row) (st_Attempts s) then Inl ConstraintViolation
        else Inr (s\<lparr>st_Attempts := st_Attempts s @ [row]\<rparr>))"

definition add_plan_case ::
  "string \<Rightarrow> string \<Rightarrow> time \<Rightarrow> store \<Rightarrow> plan_case \<Rightarrow> StoreError + store" where
  "add_plan_case rid pattern at s item =
     (let caseID = rid @ '':case:'' @ pc_Code item;
          row = \<lparr>cr_ID = caseID, cr_RunID = rid, cr_StableKey = pc_Code item, cr_Pattern = pattern,
            cr_Name = pc_Name item, cr_Status = ''PLANNED'', cr_Verdict = None,
            cr_StartedAt = None, cr_EndedAt = None\<rparr>
      in if pc_Code item = '''' \<or> pc_Name item = '''' then Inl PlanCaseInvalid
         else if has_case s caseID \<or>
           list_ex (\<lambda>c. cr_RunID c = rid \<and> cr_StableKey c = pc_Code item) (st_Cases s) then Inl ConstraintViolation
         else case foldE (add_assertion rid caseID) (s\<lparr>st_Cases := st_Cases s @ [row]\<rparr>)
                     (List.enumerate 0 (pc_Assertions item)) of
             Inl e \<Rightarrow> Inl e
           | Inr s1 \<Rightarrow> foldE (add_attempt rid caseID at) s1 (List.enumerate 0 (pc_Alerts item)))"

definition SetRunExecutionDocuments ::
  "store \<Rightarrow> string \<Rightarrow> raw \<Rightarrow> raw \<Rightarrow> time \<Rightarrow> StoreError + store" where
  "SetRunExecutionDocuments s rid capabilities plan at =
     (if \<not> json_valid capabilities \<or> \<not> json_valid plan \<or> at = 0 then Inl DocumentsInvalid
      else case decode_plan plan of
          None \<Rightarrow> Inl PlanIdentityInvalid
        | Some (planRun, pattern, cases) \<Rightarrow>
            if planRun \<noteq> rid \<or> pattern = '''' then Inl PlanIdentityInvalid
            else if affected (\<lambda>r. run_ID r = rid) (st_Runs s) \<noteq> 1 then Inl NotFound
            else foldE (add_plan_case rid pattern at)
              (s\<lparr>st_Runs := update_where (\<lambda>r. run_ID r = rid)
                 (\<lambda>r. r\<lparr>run_CapabilitySnapshotJSON := capabilities, run_CompiledPlanJSON := plan,
                   run_StartedAt := (case run_StartedAt r of None \<Rightarrow> Some at | started \<Rightarrow> started),
                   run_UpdatedAt := at\<rparr>) (st_Runs s)\<rparr>) cases)"

section \<open>Completion (execution\_repository.go)\<close>

definition finalize_assertion ::
  "string \<Rightarrow> string \<Rightarrow> store \<Rightarrow> AssertionFact \<Rightarrow> StoreError + store" where
  "finalize_assertion rid caseKey s reported =
     (let matches = (\<lambda>x. ax_RunID x = rid \<and> ax_CaseID x = rid @ '':case:'' @ caseKey \<and>
            ax_StableKey x = xf_StableKey reported \<and> ax_Kind x = xf_Kind reported \<and> ax_Verdict x = None)
      in if affected matches (st_Assertions s) \<noteq> 1 then Inl (AssertionFactUnknown caseKey (xf_StableKey reported))
         else Inr (s\<lparr>st_Assertions := update_where matches
           (\<lambda>x. x\<lparr>ax_ExpectedJSON := xf_ExpectedJSON reported, ax_ObservedJSON := xf_ObservedJSON reported,
             ax_Verdict := Some (xf_Verdict reported), ax_Explanation := xf_Explanation reported,
             ax_ObservationStart := Some (xf_ObservationStart reported),
             ax_ObservationEnd := Some (xf_ObservationEnd reported)\<rparr>) (st_Assertions s)\<rparr>))"

definition finalize_case :: "string \<Rightarrow> store \<Rightarrow> CaseFact \<Rightarrow> StoreError + store" where
  "finalize_case rid s reported =
     (let matches = (\<lambda>c. cr_RunID c = rid \<and> cr_StableKey c = cf_StableKey reported \<and> cr_Status c = ''PLANNED'')
      in if affected matches (st_Cases s) \<noteq> 1 then Inl (CaseFactUnknown (cf_StableKey reported))
         else foldE (finalize_assertion rid (cf_StableKey reported))
           (s\<lparr>st_Cases := update_where matches
              (\<lambda>c. c\<lparr>cr_Status := ''COMPLETED'', cr_Verdict := Some (cf_Verdict reported),
                cr_StartedAt := Some (cf_StartedAt reported), cr_EndedAt := Some (cf_EndedAt reported)\<rparr>) (st_Cases s)\<rparr>)
           (cf_Assertions reported))"

definition finalize_attempt :: "string \<Rightarrow> time \<Rightarrow> store \<Rightarrow> AlertAttemptFact \<Rightarrow> StoreError + store" where
  "finalize_attempt rid at s reported =
     (let matches = (\<lambda>x. at_RunID x = rid \<and> at_CaseID x = rid @ '':case:'' @ aa_CaseStableKey reported \<and>
            at_EventID x = aa_EventID reported \<and> at_EventIndex x = aa_EventIndex reported \<and> at_SendState x = ''PLANNED'')
      in if affected matches (st_Attempts s) \<noteq> 1
         then Inl (AttemptFactUnknown (aa_CaseStableKey reported) (aa_EventIndex reported))
         else Inr (s\<lparr>st_Attempts := update_where matches
           (\<lambda>x. x\<lparr>at_Fingerprint := aa_Fingerprint reported, at_SendState := aa_SendState reported,
             at_InjectionClass := aa_InjectionClass reported, at_ResponseStatus := Some (aa_StatusCode reported),
             at_UpdatedAt := at\<rparr>) (st_Attempts s)\<rparr>))"

definition fallback_verdict :: "Verdict \<Rightarrow> Verdict" where
  "fallback_verdict verdict = (if verdict = VerdictInconclusive then VerdictSkipped else VerdictError)"

definition not_evaluated :: raw where
  "not_evaluated = Doc (JObject [(''reason'', JString ''not evaluated'')])"

text \<open>The three updates of everything the facts did not mention.\<close>

definition finalize_rest :: "string \<Rightarrow> Verdict \<Rightarrow> time \<Rightarrow> store \<Rightarrow> store" where
  "finalize_rest rid fallback at s = s
     \<lparr>st_Cases := update_where (\<lambda>c. cr_RunID c = rid \<and> cr_Status c = ''PLANNED'')
        (\<lambda>c. c\<lparr>cr_Status := ''COMPLETED'', cr_Verdict := Some fallback,
          cr_StartedAt := (case cr_StartedAt c of None \<Rightarrow> Some at | started \<Rightarrow> started),
          cr_EndedAt := Some at\<rparr>) (st_Cases s),
      st_Assertions := update_where (\<lambda>x. ax_RunID x = rid \<and> ax_Verdict x = None)
        (\<lambda>x. x\<lparr>ax_ObservedJSON := not_evaluated, ax_Verdict := Some fallback,
          ax_Explanation := ''run ended before assertion evaluation'',
          ax_ObservationStart := Some at, ax_ObservationEnd := Some at\<rparr>) (st_Assertions s),
      st_Attempts := update_where (\<lambda>x. at_RunID x = rid \<and> at_SendState x = ''PLANNED'')
        (\<lambda>x. x\<lparr>at_SendState := ''NOT_SENT'', at_UpdatedAt := at\<rparr>) (st_Attempts s)\<rparr>"

definition FinalizeRun ::
  "store \<Rightarrow> string \<Rightarrow> ExecutionFacts \<Rightarrow> Verdict \<Rightarrow> CleanupStatus \<Rightarrow> raw \<Rightarrow> string \<Rightarrow> time \<Rightarrow>
   StoreError + store" where
  "FinalizeRun s rid facts verdict cleanup report terminalError at =
     (if \<not> verdict_Valid verdict \<or> \<not> cleanup_Valid cleanup \<or> \<not> json_valid report \<or> at = 0
      then Inl CompletionMetadataInvalid
      else case facts_Validate facts of
          Some e \<Rightarrow> Inl (FactsInvalid e)
        | None \<Rightarrow>
            (case foldE (finalize_case rid) s (ef_Cases facts) of
               Inl e \<Rightarrow> Inl e
             | Inr s1 \<Rightarrow>
                 (case foldE (finalize_attempt rid at) s1 (ef_Attempts facts) of
                    Inl e \<Rightarrow> Inl e
                  | Inr s2 \<Rightarrow>
                      let s3 = finalize_rest rid (fallback_verdict verdict) at s2;
                          eligible = (\<lambda>r. run_ID r = rid \<and> run_Status r = RunCleaningUp)
                      in if affected eligible (st_Runs s3) \<noteq> 1 then Inl CompletionNotEligible
                         else map_sum id snd (appendEvent
                           (s3\<lparr>st_Runs := update_where eligible
                              (\<lambda>r. r\<lparr>run_Status := RunCompleted, run_Verdict := verdict,
                                run_CleanupStatus := cleanup, run_CanonicalReportJSON := report,
                                run_TerminalError := terminalError, run_EndedAt := Some at,
                                run_UpdatedAt := at\<rparr>) (st_Runs s3)\<rparr>)
                           (store_event rid ''run.transition'' ''info'' at ''Run completed''
                              (transition_detail RunCleaningUp RunCompleted))))))"

definition no_facts :: ExecutionFacts where
  "no_facts = \<lparr>ef_Cases = [], ef_Attempts = [], ef_Resolutions = [], ef_Artifacts = []\<rparr>"

definition CompleteRun ::
  "store \<Rightarrow> string \<Rightarrow> Verdict \<Rightarrow> CleanupStatus \<Rightarrow> raw \<Rightarrow> string \<Rightarrow> time \<Rightarrow> StoreError + store" where
  "CompleteRun s rid verdict cleanup report terminalError at =
     FinalizeRun s rid no_facts verdict cleanup report terminalError at"

section \<open>The history service\<close>

text \<open>\<^verbatim>\<open>history.Service.CreateRun\<close>: a fresh queued run under a new identifier.\<close>

definition service_CreateRun ::
  "store \<Rightarrow> 8 word list \<Rightarrow> time \<Rightarrow> string \<Rightarrow> string \<Rightarrow> string \<Rightarrow> StoreError + (Run \<times> store)" where
  "service_CreateRun s random now targetID scenarioID harnessVersion =
     (case NewRunID random of
        None \<Rightarrow> Inl EntropyFailed
      | Some rid \<Rightarrow>
          let run = \<lparr>run_ID = rid, run_ShortToken = Short rid, run_TargetID = targetID,
                run_ScenarioID = scenarioID, run_Status = RunQueued, run_Verdict = no_verdict,
                run_CleanupStatus = CleanupNotRequired, run_HarnessVersion = harnessVersion,
                run_CapabilitySnapshotJSON = NoBytes, run_CompiledPlanJSON = NoBytes,
                run_CanonicalReportJSON = NoBytes, run_StartedAt = None, run_EndedAt = None,
                run_CreatedAt = now, run_UpdatedAt = now, run_TerminalError = ''''\<rparr>
          in map_sum id (\<lambda>t. (run, t)) (CreateRun s run))"

end
