(* ===== verification/Oscar_Types.thy ===== *)
theory Oscar_Types
  imports Go_Format Plan_Compiler Run_Store
begin

text \<open>
  The public types of \<^verbatim>\<open>internal/oscar\<close> (types.go and the evidence of recorded\_injection.go)
  with the JSON the program writes of them and of the facts of
  \<^verbatim>\<open>internal/domain\<close>, and the error values that cross the runner: a text, an error of the
  store, a remote failure, or a wrapped error.
\<close>

section \<open>Errors\<close>

datatype go_error =
    Err string
  | StoreErr StoreError
  | Machine string int string string  \<comment> \<open>operation, HTTP status, code, detail\<close>
  | Wrap string go_error              \<comment> \<open>\<^verbatim>\<open>fmt.Errorf("text: %w", err)\<close>\<close>
  | NotCancelled go_error go_error    \<comment> \<open>the cancellation was not stored; the original error\<close>

text \<open>
  \<^verbatim>\<open>errors.As(err, &remote)\<close> with a \<^verbatim>\<open>*MachineError\<close>: along the wrapped errors, of which a
  failed cancellation wraps the store's one only.
\<close>

fun remote_status :: "go_error \<Rightarrow> int option" where
  "remote_status (Machine operation code kind detail) = Some code"
| "remote_status (Wrap text e) = remote_status e"
| "remote_status (NotCancelled e original) = remote_status e"
| "remote_status _ = None"

text \<open>\<^verbatim>\<open>itoa\<close> of types.go: digits from the right, nothing for a negative value.\<close>

function itoa_digits :: "int \<Rightarrow> string \<Rightarrow> string" where
  "itoa_digits v out =
     (if 0 < v then itoa_digits (v div 10) (char_of (48 + nat (v mod 10)) # out) else out)"
  by pat_completeness auto
termination by (relation "measure (\<lambda>(v, out). nat v)") auto

declare itoa_digits.simps [simp del]

definition oscar_itoa :: "int \<Rightarrow> string" where
  "oscar_itoa v = (if v = 0 then ''0'' else itoa_digits v '''')"

definition machine_text :: "string \<Rightarrow> int \<Rightarrow> string \<Rightarrow> string" where
  "machine_text operation code detail =
     (if code \<noteq> 0
      then operation @ '' failed with HTTP status '' @ oscar_itoa code @ '': '' @ detail
      else operation @ '' failed: '' @ detail)"

text \<open>\<^verbatim>\<open>err.Error()\<close>; the text of a store error, part of which is SQLite's, is a parameter.\<close>

fun err_text :: "(StoreError \<Rightarrow> string) \<Rightarrow> go_error \<Rightarrow> string" where
  "err_text txt (Err s) = s"
| "err_text txt (StoreErr e) = txt e"
| "err_text txt (Machine operation code kind detail) = machine_text operation code detail"
| "err_text txt (Wrap s e) = s @ '': '' @ err_text txt e"
| "err_text txt (NotCancelled e original) =
     ''persist cancellation before cleanup: '' @ err_text txt e @ '' (original error: '' @
     err_text txt original @ '')''"

lemma itoa_digits_nat: "0 < n \<Longrightarrow> itoa_digits (int n) out = nat_str n @ out"
proof (induction n arbitrary: out rule: nat_str.induct)
  case (1 n)
  have step: "itoa_digits (int n) out = itoa_digits (int (n div 10)) (char_of (48 + n mod 10) # out)"
    using "1.prems" by (subst itoa_digits.simps) (simp add: nat_mod_distrib zdiv_int)
  show ?case
  proof (cases "n < 10")
    case True
    then show ?thesis by (simp add: step itoa_digits.simps [of 0])
  next
    case False
    then have "0 < n div 10" by simp
    with False "1.IH" [OF False this] show ?thesis by (simp add: step nat_str_step)
  qed
qed

lemma oscar_itoa_itoa: "0 \<le> v \<Longrightarrow> oscar_itoa v = itoa v"
  using itoa_digits_nat [of "nat v" "[]"] by (cases "v = 0") (auto simp: oscar_itoa_def itoa_def)

lemma oscar_itoa_negative: "v < 0 \<Longrightarrow> oscar_itoa v = ''''"
  by (simp add: oscar_itoa_def itoa_digits.simps [of v])

section \<open>Public types (types.go)\<close>

record Rule =
  ru_ID :: int
  ru_Name :: string
  ru_Pattern :: string
  ru_Description :: string

datatype InjectionClass =
    InjectionAccepted | InjectionForwarded | InjectionRejected | InjectionQueued
  | InjectionPartial | InjectionIndeterminate | InjectionOther string

fun class_str :: "InjectionClass \<Rightarrow> string" where
  "class_str InjectionAccepted = ''accepted''"
| "class_str InjectionForwarded = ''forwarded''"
| "class_str InjectionRejected = ''rejected''"
| "class_str InjectionQueued = ''queued''"
| "class_str InjectionPartial = ''partial''"
| "class_str InjectionIndeterminate = ''indeterminate''"
| "class_str (InjectionOther s) = s"

record InjectionResult =
  ir_Class :: InjectionClass
  ir_StatusCode :: int
  ir_TaskID :: string
  ir_Body :: string

text \<open>\<^verbatim>\<open>InjectionResult{}\<close>.\<close>

definition no_result :: InjectionResult where
  "no_result = \<lparr>ir_Class = InjectionOther '''', ir_StatusCode = 0, ir_TaskID = '''', ir_Body = ''''\<rparr>"

record HistoryQuery =
  hq_AlertName :: string
  hq_Start :: time
  hq_End :: time

record HistoryRecord =
  hr_OriginalSeverity :: "string option"
  hr_Severity :: "string option"
  hr_StartsAt :: time
  hr_ID :: string
  hr_AlertName :: string
  hr_Fingerprint :: string
  hr_Status :: string
  hr_CreatedAt :: time
  hr_Labels :: labels
  hr_Annotations :: labels

definition MatchesInputLabel :: "HistoryRecord \<Rightarrow> string \<Rightarrow> string \<Rightarrow> bool" where
  "MatchesInputLabel r name expected =
     (case map_of (hr_Labels r) name of
        Some actual \<Rightarrow>
          if actual \<noteq> expected then False
          else if name \<noteq> ''severity'' then True
          else (case hr_Severity r of Some s \<Rightarrow> s = expected | None \<Rightarrow> True)
      | None \<Rightarrow>
          if name \<noteq> ''severity'' then False
          else (case hr_Severity r of Some s \<Rightarrow> s = expected | None \<Rightarrow> False))"

record AuditRecord =
  au_RuleIdentityNull :: bool
  au_ID :: int
  au_CreatedAt :: time
  au_AlertFingerprint :: string
  au_RuleID :: int
  au_RuleName :: string
  au_Pattern :: string
  au_Outcome :: string
  au_SuppressedNotifiers :: "string list"
  au_ParentFingerprint :: string
  au_AddedLabels :: labels
  au_Reason :: string

record NotificationRecord =
  nt_ID :: string
  nt_AlertFingerprint :: string
  nt_NotifierType :: string
  nt_Status :: string
  nt_CreatedAt :: time
  nt_Labels :: labels

text \<open>\<^verbatim>\<open>InjectionRequestEvidence\<close> (recorded\_injection.go).\<close>

record RequestEvidence =
  rq_ProfilePrecondition :: string
  rq_Format :: string
  rq_TargetID :: string
  rq_APIProfile :: string
  rq_Method :: string
  rq_Endpoint :: string
  rq_ContentType :: string
  rq_BodyBytes :: int
  rq_BodySHA256 :: string
  rq_BodyBase64 :: string

section \<open>JSON of the records\<close>

definition marshal_history :: "HistoryRecord \<Rightarrow> json" where
  "marshal_history r = JObject
     (fld_ostring ''originalSeverity'' (hr_OriginalSeverity r) @ fld_ostring ''severity'' (hr_Severity r) @
      fld ''startsAt'' (jtime (hr_StartsAt r)) @ fld ''id'' (JString (hr_ID r)) @
      fld ''alertName'' (JString (hr_AlertName r)) @ fld ''fingerprint'' (JString (hr_Fingerprint r)) @
      fld ''status'' (JString (hr_Status r)) @ fld ''createdAt'' (jtime (hr_CreatedAt r)) @
      fld ''labels'' (marshal_strings (hr_Labels r)) @ fld ''annotations'' (marshal_strings (hr_Annotations r)))"

definition marshal_audit :: "AuditRecord \<Rightarrow> json" where
  "marshal_audit a = JObject
     (fld_unless (\<not> au_RuleIdentityNull a) ''ruleIdentityNull'' (JBool True) @
      fld ''id'' (jint (au_ID a)) @ fld ''createdAt'' (jtime (au_CreatedAt a)) @
      fld ''alertFingerprint'' (JString (au_AlertFingerprint a)) @ fld ''ruleId'' (jint (au_RuleID a)) @
      fld ''ruleName'' (JString (au_RuleName a)) @ fld ''pattern'' (JString (au_Pattern a)) @
      fld ''outcome'' (JString (au_Outcome a)) @
      fld_unless (au_SuppressedNotifiers a = []) ''suppressedNotifiers'' (jstrings (au_SuppressedNotifiers a)) @
      fld_string ''parentFingerprint'' (au_ParentFingerprint a) @
      fld_unless (au_AddedLabels a = []) ''addedLabels'' (marshal_strings (au_AddedLabels a)) @
      fld_string ''reason'' (au_Reason a))"

definition marshal_notification :: "NotificationRecord \<Rightarrow> json" where
  "marshal_notification n = JObject
     (fld ''id'' (JString (nt_ID n)) @ fld ''alertFingerprint'' (JString (nt_AlertFingerprint n)) @
      fld ''notifierType'' (JString (nt_NotifierType n)) @ fld ''status'' (JString (nt_Status n)) @
      fld ''createdAt'' (jtime (nt_CreatedAt n)) @
      fld_unless (nt_Labels n = []) ''labels'' (marshal_strings (nt_Labels n)))"

definition marshal_request :: "RequestEvidence \<Rightarrow> json" where
  "marshal_request q = JObject
     (fld_string ''profilePrecondition'' (rq_ProfilePrecondition q) @ fld ''format'' (JString (rq_Format q)) @
      fld ''targetId'' (JString (rq_TargetID q)) @ fld ''apiProfile'' (JString (rq_APIProfile q)) @
      fld ''method'' (JString (rq_Method q)) @ fld ''endpoint'' (JString (rq_Endpoint q)) @
      fld ''contentType'' (JString (rq_ContentType q)) @ fld ''bodyBytes'' (jint (rq_BodyBytes q)) @
      fld ''bodySha256'' (JString (rq_BodySHA256 q)) @ fld ''bodyBase64'' (JString (rq_BodyBase64 q)))"

text \<open>The facts of \<^verbatim>\<open>domain/evidence.go\<close> and the artifact manifest.\<close>

definition attempt_fields :: "AlertAttemptFact \<Rightarrow> (string \<times> json) list" where
  "attempt_fields a =
     fld_unless (aa_StartsAt a = 0) ''startsAt'' (jtime (aa_StartsAt a)) @
     fld ''caseStableKey'' (JString (aa_CaseStableKey a)) @ fld ''eventId'' (JString (aa_EventID a)) @
     fld ''eventIndex'' (jint (aa_EventIndex a)) @ fld ''sendState'' (JString (aa_SendState a)) @
     fld ''injectionClass'' (JString (aa_InjectionClass a)) @ fld ''statusCode'' (jint (aa_StatusCode a)) @
     fld_string ''fingerprint'' (aa_Fingerprint a)"

definition marshal_attempt :: "AlertAttemptFact \<Rightarrow> json" where
  "marshal_attempt a = JObject (attempt_fields a)"

definition marshal_resolution :: "AlertResolutionFact \<Rightarrow> json" where
  "marshal_resolution r = JObject
     (fld ''alertName'' (JString (ar_AlertName r)) @ fld ''fingerprint'' (JString (ar_Fingerprint r)) @
      fld ''injectionClass'' (JString (ar_InjectionClass r)) @ fld ''statusCode'' (jint (ar_StatusCode r)) @
      fld ''accepted'' (JBool (ar_Accepted r)))"

fun availability_str :: "ArtifactAvailability \<Rightarrow> string" where
  "availability_str ArtifactPending = ''PENDING''"
| "availability_str ArtifactAvailable = ''AVAILABLE''"
| "availability_str (ArtifactOther s) = s"

definition marshal_artifact :: "Artifact \<Rightarrow> json" where
  "marshal_artifact a = JObject
     (fld ''id'' (JString (af_ID a)) @ fld ''runId'' (JString (af_RunID a)) @
      fld_string ''caseId'' (af_CaseID a) @ fld ''kind'' (JString (af_Kind a)) @
      fld ''relativePath'' (JString (af_RelativePath a)) @ fld ''mimeType'' (JString (af_MIMEType a)) @
      fld_string ''sha256'' (af_SHA256 a) @ fld ''byteSize'' (jint (af_ByteSize a)) @
      fld ''redactionState'' (JString (af_RedactionState a)) @
      fld ''availability'' (JString (availability_str (af_Availability a))) @
      fld ''createdAt'' (jtime (af_CreatedAt a)))"

end
