(* ===== verification/Plan_Json.thy ===== *)
theory Plan_Json
  imports Oscar_Types
begin

text \<open>
  The JSON of a compiled plan (the struct tags of compiler.go and scenario/model.go), which the
  runner stores as the run's execution document and the ledger decodes again. The round trip:
  what the ledger reads back is the run identity, the pattern and the identity of every case,
  assertion and alert of the plan.
\<close>

section \<open>Writing a plan\<close>

fun marshal_any :: "anyval \<Rightarrow> json" where
  "marshal_any (AnyString s) = JString s"
| "marshal_any (AnyInt n) = jint n"
| "marshal_any (AnyLabels m) = marshal_strings m"
| "marshal_any (AnyMap m) = JObject (sort_key fst (map (\<lambda>(k, v). (k, marshal_any v)) m))"
| "marshal_any (AnyList vs) = JArray (map marshal_any vs)"
| "marshal_any (AnyStrings ss) = jstrings ss"

definition marshal_assertion :: "Assertion \<Rightarrow> json" where
  "marshal_assertion a = JObject
     (fld ''kind'' (JString (as_Kind a)) @ fld_string ''outcome'' (as_Outcome a) @
      fld ''equals'' (jint (as_Equals a)))"

definition marshal_checkpoint :: "Checkpoint \<Rightarrow> json" where
  "marshal_checkpoint c = JObject
     (fld ''name'' (JString (cp_Name c)) @ fld ''afterEvent'' (jint (cp_AfterEvent c)) @
      fld ''window'' (jint (cp_Window c)) @
      fld ''assertions'' (JArray (map marshal_assertion (cp_Assertions c))))"

definition marshal_rule :: "RulePlan \<Rightarrow> json" where
  "marshal_rule r = JObject
     (fld ''name'' (JString (rp_Name r)) @ fld ''pattern'' (JString (rp_Pattern r)) @
      fld ''windowSeconds'' (jint (rp_WindowSeconds r)) @ fld ''groupByLabels'' (jstrings (rp_GroupBy r)) @
      fld ''matchCriteria'' (marshal_any (AnyMap (rp_MatchCriteria r))) @
      fld ''emitAlertName'' (JString (rp_EmitAlertName r)) @
      fld ''emitLabels'' (marshal_strings (rp_EmitLabels r)) @
      fld_unless (rp_EmitAnnotations r = []) ''emitAnnotations'' (marshal_strings (rp_EmitAnnotations r)) @
      fld ''description'' (JString (rp_Description r)))"

definition marshal_alert :: "AlertPlan \<Rightarrow> json" where
  "marshal_alert a = JObject
     (fld_string ''source'' (ap_Source a) @ fld ''name'' (JString (ap_Name a)) @
      fld ''status'' (JString (ap_Status a)) @ fld ''labels'' (marshal_strings (ap_Labels a)) @
      fld ''annotations'' (marshal_strings (ap_Annotations a)) @ fld ''delay'' (jint (ap_Delay a)) @
      (case ap_EpisodeOffset a of None \<Rightarrow> [] | Some offset \<Rightarrow> fld ''episodeOffset'' (jint offset)))"

definition marshal_inspection :: "Inspection \<Rightarrow> json" where
  "marshal_inspection i = JObject
     (fld ''exactRun'' (JString (in_ExactRun i)) @ fld ''alertNamePrefix'' (JString (in_AlertNamePrefix i)) @
      fld ''alertNames'' (jstrings (in_AlertNames i)) @ fld ''ruleName'' (JString (in_RuleName i)) @
      fld ''filters'' (marshal_strings (in_Filters i)))"

definition marshal_case :: "CasePlan \<Rightarrow> json" where
  "marshal_case c = JObject
     (fld_string ''control'' (cl_Control c) @ fld ''name'' (JString (cl_Name c)) @
      fld ''code'' (JString (cl_Code c)) @ fld ''polarity'' (JString (cl_Polarity c)) @
      fld ''rule'' (marshal_rule (cl_Rule c)) @ fld ''alerts'' (JArray (map marshal_alert (cl_Alerts c))) @
      fld_unless (cl_Checkpoints c = []) ''checkpoints'' (JArray (map marshal_checkpoint (cl_Checkpoints c))) @
      fld ''assertions'' (JArray (map marshal_assertion (cl_Assertions c))) @
      fld ''observationWindow'' (jint (cl_ObservationWindow c)) @
      fld ''inspection'' (marshal_inspection (cl_Inspection c)))"

definition marshal_budget :: "MutationBudget \<Rightarrow> json" where
  "marshal_budget b = JObject (fld ''Rules'' (jint (mb_Rules b)) @ fld ''Alerts'' (jint (mb_Alerts b)))"

definition marshal_plan :: "Plan \<Rightarrow> json" where
  "marshal_plan p = JObject
     (fld ''apiVersion'' (JString (pl_APIVersion p)) @ fld ''scenario'' (JString (pl_Scenario p)) @
      fld ''suite'' (JString (pl_Suite p)) @ fld ''pattern'' (JString (pl_Pattern p)) @
      fld ''inputPath'' (JString (pl_InputPath p)) @ fld ''runId'' (JString (pl_RunID p)) @
      fld ''shortToken'' (JString (pl_ShortToken p)) @ fld ''maxDuration'' (jint (pl_MaxDuration p)) @
      fld ''mutationBudget'' (marshal_budget (pl_MutationBudget p)) @
      fld ''cases'' (JArray (map marshal_case (pl_Cases p))) @ fld ''digest'' (JString (pl_Digest p)))"

section \<open>Reading it back\<close>

text \<open>What the ledger keeps of a map: the same entries, in key order.\<close>

definition stored_labels :: "labels \<Rightarrow> labels" where
  "stored_labels m = sort_key fst m"

definition stored_alert :: "AlertPlan \<Rightarrow> plan_alert" where
  "stored_alert a = \<lparr>pa_Name = ap_Name a, pa_Labels = stored_labels (ap_Labels a),
     pa_Annotations = stored_labels (ap_Annotations a)\<rparr>"

definition stored_case :: "CasePlan \<Rightarrow> plan_case" where
  "stored_case c = \<lparr>pc_Name = cl_Name c, pc_Code = cl_Code c,
     pc_Assertions = map marshal_assertion (cl_Assertions c), pc_Alerts = map stored_alert (cl_Alerts c)\<rparr>"

definition plan_keyed :: "Plan \<Rightarrow> bool" where
  "plan_keyed p \<longleftrightarrow> list_all (\<lambda>c. list_all (\<lambda>a. well_keyed (ap_Labels a) \<and> well_keyed (ap_Annotations a))
     (cl_Alerts c)) (pl_Cases p)"

lemma decode_entries_fresh:
  "distinct (map fst (acc @ m)) \<Longrightarrow> decode_entries (map (\<lambda>(k, v). (k, JString v)) m) acc = Some (acc @ m)"
proof (induction m arbitrary: acc)
  case (Cons e m)
  obtain k v where e: "e = (k, v)" by (cases e)
  have "k \<notin> fst ` set acc" using Cons.prems by (auto simp: e)
  then have "gput k v acc = acc @ [(k, v)]"
    by (induction acc) auto
  with Cons.IH [of "acc @ [(k, v)]"] Cons.prems show ?case by (simp add: e)
qed simp

lemma decode_marshal_strings:
  assumes "well_keyed m"
  shows "decode_string_map (marshal_strings m) [] = Some (stored_labels m)"
proof -
  have "distinct (map fst (sort_key fst m))"
    using assms by (simp add: well_keyed_def distinct_map)
  from decode_entries_fresh [of "[]", simplified, OF this] show ?thesis
    by (simp add: marshal_strings_def stored_labels_def)
qed

lemma map_of_stored_labels [simp]: "well_keyed m \<Longrightarrow> map_of (stored_labels m) = map_of m"
  unfolding stored_labels_def well_keyed_def
  by (rule map_of_eqI) (auto simp: map_of_eq_Some_iff distinct_map)

lemma sget_stored_labels [simp]: "well_keyed m \<Longrightarrow> sget (stored_labels m) k = sget m k"
  by (simp add: sget_def)

lemma decode_plan_alert_marshal:
  assumes "well_keyed (ap_Labels a)" and "well_keyed (ap_Annotations a)"
  shows "decode_plan_alert (marshal_alert a) = Some (stored_alert a)"
  using decode_marshal_strings [OF assms(1)] decode_marshal_strings [OF assms(2)]
  by (simp add: decode_plan_alert_def marshal_alert_def stored_alert_def json_fields decode_field_append
    fold_names split: option.split)

lemma decode_all_map:
  "list_all (\<lambda>x. d (f x) = Some (g x)) xs \<Longrightarrow> decode_all d (map f xs) = Some (map g xs)"
  by (induction xs) auto

lemma decode_all_Some [simp]: "decode_all Some js = Some js"
  by (induction js) auto

lemma decode_plan_case_marshal:
  assumes "list_all (\<lambda>a. well_keyed (ap_Labels a) \<and> well_keyed (ap_Annotations a)) (cl_Alerts c)"
  shows "decode_plan_case (marshal_case c) = Some (stored_case c)"
proof -
  have "decode_all decode_plan_alert (map marshal_alert (cl_Alerts c)) = Some (map stored_alert (cl_Alerts c))"
    using assms by (intro decode_all_map) (auto simp: list_all_iff decode_plan_alert_marshal)
  then show ?thesis
    by (simp add: decode_plan_case_def marshal_case_def stored_case_def json_fields decode_field_append
      fold_names)
qed

lemma decode_marshal_plan:
  assumes "plan_keyed p"
  shows "decode_plan (Doc (marshal_plan p)) = Some (pl_RunID p, pl_Pattern p, map stored_case (pl_Cases p))"
proof -
  have "decode_all decode_plan_case (map marshal_case (pl_Cases p)) = Some (map stored_case (pl_Cases p))"
    using assms by (intro decode_all_map) (auto simp: plan_keyed_def list_all_iff decode_plan_case_marshal)
  then show ?thesis
    by (simp add: decode_plan_def marshal_plan_def json_fields fold_names)
qed

section \<open>Property\<close>

definition demo_alert :: AlertPlan where
  "demo_alert = \<lparr>ap_Source = '''', ap_Name = ''CORRTEST_FLOOD_P01_SOURCE_AAAAAAAA'', ap_Status = ''firing'',
     ap_Labels = [(''severity'', ''warning''), (''alertname'', ''CORRTEST_FLOOD_P01_SOURCE_AAAAAAAA'')],
     ap_Annotations = [(''summary'', ''demo'')], ap_Delay = 0, ap_EpisodeOffset = None, ap_StartsAt = 0, ap_EndsAt = 0\<rparr>"

definition demo_rule :: RulePlan where
  "demo_rule = \<lparr>rp_Name = ''corrtest-flood-p01-aaaaaaaa'', rp_Pattern = ''flood'', rp_WindowSeconds = 30,
     rp_GroupBy = [''device''], rp_MatchCriteria = [(''min_count'', AnyInt 5)], rp_EmitAlertName = '''',
     rp_EmitLabels = [], rp_EmitAnnotations = [], rp_Description = ''demo''\<rparr>"

definition demo_case :: CasePlan where
  "demo_case = \<lparr>cl_Control = '''', cl_EpisodeBase = 0, cl_Name = ''positive'', cl_Code = ''P01'',
     cl_Polarity = ''positive'', cl_Rule = demo_rule, cl_Alerts = [demo_alert], cl_Checkpoints = [],
     cl_Assertions = [\<lparr>as_Kind = ''audit-count'', as_Outcome = ''triggered'', as_Equals = 1\<rparr>],
     cl_ObservationWindow = 30 * second,
     cl_Inspection = \<lparr>in_ExactRun = ''crt_1'', in_AlertNamePrefix = '''', in_AlertNames = [], in_RuleName = '''', in_Filters = []\<rparr>\<rparr>"

definition demo_plan :: Plan where
  "demo_plan = \<lparr>pl_APIVersion = APIVersion, pl_Scenario = ''demo'', pl_Suite = ''demo'', pl_Pattern = ''flood'',
     pl_InputPath = ''alert-engine'', pl_RunID = ''crt_1'', pl_ShortToken = ''AAAAAAAA'', pl_MaxDuration = minute,
     pl_MutationBudget = \<lparr>mb_Rules = 1, mb_Alerts = 1\<rparr>, pl_Cases = [demo_case], pl_Digest = ''''\<rparr>"

text \<open>
  C16. The execution document round-trips: decoding the stored JSON of a compiled plan gives the
  ledger exactly the run identity, the pattern and, in order, the name, code, assertions and
  alerts of every case, so the planned rows are those of the plan.
\<close>

theorem plan_round_trip:
  assumes "plan_keyed p"
  shows "decode_plan (Doc (marshal_plan p)) = Some (pl_RunID p, pl_Pattern p, map stored_case (pl_Cases p))"
  by (rule decode_marshal_plan [OF assms])

theorem plan_round_trip_witness:
  "decode_plan (Doc (marshal_plan demo_plan)) = Some (''crt_1'', ''flood'', [stored_case demo_case])"
  using plan_round_trip [of demo_plan]
  by (simp add: plan_keyed_def well_keyed_def demo_plan_def demo_case_def demo_alert_def)

end
