(* ===== verification/Runner_World.thy ===== *)
theory Runner_World
  imports Plan_Json "HOL-Library.State_Monad"
begin

text \<open>
  What the runner (\<^verbatim>\<open>internal/runner\<close>) acts on. The world is the run ledger, the two variables of
  \<^verbatim>\<open>Execute\<close> that the injection recorder captures, and everything outside the process (clock,
  contexts, OSCAR, evidence files), which stays abstract. An \<^verbatim>\<open>API\<close>, the options and the
  environment are one record: a method of an interface is a field, a method that is looked up by a
  type assertion is an optional field. A store operation is the one of \<^theory_text>\<open>Run_Store\<close> unless the
  environment reports an I/O failure, after which the rolled-back store is unchanged. Actions are
  state transformers; the small Hoare logic at the end carries the proofs about them.
\<close>

section \<open>World and actions\<close>

record 'x world =
  wd_Store :: store
  wd_Attempts :: "AlertAttemptFact list"
  wd_Recorded :: bool
  wd_Ext :: 'x

type_synonym ('x, 'a) action = "('x world, 'a) state"

text \<open>An effect outside the process.\<close>

definition outside :: "('x \<Rightarrow> 'a \<times> 'x) \<Rightarrow> ('x, 'a) action" where
  "outside f = State (\<lambda>w. let (a, x) = f (wd_Ext w) in (a, w\<lparr>wd_Ext := x\<rparr>))"

definition observe_world :: "('x world \<Rightarrow> 'a) \<Rightarrow> ('x, 'a) action" where
  "observe_world f = State (\<lambda>w. (f w, w))"

definition modify :: "('x world \<Rightarrow> 'x world) \<Rightarrow> ('x, unit) action" where
  "modify f = State (\<lambda>w. ((), f w))"

text \<open>
  The contexts the runner derives: the execution budget, and the detached ones with the cleanup
  timeout for startup, checkpoint evidence, cleanup and completion.
\<close>

datatype context_kind = Execution | Startup | EvidenceWrite | Cleanup | Completion

type_synonym 'x recorder = "RequestEvidence \<Rightarrow> ('x, go_error option) action"

record 'x runner =
  rn_PollInterval :: duration
  rn_ObservationWindow :: duration
  rn_Stabilization :: duration
  rn_CleanupTimeout :: duration
  rn_Now :: "'x \<Rightarrow> time \<times> 'x"
  rn_Sleep :: "context_kind \<Rightarrow> duration \<Rightarrow> 'x \<Rightarrow> go_error option \<times> 'x"
  rn_CtxErr :: "context_kind \<Rightarrow> 'x \<Rightarrow> go_error option \<times> 'x"
  rn_StoreFault :: "context_kind \<Rightarrow> 'x \<Rightarrow> go_error option \<times> 'x"
  rn_StoreText :: "StoreError \<Rightarrow> string"
  rn_WriteEvidence :: "(context_kind \<Rightarrow> string \<Rightarrow> ExecutionFacts \<Rightarrow> time \<Rightarrow> 'x \<Rightarrow> (go_error + Artifact) \<times> 'x) option"
  api_ValidateRule :: "context_kind \<Rightarrow> RulePlan \<Rightarrow> 'x \<Rightarrow> go_error option \<times> 'x"
  api_CreateRule :: "context_kind \<Rightarrow> RulePlan \<Rightarrow> 'x \<Rightarrow> (go_error + Rule) \<times> 'x"
  api_FindRules :: "context_kind \<Rightarrow> string \<Rightarrow> 'x \<Rightarrow> (go_error + Rule list) \<times> 'x"
  api_DeleteRule :: "context_kind \<Rightarrow> int \<Rightarrow> 'x \<Rightarrow> go_error option \<times> 'x"
  api_InjectRecorded :: "context_kind \<Rightarrow> AlertPlan \<Rightarrow> 'x recorder \<Rightarrow> ('x, InjectionResult \<times> go_error option) action"
  api_ResolveHistory :: "context_kind \<Rightarrow> HistoryRecord \<Rightarrow> 'x \<Rightarrow> (InjectionResult \<times> go_error option) \<times> 'x"
  api_FindHistory :: "context_kind \<Rightarrow> HistoryQuery \<Rightarrow> 'x \<Rightarrow> (go_error + HistoryRecord list) \<times> 'x"
  api_CorrelationAudit :: "context_kind \<Rightarrow> string \<Rightarrow> 'x \<Rightarrow> (go_error + AuditRecord list) \<times> 'x"
  api_NotificationAudit :: "context_kind \<Rightarrow> string \<Rightarrow> time \<Rightarrow> time \<Rightarrow> 'x \<Rightarrow> (go_error + NotificationRecord list) \<times> 'x"
  api_InputPath :: "string option"
  api_InputEndpoint :: "string option"
  api_ValidateInputBudget :: "(Plan \<Rightarrow> duration \<Rightarrow> go_error option) option"
  api_UnresolvedInputCleanup :: "('x \<Rightarrow> bool \<times> 'x) option"
  api_ResolveHistoryRecorded :: "(context_kind \<Rightarrow> HistoryRecord \<Rightarrow> 'x recorder \<Rightarrow> ('x, InjectionResult \<times> go_error option) action) option"

text \<open>\<^verbatim>\<open>New\<close>: defaults for the intervals that are not positive.\<close>

definition runner_New :: "'x runner \<Rightarrow> 'x runner" where
  "runner_New r = r
     \<lparr>rn_PollInterval := (if rn_PollInterval r \<le> 0 then second else rn_PollInterval r),
      rn_Stabilization := (if rn_Stabilization r \<le> 0 then 5 * second else rn_Stabilization r),
      rn_CleanupTimeout := (if rn_CleanupTimeout r \<le> 0 then 30 * second else rn_CleanupTimeout r)\<rparr>"

definition now :: "'x runner \<Rightarrow> ('x, time) action" where
  "now r = outside (rn_Now r)"

definition ordinaryRoute :: "'x runner \<Rightarrow> bool" where
  "ordinaryRoute r \<longleftrightarrow> api_InputPath r = Some ''ordinary-webhook''"

definition inputAccepted :: "'x runner \<Rightarrow> InjectionClass \<Rightarrow> bool" where
  "inputAccepted r c \<longleftrightarrow> c = InjectionAccepted \<or> ordinaryRoute r \<and> c = InjectionForwarded"

section \<open>The store interface\<close>

definition store_op :: "'x runner \<Rightarrow> context_kind \<Rightarrow> (store \<Rightarrow> StoreError + store) \<Rightarrow> ('x, go_error option) action" where
  "store_op r ctx f = do {
     fault \<leftarrow> outside (rn_StoreFault r ctx);
     case fault of
       Some e \<Rightarrow> State_Monad.return (Some e)
     | None \<Rightarrow> State (\<lambda>w. case f (wd_Store w) of
           Inl e \<Rightarrow> (Some (StoreErr e), w)
         | Inr s \<Rightarrow> (None, w\<lparr>wd_Store := s\<rparr>))
   }"

definition transition :: "'x runner \<Rightarrow> context_kind \<Rightarrow> string \<Rightarrow> RunStatus \<Rightarrow> string \<Rightarrow> ('x, go_error option) action" where
  "transition r ctx rid status summary = do {
     at \<leftarrow> now r;
     store_op r ctx (\<lambda>s. TransitionRun s rid status at summary)
   }"

text \<open>\<^verbatim>\<open>AppendRunEvent\<close> as the runner uses it: level info, no case, the current instant.\<close>

definition append_event :: "'x runner \<Rightarrow> context_kind \<Rightarrow> string \<Rightarrow> string \<Rightarrow> time \<Rightarrow> string \<Rightarrow> json \<Rightarrow> ('x, go_error option) action" where
  "append_event r ctx rid kind at summary detail =
     store_op r ctx (\<lambda>s. map_sum id snd (AppendRunEvent s (store_event rid kind ''info'' at summary (Doc detail))))"

section \<open>A Hoare logic for actions\<close>

text \<open>
  From a world with \<open>P\<close> the action ends with a result and a world related by \<open>Q\<close>. Actions are
  total, so the triple is one of total correctness.
\<close>

definition hoare :: "('s \<Rightarrow> bool) \<Rightarrow> ('s, 'a) state \<Rightarrow> ('a \<Rightarrow> 's \<Rightarrow> bool) \<Rightarrow> bool" where
  "hoare P m Q \<longleftrightarrow> (\<forall>s. P s \<longrightarrow> (let (a, t) = run_state m s in Q a t))"

named_theorems hoare_intros \<open>rules of the program logic, from the conclusion backwards\<close>

lemma hoareI: "(\<And>s a t. P s \<Longrightarrow> run_state m s = (a, t) \<Longrightarrow> Q a t) \<Longrightarrow> hoare P m Q"
  by (auto simp: hoare_def split: prod.split)

lemma hoareD: "hoare P m Q \<Longrightarrow> P s \<Longrightarrow> run_state m s = (a, t) \<Longrightarrow> Q a t"
  by (auto simp: hoare_def split: prod.splits)

lemma hoare_weaken: "hoare P m Q \<Longrightarrow> (\<And>s. P' s \<Longrightarrow> P s) \<Longrightarrow> (\<And>a s. Q a s \<Longrightarrow> Q' a s) \<Longrightarrow> hoare P' m Q'"
  by (fastforce simp: hoare_def split: prod.splits)

lemma hoare_return [hoare_intros]: "(\<And>s. P s \<Longrightarrow> Q a s) \<Longrightarrow> hoare P (State_Monad.return a) Q"
  by (simp add: hoare_def)

lemma hoare_bind:
  assumes "hoare P m R" and "\<And>a. hoare (R a) (f a) Q"
  shows "hoare P (State_Monad.bind m f) Q"
  using assms by (fastforce simp: hoare_def split: prod.splits)

text \<open>
  Invariants: \<open>preserves I m\<close> says that the action keeps \<open>I\<close>, whatever its result.
\<close>

definition preserves :: "('s \<Rightarrow> bool) \<Rightarrow> ('s, 'a) state \<Rightarrow> bool" where
  "preserves I m \<longleftrightarrow> hoare I m (\<lambda>a. I)"

lemma preservesI: "(\<And>s a t. I s \<Longrightarrow> run_state m s = (a, t) \<Longrightarrow> I t) \<Longrightarrow> preserves I m"
  by (auto simp: preserves_def intro: hoareI)

lemma preservesD: "preserves I m \<Longrightarrow> I s \<Longrightarrow> run_state m s = (a, t) \<Longrightarrow> I t"
  unfolding preserves_def by (drule hoareD)

named_theorems preserve_rules \<open>invariant preservation, one rule per form of action\<close>

lemma preserves_return [preserve_rules]: "preserves I (State_Monad.return a)"
  by (auto simp: preserves_def intro: hoare_return)

lemma preserves_bind [preserve_rules]:
  "preserves I m \<Longrightarrow> (\<And>a. preserves I (f a)) \<Longrightarrow> preserves I (State_Monad.bind m f)"
  unfolding preserves_def by (rule hoare_bind)

lemma preserves_if [preserve_rules]:
  "(b \<Longrightarrow> preserves I m) \<Longrightarrow> (\<not> b \<Longrightarrow> preserves I n) \<Longrightarrow> preserves I (if b then m else n)"
  by simp

lemma preserves_option [preserve_rules]:
  "(x = None \<Longrightarrow> preserves I m) \<Longrightarrow> (\<And>a. x = Some a \<Longrightarrow> preserves I (f a)) \<Longrightarrow>
   preserves I (case x of None \<Rightarrow> m | Some a \<Rightarrow> f a)"
  by (cases x) auto

lemma preserves_sum [preserve_rules]:
  "(\<And>a. x = Inl a \<Longrightarrow> preserves I (f a)) \<Longrightarrow> (\<And>a. x = Inr a \<Longrightarrow> preserves I (g a)) \<Longrightarrow>
   preserves I (case x of Inl a \<Rightarrow> f a | Inr a \<Rightarrow> g a)"
  by (cases x) auto

lemma preserves_prod [preserve_rules]:
  "(\<And>a b. x = (a, b) \<Longrightarrow> preserves I (f a b)) \<Longrightarrow> preserves I (case x of (a, b) \<Rightarrow> f a b)"
  by (cases x) auto

lemma preserves_Let [preserve_rules]: "(\<And>y. y = x \<Longrightarrow> preserves I (f y)) \<Longrightarrow> preserves I (let y = x in f y)"
  by simp

lemma preserves_State: "(\<And>s. I s \<Longrightarrow> I (snd (f s))) \<Longrightarrow> preserves I (State f)"
  by (simp add: preserves_def hoare_def case_prod_beta)

lemma preserves_observe [preserve_rules]: "preserves I (observe_world f)"
  by (simp add: observe_world_def preserves_State)

lemma preserves_outside: "(\<And>w x. I w \<Longrightarrow> I (w\<lparr>wd_Ext := x\<rparr>)) \<Longrightarrow> preserves I (outside f)"
  unfolding outside_def by (rule preserves_State) (simp add: case_prod_beta)

lemma preserves_modify: "(\<And>w. I w \<Longrightarrow> I (f w)) \<Longrightarrow> preserves I (modify f)"
  unfolding modify_def by (rule preserves_State) simp

lemma preserves_store_op:
  assumes "\<And>w x. I w \<Longrightarrow> I (w\<lparr>wd_Ext := x\<rparr>)"
    and "\<And>w s. I w \<Longrightarrow> f (wd_Store w) = Inr s \<Longrightarrow> I (w\<lparr>wd_Store := s\<rparr>)"
  shows "preserves I (store_op r ctx f)"
proof -
  have "preserves I (outside (rn_StoreFault r ctx))" by (rule preserves_outside) (rule assms(1))
  moreover have "preserves I (State (\<lambda>w. case f (wd_Store w) of
      Inl e \<Rightarrow> (Some (StoreErr e), w) | Inr s \<Rightarrow> (None, w\<lparr>wd_Store := s\<rparr>)))"
    by (rule preserves_State) (auto split: sum.splits intro: assms(2))
  ultimately show ?thesis unfolding store_op_def by (intro preserve_rules) assumption+
qed

end
