(* ===== verification/Action_Logic.thy ===== *)
theory Action_Logic
  imports Runner_World
begin

text \<open>
  Rules for the results of actions, beside the invariants of \<^theory_text>\<open>Runner_World\<close>: what an action
  yields in whatever world it starts, and how an invariant and a result compose.
\<close>

section \<open>Results of actions\<close>

definition yields :: "('s, 'a) state \<Rightarrow> ('a \<Rightarrow> bool) \<Rightarrow> bool" where
  "yields m Q \<longleftrightarrow> hoare (\<lambda>_. True) m (\<lambda>a _. Q a)"

lemma yields_return: "Q a \<Longrightarrow> yields (State_Monad.return a) Q"
  by (simp add: yields_def hoare_def)

lemma yields_bind: "yields m R \<Longrightarrow> (\<And>a. R a \<Longrightarrow> yields (f a) Q) \<Longrightarrow> yields (State_Monad.bind m f) Q"
  by (fastforce simp: yields_def hoare_def split: prod.splits)

lemma yields_bind_any: "(\<And>a. yields (f a) Q) \<Longrightarrow> yields (State_Monad.bind m f) Q"
  by (fastforce simp: yields_def hoare_def split: prod.splits)

lemma yields_mono: "yields m Q \<Longrightarrow> (\<And>a. Q a \<Longrightarrow> R a) \<Longrightarrow> yields m R"
  by (fastforce simp: yields_def hoare_def split: prod.splits)

lemma yields_if: "(b \<Longrightarrow> yields m Q) \<Longrightarrow> (\<not> b \<Longrightarrow> yields n Q) \<Longrightarrow> yields (if b then m else n) Q"
  by simp

lemma yields_option:
  "(x = None \<Longrightarrow> yields m Q) \<Longrightarrow> (\<And>a. x = Some a \<Longrightarrow> yields (f a) Q) \<Longrightarrow>
   yields (case x of None \<Rightarrow> m | Some a \<Rightarrow> f a) Q"
  by (cases x) auto

lemma yields_sum:
  "(\<And>a. x = Inl a \<Longrightarrow> yields (f a) Q) \<Longrightarrow> (\<And>a. x = Inr a \<Longrightarrow> yields (g a) Q) \<Longrightarrow>
   yields (case x of Inl a \<Rightarrow> f a | Inr a \<Rightarrow> g a) Q"
  by (cases x) auto

lemma yields_prod:
  "(\<And>a b. x = (a, b) \<Longrightarrow> yields (f a b) Q) \<Longrightarrow> yields (case x of (a, b) \<Rightarrow> f a b) Q"
  by (cases x) auto

lemma yields_Let: "yields (f x) Q \<Longrightarrow> yields (let y = x in f y) Q"
  by simp

lemma yieldsD: "yields m Q \<Longrightarrow> run_state m s = (a, t) \<Longrightarrow> Q a"
  by (auto simp: yields_def hoare_def split: prod.splits)

lemmas yields_rules = yields_if yields_option yields_sum yields_prod yields_Let

text \<open>Composing an invariant with a result.\<close>

lemma hoare_bind_keep:
  "preserves I m \<Longrightarrow> (\<And>a. hoare I (f a) Q) \<Longrightarrow> hoare I (State_Monad.bind m f) Q"
  by (fastforce simp: preserves_def hoare_def split: prod.splits)

lemma hoare_bind_yields:
  assumes "preserves I m" and "yields m R" and "\<And>a. R a \<Longrightarrow> hoare I (f a) Q"
  shows "hoare I (State_Monad.bind m f) Q"
proof (rule hoareI)
  fix s a t assume "I s" and run: "run_state (State_Monad.bind m f) s = (a, t)"
  obtain b u where m: "run_state m s = (b, u)" by (cases "run_state m s")
  with run have "run_state (f b) u = (a, t)" by simp
  then show "Q a t"
    using hoareD [OF assms(3) [OF yieldsD [OF assms(2) m]]] preservesD [OF assms(1) \<open>I s\<close> m] by blast
qed

lemma hoare_if: "(b \<Longrightarrow> hoare P m Q) \<Longrightarrow> (\<not> b \<Longrightarrow> hoare P n Q) \<Longrightarrow> hoare P (if b then m else n) Q"
  by simp

lemma hoare_option:
  "(x = None \<Longrightarrow> hoare P m Q) \<Longrightarrow> (\<And>a. x = Some a \<Longrightarrow> hoare P (f a) Q) \<Longrightarrow>
   hoare P (case x of None \<Rightarrow> m | Some a \<Rightarrow> f a) Q"
  by (cases x) auto

lemma hoare_sum:
  "(\<And>a. x = Inl a \<Longrightarrow> hoare P (f a) Q) \<Longrightarrow> (\<And>a. x = Inr a \<Longrightarrow> hoare P (g a) Q) \<Longrightarrow>
   hoare P (case x of Inl a \<Rightarrow> f a | Inr a \<Rightarrow> g a) Q"
  by (cases x) auto

lemma hoare_prod:
  "(\<And>a b. x = (a, b) \<Longrightarrow> hoare P (f a b) Q) \<Longrightarrow> hoare P (case x of (a, b) \<Rightarrow> f a b) Q"
  by (cases x) auto

lemma hoare_Let: "hoare P (f x) Q \<Longrightarrow> hoare P (let y = x in f y) Q"
  by simp

text \<open>Triples side by side, and what an action yields as a triple.\<close>

lemma hoare_conj: "hoare P m Q \<Longrightarrow> hoare P m R \<Longrightarrow> hoare P m (\<lambda>a w. Q a w \<and> R a w)"
  by (fastforce simp: hoare_def split: prod.splits)

lemma hoare_yields: "yields m Q \<Longrightarrow> hoare P m (\<lambda>a w. Q a)"
  by (auto simp: yields_def hoare_def)

lemma hoare_fact: "(b \<Longrightarrow> hoare P m Q) \<Longrightarrow> hoare (\<lambda>w. b \<and> P w) m Q"
  by (simp add: hoare_def)

lemma hoare_any: "(\<And>a w. Q a w) \<Longrightarrow> hoare P m Q"
  by (auto simp: hoare_def)

lemma bind_return: "State_Monad.bind (State_Monad.return a) f = f a"
  by (simp add: State_Monad.bind_def State_Monad.return_def)

lemmas hoare_rules = hoare_if hoare_option hoare_sum hoare_prod hoare_Let

end
