(* ===== verification/Observation.thy ===== *)
theory Observation
  imports Runner_World
begin

text \<open>
  How the runner decides a case (\<^verbatim>\<open>internal/runner\<close>: assertions.go, source\_episode.go,
  no\_match.go, observation.go): the evaluation of declared assertions on a snapshot, the binding
  of named source episodes to History rows, the reading of a snapshot from OSCAR and the polling
  loop with its full-window and stabilization rules. Ranging over a Go map follows the order in
  which its keys were first set. The polling loop takes fuel; \<^term>\<open>None\<close> means that it is still
  polling.
\<close>

section \<open>Evidence\<close>

record sourceEpisodeEvidence =
  se_Source :: string
  se_EventID :: string
  se_ExpectedStartsAt :: time
  se_Rows :: "HistoryRecord list"
  se_Ready :: bool
  se_Status :: string

record observationSnapshot =
  sn_NoMatchCount :: int
  sn_NoMatchReady :: bool
  sn_SourceEpisodes :: "sourceEpisodeEvidence list"
  sn_SourceEpisodesReady :: bool
  sn_Sources :: "HistoryRecord list"
  sn_Parents :: "HistoryRecord list"
  sn_Audits :: "AuditRecord list"
  sn_Notifications :: "NotificationRecord list"
  sn_SourceReady :: bool
  sn_AuditReady :: bool

record assertionResult =
  av_Kind :: string
  av_Outcome :: string
  av_Expected :: int
  av_Observed :: int
  av_Verdict :: Verdict
  av_Explanation :: string

record caseResult =
  ce_Name :: string
  ce_Code :: string
  ce_Verdict :: Verdict
  ce_SourceFingerprints :: "string list"
  ce_SyntheticCount :: int
  ce_AuditOutcomes :: "string list"
  ce_NotificationStatuses :: "string list"
  ce_ObservationComplete :: bool
  ce_Explanation :: string
  ce_Assertions :: "assertionResult list"
  ce_SourceEpisodes :: "sourceEpisodeEvidence list"
  ce_SourceHistory :: "HistoryRecord list"
  ce_SyntheticHistory :: "HistoryRecord list"
  ce_Audits :: "AuditRecord list"
  ce_Notifications :: "NotificationRecord list"
  ce_StartedAt :: time
  ce_EndedAt :: time

section \<open>Assertions (assertions.go)\<close>

fun verdict_str :: "Verdict \<Rightarrow> string" where
  "verdict_str VerdictPass = ''PASS''"
| "verdict_str VerdictFail = ''FAIL''"
| "verdict_str VerdictInconclusive = ''INCONCLUSIVE''"
| "verdict_str VerdictError = ''ERROR''"
| "verdict_str VerdictSkipped = ''SKIPPED''"
| "verdict_str (VerdictOther s) = s"

definition count_of :: "('a \<Rightarrow> bool) \<Rightarrow> 'a list \<Rightarrow> int" where
  "count_of P xs = int (length (filter P xs))"

text \<open>The number an assertion compares, for the kinds that are compared.\<close>

definition observed_count :: "Assertion \<Rightarrow> observationSnapshot \<Rightarrow> int option" where
  "observed_count a s =
     (if as_Kind a = ''downstream-no-match-count'' then Some (sn_NoMatchCount s)
      else if as_Kind a = ''source-episode-state-count''
      then Some (count_of (\<lambda>source. se_Status source = as_Outcome a) (sn_SourceEpisodes s))
      else if as_Kind a = ''synthetic-alert-count'' then Some (int (length (sn_Parents s)))
      else if as_Kind a \<in> {''audit-count'', ''parent-link-count''}
      then Some (count_of (\<lambda>audit. au_Outcome audit = as_Outcome a) (sn_Audits s))
      else None)"

definition evaluate_assertion :: "observationSnapshot \<Rightarrow> bool \<Rightarrow> Assertion \<Rightarrow> go_error + assertionResult" where
  "evaluate_assertion s shadow a =
     (if shadow \<and> as_Kind a = ''synthetic-alert-count'' then
        Inr \<lparr>av_Kind = as_Kind a, av_Outcome = '''', av_Expected = as_Equals a,
          av_Observed = int (length (sn_Parents s)), av_Verdict = VerdictSkipped,
          av_Explanation = ''synthetic emit is gated off in shadow (phase_a_audit_only); assert on audit outcomes instead''\<rparr>
      else if as_Kind a = ''downstream-no-match-count'' \<and> \<not> sn_NoMatchReady s then
        Inr \<lparr>av_Kind = as_Kind a, av_Outcome = '''', av_Expected = as_Equals a, av_Observed = 0,
          av_Verdict = VerdictInconclusive,
          av_Explanation = ''current source History and explicit no_matching_rules audit not proven; receiver health, revision, delivery and isolation are outside this witness''\<rparr>
      else if as_Kind a = ''source-episode-state-count'' \<and> \<not> sn_SourceEpisodesReady s then
        Inr \<lparr>av_Kind = as_Kind a, av_Outcome = as_Outcome a, av_Expected = as_Equals a, av_Observed = 0,
          av_Verdict = VerdictInconclusive,
          av_Explanation = ''current named episode timestamp, labels, identity or unambiguous History status not proven; no physical recovery inference''\<rparr>
      else case observed_count a s of
          None \<Rightarrow> Inl (Err (''unsupported assertion kind '' @ go_quote (as_Kind a)))
        | Some observed \<Rightarrow>
            Inr \<lparr>av_Kind = as_Kind a, av_Outcome = as_Outcome a, av_Expected = as_Equals a,
              av_Observed = observed,
              av_Verdict = (if observed = as_Equals a then VerdictPass else VerdictFail),
              av_Explanation = ''observed '' @ itoa observed @ '', expected exactly '' @ itoa (as_Equals a)\<rparr>)"

fun evaluateAssertions :: "Assertion list \<Rightarrow> observationSnapshot \<Rightarrow> bool \<Rightarrow> go_error + assertionResult list" where
  "evaluateAssertions [] s shadow = Inr []"
| "evaluateAssertions (a # as) s shadow =
     (case evaluate_assertion s shadow a of
        Inl e \<Rightarrow> Inl e
      | Inr r \<Rightarrow> map_sum id (\<lambda>rs. r # rs) (evaluateAssertions as s shadow))"

fun score :: "assertionResult list \<Rightarrow> nat \<Rightarrow> bool" where
  "score [] scored = (scored \<noteq> 0)"
| "score (r # rs) scored =
     (if av_Verdict r = VerdictSkipped then score rs scored
      else if av_Verdict r \<noteq> VerdictPass then False
      else score rs (Suc scored))"

definition assertionsPass :: "assertionResult list \<Rightarrow> bool" where
  "assertionsPass results = (if results = [] then False else score results 0)"

definition requiresFullWindow :: "Assertion list \<Rightarrow> bool" where
  "requiresFullWindow as \<longleftrightarrow> list_ex (\<lambda>a. as_Equals a = 0) as"

section \<open>Named source episodes (source\_episode.go)\<close>

definition usesSourceEpisodes :: "Assertion list \<Rightarrow> bool" where
  "usesSourceEpisodes as \<longleftrightarrow>
     list_ex (\<lambda>a. as_Kind a = ''source-episode-state-count'' \<or> as_Kind a = ''downstream-no-match-count'') as"

definition onlySourceEpisodes :: "Assertion list \<Rightarrow> bool" where
  "onlySourceEpisodes as \<longleftrightarrow> as \<noteq> [] \<and> list_all (\<lambda>a. as_Kind a = ''source-episode-state-count'') as"

definition matchesEpisodeInputLabel :: "HistoryRecord \<Rightarrow> string \<Rightarrow> string \<Rightarrow> bool" where
  "matchesEpisodeInputLabel row name expected =
     (if name = ''severity'' \<and> hr_OriginalSeverity row \<noteq> None \<and> hr_OriginalSeverity row \<noteq> Some expected then False
      else if MatchesInputLabel row name expected then True
      else if name \<noteq> ''severity'' \<or> hr_Status row \<noteq> ''resolved'' \<or> hr_Severity row \<noteq> Some ''cleared'' \<or>
              hr_OriginalSeverity row \<noteq> Some expected then False
      else (case map_of (hr_Labels row) name of None \<Rightarrow> True | Some v \<Rightarrow> v = expected))"

text \<open>One History row against one episode: the proof so far, its validity, the fingerprint seen.\<close>

fun scan_row :: "AlertPlan \<Rightarrow> string \<Rightarrow> sourceEpisodeEvidence \<times> bool \<times> string \<Rightarrow> HistoryRecord \<Rightarrow>
  sourceEpisodeEvidence \<times> bool \<times> string" where
  "scan_row alert key (proof, valid, fingerprint) row =
     (if hr_AlertName row \<noteq> ap_Name alert \<or> sget (hr_Labels row) ''oscar_test_event_id'' \<noteq> key
      then (proof, valid, fingerprint)
      else
        let proof = proof\<lparr>se_Rows := se_Rows proof @ [row]\<rparr>
        in if hr_StartsAt row = 0 \<or> se_ExpectedStartsAt proof < hr_StartsAt row then (proof, False, fingerprint)
           else if hr_StartsAt row < se_ExpectedStartsAt proof then (proof, valid, fingerprint)
           else
             (proof\<lparr>se_Status := hr_Status row\<rparr>,
              valid \<and> hr_Fingerprint row \<noteq> '''' \<and> (hr_Status row = ''firing'' \<or> hr_Status row = ''resolved'') \<and>
              list_all (\<lambda>(label, v). matchesEpisodeInputLabel row label v) (ap_Labels alert) \<and>
              (fingerprint = '''' \<or> fingerprint = hr_Fingerprint row \<and> se_Status proof = hr_Status row),
              hr_Fingerprint row))"

definition bind_episode :: "CasePlan \<Rightarrow> HistoryRecord list \<Rightarrow> string \<times> AlertPlan \<Rightarrow> sourceEpisodeEvidence" where
  "bind_episode item rows = (\<lambda>(key, alert).
     let valid = (key \<noteq> '''' \<and> ap_Source alert \<noteq> '''' \<and> ap_EpisodeOffset alert \<noteq> None \<and> cl_EpisodeBase item \<noteq> 0);
         start = \<lparr>se_Source = ap_Source alert, se_EventID = key,
           se_ExpectedStartsAt = (if valid then cl_EpisodeBase item + the (ap_EpisodeOffset alert) else 0),
           se_Rows = [], se_Ready = False, se_Status = ''''\<rparr>;
         (proof, valid, fingerprint) = foldl (scan_row alert key) (start, valid, '''') rows
     in proof\<lparr>se_Ready := valid \<and> fingerprint \<noteq> ''''\<rparr>)"

text \<open>The latest alert of every event, in the order of first use.\<close>

definition latest_alerts :: "AlertPlan list \<Rightarrow> (string, AlertPlan) gomap" where
  "latest_alerts alerts = foldl (\<lambda>m alert. gput (sget (ap_Labels alert) ''oscar_test_event_id'') alert m) [] alerts"

definition bindSourceEpisodes :: "CasePlan \<Rightarrow> HistoryRecord list \<Rightarrow> sourceEpisodeEvidence list \<times> bool" where
  "bindSourceEpisodes item rows =
     (let latest = latest_alerts (cl_Alerts item);
          evidence = map (bind_episode item rows) latest
      in (evidence, latest \<noteq> [] \<and> list_all se_Ready evidence))"

section \<open>Histories by fingerprint (runner.go)\<close>

type_synonym history_map = "(string, HistoryRecord) gomap"

definition retainLatestHistory :: "history_map \<Rightarrow> HistoryRecord \<Rightarrow> history_map" where
  "retainLatestHistory records nxt =
     (case map_of records (hr_Fingerprint nxt) of
        None \<Rightarrow> gput (hr_Fingerprint nxt) nxt records
      | Some previous \<Rightarrow>
          if hr_StartsAt nxt < hr_StartsAt previous then records
          else gput (hr_Fingerprint nxt) nxt records)"

definition historyValues :: "history_map \<Rightarrow> HistoryRecord list" where
  "historyValues m = map snd (sort_key fst m)"

definition uniqueHistory :: "HistoryRecord list \<Rightarrow> HistoryRecord list" where
  "uniqueHistory records =
     map snd (sort_key fst (foldl retainLatestHistory [] (filter (\<lambda>r. hr_Fingerprint r \<noteq> '''') records)))"

definition observedHistory :: "caseResult list \<Rightarrow> HistoryRecord list" where
  "observedHistory results =
     uniqueHistory (concat (map (\<lambda>r. ce_SourceHistory r @ ce_SyntheticHistory r) results))"

section \<open>Snapshots (observation.go, no\_match.go)\<close>

definition auditFingerprint :: "HistoryRecord \<Rightarrow> string" where
  "auditFingerprint r =
     (let v = sget (hr_Labels r) ''am_fingerprint'' in if v \<noteq> '''' then v else hr_Fingerprint r)"

text \<open>The event identities expected under every alert name.\<close>

definition add_expected :: "(string, string list) gomap \<Rightarrow> AlertPlan \<Rightarrow> (string, string list) gomap" where
  "add_expected m alert =
     (let eventID = sget (ap_Labels alert) ''oscar_test_event_id'';
          ids = (case map_of m (ap_Name alert) of None \<Rightarrow> [] | Some ids \<Rightarrow> ids)
      in if eventID = '''' then m
         else gput (ap_Name alert) (if eventID \<in> set ids then ids else ids @ [eventID]) m)"

definition expectedSourceEvents :: "CasePlan \<Rightarrow> (string, string list) gomap" where
  "expectedSourceEvents item = foldl add_expected [] (cl_Alerts item)"

definition auditValues :: "(int, AuditRecord) gomap \<Rightarrow> AuditRecord list" where
  "auditValues m = map snd (sort_key fst m)"

record source_scan =
  ss_EpisodeRows :: "HistoryRecord list"
  ss_FoundEvents :: "(string \<times> string) list"
  ss_ByFingerprint :: history_map

definition scan_source :: "string \<Rightarrow> string \<Rightarrow> string list \<Rightarrow> bool \<Rightarrow> source_scan \<Rightarrow> HistoryRecord \<Rightarrow> source_scan" where
  "scan_source rid alertName ids episodes acc record =
     (let eventID = sget (hr_Labels record) ''oscar_test_event_id''
      in if hr_AlertName record \<noteq> alertName \<or> sget (hr_Labels record) ''oscar_test_run_id'' \<noteq> rid \<or>
            hr_Fingerprint record = '''' \<or> eventID \<notin> set ids then acc
         else acc
           \<lparr>ss_EpisodeRows := (if episodes then ss_EpisodeRows acc @ [record] else ss_EpisodeRows acc),
            ss_FoundEvents := List.insert (alertName, eventID) (ss_FoundEvents acc),
            ss_ByFingerprint := retainLatestHistory (ss_ByFingerprint acc) record\<rparr>)"

fun find_sources :: "'x runner \<Rightarrow> context_kind \<Rightarrow> string \<Rightarrow> time \<Rightarrow> time \<Rightarrow> bool \<Rightarrow> (string, string list) gomap \<Rightarrow>
  source_scan \<Rightarrow> ('x, go_error + source_scan) action" where
  "find_sources r ctx rid started deadline episodes [] acc = State_Monad.return (Inr acc)"
| "find_sources r ctx rid started deadline episodes ((alertName, ids) # rest) acc = do {
     found \<leftarrow> outside (api_FindHistory r ctx
       \<lparr>hq_AlertName = alertName, hq_Start = started - second, hq_End = deadline + minute\<rparr>);
     case found of
       Inl e \<Rightarrow> State_Monad.return (Inl e)
     | Inr records \<Rightarrow> find_sources r ctx rid started deadline episodes rest
         (foldl (scan_source rid alertName ids episodes) acc records)
   }"

definition empty_snapshot :: observationSnapshot where
  "empty_snapshot = \<lparr>sn_NoMatchCount = 0, sn_NoMatchReady = False, sn_SourceEpisodes = [],
     sn_SourceEpisodesReady = False, sn_Sources = [], sn_Parents = [], sn_Audits = [], sn_Notifications = [],
     sn_SourceReady = False, sn_AuditReady = False\<rparr>"

text \<open>The snapshot after the source histories were read.\<close>

definition source_snapshot :: "CasePlan \<Rightarrow> source_scan \<Rightarrow> observationSnapshot" where
  "source_snapshot item scan =
     (let expected = length (concat (map snd (expectedSourceEvents item)));
          ready = (length (ss_FoundEvents scan) = expected \<and> length (ss_ByFingerprint scan) = expected);
          snapshot = empty_snapshot\<lparr>sn_Sources := historyValues (ss_ByFingerprint scan), sn_SourceReady := ready\<rparr>
      in if usesSourceEpisodes (cl_Assertions item)
         then let (evidence, bound) = bindSourceEpisodes item (ss_EpisodeRows scan)
              in snapshot\<lparr>sn_SourceEpisodes := evidence, sn_SourceEpisodesReady := bound \<and> ready\<rparr>
         else snapshot)"

text \<open>
  The explicit no-match witness: one audit row. The loop threads the row table, the readiness and
  whether the source was witnessed; the clock is read only for a row whose identity and age pass.
\<close>

definition no_match_row :: "AuditRecord \<Rightarrow> bool" where
  "no_match_row row \<longleftrightarrow>
     au_RuleIdentityNull row \<and> au_RuleID row = 0 \<and> au_RuleName row = '''' \<and> au_Pattern row = '''' \<and>
     au_Outcome row = ''released_no_trigger'' \<and> au_Reason row = ''no_matching_rules'' \<and>
     au_ParentFingerprint row = '''' \<and> au_SuppressedNotifiers row = []"

record no_match_scan =
  nm_ByID :: "(int, AuditRecord) gomap"
  nm_Ready :: bool
  nm_Witnessed :: bool
  nm_Audits :: "AuditRecord list"
  nm_Count :: int

fun no_match_rows :: "'x runner \<Rightarrow> HistoryRecord \<Rightarrow> AuditRecord list \<Rightarrow> no_match_scan \<Rightarrow> ('x, no_match_scan) action" where
  "no_match_rows r source [] acc = State_Monad.return acc"
| "no_match_rows r source (row # rows) acc =
     (if au_AlertFingerprint row \<noteq> auditFingerprint source then no_match_rows r source rows acc
      else
        let clash = (case map_of (nm_ByID acc) (au_ID row) of
               None \<Rightarrow> False | Some prior \<Rightarrow> au_AlertFingerprint prior \<noteq> au_AlertFingerprint row);
            acc = acc\<lparr>nm_ByID := gput (au_ID row) row (nm_ByID acc), nm_Ready := nm_Ready acc \<and> \<not> clash,
              nm_Audits := nm_Audits acc @ [row]\<rparr>
        in if au_ID row \<le> 0 \<or> au_CreatedAt row = 0 \<or> au_CreatedAt row < hr_StartsAt source
           then no_match_rows r source rows acc
           else do {
             t \<leftarrow> now r;
             if t < au_CreatedAt row then no_match_rows r source rows acc
             else if no_match_row row then no_match_rows r source rows (acc\<lparr>nm_Witnessed := True\<rparr>)
             else no_match_rows r source rows (acc\<lparr>nm_Ready := False\<rparr>)
           })"

fun no_match_sources :: "'x runner \<Rightarrow> context_kind \<Rightarrow> HistoryRecord list \<Rightarrow> no_match_scan \<Rightarrow>
  ('x, go_error + no_match_scan) action" where
  "no_match_sources r ctx [] acc = State_Monad.return (Inr acc)"
| "no_match_sources r ctx (source # rest) acc = do {
     let acc = acc\<lparr>nm_Ready := nm_Ready acc \<and> hr_Status source = ''firing'', nm_Witnessed := False\<rparr>;
     found \<leftarrow> outside (api_CorrelationAudit r ctx (auditFingerprint source));
     case found of
       Inl e \<Rightarrow> State_Monad.return (Inl e)
     | Inr rows \<Rightarrow> do {
         acc \<leftarrow> no_match_rows r source rows acc;
         no_match_sources r ctx rest
           (if nm_Witnessed acc then acc\<lparr>nm_Count := nm_Count acc + 1\<rparr> else acc\<lparr>nm_Ready := False\<rparr>)
       }
   }"

definition readNoMatchAudits :: "'x runner \<Rightarrow> context_kind \<Rightarrow> observationSnapshot \<Rightarrow> ('x, go_error + observationSnapshot) action" where
  "readNoMatchAudits r ctx snapshot = do {
     result \<leftarrow> no_match_sources r ctx (sn_Sources snapshot)
       \<lparr>nm_ByID = [], nm_Ready = sn_SourceReady snapshot \<and> sn_SourceEpisodesReady snapshot, nm_Witnessed = False,
        nm_Audits = sn_Audits snapshot, nm_Count = sn_NoMatchCount snapshot\<rparr>;
     case result of
       Inl e \<Rightarrow> State_Monad.return (Inl e)
     | Inr acc \<Rightarrow> State_Monad.return (Inr (snapshot
         \<lparr>sn_Audits := nm_Audits acc, sn_NoMatchCount := nm_Count acc, sn_NoMatchReady := nm_Ready acc,
          sn_AuditReady := nm_Ready acc\<rparr>))
   }"

text \<open>The audits of the sources, and their notifications for a parent-child rule.\<close>

record audit_scan =
  ad_ByID :: "(int, AuditRecord) gomap"
  ad_Audited :: "string list"
  ad_Notifications :: "NotificationRecord list"

definition scan_audit :: "string \<Rightarrow> HistoryRecord \<Rightarrow> audit_scan \<Rightarrow> AuditRecord \<Rightarrow> audit_scan" where
  "scan_audit ruleName source acc audit =
     (if au_AlertFingerprint audit \<noteq> '''' \<and> au_AlertFingerprint audit \<noteq> auditFingerprint source then acc
      else if au_RuleName audit \<noteq> ruleName then acc
      else acc\<lparr>ad_Audited := List.insert (hr_Fingerprint source) (ad_Audited acc),
               ad_ByID := gput (au_ID audit) audit (ad_ByID acc)\<rparr>)"

fun find_audits :: "'x runner \<Rightarrow> context_kind \<Rightarrow> CasePlan \<Rightarrow> time \<Rightarrow> time \<Rightarrow> HistoryRecord list \<Rightarrow> audit_scan \<Rightarrow>
  ('x, go_error + audit_scan) action" where
  "find_audits r ctx item started deadline [] acc = State_Monad.return (Inr acc)"
| "find_audits r ctx item started deadline (source # rest) acc = do {
     found \<leftarrow> outside (api_CorrelationAudit r ctx (auditFingerprint source));
     case found of
       Inl e \<Rightarrow> State_Monad.return (Inl e)
     | Inr audits \<Rightarrow>
         let acc = foldl (scan_audit (rp_Name (cl_Rule item)) source) acc audits
         in if rp_Pattern (cl_Rule item) = ''parent_child'' then do {
              notified \<leftarrow> outside (api_NotificationAudit r ctx (auditFingerprint source) (started - second) (deadline + minute));
              case notified of
                Inl e \<Rightarrow> State_Monad.return (Inl e)
              | Inr ns \<Rightarrow> find_audits r ctx item started deadline rest (acc\<lparr>ad_Notifications :=
                  ad_Notifications acc @ filter (\<lambda>n. nt_AlertFingerprint n = auditFingerprint source) ns\<rparr>)
            }
            else find_audits r ctx item started deadline rest acc
   }"

definition read_correlation :: "'x runner \<Rightarrow> context_kind \<Rightarrow> string \<Rightarrow> CasePlan \<Rightarrow> time \<Rightarrow> time \<Rightarrow> observationSnapshot \<Rightarrow>
  ('x, go_error + observationSnapshot) action" where
  "read_correlation r ctx rid item started deadline snapshot = do {
     audited \<leftarrow> find_audits r ctx item started deadline (sn_Sources snapshot)
       \<lparr>ad_ByID = [], ad_Audited = [], ad_Notifications = []\<rparr>;
     case audited of
       Inl e \<Rightarrow> State_Monad.return (Inl e)
     | Inr acc \<Rightarrow>
         let snapshot = snapshot\<lparr>sn_Audits := auditValues (ad_ByID acc), sn_Notifications := ad_Notifications acc,
               sn_AuditReady := sn_SourceReady snapshot \<and> length (ad_Audited acc) = length (sn_Sources snapshot)\<rparr>;
             emitted = rp_EmitAlertName (cl_Rule item)
         in if emitted = '''' then State_Monad.return (Inr snapshot)
            else do {
              found \<leftarrow> outside (api_FindHistory r ctx
                \<lparr>hq_AlertName = emitted, hq_Start = started - second, hq_End = deadline + minute\<rparr>);
              case found of
                Inl e \<Rightarrow> State_Monad.return (Inl e)
              | Inr parents \<Rightarrow> State_Monad.return (Inr (snapshot\<lparr>sn_Parents := historyValues
                  (foldl retainLatestHistory [] (filter (\<lambda>p. hr_AlertName p = emitted \<and>
                     sget (hr_Labels p) ''oscar_test_run_id'' = rid \<and> hr_Fingerprint p \<noteq> '''') parents))\<rparr>))
            }
   }"

definition readSnapshot :: "'x runner \<Rightarrow> context_kind \<Rightarrow> string \<Rightarrow> CasePlan \<Rightarrow> time \<Rightarrow> time \<Rightarrow>
  ('x, go_error + observationSnapshot) action" where
  "readSnapshot r ctx rid item started deadline = do {
     scanned \<leftarrow> find_sources r ctx rid started deadline (usesSourceEpisodes (cl_Assertions item))
       (expectedSourceEvents item) \<lparr>ss_EpisodeRows = [], ss_FoundEvents = [], ss_ByFingerprint = []\<rparr>;
     case scanned of
       Inl e \<Rightarrow> State_Monad.return (Inl e)
     | Inr scan \<Rightarrow>
         let snapshot = source_snapshot item scan
         in if cl_Control item = ''downstream-unmatched'' then readNoMatchAudits r ctx snapshot
            else if onlySourceEpisodes (cl_Assertions item)
            then State_Monad.return (Inr (snapshot\<lparr>sn_AuditReady := sn_SourceReady snapshot\<rparr>))
            else read_correlation r ctx rid item started deadline snapshot
   }"

section \<open>The observation of a case (observation.go)\<close>

definition buildCaseResult :: "CasePlan \<Rightarrow> observationSnapshot \<Rightarrow> assertionResult list \<Rightarrow> Verdict \<Rightarrow> string \<Rightarrow>
  time \<Rightarrow> time \<Rightarrow> caseResult" where
  "buildCaseResult item s as verdict explanation startedAt endedAt =
     \<lparr>ce_Name = cl_Name item, ce_Code = cl_Code item, ce_Verdict = verdict,
      ce_SourceFingerprints = map hr_Fingerprint (sn_Sources s), ce_SyntheticCount = int (length (sn_Parents s)),
      ce_AuditOutcomes = map au_Outcome (sn_Audits s),
      ce_NotificationStatuses = map nt_Status (sn_Notifications s), ce_ObservationComplete = True,
      ce_Explanation = (let text = trim_space explanation
         in if text = '''' then ''case completed with '' @ verdict_str verdict else text),
      ce_Assertions = as, ce_SourceEpisodes = sn_SourceEpisodes s, ce_SourceHistory = sn_Sources s,
      ce_SyntheticHistory = sn_Parents s, ce_Audits = sn_Audits s, ce_Notifications = sn_Notifications s,
      ce_StartedAt = startedAt, ce_EndedAt = endedAt\<rparr>"

text \<open>What the loop remembers: the last snapshot, the first violation and the first gap.\<close>

record observation =
  ob_Last :: observationSnapshot
  ob_Violation :: "observationSnapshot option"
  ob_Gap :: "observationSnapshot option"

definition episode_gap :: "assertionResult \<Rightarrow> bool" where
  "episode_gap a \<longleftrightarrow> av_Kind a = ''source-episode-state-count'' \<and> av_Expected a = 0 \<and>
     av_Verdict a = VerdictInconclusive"

definition zero_violated :: "bool \<Rightarrow> assertionResult \<Rightarrow> bool" where
  "zero_violated checkpoint a \<longleftrightarrow> (checkpoint \<or> av_Kind a = ''source-episode-state-count'') \<and> av_Expected a = 0 \<and>
     av_Verdict a = VerdictFail"

definition remember :: "bool \<Rightarrow> bool \<Rightarrow> observationSnapshot \<Rightarrow> assertionResult list \<Rightarrow> observation \<Rightarrow> observation" where
  "remember fullWindow checkpoint snapshot as ob = ob
     \<lparr>ob_Last := snapshot,
      ob_Gap := (if fullWindow \<and> ob_Gap ob = None \<and> list_ex episode_gap as then Some snapshot else ob_Gap ob),
      ob_Violation := (if fullWindow \<and> ob_Violation ob = None \<and> list_ex (zero_violated checkpoint) as
                       then Some snapshot else ob_Violation ob)\<rparr>"

text \<open>The verdict at the deadline, with its explanation and the snapshot it rests on.\<close>

definition decide :: "bool \<Rightarrow> observationSnapshot \<Rightarrow> assertionResult list \<Rightarrow> Verdict \<times> string" where
  "decide checkpoint s as =
     (if \<not> sn_SourceReady s \<or> \<not> sn_AuditReady s then
        (VerdictInconclusive, ''source history or correlation-audit eligibility was not proven by the deadline'')
      else if list_ex (\<lambda>a. av_Verdict a = VerdictInconclusive) as then
        (VerdictInconclusive, ''current source episode History evidence was not proven by the deadline'')
      else if checkpoint \<and> list_ex (\<lambda>a. av_Verdict a = VerdictSkipped) as then
        (VerdictInconclusive, ''checkpoint requires every assertion to be supported and scored'')
      else if assertionsPass as then
        (VerdictPass, ''declared assertions matched the final bounded observation'')
      else (VerdictFail, ''one or more declared assertions differed from the final bounded observation''))"

definition assertions_or_none :: "go_error + assertionResult list \<Rightarrow> assertionResult list" where
  "assertions_or_none x = (case x of Inl e \<Rightarrow> [] | Inr as \<Rightarrow> as)"

definition conclude :: "'x runner \<Rightarrow> CasePlan \<Rightarrow> bool \<Rightarrow> bool \<Rightarrow> time \<Rightarrow> observation \<Rightarrow> ('x, go_error + caseResult) action" where
  "conclude r item shadow checkpoint injectedAt ob =
     (let evaluated = (\<lambda>s. evaluateAssertions (cl_Assertions item) s shadow);
          finish = (\<lambda>s as verdict explanation. do {
            t \<leftarrow> now r;
            State_Monad.return (Inr (buildCaseResult item s as verdict explanation injectedAt t))
          })
      in case evaluated (ob_Last ob) of
           Inl e \<Rightarrow> State_Monad.return (Inl e)
         | Inr as \<Rightarrow>
             (case ob_Violation ob of
                Some s \<Rightarrow> finish s (assertions_or_none (evaluated s)) VerdictFail
                  ''a zero-count assertion was violated during its observation interval''
              | None \<Rightarrow>
                  (case ob_Gap ob of
                     Some s \<Rightarrow> finish s (assertions_or_none (evaluated s)) VerdictInconclusive
                       ''a source episode zero-count check lacked complete evidence during its observation interval''
                   | None \<Rightarrow> let (verdict, explanation) = decide checkpoint (ob_Last ob) as
                             in finish (ob_Last ob) as verdict explanation)))"

text \<open>
  The early exit: the assertions pass before the deadline and still pass after the stabilization
  interval. \<^term>\<open>Inr (Inl result)\<close> ends the observation, \<^term>\<open>Inr (Inr snapshot)\<close> goes on with
  that snapshot as the last one.
\<close>

definition stabilize :: "'x runner \<Rightarrow> context_kind \<Rightarrow> string \<Rightarrow> CasePlan \<Rightarrow> time \<Rightarrow> time \<Rightarrow> time \<Rightarrow> bool \<Rightarrow> bool \<Rightarrow>
  observationSnapshot \<Rightarrow> assertionResult list \<Rightarrow> ('x, go_error + (caseResult + observationSnapshot)) action" where
  "stabilize r ctx rid item started deadline injectedAt shadow fullWindow snapshot as =
     (if \<not> fullWindow \<and> sn_SourceReady snapshot \<and> sn_AuditReady snapshot \<and> assertionsPass as \<and> 0 < rn_Stabilization r
      then do {
        slept \<leftarrow> outside (rn_Sleep r ctx (rn_Stabilization r));
        case slept of
          Some e \<Rightarrow> State_Monad.return (Inl e)
        | None \<Rightarrow> do {
            reread \<leftarrow> readSnapshot r ctx rid item started deadline;
            case reread of
              Inl e \<Rightarrow> State_Monad.return (Inl e)
            | Inr settled \<Rightarrow>
                (case evaluateAssertions (cl_Assertions item) settled shadow of
                   Inl e \<Rightarrow> State_Monad.return (Inl e)
                 | Inr settledAs \<Rightarrow>
                     if assertionsPass settledAs then do {
                       t \<leftarrow> now r;
                       State_Monad.return (Inr (Inl (buildCaseResult item settled settledAs VerdictPass
                         ''declared assertions remained satisfied through stabilization'' injectedAt t)))
                     }
                     else State_Monad.return (Inr (Inr settled)))
          }
      }
      else State_Monad.return (Inr (Inr snapshot)))"

fun observe_loop :: "nat \<Rightarrow> 'x runner \<Rightarrow> context_kind \<Rightarrow> string \<Rightarrow> CasePlan \<Rightarrow> time \<Rightarrow> time \<Rightarrow> time \<Rightarrow> bool \<Rightarrow> bool \<Rightarrow> bool \<Rightarrow>
  observation \<Rightarrow> ('x, (go_error + caseResult) option) action" where
  "observe_loop 0 r ctx rid item started deadline injectedAt shadow fullWindow checkpoint ob = State_Monad.return None"
| "observe_loop (Suc fuel) r ctx rid item started deadline injectedAt shadow fullWindow checkpoint ob = do {
     reading \<leftarrow> readSnapshot r ctx rid item started deadline;
     case reading of
       Inl e \<Rightarrow> State_Monad.return (Some (Inl e))
     | Inr snapshot \<Rightarrow>
         (case evaluateAssertions (cl_Assertions item) snapshot shadow of
            Inl e \<Rightarrow> State_Monad.return (Some (Inl e))
          | Inr as \<Rightarrow> do {
              t \<leftarrow> now r;
              settled \<leftarrow> stabilize r ctx rid item started deadline injectedAt shadow fullWindow snapshot as;
              case settled of
                Inl e \<Rightarrow> State_Monad.return (Some (Inl e))
              | Inr (Inl result) \<Rightarrow> State_Monad.return (Some (Inr result))
              | Inr (Inr latest) \<Rightarrow>
                  let ob = (remember fullWindow checkpoint snapshot as ob)\<lparr>ob_Last := latest\<rparr>
                  in if \<not> t < deadline then do {
                       result \<leftarrow> conclude r item shadow checkpoint injectedAt ob;
                       State_Monad.return (Some result)
                     }
                     else do {
                       slept \<leftarrow> outside (rn_Sleep r ctx (min (rn_PollInterval r) (deadline - t)));
                       case slept of
                         Some e \<Rightarrow> State_Monad.return (Some (Inl e))
                       | None \<Rightarrow>
                           observe_loop fuel r ctx rid item started deadline injectedAt shadow fullWindow checkpoint ob
                     }
            })
   }"

definition observation_window :: "'x runner \<Rightarrow> CasePlan \<Rightarrow> bool \<Rightarrow> duration" where
  "observation_window r item checkpoint =
     (let window = (if \<not> checkpoint \<and> 0 < rn_ObservationWindow r then rn_ObservationWindow r else cl_ObservationWindow item)
      in if window \<le> 0 then 35 * second else window)"

definition full_window :: "CasePlan \<Rightarrow> bool \<Rightarrow> bool" where
  "full_window item checkpoint \<longleftrightarrow>
     checkpoint \<or> cl_Control item = ''downstream-unmatched'' \<or> requiresFullWindow (cl_Assertions item)"

definition observe :: "nat \<Rightarrow> 'x runner \<Rightarrow> context_kind \<Rightarrow> string \<Rightarrow> CasePlan \<Rightarrow> time \<Rightarrow> time \<Rightarrow> string \<Rightarrow> bool \<Rightarrow>
  ('x, (go_error + caseResult) option) action" where
  "observe fuel r ctx rid item started injectedAt pipelineMode checkpoint = do {
     let window = observation_window r item checkpoint;
     deadline \<leftarrow> (if injectedAt = 0 then do { t \<leftarrow> now r; State_Monad.return (t + window) }
                   else State_Monad.return (injectedAt + window));
     observe_loop fuel r ctx rid item started deadline injectedAt (pipelineMode \<noteq> ''phase_b_dispatch'')
       (full_window item checkpoint) checkpoint
       \<lparr>ob_Last = empty_snapshot, ob_Violation = None, ob_Gap = None\<rparr>
   }"

definition observeCase :: "nat \<Rightarrow> 'x runner \<Rightarrow> context_kind \<Rightarrow> string \<Rightarrow> CasePlan \<Rightarrow> time \<Rightarrow> time \<Rightarrow> string \<Rightarrow>
  ('x, (go_error + caseResult) option) action" where
  "observeCase fuel r ctx rid item started injectedAt pipelineMode =
     observe fuel r ctx rid item started injectedAt pipelineMode False"

end
