(* ===== verification/Run_Report.thy ===== *)
theory Run_Report
  imports Observation
begin

text \<open>
  The JSON documents the runner writes (the struct tags of runner.go, assertions.go and
  source\_episode.go), the normalized facts of a finished run and the canonical report.
\<close>

section \<open>Results as JSON\<close>

definition marshal_episode :: "sourceEpisodeEvidence \<Rightarrow> json" where
  "marshal_episode e = JObject
     (fld ''source'' (JString (se_Source e)) @ fld ''eventId'' (JString (se_EventID e)) @
      fld ''expectedStartsAt'' (jtime (se_ExpectedStartsAt e)) @
      fld ''rows'' (JArray (map marshal_history (se_Rows e))) @ fld ''ready'' (JBool (se_Ready e)) @
      fld_string ''status'' (se_Status e))"

definition marshal_assertion_result :: "assertionResult \<Rightarrow> json" where
  "marshal_assertion_result a = JObject
     (fld ''kind'' (JString (av_Kind a)) @ fld_string ''outcome'' (av_Outcome a) @
      fld ''expected'' (jint (av_Expected a)) @ fld ''observed'' (jint (av_Observed a)) @
      fld ''verdict'' (JString (verdict_str (av_Verdict a))) @
      fld ''explanation'' (JString (av_Explanation a)))"

definition case_result_fields :: "caseResult \<Rightarrow> (string \<times> json) list" where
  "case_result_fields c =
     fld ''name'' (JString (ce_Name c)) @ fld ''code'' (JString (ce_Code c)) @
     fld ''verdict'' (JString (verdict_str (ce_Verdict c))) @
     fld ''sourceFingerprints'' (jstrings (ce_SourceFingerprints c)) @
     fld ''syntheticCount'' (jint (ce_SyntheticCount c)) @ fld ''auditOutcomes'' (jstrings (ce_AuditOutcomes c)) @
     fld_unless (ce_NotificationStatuses c = []) ''notificationStatuses'' (jstrings (ce_NotificationStatuses c)) @
     fld ''observationComplete'' (JBool (ce_ObservationComplete c)) @
     fld ''explanation'' (JString (ce_Explanation c)) @
     fld ''assertions'' (JArray (map marshal_assertion_result (ce_Assertions c))) @
     fld_unless (ce_SourceEpisodes c = []) ''sourceEpisodes'' (JArray (map marshal_episode (ce_SourceEpisodes c))) @
     fld ''sourceHistory'' (JArray (map marshal_history (ce_SourceHistory c))) @
     fld ''syntheticHistory'' (JArray (map marshal_history (ce_SyntheticHistory c))) @
     fld ''audits'' (JArray (map marshal_audit (ce_Audits c))) @
     fld_unless (ce_Notifications c = []) ''notifications'' (JArray (map marshal_notification (ce_Notifications c))) @
     fld ''startedAt'' (jtime (ce_StartedAt c)) @ fld ''endedAt'' (jtime (ce_EndedAt c))"

definition marshal_case_result :: "caseResult \<Rightarrow> json" where
  "marshal_case_result c = JObject (case_result_fields c)"

record checkpointResult =
  ck_AfterEvent :: int
  ck_Window :: duration
  ck_Result :: caseResult

definition marshal_checkpoint_result :: "checkpointResult \<Rightarrow> json" where
  "marshal_checkpoint_result c = JObject
     (fld ''afterEvent'' (jint (ck_AfterEvent c)) @ fld ''window'' (jint (ck_Window c)) @
      case_result_fields (ck_Result c))"

record CapabilitySnapshot =
  cap_APIProfile :: string
  cap_PipelineMode :: string
  cap_Ready :: bool
  cap_LabelsSurvived :: bool
  cap_Compatibility :: bool
  cap_ReadinessDetail :: string

definition marshal_capabilities :: "CapabilitySnapshot \<Rightarrow> json" where
  "marshal_capabilities c = JObject
     (fld ''apiProfile'' (JString (cap_APIProfile c)) @ fld ''pipelineMode'' (JString (cap_PipelineMode c)) @
      fld ''ready'' (JBool (cap_Ready c)) @ fld ''labelsSurvived'' (JBool (cap_LabelsSurvived c)) @
      fld ''compatibilityMode'' (JBool (cap_Compatibility c)) @
      fld_string ''readinessDetail'' (cap_ReadinessDetail c))"

fun cleanup_str :: "CleanupStatus \<Rightarrow> string" where
  "cleanup_str CleanupClean = ''CLEAN''"
| "cleanup_str CleanupDirty = ''DIRTY''"
| "cleanup_str CleanupNotRequired = ''NOT_REQUIRED''"
| "cleanup_str CleanupUnknown = ''UNKNOWN''"
| "cleanup_str (CleanupOther s) = s"

section \<open>Normalized facts\<close>

definition add_fingerprint :: "labels \<Rightarrow> HistoryRecord \<Rightarrow> labels" where
  "add_fingerprint m record = gput (sget (hr_Labels record) ''oscar_test_event_id'') (hr_Fingerprint record) m"

definition result_fingerprints :: "caseResult list \<Rightarrow> labels" where
  "result_fingerprints results = foldl add_fingerprint [] (concat (map ce_SourceHistory results))"

definition expected_json :: "Plan \<Rightarrow> caseResult \<Rightarrow> nat \<Rightarrow> assertionResult \<Rightarrow> json" where
  "expected_json plan result index a =
     (case find (\<lambda>planned. cl_Code planned = ce_Code result \<and> index < length (cl_Assertions planned)) (pl_Cases plan) of
        Some planned \<Rightarrow> marshal_assertion (cl_Assertions planned ! index)
      | None \<Rightarrow> JObject [(''equals'', jint (av_Expected a)), (''kind'', JString (av_Kind a)),
                         (''outcome'', JString (av_Outcome a))])"

definition assertion_fact :: "Plan \<Rightarrow> caseResult \<Rightarrow> nat \<times> assertionResult \<Rightarrow> AssertionFact" where
  "assertion_fact plan result = (\<lambda>(index, a).
     \<lparr>xf_StableKey = av_Kind a @ '':'' @ itoa (int index + 1), xf_Kind = av_Kind a,
      xf_ExpectedJSON = Doc (expected_json plan result index a),
      xf_ObservedJSON = Doc (JObject [(''count'', jint (av_Observed a))]),
      xf_Verdict = av_Verdict a, xf_Explanation = av_Explanation a,
      xf_ObservationStart = ce_StartedAt result, xf_ObservationEnd = ce_EndedAt result\<rparr>)"

definition case_fact :: "Plan \<Rightarrow> caseResult \<Rightarrow> CaseFact" where
  "case_fact plan result =
     \<lparr>cf_StableKey = ce_Code result, cf_Verdict = ce_Verdict result, cf_StartedAt = ce_StartedAt result,
      cf_EndedAt = ce_EndedAt result,
      cf_Assertions = map (assertion_fact plan result) (List.enumerate 0 (ce_Assertions result)),
      cf_Evidence = Doc (marshal_case_result result)\<rparr>"

definition attempt_fact :: "labels \<Rightarrow> AlertAttemptFact \<Rightarrow> AlertAttemptFact" where
  "attempt_fact fingerprints attempt =
     (let fingerprint = sget fingerprints (aa_EventID attempt)
      in if fingerprint \<noteq> '''' then attempt\<lparr>aa_Fingerprint := fingerprint, aa_SendState := ''OBSERVED''\<rparr>
         else attempt)"

definition normalizedFacts :: "Plan \<Rightarrow> caseResult list \<Rightarrow> AlertAttemptFact list \<Rightarrow> ExecutionFacts" where
  "normalizedFacts plan results attempts =
     \<lparr>ef_Cases = map (case_fact plan) results,
      ef_Attempts = map (attempt_fact (result_fingerprints results)) attempts,
      ef_Resolutions = [], ef_Artifacts = []\<rparr>"

section \<open>The canonical report\<close>

definition base_coverage :: labels where
  "base_coverage =
     [(''inputPath'', ''alert-engine''), (''endpoint'', ''POST /api/v1/alerts''), (''receiverAdmission'', ''NOT_TESTED''),
      (''nativeAlertmanager'', ''BYPASSED''), (''lifecycleTransitions'', ''NOT_PROVEN''),
      (''producerBarriers'', ''NOT_TESTED''), (''physicalClear'', ''NOT_PROVEN''), (''selectorRevision'', ''NOT_PROVEN''),
      (''selectedRowIsolation'', ''NOT_PROVEN''), (''notificationDelivery'', ''NOT_PROVEN''),
      (''noMatchScope'', ''DOWNSTREAM_ONLY_IF_ASSERTED'')]"

definition report_coverage :: "string option \<Rightarrow> Plan \<Rightarrow> labels" where
  "report_coverage endpoint plan =
     (if pl_InputPath plan = ''ordinary-webhook'' then
        gput ''endpoint''
          (case endpoint of Some e \<Rightarrow> e | None \<Rightarrow> ''POST /api/v1/webhookreceiver/webhook/corrtest_ordinary_v1'')
          (gput ''nativeAlertmanager'' ''ORDINARY_ROUTE_NOT_INDEPENDENTLY_VERIFIED''
            (gput ''ordinaryForwarding'' ''PINNED_PROFILE_HTTP_ONLY''
              (gput ''inputPath'' ''ordinary-webhook'' base_coverage)))
      else base_coverage)"

definition canonical_report :: "labels \<Rightarrow> string \<Rightarrow> Plan \<Rightarrow> CapabilitySnapshot \<Rightarrow> caseResult list \<Rightarrow>
  checkpointResult list \<Rightarrow> ExecutionFacts \<Rightarrow> Verdict \<Rightarrow> CleanupStatus \<Rightarrow> time \<Rightarrow> json" where
  "canonical_report coverage rid plan capabilities results checkpoints facts verdict cleanup completed = JObject
     (fld_unless (checkpoints = []) ''checkpoints'' (JArray (map marshal_checkpoint_result checkpoints)) @
      fld ''coverage'' (marshal_strings coverage) @ fld ''apiVersion'' (JString ''corrtest.oscar/v1alpha1'') @
      fld ''runId'' (JString rid) @ fld ''pattern'' (JString (pl_Pattern plan)) @
      fld ''planDigest'' (JString (pl_Digest plan)) @ fld ''verdict'' (JString (verdict_str verdict)) @
      fld ''cleanupStatus'' (JString (cleanup_str cleanup)) @
      fld ''capabilities'' (marshal_capabilities capabilities) @
      fld ''cases'' (JArray (map marshal_case_result results)) @
      fld ''attempts'' (JArray (map marshal_attempt (ef_Attempts facts))) @
      fld_unless (ef_Artifacts facts = []) ''artifacts'' (JArray (map marshal_artifact (ef_Artifacts facts))) @
      fld_unless (ef_Resolutions facts = []) ''resolutions'' (JArray (map marshal_resolution (ef_Resolutions facts))) @
      fld ''completedAt'' (jtime completed))"

end
