(* ===== verification/Run_Cleanup.thy ===== *)
theory Run_Cleanup
  imports Run_Report
begin

text \<open>
  How the runner ends a run (\<^verbatim>\<open>internal/runner/runner.go\<close>): the cleanup of owned rules and of
  observed alerts, the recovery of the histories of uncertain attempts, and \<^verbatim>\<open>complete\<close>,
  \<^verbatim>\<open>finishWithoutMutation\<close> and \<^verbatim>\<open>failAndCleanup\<close>.
\<close>

section \<open>Helpers\<close>

definition errorString :: "'x runner \<Rightarrow> go_error option \<Rightarrow> string" where
  "errorString r e = (case e of None \<Rightarrow> '''' | Some err \<Rightarrow> err_text (rn_StoreText r) err)"

definition update_last :: "('a \<Rightarrow> 'a) \<Rightarrow> 'a list \<Rightarrow> 'a list" where
  "update_last f xs = (if xs = [] then [] else butlast xs @ [f (last xs)])"

section \<open>Owned rules\<close>

text \<open>One resource: \<^term>\<open>True\<close> when it counts as a failure.\<close>

definition cleanup_resource :: "'x runner \<Rightarrow> context_kind \<Rightarrow> Resource \<Rightarrow> ('x, bool) action" where
  "cleanup_resource r ctx resource =
     (if rs_ExternalID resource = '''' then
        (if rs_LifecycleState resource = ResourceProposed then do {
           t \<leftarrow> now r;
           marked \<leftarrow> store_op r ctx (\<lambda>s. MarkResourceDeleted s (rs_ID resource) t);
           State_Monad.return (marked \<noteq> None)
         }
         else do {
           _ \<leftarrow> store_op r ctx (\<lambda>s. MarkResourceCleanupError s (rs_ID resource) ''external rule identity is unknown'');
           State_Monad.return True
         })
      else case (case atoi (rs_ExternalID resource) of Some i \<Rightarrow> if 0 < i then Some i else None | None \<Rightarrow> None) of
          None \<Rightarrow> do {
            _ \<leftarrow> store_op r ctx (\<lambda>s. MarkResourceCleanupError s (rs_ID resource) ''external rule identity is invalid'');
            State_Monad.return True
          }
        | Some i \<Rightarrow> do {
            deleted \<leftarrow> outside (api_DeleteRule r ctx i);
            case deleted of
              Some e \<Rightarrow> do {
                _ \<leftarrow> store_op r ctx (\<lambda>s. MarkResourceCleanupError s (rs_ID resource) ''delete failed'');
                State_Monad.return True
              }
            | None \<Rightarrow> do {
                t \<leftarrow> now r;
                marked \<leftarrow> store_op r ctx (\<lambda>s. MarkResourceDeleted s (rs_ID resource) t);
                State_Monad.return (marked \<noteq> None)
              }
          })"

fun cleanup_resources :: "'x runner \<Rightarrow> context_kind \<Rightarrow> Resource list \<Rightarrow> string list \<Rightarrow> ('x, string list) action" where
  "cleanup_resources r ctx [] failures = State_Monad.return failures"
| "cleanup_resources r ctx (resource # rest) failures = do {
     failed \<leftarrow> cleanup_resource r ctx resource;
     cleanup_resources r ctx rest (if failed then failures @ [rs_ExternalName resource] else failures)
   }"

section \<open>Observed alerts\<close>

text \<open>The recorder of an ordinary clear.\<close>

definition record_cleanup :: "'x runner \<Rightarrow> context_kind \<Rightarrow> string \<Rightarrow> HistoryRecord \<Rightarrow> 'x recorder" where
  "record_cleanup r ctx rid record request = do {
     t \<leftarrow> now r;
     append_event r ctx rid ''alert.cleanup_attempting'' t ''Exact ordinary source clear recorded before receiver POST''
       (JObject [(''fingerprint'', JString (hr_Fingerprint record)), (''request'', marshal_request request),
                 (''startsAt'', jtime (hr_StartsAt record))])
   }"

definition resolve_history :: "'x runner \<Rightarrow> context_kind \<Rightarrow> string \<Rightarrow> HistoryRecord \<Rightarrow>
  ('x, InjectionResult \<times> go_error option) action" where
  "resolve_history r ctx rid record =
     (if ordinaryRoute r then
        (case api_ResolveHistoryRecorded r of
           None \<Rightarrow> State_Monad.return (no_result, Some (Err ''recorded receiver cleanup unavailable''))
         | Some resolver \<Rightarrow> resolver ctx record (record_cleanup r ctx rid record))
      else outside (api_ResolveHistory r ctx record))"

definition resolution_fact :: "'x runner \<Rightarrow> HistoryRecord \<Rightarrow> InjectionResult \<Rightarrow> go_error option \<Rightarrow> AlertResolutionFact" where
  "resolution_fact r record result err =
     \<lparr>ar_AlertName = hr_AlertName record, ar_Fingerprint = hr_Fingerprint record,
      ar_InjectionClass = class_str (if err \<noteq> None then InjectionIndeterminate else ir_Class result),
      ar_StatusCode = (if err \<noteq> None \<and> ir_StatusCode result = 0 then 500 else ir_StatusCode result),
      ar_Accepted = (err = None \<and> inputAccepted r (ir_Class result))\<rparr>"

fun cleanup_histories :: "'x runner \<Rightarrow> context_kind \<Rightarrow> string \<Rightarrow> HistoryRecord list \<Rightarrow>
  string list \<times> AlertResolutionFact list \<Rightarrow> ('x, string list \<times> AlertResolutionFact list) action" where
  "cleanup_histories r ctx rid [] acc = State_Monad.return acc"
| "cleanup_histories r ctx rid (record # rest) (failures, resolutions) =
     (if sget (hr_Labels record) ''oscar_test_run_id'' \<noteq> rid \<or> hr_Fingerprint record = '''' then
        cleanup_histories r ctx rid rest
          (failures @ [hr_AlertName record @ '': unsafe alert cleanup identity''], resolutions)
      else do {
        (result, err) \<leftarrow> resolve_history r ctx rid record;
        cleanup_histories r ctx rid rest
          (if err \<noteq> None \<or> \<not> inputAccepted r (ir_Class result)
           then failures @ [hr_AlertName record @ '': alert resolution was not accepted''] else failures,
           resolutions @ [resolution_fact r record result err])
      })"

type_synonym 'x discovery = "('x, HistoryRecord list \<times> go_error option) action"

definition cleanup :: "'x runner \<Rightarrow> context_kind \<Rightarrow> string \<Rightarrow> Resource list \<Rightarrow> HistoryRecord list \<Rightarrow> 'x discovery option \<Rightarrow>
  ('x, CleanupStatus \<times> AlertResolutionFact list \<times> go_error option) action" where
  "cleanup r ctx rid resources histories discover = do {
     moved \<leftarrow> transition r ctx rid RunCleaningUp ''Deleting owned temporary rules and resolving test alerts'';
     let failures = (case moved of None \<Rightarrow> [] | Some e \<Rightarrow> [''persist CLEANING_UP: '' @ err_text (rn_StoreText r) e]);
     if resources = [] \<and> histories = [] \<and> discover = None \<and> failures = []
     then State_Monad.return (CleanupNotRequired, [], None)
     else do {
       failures \<leftarrow> cleanup_resources r ctx resources failures;
       (recovered, missed) \<leftarrow> (case discover of None \<Rightarrow> State_Monad.return ([], None) | Some search \<Rightarrow> search);
       let failures = (case missed of None \<Rightarrow> failures
             | Some e \<Rightarrow> failures @ [''alert history recovery: '' @ err_text (rn_StoreText r) e]);
       (failures, resolutions) \<leftarrow> cleanup_histories r ctx rid (histories @ recovered) (failures, []);
       if failures \<noteq> []
       then State_Monad.return (CleanupDirty, resolutions, Some (Err (''cleanup failed for '' @ join '', '' failures)))
       else State_Monad.return (CleanupClean, resolutions, None)
     }
   }"

section \<open>Histories of attempted alerts\<close>

record expectedSource =
  es_Alert :: AlertPlan
  es_Attempt :: AlertAttemptFact

type_synonym expected_map = "(string, (string, expectedSource) gomap) gomap"

definition gget :: "('k, ('a \<times> 'b) list) gomap \<Rightarrow> 'k \<Rightarrow> ('a \<times> 'b) list" where
  "gget m k = (case map_of m k of None \<Rightarrow> [] | Some v \<Rightarrow> v)"

definition expect_attempt :: "CasePlan \<Rightarrow> expected_map \<Rightarrow> AlertAttemptFact \<Rightarrow> expected_map" where
  "expect_attempt item m attempt =
     (if aa_CaseStableKey attempt \<noteq> cl_Code item \<or> aa_EventIndex attempt < 1 \<or>
         int (length (cl_Alerts item)) < aa_EventIndex attempt then m
      else
        let alert = cl_Alerts item ! nat (aa_EventIndex attempt - 1)
        in if aa_EventID attempt = '''' \<or> aa_EventID attempt \<noteq> sget (ap_Labels alert) ''oscar_test_event_id'' then m
           else gput (ap_Name alert)
             (gput (aa_EventID attempt) \<lparr>es_Alert = alert, es_Attempt = attempt\<rparr> (gget m (ap_Name alert))) m)"

definition expected_attempts :: "Plan \<Rightarrow> AlertAttemptFact list \<Rightarrow> expected_map" where
  "expected_attempts plan attempts =
     foldl (\<lambda>m item. foldl (expect_attempt item) m attempts) [] (pl_Cases plan)"

definition synthetic_names :: "Plan \<Rightarrow> string list" where
  "synthetic_names plan =
     sort (remdups (filter (\<lambda>n. n \<noteq> '''') (map (\<lambda>item. rp_EmitAlertName (cl_Rule item)) (pl_Cases plan))))"

text \<open>Whether a History row is a candidate for a wanted attempt.\<close>

definition exact_candidate :: "expectedSource \<Rightarrow> HistoryRecord \<Rightarrow> bool" where
  "exact_candidate wanted record \<longleftrightarrow>
     (if aa_SendState (es_Attempt wanted) = ''ATTEMPTED''
      then aa_StartsAt (es_Attempt wanted) \<noteq> 0 \<and> hr_StartsAt record = aa_StartsAt (es_Attempt wanted) \<and>
        list_all (\<lambda>(label, v). map_of (hr_Labels record) label = Some v) (ap_Labels (es_Alert wanted))
      else True)"

type_synonym candidate_map = "(string, history_map) gomap"

definition add_candidate :: "string \<Rightarrow> string \<Rightarrow> (string, expectedSource) gomap \<Rightarrow> candidate_map \<Rightarrow> HistoryRecord \<Rightarrow>
  candidate_map" where
  "add_candidate rid alertName wantedEvents m record =
     (let eventID = sget (hr_Labels record) ''oscar_test_event_id''
      in if hr_AlertName record \<noteq> alertName \<or> sget (hr_Labels record) ''oscar_test_run_id'' \<noteq> rid \<or>
            hr_Fingerprint record = '''' then m
         else case map_of wantedEvents eventID of
             None \<Rightarrow> m
           | Some wanted \<Rightarrow>
               if exact_candidate wanted record
               then gput eventID (retainLatestHistory (gget m eventID) record) m
               else m)"

definition bind_candidate :: "string \<Rightarrow> candidate_map \<Rightarrow> history_map \<times> string list \<Rightarrow> string \<times> expectedSource \<Rightarrow>
  history_map \<times> string list" where
  "bind_candidate alertName candidates = (\<lambda>(byFingerprint, failures) (eventID, wanted).
     let rows = gget candidates eventID
     in if rows = [] \<or> aa_SendState (es_Attempt wanted) = ''ATTEMPTED'' \<and> length rows \<noteq> 1
        then (byFingerprint, failures @ [alertName @ ''/'' @ eventID @ '': exact attempted history not found or ambiguous''])
        else (foldl retainLatestHistory byFingerprint (map snd rows), failures))"

fun discover_sources :: "'x runner \<Rightarrow> context_kind \<Rightarrow> string \<Rightarrow> time \<Rightarrow> time \<Rightarrow> (string \<times> (string, expectedSource) gomap) list \<Rightarrow>
  history_map \<times> string list \<Rightarrow> ('x, history_map \<times> string list) action" where
  "discover_sources r ctx rid start fin [] acc = State_Monad.return acc"
| "discover_sources r ctx rid start fin ((alertName, wantedEvents) # rest) (byFingerprint, failures) = do {
     found \<leftarrow> outside (api_FindHistory r ctx \<lparr>hq_AlertName = alertName, hq_Start = start - second, hq_End = fin\<rparr>);
     case found of
       Inl e \<Rightarrow> discover_sources r ctx rid start fin rest
         (byFingerprint, failures @ [alertName @ '': '' @ err_text (rn_StoreText r) e])
     | Inr records \<Rightarrow> discover_sources r ctx rid start fin rest
         (foldl (bind_candidate alertName (foldl (add_candidate rid alertName wantedEvents) [] records))
           (byFingerprint, failures) wantedEvents)
   }"

fun discover_parents :: "'x runner \<Rightarrow> context_kind \<Rightarrow> string \<Rightarrow> time \<Rightarrow> time \<Rightarrow> string list \<Rightarrow>
  history_map \<times> string list \<Rightarrow> ('x, history_map \<times> string list) action" where
  "discover_parents r ctx rid start fin [] acc = State_Monad.return acc"
| "discover_parents r ctx rid start fin (alertName # rest) (byFingerprint, failures) = do {
     found \<leftarrow> outside (api_FindHistory r ctx \<lparr>hq_AlertName = alertName, hq_Start = start - second, hq_End = fin\<rparr>);
     case found of
       Inl e \<Rightarrow> discover_parents r ctx rid start fin rest
         (byFingerprint, failures @ [alertName @ '': '' @ err_text (rn_StoreText r) e])
     | Inr records \<Rightarrow> discover_parents r ctx rid start fin rest
         (foldl retainLatestHistory byFingerprint (filter (\<lambda>p. hr_AlertName p = alertName \<and>
            sget (hr_Labels p) ''oscar_test_run_id'' = rid \<and> hr_Fingerprint p \<noteq> '''') records), failures)
   }"

definition discovery_start :: "Run \<Rightarrow> time" where
  "discovery_start run =
     (case run_StartedAt run of Some t \<Rightarrow> if t \<noteq> 0 then t else run_CreatedAt run | None \<Rightarrow> run_CreatedAt run)"

definition discoverAttemptedHistory :: "'x runner \<Rightarrow> context_kind \<Rightarrow> Run \<Rightarrow> Plan \<Rightarrow> AlertAttemptFact list \<Rightarrow> 'x discovery" where
  "discoverAttemptedHistory r ctx run plan attempts =
     (let expected = expected_attempts plan attempts; start = discovery_start run
      in if expected = []
         then State_Monad.return ([], Some (Err ''sent alert attempts could not be mapped to the immutable plan''))
         else do {
           t \<leftarrow> now r;
           acc \<leftarrow> discover_sources r ctx (run_ID run) start (t + minute) (sort_key fst expected) ([], []);
           (byFingerprint, failures) \<leftarrow> discover_parents r ctx (run_ID run) start (t + minute) (synthetic_names plan) acc;
           let recovered = uniqueHistory (map snd byFingerprint);
           State_Monad.return (recovered, if failures = [] then None else Some (Err (join '', '' (sort failures))))
         })"

section \<open>Completion\<close>

text \<open>Appending to the terminal text.\<close>

definition add_terminal :: "string \<Rightarrow> string \<Rightarrow> string" where
  "add_terminal terminal text = (if terminal \<noteq> '''' then terminal @ ''; '' @ text else text)"

definition publish_evidence :: "'x runner \<Rightarrow> context_kind \<Rightarrow> string \<Rightarrow> ExecutionFacts \<Rightarrow> time \<Rightarrow> Verdict \<Rightarrow> string \<Rightarrow>
  ('x, ExecutionFacts \<times> Verdict \<times> string) action" where
  "publish_evidence r ctx rid facts completed verdict terminal =
     (case rn_WriteEvidence r of
        None \<Rightarrow> State_Monad.return (facts, verdict, terminal)
      | Some write \<Rightarrow> do {
          written \<leftarrow> outside (write ctx rid facts completed);
          case written of
            Inl e \<Rightarrow> State_Monad.return (facts, VerdictError,
              add_terminal terminal (''normalized evidence publication failed: '' @ err_text (rn_StoreText r) e))
          | Inr item \<Rightarrow> State_Monad.return (facts\<lparr>ef_Artifacts := ef_Artifacts facts @ [item]\<rparr>, verdict, terminal)
        })"

definition complete :: "'x runner \<Rightarrow> context_kind \<Rightarrow> Run \<Rightarrow> Plan \<Rightarrow> CapabilitySnapshot \<Rightarrow> caseResult list \<Rightarrow>
  checkpointResult list \<Rightarrow> AlertAttemptFact list \<Rightarrow> AlertResolutionFact list \<Rightarrow> Verdict \<Rightarrow> CleanupStatus \<Rightarrow> string \<Rightarrow>
  ('x, go_error option) action" where
  "complete r ctx run plan capabilities results checkpoints attempts resolutions verdict cleanupStatus terminal = do {
     unresolved \<leftarrow> (case api_UnresolvedInputCleanup r of None \<Rightarrow> State_Monad.return False | Some pending \<Rightarrow> outside pending);
     let cleanupStatus = (if unresolved then CleanupDirty else cleanupStatus);
     let terminal = (if unresolved then add_terminal terminal ''ordinary receiver input cleanup remains unresolved'' else terminal);
     completed \<leftarrow> now r;
     let facts = (normalizedFacts plan results attempts)\<lparr>ef_Resolutions := resolutions\<rparr>;
     (facts, verdict, terminal) \<leftarrow> publish_evidence r ctx (run_ID run) facts completed verdict terminal;
     let report = canonical_report (report_coverage (api_InputEndpoint r) plan) (run_ID run) plan capabilities results
           checkpoints facts verdict cleanupStatus completed;
     store_op r ctx (\<lambda>s. FinalizeRun s (run_ID run) facts verdict cleanupStatus (Doc report) terminal completed)
   }"

definition finishWithoutMutation :: "'x runner \<Rightarrow> context_kind \<Rightarrow> Run \<Rightarrow> Plan \<Rightarrow> CapabilitySnapshot \<Rightarrow> Verdict \<Rightarrow> string \<Rightarrow>
  ('x, go_error option) action" where
  "finishWithoutMutation r ctx run plan capabilities verdict explanation = do {
     cancelled \<leftarrow> transition r ctx (run_ID run) RunCancelling
       (if ordinaryRoute r then ''Preflight prevented scenario execution; durable ordinary probe may have sent input''
        else ''Preflight prevented target mutation'');
     case cancelled of
       Some e \<Rightarrow> State_Monad.return (Some e)
     | None \<Rightarrow> do {
         cleaning \<leftarrow> transition r ctx (run_ID run) RunCleaningUp
           (if ordinaryRoute r then ''Check retained ordinary probe responsibility before finalizing cleanup''
            else ''No external resources require cleanup'');
         case cleaning of
           Some e \<Rightarrow> State_Monad.return (Some e)
         | None \<Rightarrow> complete r ctx run plan capabilities [] [] [] [] verdict CleanupNotRequired explanation
       }
   }"

definition failAndCleanup :: "'x runner \<Rightarrow> Run \<Rightarrow> Plan \<Rightarrow> CapabilitySnapshot \<Rightarrow> Resource list \<Rightarrow> checkpointResult list \<Rightarrow>
  go_error \<Rightarrow> ('x, go_error) action" where
  "failAndCleanup r run plan capabilities resources checkpoints cause = do {
     attempts \<leftarrow> observe_world wd_Attempts;
     cancelled \<leftarrow> transition r Cleanup (run_ID run) RunCancelling ''Run failed or was cancelled; cleanup required'';
     let cause = (case cancelled of None \<Rightarrow> cause | Some e \<Rightarrow> NotCancelled e cause);
     (status, resolutions, cleanupErr) \<leftarrow> cleanup r Cleanup (run_ID run) resources []
       (if attempts = [] then None else Some (discoverAttemptedHistory r Cleanup run plan attempts));
     let terminal = err_text (rn_StoreText r) cause @
           (case cleanupErr of None \<Rightarrow> '''' | Some e \<Rightarrow> ''; cleanup: '' @ err_text (rn_StoreText r) e);
     completed \<leftarrow> complete r Cleanup run plan capabilities [] checkpoints attempts resolutions VerdictError
       (if cleanupErr \<noteq> None then CleanupDirty else status) terminal;
     State_Monad.return (case completed of Some e \<Rightarrow> e | None \<Rightarrow> cause)
   }"

end
