(* ===== verification/Run_Executor.thy ===== *)
theory Run_Executor
  imports Run_Cleanup
begin

text \<open>
  \<^verbatim>\<open>Runner.Execute\<close> (\<^verbatim>\<open>internal/runner/runner.go\<close>): preflight, temporary rules, injection with its
  checkpoints, observation, the verdict, cleanup and completion. Each loop returns what it has
  accumulated and why it stopped; \<^verbatim>\<open>Execute\<close> then takes the branch of the code. Fuel bounds the
  polling of every observation: \<^term>\<open>None\<close> means that some observation is still polling.
\<close>

section \<open>Progress\<close>

datatype stop =
    Failed go_error               \<comment> \<open>the code calls \<^verbatim>\<open>failAndCleanup\<close>\<close>
  | CheckpointMissed Verdict      \<comment> \<open>a checkpoint did not pass\<close>
  | Polling                       \<comment> \<open>an observation has not ended within the fuel\<close>

record execution =
  ex_Run :: Run
  ex_Plan :: Plan
  ex_Capabilities :: CapabilitySnapshot
  ex_Started :: time
  ex_Deadline :: time

definition budgetError :: "'x runner \<Rightarrow> time \<Rightarrow> ('x, go_error option) action" where
  "budgetError r deadline = do {
     cancelled \<leftarrow> outside (rn_CtxErr r Execution);
     case cancelled of
       Some e \<Rightarrow> State_Monad.return (Some (Wrap ''plan maximum duration exceeded'' e))
     | None \<Rightarrow> do {
         t \<leftarrow> now r;
         State_Monad.return (if \<not> t < deadline then Some (Err ''plan maximum duration exceeded'') else None)
       }
   }"

section \<open>Temporary rules\<close>

definition proposed_resource :: "Run \<Rightarrow> nat \<Rightarrow> CasePlan \<Rightarrow> Resource" where
  "proposed_resource run index item =
     \<lparr>rs_ID = ''res_'' @ run_ShortToken run @ ''_'' @ pad3 (index + 1), rs_RunID = run_ID run,
      rs_Kind = ''correlation_rule'', rs_ExternalID = '''', rs_ExternalName = rp_Name (cl_Rule item),
      rs_OwnershipToken = run_ID run, rs_LifecycleState = ResourceProposed, rs_CreatedAt = None,
      rs_DeletedAt = None, rs_CleanupError = ''''\<rparr>"

definition same_rule :: "Rule \<Rightarrow> RulePlan \<Rightarrow> bool" where
  "same_rule candidate rule \<longleftrightarrow> ru_Name candidate = rp_Name rule \<and> ru_Pattern candidate = rp_Pattern rule \<and>
     ru_Description candidate = rp_Description rule"

text \<open>
  The rule after \<^verbatim>\<open>CreateRule\<close>: an error is reconciled by an exact lookup, and a rule that is
  not the planned one is not owned. \<^term>\<open>Inl\<close> carries the failure and leaves the resource unknown.
\<close>

definition create_rule :: "'x runner \<Rightarrow> Resource \<Rightarrow> RulePlan \<Rightarrow> ('x, go_error + Rule) action" where
  "create_rule r resource rule = do {
     created \<leftarrow> outside (api_CreateRule r Execution rule);
     reconciled \<leftarrow> (case created of
         Inr made \<Rightarrow> State_Monad.return (Inr made)
       | Inl err \<Rightarrow> do {
           candidates \<leftarrow> outside (api_FindRules r Execution (rp_Name rule));
           case candidates of
             Inr [candidate] \<Rightarrow>
               if same_rule candidate rule then State_Monad.return (Inr candidate)
               else State_Monad.return (Inl err)
           | _ \<Rightarrow> State_Monad.return (Inl err)
         });
     case reconciled of
       Inl err \<Rightarrow> do {
         _ \<leftarrow> store_op r Execution (\<lambda>s. MarkResourceCleanupError s (rs_ID resource) ''rule create outcome unknown'');
         State_Monad.return (Inl (Wrap ''rule create outcome could not be safely reconciled'' err))
       }
     | Inr made \<Rightarrow>
         if ru_Name made \<noteq> rp_Name rule \<or> ru_Description made \<noteq> rp_Description rule then do {
           _ \<leftarrow> store_op r Execution (\<lambda>s. MarkResourceCleanupError s (rs_ID resource) ''created rule ownership did not round-trip'');
           State_Monad.return (Inl (Err ''created rule ownership mismatch''))
         }
         else State_Monad.return (Inr made)
   }"

text \<open>One case: the resources grow as soon as the ledger knows the proposal.\<close>

definition setup_case :: "'x runner \<Rightarrow> execution \<Rightarrow> Resource list \<Rightarrow> nat \<times> CasePlan \<Rightarrow>
  ('x, Resource list \<times> go_error option) action" where
  "setup_case r ex resources = (\<lambda>(index, item). do {
     over \<leftarrow> budgetError r (ex_Deadline ex);
     case over of
       Some e \<Rightarrow> State_Monad.return (resources, Some e)
     | None \<Rightarrow> do {
         let resource = proposed_resource (ex_Run ex) index item;
         stored \<leftarrow> store_op r Execution (\<lambda>s. CreateResource s resource);
         case stored of
           Some e \<Rightarrow> State_Monad.return (resources, Some e)
         | None \<Rightarrow> do {
             valid \<leftarrow> outside (api_ValidateRule r Execution (cl_Rule item));
             case valid of
               Some e \<Rightarrow> State_Monad.return (resources @ [resource], Some e)
             | None \<Rightarrow> do {
                 created \<leftarrow> create_rule r resource (cl_Rule item);
                 case created of
                   Inl e \<Rightarrow> State_Monad.return
                     (resources @ [resource\<lparr>rs_LifecycleState := ResourceUnknown\<rparr>], Some e)
                 | Inr made \<Rightarrow> do {
                     let owned = resource\<lparr>rs_ExternalID := itoa (ru_ID made)\<rparr>;
                     t \<leftarrow> now r;
                     adopted \<leftarrow> store_op r Execution (\<lambda>s. AdoptResource s (rs_ID resource) (itoa (ru_ID made)) t);
                     case adopted of
                       Some e \<Rightarrow> State_Monad.return (resources @ [owned], Some e)
                     | None \<Rightarrow> State_Monad.return
                         (resources @ [owned\<lparr>rs_LifecycleState := ResourceCreated\<rparr>], None)
                   }
               }
           }
       }
   })"

fun setup_cases :: "'x runner \<Rightarrow> execution \<Rightarrow> Resource list \<Rightarrow> (nat \<times> CasePlan) list \<Rightarrow>
  ('x, Resource list \<times> go_error option) action" where
  "setup_cases r ex resources [] = State_Monad.return (resources, None)"
| "setup_cases r ex resources (item # rest) = do {
     (resources, failed) \<leftarrow> setup_case r ex resources item;
     case failed of
       Some e \<Rightarrow> State_Monad.return (resources, Some e)
     | None \<Rightarrow> setup_cases r ex resources rest
   }"

section \<open>Injection\<close>

text \<open>The recorder of one attempt: the event first, then the two variables of \<^verbatim>\<open>Execute\<close>.\<close>

definition record_attempt :: "'x runner \<Rightarrow> string \<Rightarrow> AlertAttemptFact \<Rightarrow> 'x recorder" where
  "record_attempt r rid prepared request = do {
     already \<leftarrow> observe_world wd_Recorded;
     if already then State_Monad.return (Some (Err ''input request was already recorded''))
     else do {
       t \<leftarrow> now r;
       stored \<leftarrow> append_event r Execution rid ''alert.attempting'' t
         ''Exact request and input responsibility recorded before OSCAR POST''
         (JObject (attempt_fields prepared @ fld ''request'' (marshal_request request)));
       case stored of
         Some e \<Rightarrow> State_Monad.return (Some e)
       | None \<Rightarrow> do {
           _ \<leftarrow> modify (\<lambda>w. w\<lparr>wd_Attempts := wd_Attempts w @ [prepared], wd_Recorded := True\<rparr>);
           State_Monad.return None
         }
     }
   }"

definition set_attempt :: "(AlertAttemptFact \<Rightarrow> AlertAttemptFact) \<Rightarrow> ('x, unit) action" where
  "set_attempt f = modify (\<lambda>w. w\<lparr>wd_Attempts := update_last f (wd_Attempts w)\<rparr>)"

definition prepared_attempt :: "CasePlan \<Rightarrow> nat \<Rightarrow> AlertPlan \<Rightarrow> AlertAttemptFact" where
  "prepared_attempt item index alert =
     \<lparr>aa_StartsAt = ap_StartsAt alert, aa_CaseStableKey = cl_Code item,
      aa_EventID = sget (ap_Labels alert) ''oscar_test_event_id'', aa_EventIndex = int index + 1,
      aa_SendState = ''ATTEMPTED'', aa_InjectionClass = class_str InjectionIndeterminate, aa_StatusCode = 0,
      aa_Fingerprint = ''''\<rparr>"

text \<open>One POST and the bookkeeping of its attempt.\<close>

definition send_alert :: "'x runner \<Rightarrow> string \<Rightarrow> CasePlan \<Rightarrow> nat \<Rightarrow> AlertPlan \<Rightarrow> ('x, go_error option) action" where
  "send_alert r rid item index alert = do {
     _ \<leftarrow> modify (\<lambda>w. w\<lparr>wd_Recorded := False\<rparr>);
     (result, err) \<leftarrow> api_InjectRecorded r Execution alert (record_attempt r rid (prepared_attempt item index alert));
     recorded \<leftarrow> observe_world wd_Recorded;
     if \<not> recorded then State_Monad.return (Some (case err of
         None \<Rightarrow> Err ''injection returned without recording its request'' | Some e \<Rightarrow> e))
     else do {
       _ \<leftarrow> set_attempt (\<lambda>a. a\<lparr>aa_StatusCode := ir_StatusCode result\<rparr>);
       case err of
         Some e \<Rightarrow> do {
           _ \<leftarrow> set_attempt (\<lambda>a. case remote_status e of None \<Rightarrow> a | Some code \<Rightarrow> a\<lparr>aa_StatusCode := code\<rparr>);
           State_Monad.return (Some e)
         }
       | None \<Rightarrow> do {
           _ \<leftarrow> set_attempt (\<lambda>a. a\<lparr>aa_InjectionClass := class_str (ir_Class result)\<rparr>);
           if \<not> inputAccepted r (ir_Class result)
           then State_Monad.return (Some (Err (''injection was '' @ class_str (ir_Class result))))
           else do {
             _ \<leftarrow> set_attempt (\<lambda>a. a\<lparr>aa_SendState := ''SENT''\<rparr>);
             State_Monad.return None
           }
         }
     }
   }"

text \<open>A checkpoint after an accepted prefix.\<close>

definition checkpoint_prefix :: "CasePlan \<Rightarrow> Checkpoint \<Rightarrow> CasePlan" where
  "checkpoint_prefix item point = item
     \<lparr>cl_Name := cp_Name point, cl_Alerts := take (nat (cp_AfterEvent point)) (cl_Alerts item),
      cl_Assertions := cp_Assertions point, cl_ObservationWindow := cp_Window point\<rparr>"

definition failed_observation :: "CasePlan \<Rightarrow> Checkpoint \<Rightarrow> time \<Rightarrow> time \<Rightarrow> string \<Rightarrow> caseResult" where
  "failed_observation item point began ended explanation =
     \<lparr>ce_Name = cp_Name point, ce_Code = cl_Code item, ce_Verdict = VerdictError, ce_SourceFingerprints = [],
      ce_SyntheticCount = 0, ce_AuditOutcomes = [], ce_NotificationStatuses = [], ce_ObservationComplete = False,
      ce_Explanation = explanation, ce_Assertions = [], ce_SourceEpisodes = [], ce_SourceHistory = [],
      ce_SyntheticHistory = [], ce_Audits = [], ce_Notifications = [], ce_StartedAt = began, ce_EndedAt = ended\<rparr>"

definition run_checkpoint :: "nat \<Rightarrow> 'x runner \<Rightarrow> execution \<Rightarrow> CasePlan \<Rightarrow> Checkpoint \<Rightarrow> checkpointResult list \<Rightarrow>
  ('x, checkpointResult list \<times> stop option) action" where
  "run_checkpoint fuel r ex item point checkpoints = do {
     began \<leftarrow> now r;
     stored \<leftarrow> append_event r Execution (run_ID (ex_Run ex)) ''checkpoint.started'' began
       (''Observing checkpoint '' @ cp_Name point) (marshal_checkpoint point);
     case stored of
       Some e \<Rightarrow> State_Monad.return (checkpoints, Some (Failed e))
     | None \<Rightarrow> do {
         observed \<leftarrow> observe fuel r Execution (run_ID (ex_Run ex)) (checkpoint_prefix item point) (ex_Started ex) began
           (cap_PipelineMode (ex_Capabilities ex)) True;
         case observed of
           None \<Rightarrow> State_Monad.return (checkpoints, Some Polling)
         | Some outcome \<Rightarrow> do {
             result \<leftarrow> (case outcome of
                 Inr result \<Rightarrow> State_Monad.return result
               | Inl e \<Rightarrow> do {
                   t \<leftarrow> now r;
                   State_Monad.return (failed_observation item point began t (err_text (rn_StoreText r) e))
                 });
             let entry = \<lparr>ck_AfterEvent = cp_AfterEvent point, ck_Window = cp_Window point, ck_Result = result\<rparr>;
             t \<leftarrow> now r;
             saved \<leftarrow> append_event r EvidenceWrite (run_ID (ex_Run ex)) ''checkpoint.completed'' t
               (''Checkpoint '' @ cp_Name point @ '': '' @ verdict_str (ce_Verdict result))
               (marshal_checkpoint_result entry);
             case saved of
               Some e \<Rightarrow> State_Monad.return (checkpoints @ [entry], Some (Failed e))
             | None \<Rightarrow>
                 (case outcome of
                    Inl e \<Rightarrow> State_Monad.return (checkpoints @ [entry], Some (Failed e))
                  | Inr _ \<Rightarrow> do {
                      over \<leftarrow> budgetError r (ex_Deadline ex);
                      State_Monad.return (checkpoints @ [entry],
                        (case over of
                           Some e \<Rightarrow> Some (Failed e)
                         | None \<Rightarrow> if ce_Verdict result \<noteq> VerdictPass
                                   then Some (CheckpointMissed (ce_Verdict result)) else None))
                    })
           }
       }
   }"

fun run_checkpoints :: "nat \<Rightarrow> 'x runner \<Rightarrow> execution \<Rightarrow> CasePlan \<Rightarrow> nat \<Rightarrow> Checkpoint list \<Rightarrow> checkpointResult list \<Rightarrow>
  ('x, checkpointResult list \<times> stop option) action" where
  "run_checkpoints fuel r ex item index [] checkpoints = State_Monad.return (checkpoints, None)"
| "run_checkpoints fuel r ex item index (point # rest) checkpoints =
     (if cp_AfterEvent point \<noteq> int index + 1 then run_checkpoints fuel r ex item index rest checkpoints
      else do {
        (checkpoints, stopped) \<leftarrow> run_checkpoint fuel r ex item point checkpoints;
        case stopped of
          Some why \<Rightarrow> State_Monad.return (checkpoints, Some why)
        | None \<Rightarrow> run_checkpoints fuel r ex item index rest checkpoints
      })"

text \<open>Waiting for the alert's delay.\<close>

definition wait_for :: "'x runner \<Rightarrow> execution \<Rightarrow> AlertPlan \<Rightarrow> duration \<Rightarrow> ('x, go_error option) action" where
  "wait_for r ex alert elapsed = do {
     t \<leftarrow> now r;
     stored \<leftarrow> append_event r Execution (run_ID (ex_Run ex)) ''alert.scheduled'' t ''Delayed alert stimulus scheduled''
       (marshal_strings [(''alertName'', ap_Name alert), (''status'', ap_Status alert),
                         (''delay'', duration_str (ap_Delay alert))]);
     case stored of
       Some e \<Rightarrow> State_Monad.return (Some e)
     | None \<Rightarrow> do {
         slept \<leftarrow> outside (rn_Sleep r Execution (ap_Delay alert - elapsed));
         case slept of
           Some e \<Rightarrow> State_Monad.return (Some e)
         | None \<Rightarrow> budgetError r (ex_Deadline ex)
       }
   }"

definition bind_episode_times :: "AlertPlan \<Rightarrow> time \<Rightarrow> AlertPlan" where
  "bind_episode_times alert base =
     (case ap_EpisodeOffset alert of
        None \<Rightarrow> alert
      | Some offset \<Rightarrow> alert
          \<lparr>ap_StartsAt := base + offset,
           ap_EndsAt := (if ap_Status alert = ''resolved'' then base + ap_Delay alert else ap_EndsAt alert)\<rparr>)"

definition announce_episode :: "'x runner \<Rightarrow> execution \<Rightarrow> CasePlan \<Rightarrow> nat \<Rightarrow> AlertPlan \<Rightarrow> ('x, go_error option) action" where
  "announce_episode r ex item index alert =
     (if ap_EpisodeOffset alert = None then State_Monad.return None
      else do {
        t \<leftarrow> now r;
        append_event r Execution (run_ID (ex_Run ex)) ''alert.prepared'' t
          ''Named source episode prepared for OSCAR Alert Engine ingress''
          (JObject [(''attempt'', jint (int index + 1)), (''caseCode'', JString (cl_Code item)),
             (''endsAt'', jtime (ap_EndsAt alert)),
             (''eventId'', JString (sget (ap_Labels alert) ''oscar_test_event_id'')),
             (''startsAt'', jtime (ap_StartsAt alert)), (''status'', JString (ap_Status alert))])
      })"

record injection =
  ij_Elapsed :: duration
  ij_Started :: time
  ij_Checkpoints :: "checkpointResult list"

text \<open>One alert of a case.\<close>

definition inject_alert :: "nat \<Rightarrow> 'x runner \<Rightarrow> execution \<Rightarrow> CasePlan \<Rightarrow> injection \<Rightarrow> nat \<times> AlertPlan \<Rightarrow>
  ('x, injection \<times> stop option) action" where
  "inject_alert fuel r ex item ij = (\<lambda>(index, alert). do {
     over \<leftarrow> budgetError r (ex_Deadline ex);
     case over of
       Some e \<Rightarrow> State_Monad.return (ij, Some (Failed e))
     | None \<Rightarrow> do {
         began \<leftarrow> (if index = 0 then now r else State_Monad.return (ij_Started ij));
         elapsed \<leftarrow> (if cl_Checkpoints item \<noteq> [] then do { t \<leftarrow> now r; State_Monad.return (t - began) }
                     else State_Monad.return (ij_Elapsed ij));
         let base = Prelude.truncate began millisecond;
         waited \<leftarrow> (if elapsed < ap_Delay alert then wait_for r ex alert elapsed else State_Monad.return None);
         let ij = ij\<lparr>ij_Started := began, ij_Elapsed := max elapsed (ap_Delay alert)\<rparr>;
         case waited of
           Some e \<Rightarrow> State_Monad.return (ij, Some (Failed e))
         | None \<Rightarrow> do {
             let alert = bind_episode_times alert base;
             announced \<leftarrow> announce_episode r ex item index alert;
             case announced of
               Some e \<Rightarrow> State_Monad.return (ij, Some (Failed e))
             | None \<Rightarrow> do {
                 sent \<leftarrow> send_alert r (run_ID (ex_Run ex)) item index alert;
                 case sent of
                   Some e \<Rightarrow> State_Monad.return (ij, Some (Failed e))
                 | None \<Rightarrow> do {
                     (checkpoints, stopped) \<leftarrow> run_checkpoints fuel r ex (item\<lparr>cl_EpisodeBase := base\<rparr>) index
                       (cl_Checkpoints item) (ij_Checkpoints ij);
                     State_Monad.return (ij\<lparr>ij_Checkpoints := checkpoints\<rparr>, stopped)
                   }
               }
           }
       }
   })"

fun inject_alerts :: "nat \<Rightarrow> 'x runner \<Rightarrow> execution \<Rightarrow> CasePlan \<Rightarrow> injection \<Rightarrow> (nat \<times> AlertPlan) list \<Rightarrow>
  ('x, injection \<times> stop option) action" where
  "inject_alerts fuel r ex item ij [] = State_Monad.return (ij, None)"
| "inject_alerts fuel r ex item ij (alert # rest) = do {
     (ij, stopped) \<leftarrow> inject_alert fuel r ex item ij alert;
     case stopped of
       Some why \<Rightarrow> State_Monad.return (ij, Some why)
     | None \<Rightarrow> inject_alerts fuel r ex item ij rest
   }"

text \<open>All cases, with the start of each.\<close>

fun inject_cases :: "nat \<Rightarrow> 'x runner \<Rightarrow> execution \<Rightarrow> (string, time) gomap \<Rightarrow> checkpointResult list \<Rightarrow> CasePlan list \<Rightarrow>
  ('x, (string, time) gomap \<times> checkpointResult list \<times> stop option) action" where
  "inject_cases fuel r ex caseStarted checkpoints [] = State_Monad.return (caseStarted, checkpoints, None)"
| "inject_cases fuel r ex caseStarted checkpoints (item # rest) = do {
     (ij, stopped) \<leftarrow> inject_alerts fuel r ex item
       \<lparr>ij_Elapsed = 0, ij_Started = 0, ij_Checkpoints = checkpoints\<rparr> (List.enumerate 0 (cl_Alerts item));
     let caseStarted = (if cl_Alerts item = [] then caseStarted else gput (cl_Code item) (ij_Started ij) caseStarted);
     case stopped of
       Some why \<Rightarrow> State_Monad.return (caseStarted, ij_Checkpoints ij, Some why)
     | None \<Rightarrow> inject_cases fuel r ex caseStarted (ij_Checkpoints ij) rest
   }"

section \<open>Observation and verdict\<close>

definition started_at :: "(string, time) gomap \<Rightarrow> string \<Rightarrow> time" where
  "started_at m code = (case map_of m code of None \<Rightarrow> 0 | Some t \<Rightarrow> t)"

fun observe_cases :: "nat \<Rightarrow> 'x runner \<Rightarrow> execution \<Rightarrow> (string, time) gomap \<Rightarrow> caseResult list \<Rightarrow> CasePlan list \<Rightarrow>
  ('x, caseResult list \<times> stop option) action" where
  "observe_cases fuel r ex caseStarted results [] = State_Monad.return (results, None)"
| "observe_cases fuel r ex caseStarted results (item # rest) = do {
     let began = started_at caseStarted (cl_Code item);
     observed \<leftarrow> observeCase fuel r Execution (run_ID (ex_Run ex)) (item\<lparr>cl_EpisodeBase := Prelude.truncate began millisecond\<rparr>)
       (ex_Started ex) began (cap_PipelineMode (ex_Capabilities ex));
     case observed of
       None \<Rightarrow> State_Monad.return (results, Some Polling)
     | Some (Inl e) \<Rightarrow> State_Monad.return (results, Some (Failed e))
     | Some (Inr result) \<Rightarrow> do {
         over \<leftarrow> budgetError r (ex_Deadline ex);
         case over of
           Some e \<Rightarrow> State_Monad.return (results, Some (Failed e))
         | None \<Rightarrow> observe_cases fuel r ex caseStarted (results @ [result]) rest
       }
   }"

fun run_verdict :: "Verdict \<Rightarrow> caseResult list \<Rightarrow> Verdict" where
  "run_verdict verdict [] = verdict"
| "run_verdict verdict (result # rest) =
     (if ce_Verdict result = VerdictFail \<or> ce_Verdict result = VerdictError then VerdictFail
      else if ce_Verdict result = VerdictInconclusive \<or> ce_Verdict result = VerdictSkipped
      then run_verdict VerdictInconclusive rest
      else run_verdict verdict rest)"

section \<open>Execute\<close>

text \<open>The texts of \<^verbatim>\<open>ValidateControlExclusion\<close>'s errors.\<close>

fun control_text :: "CompileError \<Rightarrow> string" where
  "control_text UnsupportedControl = ''unsupported downstream control''"
| "control_text ControlWithoutInputs = ''downstream control has no inputs''"
| "control_text ControlUniqueInputs = ''downstream control requires unique input identities''"
| "control_text ControlIncomplete = ''downstream control input identity is incomplete''"
| "control_text (ControlUnprovable rule) = ''cannot prove control exclusion for fixture rule '' @ go_quote rule"
| "control_text (ControlOverlap rule) = ''control is not provably disjoint from fixture rule '' @ go_quote rule"
| "control_text _ = ''''"

text \<open>The checks before any mutation, in order: the verdict and the explanation that end the run.\<close>

definition preflight :: "'x runner \<Rightarrow> Plan \<Rightarrow> CapabilitySnapshot \<Rightarrow> (Verdict \<times> string) option" where
  "preflight r plan capabilities = first_error
     [err_if (pl_InputPath plan \<notin> {'''', ''alert-engine'', ''ordinary-webhook''})
        (VerdictError, ''unsupported input path: '' @ pl_InputPath plan),
      (case api_ValidateInputBudget r of
         Some validate \<Rightarrow> map_option (\<lambda>e. (VerdictError, err_text (rn_StoreText r) e)) (validate plan (rn_CleanupTimeout r))
       | None \<Rightarrow> err_if (pl_InputPath plan = ''ordinary-webhook'') (VerdictError, ''ordinary receiver client unavailable'')),
      map_option (\<lambda>e. (VerdictError, control_text e)) (ValidateControlExclusion plan),
      err_if (pl_Cases plan = []) (VerdictError, ''compiled plan contains no executable cases''),
      err_if (pl_MaxDuration plan \<le> 0) (VerdictError, ''compiled plan maximum duration is invalid''),
      err_if (\<not> cap_Ready capabilities \<or> \<not> cap_LabelsSurvived capabilities \<or>
              cap_PipelineMode capabilities \<notin> {''phase_b_dispatch'', ''phase_a_audit_only''})
        (VerdictInconclusive, ''required Phase-A/Phase-B readiness and reserved-label survival were not proven'')]"

definition fail_run :: "'x runner \<Rightarrow> execution \<Rightarrow> Resource list \<Rightarrow> checkpointResult list \<Rightarrow> go_error \<Rightarrow>
  ('x, go_error option option) action" where
  "fail_run r ex resources checkpoints cause = do {
     e \<leftarrow> failAndCleanup r (ex_Run ex) (ex_Plan ex) (ex_Capabilities ex) resources checkpoints cause;
     State_Monad.return (Some (Some e))
   }"

text \<open>A checkpoint that did not pass stops later stimuli and completes the run.\<close>

definition stop_at_checkpoint :: "'x runner \<Rightarrow> execution \<Rightarrow> Resource list \<Rightarrow> checkpointResult list \<Rightarrow> Verdict \<Rightarrow>
  ('x, go_error option option) action" where
  "stop_at_checkpoint r ex resources checkpoints verdict = do {
     cancelled \<leftarrow> transition r Cleanup (run_ID (ex_Run ex)) RunCancelling ''Checkpoint did not pass; stopping later stimuli'';
     case cancelled of
       Some e \<Rightarrow> fail_run r ex resources checkpoints e
     | None \<Rightarrow> do {
         attempts \<leftarrow> observe_world wd_Attempts;
         (status, resolutions, cleanupErr) \<leftarrow> cleanup r Cleanup (run_ID (ex_Run ex)) resources []
           (Some (discoverAttemptedHistory r Cleanup (ex_Run ex) (ex_Plan ex) attempts));
         completed \<leftarrow> complete r Cleanup (ex_Run ex) (ex_Plan ex) (ex_Capabilities ex) [] checkpoints attempts resolutions
           verdict status (errorString r cleanupErr);
         State_Monad.return (Some completed)
       }
   }"

definition stop_run :: "'x runner \<Rightarrow> execution \<Rightarrow> Resource list \<Rightarrow> checkpointResult list \<Rightarrow> stop \<Rightarrow>
  ('x, go_error option option) action" where
  "stop_run r ex resources checkpoints why =
     (case why of
        Failed e \<Rightarrow> fail_run r ex resources checkpoints e
      | CheckpointMissed verdict \<Rightarrow> stop_at_checkpoint r ex resources checkpoints verdict
      | Polling \<Rightarrow> State_Monad.return None)"

text \<open>After all cases were observed.\<close>

definition finish_run :: "'x runner \<Rightarrow> execution \<Rightarrow> Resource list \<Rightarrow> checkpointResult list \<Rightarrow> caseResult list \<Rightarrow>
  ('x, go_error option option) action" where
  "finish_run r ex resources checkpoints results = do {
     asserting \<leftarrow> transition r Execution (run_ID (ex_Run ex)) RunAsserting ''Evaluating terminal evidence'';
     case asserting of
       Some e \<Rightarrow> fail_run r ex resources checkpoints e
     | None \<Rightarrow> do {
         cancelled \<leftarrow> outside (rn_CtxErr r Execution);
         case cancelled of
           Some e \<Rightarrow> fail_run r ex resources checkpoints e
         | None \<Rightarrow> do {
             attempts \<leftarrow> observe_world wd_Attempts;
             (status, resolutions, cleanupErr) \<leftarrow> cleanup r Completion (run_ID (ex_Run ex)) resources (observedHistory results) None;
             completed \<leftarrow> complete r Completion (ex_Run ex) (ex_Plan ex) (ex_Capabilities ex) results checkpoints attempts
               resolutions (run_verdict VerdictPass results) (if cleanupErr \<noteq> None then CleanupDirty else status)
               (errorString r cleanupErr);
             State_Monad.return (Some completed)
           }
       }
   }"

definition observe_run :: "nat \<Rightarrow> 'x runner \<Rightarrow> execution \<Rightarrow> Resource list \<Rightarrow> (string, time) gomap \<Rightarrow> checkpointResult list \<Rightarrow>
  ('x, go_error option option) action" where
  "observe_run fuel r ex resources caseStarted checkpoints = do {
     observing \<leftarrow> transition r Execution (run_ID (ex_Run ex)) RunObserving ''Observing OSCAR history and correlation audit'';
     case observing of
       Some e \<Rightarrow> fail_run r ex resources checkpoints e
     | None \<Rightarrow> do {
         (results, stopped) \<leftarrow> observe_cases fuel r ex caseStarted [] (pl_Cases (ex_Plan ex));
         case stopped of
           Some why \<Rightarrow> stop_run r ex resources checkpoints why
         | None \<Rightarrow> finish_run r ex resources checkpoints results
       }
   }"

definition inject_run :: "nat \<Rightarrow> 'x runner \<Rightarrow> execution \<Rightarrow> Resource list \<Rightarrow> ('x, go_error option option) action" where
  "inject_run fuel r ex resources = do {
     injecting \<leftarrow> transition r Execution (run_ID (ex_Run ex)) RunInjecting ''Sending deterministic source alerts'';
     case injecting of
       Some e \<Rightarrow> fail_run r ex resources [] e
     | None \<Rightarrow> do {
         (caseStarted, checkpoints, stopped) \<leftarrow> inject_cases fuel r ex [] [] (pl_Cases (ex_Plan ex));
         case stopped of
           Some why \<Rightarrow> stop_run r ex resources checkpoints why
         | None \<Rightarrow> observe_run fuel r ex resources caseStarted checkpoints
       }
   }"

definition mutate_run :: "nat \<Rightarrow> 'x runner \<Rightarrow> execution \<Rightarrow> ('x, go_error option option) action" where
  "mutate_run fuel r ex = do {
     setting \<leftarrow> transition r Startup (run_ID (ex_Run ex)) RunSettingUp ''Creating temporary correlation rules'';
     case setting of
       Some e \<Rightarrow> State_Monad.return (Some (Some e))
     | None \<Rightarrow> do {
         (resources, failed) \<leftarrow> setup_cases r ex [] (List.enumerate 0 (pl_Cases (ex_Plan ex)));
         case failed of
           Some e \<Rightarrow> fail_run r ex resources [] e
         | None \<Rightarrow> inject_run fuel r ex resources
       }
   }"

definition Execute :: "nat \<Rightarrow> 'x runner \<Rightarrow> Run \<Rightarrow> Plan \<Rightarrow> CapabilitySnapshot \<Rightarrow> ('x, go_error option option) action" where
  "Execute fuel r run plan capabilities = do {
     _ \<leftarrow> modify (\<lambda>w. w\<lparr>wd_Attempts := []\<rparr>);
     started \<leftarrow> now r;
     let run = run\<lparr>run_StartedAt := Some started\<rparr>;
     let budget = (if pl_MaxDuration plan \<le> 0 then rn_CleanupTimeout r else pl_MaxDuration plan);
     stored \<leftarrow> store_op r Startup (\<lambda>s. SetRunExecutionDocuments s (run_ID run) (Doc (marshal_capabilities capabilities))
       (Doc (marshal_plan plan)) started);
     case stored of
       Some e \<Rightarrow> State_Monad.return (Some (Some e))
     | None \<Rightarrow> do {
         moved \<leftarrow> transition r Startup (run_ID run) RunPreflight ''Target preflight started'';
         case moved of
           Some e \<Rightarrow> State_Monad.return (Some (Some e))
         | None \<Rightarrow> do {
             cancelled \<leftarrow> outside (rn_CtxErr r Execution);
             case cancelled of
               Some err \<Rightarrow> do {
                 ended \<leftarrow> finishWithoutMutation r Startup run plan capabilities VerdictError (err_text (rn_StoreText r) err);
                 State_Monad.return (Some (case ended of Some e \<Rightarrow> Some e | None \<Rightarrow> Some err))
               }
             | None \<Rightarrow>
                 (case preflight r plan capabilities of
                    Some (verdict, explanation) \<Rightarrow> do {
                      ended \<leftarrow> finishWithoutMutation r Execution run plan capabilities verdict explanation;
                      State_Monad.return (Some ended)
                    }
                  | None \<Rightarrow> mutate_run fuel r \<lparr>ex_Run = run, ex_Plan = plan, ex_Capabilities = capabilities,
                      ex_Started = started, ex_Deadline = started + budget\<rparr>)
           }
       }
   }"

end
