(* ===== verification/Run_Ledger.thy ===== *)
theory Run_Ledger
  imports Run_Store
begin

text \<open>
  The invariant of the run ledger: in every reachable store run identifiers are unique, every
  event belongs to a run, the events of a run are numbered from one, and the status changes
  they record lead from queued to the run's status. Each operation of \<^verbatim>\<open>Run_Store\<close> is shown to
  preserve it; \<open>ledger_step\<close> and \<open>reachable\<close> collect them.
\<close>

section \<open>Histories of statuses\<close>

text \<open>The status change an event of the ledger records, if any.\<close>

definition move_of :: "RunEvent \<Rightarrow> (RunStatus \<times> RunStatus) list" where
  "move_of e =
     (if re_Type e = ''run.transition'' then
        (case decode_detail (re_DetailJSON e) of Some (f, t, _) \<Rightarrow> [(f, t)] | None \<Rightarrow> [])
      else if re_Type e = ''run.interrupted'' then
        (case decode_detail (re_DetailJSON e) of Some (_, _, p) \<Rightarrow> [(p, RunInterrupted)] | None \<Rightarrow> [])
      else [])"

definition moves :: "RunEvent list \<Rightarrow> (RunStatus \<times> RunStatus) list" where
  "moves events = concat (map move_of events)"

text \<open>
  A recorded change is legal when the state machine allows it; the recovery of a run that was
  marked completed without a verdict is the one exception.
\<close>

definition legal :: "RunStatus \<Rightarrow> RunStatus \<Rightarrow> bool" where
  "legal a b \<longleftrightarrow> CanTransition a b \<or> a = RunCompleted \<and> b = RunInterrupted"

fun chain :: "RunStatus \<Rightarrow> (RunStatus \<times> RunStatus) list \<Rightarrow> RunStatus option" where
  "chain st [] = Some st"
| "chain st ((a, b) # ms) = (if a = st \<and> legal a b then chain b ms else None)"

lemma chain_append: "chain st (xs @ ys) = (case chain st xs of None \<Rightarrow> None | Some t \<Rightarrow> chain t ys)"
  by (induction st xs rule: chain.induct) auto

lemma moves_append [simp]: "moves (xs @ ys) = moves xs @ moves ys"
  by (simp add: moves_def)

lemma chain_lifecycle:
  assumes "chain RunQueued ms = Some st" and "(RunCompleted, RunInterrupted) \<notin> set ms"
  shows "lifecycle (RunQueued # map snd ms) \<and> last (RunQueued # map snd ms) = st"
  using assms
proof (induction ms arbitrary: st rule: rev_induct)
  case Nil
  then show ?case by (auto intro: lifecycle.created)
next
  case (snoc m ms)
  obtain a b where m: "m = (a, b)" by fastforce
  from snoc.prems m have c: "chain RunQueued ms = Some a" "legal a b" "st = b"
    by (auto simp: chain_append split: option.splits if_splits)
  from snoc.IH [OF c(1)] snoc.prems(2) have IH: "lifecycle (RunQueued # map snd ms)"
      "last (RunQueued # map snd ms) = a" by auto
  moreover have "CanTransition a b" using c(2) snoc.prems(2) m by (auto simp: legal_def)
  ultimately have "lifecycle ((RunQueued # map snd ms) @ [b])"
    using lifecycle.step [OF IH(1), of b] by simp
  then show ?case using m c(3) by simp
qed

lemma transition_detail_decoded:
  "decode_detail (transition_detail a b) = Some (status_of (status_str a), status_of (status_str b), status_of '''')"
proof -
  have le: "(''from'' :: string) \<le> ''to''" by code_simp
  have f: "equal_fold ''from'' ''from''" "\<not> equal_fold ''to'' ''from''" "equal_fold ''to'' ''to''"
    "\<not> equal_fold ''from'' ''to''" "\<not> equal_fold ''from'' ''previousStatus''" "\<not> equal_fold ''to'' ''previousStatus''"
    by code_simp+
  have "marshal_strings [(''from'', x), (''to'', y)] = JObject [(''from'', JString x), (''to'', JString y)]" for x y
    using le by (simp add: marshal_strings_def)
  then show ?thesis
    by (simp add: transition_detail_def decode_detail_def f)
qed

lemma interrupted_detail_decoded:
  "decode_detail (Doc (marshal_strings [(''previousStatus'', status_str a)])) =
     Some (status_of '''', status_of '''', status_of (status_str a))"
proof -
  have f: "equal_fold ''previousStatus'' ''previousStatus''" "\<not> equal_fold ''previousStatus'' ''from''"
    "\<not> equal_fold ''previousStatus'' ''to''" by code_simp+
  then show ?thesis by (simp add: decode_detail_def marshal_strings_def)
qed

section \<open>The invariant of the ledger\<close>

definition events_of :: "RunEvent list \<Rightarrow> string \<Rightarrow> RunEvent list" where
  "events_of events rid = filter (\<lambda>e. re_RunID e = rid) events"

definition numbered :: "RunEvent list \<Rightarrow> bool" where
  "numbered events \<longleftrightarrow> map re_Sequence events = map int [1..<Suc (length events)]"

lemma numbered_Nil [simp]: "numbered []"
  by (simp add: numbered_def)

lemma numbered_snoc [simp]: "numbered (es @ [e]) \<longleftrightarrow> numbered es \<and> re_Sequence e = int (length es) + 1"
  by (auto simp: numbered_def)

definition ledger_ok :: "(string \<times> RunStatus) list \<Rightarrow> RunEvent list \<Rightarrow> bool" where
  "ledger_ok runs events \<longleftrightarrow>
     distinct (map fst runs) \<and>
     (\<forall>e \<in> set events. re_RunID e \<in> fst ` set runs) \<and>
     (\<forall>rid. numbered (events_of events rid)) \<and>
     (\<forall>(rid, st) \<in> set runs. status_Valid st \<and> chain RunQueued (moves (events_of events rid)) = Some st)"

definition run_states :: "store \<Rightarrow> (string \<times> RunStatus) list" where
  "run_states s = map (\<lambda>r. (run_ID r, run_Status r)) (st_Runs s)"

definition store_ok :: "store \<Rightarrow> bool" where
  "store_ok s \<longleftrightarrow> ledger_ok (run_states s) (st_Events s)"

lemma foldl_max_sequence: "foldl max 0 (map int [1..<Suc n]) = int n"
  by (induction n) (auto simp: max_def)

lemma ledger_next:
  assumes "ledger_ok (run_states s) (st_Events s)"
  shows "next_sequence s rid = int (length (events_of (st_Events s) rid)) + 1"
  using assms foldl_max_sequence
  by (simp only: ledger_ok_def numbered_def next_sequence_def run_events_def events_of_def [symmetric])

lemma events_of_snoc: "events_of (events @ [e]) rid = events_of events rid @ (if re_RunID e = rid then [e] else [])"
  by (simp add: events_of_def)

lemma ok_create:
  assumes "ledger_ok runs events" and "rid \<notin> fst ` set runs"
  shows "ledger_ok (runs @ [(rid, RunQueued)]) events"
proof -
  have "events_of events rid = []"
    using assms by (force simp: ledger_ok_def events_of_def filter_empty_conv)
  then show ?thesis
    using assms by (auto simp: ledger_ok_def moves_def)
qed

lemma ok_delete:
  assumes "ledger_ok runs events"
  shows "ledger_ok (filter (\<lambda>x. fst x \<noteq> rid) runs) (filter (\<lambda>e. re_RunID e \<noteq> rid) events)"
proof -
  have e: "events_of (filter (\<lambda>e. re_RunID e \<noteq> rid) events) x = (if x = rid then [] else events_of events x)" for x
    by (auto simp: events_of_def intro: filter_cong)
  have "distinct (map fst (filter (\<lambda>x. fst x \<noteq> rid) runs))"
    using assms by (simp add: ledger_ok_def distinct_map_filter)
  moreover have "\<forall>y \<in> set (filter (\<lambda>e. re_RunID e \<noteq> rid) events). re_RunID y \<in> fst ` set (filter (\<lambda>x. fst x \<noteq> rid) runs)"
    using assms unfolding ledger_ok_def by force
  ultimately show ?thesis
    using assms unfolding ledger_ok_def e by auto
qed

lemma ok_append:
  assumes ok: "ledger_ok runs events" and run: "re_RunID e \<in> fst ` set runs"
    and seq: "re_Sequence e = int (length (events_of events (re_RunID e))) + 1"
    and move: "\<forall>st. (re_RunID e, st) \<in> set runs \<longrightarrow>
      (case chain st (move_of e) of Some st' \<Rightarrow> status_Valid st' \<and> f st = st' | None \<Rightarrow> False)"
  shows "ledger_ok (map (\<lambda>(i, st). (i, if i = re_RunID e then f st else st)) runs) (events @ [e])"
proof -
  have ids: "map fst (map (\<lambda>(i, st). (i, if i = re_RunID e then f st else st)) runs) = map fst runs"
    by (induction runs) auto
  then have "fst ` set (map (\<lambda>(i, st). (i, if i = re_RunID e then f st else st)) runs) = fst ` set runs"
    by (metis list.set_map)
  moreover have "numbered (events_of (events @ [e]) rid)" for rid
    using ok seq unfolding ledger_ok_def events_of_snoc by simp
  moreover have "status_Valid (if i = re_RunID e then f st else st) \<and>
      chain RunQueued (moves (events_of (events @ [e]) i)) = Some (if i = re_RunID e then f st else st)"
    if "(i, st) \<in> set runs" for i st
  proof -
    have "status_Valid st \<and> chain RunQueued (moves (events_of events i)) = Some st"
      using ok that unfolding ledger_ok_def by fast
    then show ?thesis
      using move that by (auto simp: events_of_snoc chain_append moves_def split: option.splits)
  qed
  note states = this
  have "\<forall>(i, st) \<in> set (map (\<lambda>(i, st). (i, if i = re_RunID e then f st else st)) runs).
      status_Valid st \<and> chain RunQueued (moves (events_of (events @ [e]) i)) = Some st"
    using states by auto
  moreover have "\<forall>x \<in> set (events @ [e]). re_RunID x \<in> fst ` set runs"
    using ok run unfolding ledger_ok_def by simp
  moreover have "distinct (map fst runs)" using ok unfolding ledger_ok_def by blast
  ultimately show ?thesis
    unfolding ledger_ok_def ids by simp
qed

section \<open>Every operation preserves it\<close>

lemma appendEvent_Inr:
  "appendEvent s e = Inr (e', s') \<longleftrightarrow>
     re_RunID e \<noteq> '''' \<and> re_Type e \<noteq> '''' \<and> re_Level e \<noteq> '''' \<and> re_OccurredAt e \<noteq> 0 \<and> re_Summary e \<noteq> '''' \<and>
     (raw_present (re_DetailJSON e) \<longrightarrow> json_valid (re_DetailJSON e)) \<and>
     has_run s (re_RunID e) \<and> (re_CaseID e = '''' \<or> has_case s (re_CaseID e)) \<and>
     e' = e\<lparr>re_Sequence := next_sequence s (re_RunID e)\<rparr> \<and> s' = s\<lparr>st_Events := st_Events s @ [e']\<rparr>"
  by (auto simp: appendEvent_def Let_def)

lemma has_run_states: "has_run s rid \<longleftrightarrow> rid \<in> fst ` set (run_states s)"
  by (auto simp: has_run_def run_states_def list_ex_iff image_iff)

lemma move_of_sequence [simp]: "move_of (e\<lparr>re_Sequence := n\<rparr>) = move_of e"
  by (simp add: move_of_def)

text \<open>Appending an event after the status of its run was set to \<open>f\<close> of the old one.\<close>

lemma store_ok_append:
  assumes ok: "store_ok s" and states: "run_states s1 = map (\<lambda>(i, st). (i, if i = re_RunID e then f st else st)) (run_states s)"
    and events: "st_Events s1 = st_Events s"
    and move: "\<And>st. (re_RunID e, st) \<in> set (run_states s) \<Longrightarrow>
      (case chain st (move_of e) of Some st' \<Rightarrow> status_Valid st' \<and> f st = st' | None \<Rightarrow> False)"
    and app: "appendEvent s1 e = Inr (e', s')"
  shows "store_ok s'"
proof -
  from app have e': "e' = e\<lparr>re_Sequence := next_sequence s1 (re_RunID e)\<rparr>" "s' = s1\<lparr>st_Events := st_Events s1 @ [e']\<rparr>"
      "has_run s1 (re_RunID e)" unfolding appendEvent_Inr by blast+
  have "next_sequence s1 (re_RunID e) = next_sequence s (re_RunID e)"
    by (simp add: next_sequence_def run_events_def events)
  then have seq: "re_Sequence e' = int (length (events_of (st_Events s) (re_RunID e'))) + 1"
    using ledger_next ok by (simp add: e'(1) store_ok_def)
  have run: "re_RunID e' \<in> fst ` set (run_states s)"
    using e'(3) unfolding has_run_states states by (force simp: e'(1))
  have "ledger_ok (map (\<lambda>(i, st). (i, if i = re_RunID e' then f st else st)) (run_states s)) (st_Events s @ [e'])"
    by (rule ok_append [OF ok [unfolded store_ok_def] run seq]) (use move e'(1) in auto)
  moreover have "re_RunID e' = re_RunID e" by (simp add: e'(1))
  moreover have "run_states s' = run_states s1" "st_Events s' = st_Events s @ [e']"
    by (simp_all add: e'(2) events run_states_def)
  ultimately show ?thesis unfolding store_ok_def by (simp add: states)
qed

lemma run_states_update:
  "run_states (s\<lparr>st_Runs := update_where P f (st_Runs s)\<rparr>) =
     map (\<lambda>r. (run_ID (if P r then f r else r), run_Status (if P r then f r else r))) (st_Runs s)"
  by (simp add: run_states_def update_where_def o_def)

lemma GetRun_Inr: "GetRun s rid = Inr run \<Longrightarrow> run \<in> set (st_Runs s) \<and> run_ID run = rid"
  by (auto simp: GetRun_def find_Some_iff split: option.splits)

lemma store_ok_status:
  assumes "store_ok s" and "run \<in> set (st_Runs s)" and "(run_ID run, st) \<in> set (run_states s)"
  shows "st = run_Status run"
proof -
  from assms(1) have "distinct (map fst (run_states s))" by (simp add: store_ok_def ledger_ok_def)
  moreover have "(run_ID run, run_Status run) \<in> set (run_states s)" using assms(2) by (simp add: run_states_def)
  ultimately show ?thesis using assms(3) by (metis eq_key_imp_eq_value)
qed

lemma store_ok_valid: "store_ok s \<Longrightarrow> (rid, st) \<in> set (run_states s) \<Longrightarrow> status_Valid st"
  unfolding store_ok_def ledger_ok_def by fast

lemma TransitionRun_ok:
  assumes ok: "store_ok s" and t: "TransitionRun s rid next at summary = Inr s'"
  shows "store_ok s'"
proof -
  from t obtain run where run: "GetRun s rid = Inr run" "CanTransition (run_Status run) next"
    by (auto simp: TransitionRun_def split: if_splits sum.splits)
  note r = GetRun_Inr [OF run(1)]
  let ?s1 = "s\<lparr>st_Runs := update_where (\<lambda>r. run_ID r = rid) (\<lambda>r. r\<lparr>run_Status := next, run_UpdatedAt := at\<rparr>) (st_Runs s)\<rparr>"
  let ?e = "store_event rid ''run.transition'' ''info'' at summary (transition_detail (run_Status run) next)"
  from t run obtain e' where app: "appendEvent ?s1 ?e = Inr (e', s')"
    by (auto simp: TransitionRun_def Let_def map_sum_def split: if_splits sum.splits)
  from app show ?thesis
  proof (rule store_ok_append [OF ok, where f = "\<lambda>_. next", rotated -1])
    show "run_states ?s1 = map (\<lambda>(i, st). (i, if i = re_RunID ?e then next else st)) (run_states s)"
      unfolding run_states_update by (simp add: run_states_def store_event_def)
    show "st_Events ?s1 = st_Events s" by simp
  next
    fix st assume "(re_RunID ?e, st) \<in> set (run_states s)"
    then have mem: "(run_ID run, st) \<in> set (run_states s)" using r by (simp add: store_event_def)
    from store_ok_status [OF ok _ this] r have st: "st = run_Status run" by blast
    have valid: "status_Valid st" "status_Valid next"
      using store_ok_valid [OF ok mem] CanTransition_Valid [OF run(2)] by auto
    have "move_of ?e = [(st, next)]"
      using valid by (simp add: move_of_def store_event_def transition_detail_decoded st)
    then show "case chain st (move_of ?e) of Some st' \<Rightarrow> status_Valid st' \<and> next = st' | None \<Rightarrow> False"
      using valid run(2) st by (simp add: legal_def)
  qed
qed

text \<open>Operations that touch neither statuses nor events.\<close>

lemma store_ok_frame:
  "run_states s' = run_states s \<Longrightarrow> st_Events s' = st_Events s \<Longrightarrow> store_ok s \<Longrightarrow> store_ok s'"
  by (simp add: store_ok_def)

lemma run_states_keep:
  assumes "\<And>r. run_ID (f r) = run_ID r" and "\<And>r. run_Status (f r) = run_Status r"
  shows "run_states (s\<lparr>st_Runs := update_where P f (st_Runs s)\<rparr>) = run_states s"
  unfolding run_states_update using assms by (simp add: run_states_def)

lemma append_keep_ok:
  assumes "store_ok s" and "run_states s1 = run_states s" and "st_Events s1 = st_Events s"
    and "move_of e = []" and "appendEvent s1 e = Inr (e', s')"
  shows "store_ok s'"
proof (rule store_ok_append [OF assms(1), where f = "\<lambda>st. st", OF _ assms(3) _ assms(5)])
  show "run_states s1 = map (\<lambda>(i, st). (i, if i = re_RunID e then st else st)) (run_states s)"
    by (simp add: assms(2))
next
  fix st assume "(re_RunID e, st) \<in> set (run_states s)"
  then show "case chain st (move_of e) of Some st' \<Rightarrow> status_Valid st' \<and> st = st' | None \<Rightarrow> False"
    using store_ok_valid [OF assms(1)] assms(4) by simp
qed

lemma if_Inl_Inr: "(if c then Inl e else x) = Inr y \<longleftrightarrow> \<not> c \<and> x = Inr y"
  by simp

lemma map_sum_Inr: "map_sum id g x = Inr y \<longleftrightarrow> (\<exists>z. x = Inr z \<and> y = g z)"
  by (cases x) auto

lemma store_event_ok:
  assumes ok: "store_ok s" and keep: "\<And>r. run_ID (f r) = run_ID r" "\<And>r. run_Status (f r) = run_Status r"
    and kind: "kind \<noteq> ''run.transition''" "kind \<noteq> ''run.interrupted''"
    and app: "map_sum id snd (appendEvent (s\<lparr>st_Runs := update_where P f (st_Runs s)\<rparr>)
      (store_event rid kind level at summary detail)) = Inr s'"
  shows "store_ok s'"
proof -
  from app obtain e' where a: "appendEvent (s\<lparr>st_Runs := update_where P f (st_Runs s)\<rparr>)
      (store_event rid kind level at summary detail) = Inr (e', s')" by (auto simp: map_sum_Inr)
  have m: "move_of (store_event rid kind level at summary detail) = []"
    using kind by (simp add: move_of_def store_event_def)
  show ?thesis
    by (rule append_keep_ok [OF ok run_states_keep [OF keep] _ m a]) simp
qed

lemma PrepareRunInput_ok: "store_ok s \<Longrightarrow> PrepareRunInput s rid at detail = Inr s' \<Longrightarrow> store_ok s'"
  unfolding PrepareRunInput_def Let_def if_Inl_Inr
  by (elim conjE, erule store_event_ok [rotated -1]) simp_all

lemma SetTerminalRunCleanup_ok:
  "store_ok s \<Longrightarrow> SetTerminalRunCleanup s rid cleanup at summary = Inr s' \<Longrightarrow> store_ok s'"
  unfolding SetTerminalRunCleanup_def Let_def if_Inl_Inr
  by (elim conjE, erule store_event_ok [rotated -1]) simp_all

lemma AppendRunEvent_ok:
  assumes "store_ok s" and "AppendRunEvent s e = Inr (e', s')"
    and "re_Type e \<noteq> ''run.transition''" and "re_Type e \<noteq> ''run.interrupted''"
  shows "store_ok s'"
  using assms by (intro append_keep_ok [of s s e e' s']) (auto simp: AppendRunEvent_def move_of_def split: if_splits)

lemma CreateRun_ok:
  assumes "store_ok s" and "CreateRun s run = Inr s'" and "run_Status run = RunQueued"
  shows "store_ok s'"
proof -
  from assms(2) have "run_ID run \<notin> fst ` set (run_states s)" "s' = s\<lparr>st_Runs := st_Runs s @ [run]\<rparr>"
    by (auto simp: CreateRun_def run_insertable_def has_run_states split: if_splits option.splits)
  with assms(1,3) ok_create show ?thesis
    by (simp add: store_ok_def run_states_def)
qed

lemma service_CreateRun_ok:
  assumes "store_ok s" and "service_CreateRun s random now tid sid version = Inr (run, s')"
  shows "store_ok s'"
  using assms CreateRun_ok
  by (auto simp: service_CreateRun_def Let_def map_sum_Inr split: option.splits)

lemma DeleteTerminalRun_ok:
  assumes "store_ok s" and "DeleteTerminalRun s rid = Inr s'"
  shows "store_ok s'"
proof -
  from assms(2) have s': "st_Runs s' = filter (\<lambda>x. run_ID x \<noteq> rid) (st_Runs s)"
      "st_Events s' = filter (\<lambda>e. re_RunID e \<noteq> rid) (st_Events s)"
    by (auto simp: DeleteTerminalRun_def split: sum.splits if_splits)
  have "run_states s' = filter (\<lambda>x. fst x \<noteq> rid) (run_states s)"
    by (simp add: run_states_def s'(1) filter_map o_def)
  with ok_delete assms(1) s'(2) show ?thesis by (simp add: store_ok_def)
qed

text \<open>Interrupting one run.\<close>

lemma interrupt_run_Inr:
  assumes "interrupt_run at s item = Inr s'"
  obtains e' where "appendEvent
      (s\<lparr>st_Runs := update_where (\<lambda>r. run_ID r = run_ID item)
        (\<lambda>r. r\<lparr>run_Status := RunInterrupted, run_CleanupStatus := recovered_cleanup s item, run_UpdatedAt := at\<rparr>)
        (st_Runs s)\<rparr>)
      (store_event (run_ID item) ''run.interrupted'' ''warning'' at ''Run interrupted by process restart''
        (Doc (marshal_strings [(''previousStatus'', status_str (run_Status item))]))) = Inr (e', s')"
  using assms by (auto simp: interrupt_run_def Let_def map_sum_Inr)

lemma recoverable_legal: "recoverable r \<Longrightarrow> status_Valid (run_Status r) \<Longrightarrow> legal (run_Status r) RunInterrupted"
  by (auto simp: recoverable_def legal_def CanTransition_def Active_def)

lemma interrupt_run_ok:
  assumes ok: "store_ok s" and item: "(run_ID item, run_Status item) \<in> set (run_states s)" "recoverable item"
    and step: "interrupt_run at s item = Inr s'"
  shows "store_ok s' \<and> run_states s' = map (\<lambda>(i, st). (i, if i = run_ID item then RunInterrupted else st)) (run_states s)"
proof -
  let ?f = "\<lambda>r. r\<lparr>run_Status := RunInterrupted, run_CleanupStatus := recovered_cleanup s item, run_UpdatedAt := at\<rparr>"
  let ?s1 = "s\<lparr>st_Runs := update_where (\<lambda>r. run_ID r = run_ID item) ?f (st_Runs s)\<rparr>"
  let ?e = "store_event (run_ID item) ''run.interrupted'' ''warning'' at ''Run interrupted by process restart''
        (Doc (marshal_strings [(''previousStatus'', status_str (run_Status item))]))"
  from step obtain e' where app: "appendEvent ?s1 ?e = Inr (e', s')" by (rule interrupt_run_Inr)
  have states: "run_states ?s1 = map (\<lambda>(i, st). (i, if i = re_RunID ?e then RunInterrupted else st)) (run_states s)"
    unfolding run_states_update by (simp add: run_states_def store_event_def)
  from app have "store_ok s'"
  proof (rule store_ok_append [OF ok states, rotated -1])
    show "st_Events ?s1 = st_Events s" by simp
  next
    fix st assume mem: "(re_RunID ?e, st) \<in> set (run_states s)"
    have "distinct (map fst (run_states s))" using ok by (simp add: store_ok_def ledger_ok_def)
    with mem item(1) have st: "st = run_Status item"
      by (simp add: store_event_def) (metis eq_key_imp_eq_value)
    have valid: "status_Valid st" using store_ok_valid [OF ok mem] .
    then have "move_of ?e = [(st, RunInterrupted)]"
      by (simp add: move_of_def store_event_def interrupted_detail_decoded st)
    then show "case chain st (move_of ?e) of Some st' \<Rightarrow> status_Valid st' \<and> RunInterrupted = st' | None \<Rightarrow> False"
      using recoverable_legal [OF item(2)] valid st by simp
  qed
  moreover have "run_states s' = run_states ?s1"
    using app unfolding appendEvent_Inr by (simp add: run_states_def)
  ultimately show ?thesis using states by (simp add: store_event_def)
qed

lemma interrupt_loop_ok:
  assumes "store_ok s" and "foldE (interrupt_run at) s items = Inr t"
    and "distinct (map run_ID items)"
    and "\<forall>item \<in> set items. (run_ID item, run_Status item) \<in> set (run_states s) \<and> recoverable item"
  shows "store_ok t \<and>
    run_states t = map (\<lambda>(i, st). (i, if i \<in> run_ID ` set items then RunInterrupted else st)) (run_states s)"
  using assms
proof (induction items arbitrary: s)
  case (Cons item items)
  from Cons.prems(2) obtain u where u: "interrupt_run at s item = Inr u" "foldE (interrupt_run at) u items = Inr t"
    by (auto split: sum.splits)
  have item: "(run_ID item, run_Status item) \<in> set (run_states s)" "recoverable item" using Cons.prems(4) by simp_all
  from interrupt_run_ok [OF Cons.prems(1) item u(1)] have ok: "store_ok u"
    and states: "run_states u = map (\<lambda>(i, st). (i, if i = run_ID item then RunInterrupted else st)) (run_states s)" by auto
  have "\<forall>x \<in> set items. (run_ID x, run_Status x) \<in> set (run_states u) \<and> recoverable x"
  proof
    fix x assume x: "x \<in> set items"
    then have "run_ID x \<in> run_ID ` set items" by simp
    moreover have "run_ID item \<notin> run_ID ` set items" using Cons.prems(3) by simp
    ultimately have "run_ID x \<noteq> run_ID item" by metis
    moreover from x Cons.prems(4) have "(run_ID x, run_Status x) \<in> set (run_states s)" "recoverable x" by simp_all
    ultimately show "(run_ID x, run_Status x) \<in> set (run_states u) \<and> recoverable x"
      unfolding states by force
  qed
  from Cons.IH [OF ok u(2) _ this] Cons.prems(3) show ?case
    by (auto simp: states)
qed simp

lemma store_distinct: "store_ok s \<Longrightarrow> distinct (map run_ID (st_Runs s))"
  by (simp add: store_ok_def ledger_ok_def run_states_def o_def)

lemma recovery_loop:
  assumes "store_ok s" and "RecoverInterruptedRuns s at = Inr (n, t)"
  shows "store_ok t \<and> run_states t = map (\<lambda>r. (run_ID r, if recoverable r then RunInterrupted else run_Status r)) (st_Runs s)"
proof -
  let ?items = "sort_key run_ID (filter recoverable (st_Runs s))"
  from assms(2) have loop: "foldE (interrupt_run at) s ?items = Inr t"
    by (auto simp: RecoverInterruptedRuns_def Let_def map_sum_Inr split: if_splits)
  have dist: "distinct (map run_ID (st_Runs s))" by (rule store_distinct [OF assms(1)])
  have "distinct (map run_ID ?items)"
    using dist by (simp add: distinct_map inj_on_def)
  from interrupt_loop_ok [OF assms(1) loop this] have
    "store_ok t \<and> run_states t = map (\<lambda>(i, st). (i, if i \<in> run_ID ` set ?items then RunInterrupted else st)) (run_states s)"
    by (auto simp: run_states_def)
  moreover have "run_ID r \<in> run_ID ` set ?items \<longleftrightarrow> recoverable r" if "r \<in> set (st_Runs s)" for r
    using dist that by (auto simp: distinct_map inj_on_def)
  ultimately show ?thesis by (auto simp: run_states_def)
qed

text \<open>Completion.\<close>

lemma foldE_keeps:
  assumes "foldE f s xs = Inr t" and "\<And>s x s'. f s x = Inr s' \<Longrightarrow> g s' = g s"
  shows "g t = g s"
  using assms(1) by (induction xs arbitrary: s) (auto split: sum.splits dest: assms(2))

lemma finalize_assertion_frame:
  "finalize_assertion rid key s x = Inr s' \<Longrightarrow>
     (st_Runs s', st_Events s', st_Cases s', st_Attempts s', st_Resources s', st_Artifacts s') =
     (st_Runs s, st_Events s, st_Cases s, st_Attempts s, st_Resources s, st_Artifacts s)"
  by (auto simp: finalize_assertion_def Let_def split: if_splits)

lemma finalize_case_frame:
  assumes "finalize_case rid s x = Inr s'"
  shows "(st_Runs s', st_Events s', st_Attempts s', st_Resources s', st_Artifacts s') =
    (st_Runs s, st_Events s, st_Attempts s, st_Resources s, st_Artifacts s)"
proof -
  from assms obtain u where u: "foldE (finalize_assertion rid (cf_StableKey x)) u (cf_Assertions x) = Inr s'"
    "(st_Runs u, st_Events u, st_Attempts u, st_Resources u, st_Artifacts u) =
     (st_Runs s, st_Events s, st_Attempts s, st_Resources s, st_Artifacts s)"
    by (auto simp: finalize_case_def Let_def split: if_splits)
  have "(st_Runs s', st_Events s', st_Attempts s', st_Resources s', st_Artifacts s') =
    (st_Runs u, st_Events u, st_Attempts u, st_Resources u, st_Artifacts u)"
    by (rule foldE_keeps [OF u(1), where g = "\<lambda>s. (st_Runs s, st_Events s, st_Attempts s, st_Resources s, st_Artifacts s)"])
      (auto dest: finalize_assertion_frame)
  with u(2) show ?thesis by simp
qed

lemma finalize_attempt_frame:
  "finalize_attempt rid at s x = Inr s' \<Longrightarrow>
     (st_Runs s', st_Events s', st_Cases s', st_Assertions s', st_Resources s', st_Artifacts s') =
     (st_Runs s, st_Events s, st_Cases s, st_Assertions s, st_Resources s, st_Artifacts s)"
  by (auto simp: finalize_attempt_def Let_def split: if_splits)

lemma FinalizeRun_Inr:
  assumes "FinalizeRun s rid facts verdict cleanup report terminalError at = Inr s'"
  obtains s1 s2 e' where
    "verdict_Valid verdict" "cleanup_Valid cleanup" "json_valid report" "at \<noteq> 0" "facts_Validate facts = None"
    "foldE (finalize_case rid) s (ef_Cases facts) = Inr s1"
    "foldE (finalize_attempt rid at) s1 (ef_Attempts facts) = Inr s2"
    "st_Runs s2 = st_Runs s" "st_Events s2 = st_Events s"
    "affected (\<lambda>r. run_ID r = rid \<and> run_Status r = RunCleaningUp) (st_Runs s) = 1"
    "appendEvent ((finalize_rest rid (fallback_verdict verdict) at s2)\<lparr>st_Runs := update_where
        (\<lambda>r. run_ID r = rid \<and> run_Status r = RunCleaningUp)
        (\<lambda>r. r\<lparr>run_Status := RunCompleted, run_Verdict := verdict, run_CleanupStatus := cleanup,
               run_CanonicalReportJSON := report, run_TerminalError := terminalError,
               run_EndedAt := Some at, run_UpdatedAt := at\<rparr>) (st_Runs s)\<rparr>)
      (store_event rid ''run.transition'' ''info'' at ''Run completed''
        (transition_detail RunCleaningUp RunCompleted)) = Inr (e', s')"
proof -
  from assms obtain s1 s2 e' where f: "verdict_Valid verdict" "cleanup_Valid cleanup" "json_valid report" "at \<noteq> 0"
    "facts_Validate facts = None"
    "foldE (finalize_case rid) s (ef_Cases facts) = Inr s1"
    "foldE (finalize_attempt rid at) s1 (ef_Attempts facts) = Inr s2"
    "affected (\<lambda>r. run_ID r = rid \<and> run_Status r = RunCleaningUp) (st_Runs s2) = 1"
    "appendEvent ((finalize_rest rid (fallback_verdict verdict) at s2)\<lparr>st_Runs := update_where
        (\<lambda>r. run_ID r = rid \<and> run_Status r = RunCleaningUp)
        (\<lambda>r. r\<lparr>run_Status := RunCompleted, run_Verdict := verdict, run_CleanupStatus := cleanup,
               run_CanonicalReportJSON := report, run_TerminalError := terminalError,
               run_EndedAt := Some at, run_UpdatedAt := at\<rparr>) (st_Runs s2)\<rparr>)
      (store_event rid ''run.transition'' ''info'' at ''Run completed''
        (transition_detail RunCleaningUp RunCompleted)) = Inr (e', s')"
    unfolding FinalizeRun_def Let_def
    by (auto simp: map_sum_Inr finalize_rest_def split: if_splits option.splits sum.splits)
  have "(st_Runs s1, st_Events s1) = (st_Runs s, st_Events s)"
    by (rule foldE_keeps [OF f(6), where g = "\<lambda>s. (st_Runs s, st_Events s)"]) (auto dest: finalize_case_frame)
  moreover have "(st_Runs s2, st_Events s2) = (st_Runs s1, st_Events s1)"
    by (rule foldE_keeps [OF f(7), where g = "\<lambda>s. (st_Runs s, st_Events s)"]) (auto dest: finalize_attempt_frame)
  ultimately have same: "st_Runs s2 = st_Runs s" "st_Events s2 = st_Events s" by simp_all
  show ?thesis
    by (rule that [OF f(1-7) same]) (use f(8,9) same in simp_all)
qed

lemma one_affected:
  assumes "affected P rows = 1" and "x \<in> set rows" and "y \<in> set rows" and "P x" and "P y"
  shows "x = y"
proof -
  from assms(1) obtain z where "filter P rows = [z]"
    by (auto simp: affected_def length_Suc_conv)
  moreover have "x \<in> set (filter P rows)" "y \<in> set (filter P rows)" using assms by simp_all
  ultimately show ?thesis by simp
qed

lemma FinalizeRun_ok:
  assumes ok: "store_ok s" and f: "FinalizeRun s rid facts verdict cleanup report terminalError at = Inr s'"
  shows "store_ok s'"
proof -
  from f obtain s2 e' where s2: "st_Runs s2 = st_Runs s" "st_Events s2 = st_Events s"
    and one: "affected (\<lambda>r. run_ID r = rid \<and> run_Status r = RunCleaningUp) (st_Runs s) = 1"
    and app: "appendEvent ((finalize_rest rid (fallback_verdict verdict) at s2)\<lparr>st_Runs := update_where
        (\<lambda>r. run_ID r = rid \<and> run_Status r = RunCleaningUp)
        (\<lambda>r. r\<lparr>run_Status := RunCompleted, run_Verdict := verdict, run_CleanupStatus := cleanup,
               run_CanonicalReportJSON := report, run_TerminalError := terminalError,
               run_EndedAt := Some at, run_UpdatedAt := at\<rparr>) (st_Runs s)\<rparr>)
      (store_event rid ''run.transition'' ''info'' at ''Run completed''
        (transition_detail RunCleaningUp RunCompleted)) = Inr (e', s')"
    by (rule FinalizeRun_Inr) blast
  from one obtain r where "filter (\<lambda>r. run_ID r = rid \<and> run_Status r = RunCleaningUp) (st_Runs s) = [r]"
    by (auto simp: affected_def length_Suc_conv)
  then have "r \<in> set (filter (\<lambda>r. run_ID r = rid \<and> run_Status r = RunCleaningUp) (st_Runs s))" by simp
  then have r: "r \<in> set (st_Runs s)" "run_ID r = rid" "run_Status r = RunCleaningUp" by simp_all
  have cleaning: "st = RunCleaningUp" if "(rid, st) \<in> set (run_states s)" for st
    using store_ok_status [OF ok r(1)] that r(2,3) by simp
  let ?e = "store_event rid ''run.transition'' ''info'' at ''Run completed'' (transition_detail RunCleaningUp RunCompleted)"
  from app show ?thesis
  proof (rule store_ok_append [OF ok, where f = "\<lambda>_. RunCompleted", rotated -1], goal_cases)
    case 1
    have "run_Status x = RunCleaningUp" if "x \<in> set (st_Runs s)" "run_ID x = rid" for x
      using cleaning [of "run_Status x"] that by (auto simp: run_states_def)
    then show ?case
      by (auto simp: run_states_def update_where_def store_event_def)
  next
    case 2
    then show ?case by (simp add: finalize_rest_def s2)
  next
    case (3 st)
    then have st: "st = RunCleaningUp" using cleaning by (simp add: store_event_def)
    have "status_of (status_str RunCleaningUp) = RunCleaningUp" "status_of (status_str RunCompleted) = RunCompleted"
      by (rule status_of_str; simp)+
    then have "move_of ?e = [(RunCleaningUp, RunCompleted)]"
      by (simp add: move_of_def store_event_def transition_detail_decoded del: status_str.simps)
    then show ?case using st by (simp add: legal_def CanTransition_def)
  qed
qed

text \<open>The documents of a run.\<close>

lemma add_assertion_frame:
  "add_assertion rid cid s x = Inr s' \<Longrightarrow>
     (st_Runs s', st_Events s', st_Resources s') = (st_Runs s, st_Events s, st_Resources s)"
  by (auto simp: add_assertion_def Let_def split: prod.splits if_splits option.splits)

lemma add_attempt_frame:
  "add_attempt rid cid at s x = Inr s' \<Longrightarrow>
     (st_Runs s', st_Events s', st_Resources s') = (st_Runs s, st_Events s, st_Resources s)"
  by (auto simp: add_attempt_def Let_def split: prod.splits if_splits option.splits)

lemma add_plan_case_frame:
  assumes "add_plan_case rid pattern at s item = Inr s'"
  shows "(st_Runs s', st_Events s', st_Resources s') = (st_Runs s, st_Events s, st_Resources s)"
proof -
  define cid where "cid = rid @ '':case:'' @ pc_Code item"
  let ?u = "s\<lparr>st_Cases := st_Cases s @ [\<lparr>cr_ID = cid, cr_RunID = rid, cr_StableKey = pc_Code item,
    cr_Pattern = pattern, cr_Name = pc_Name item, cr_Status = ''PLANNED'', cr_Verdict = None,
    cr_StartedAt = None, cr_EndedAt = None\<rparr>]\<rparr>"
  from assms [unfolded add_plan_case_def Let_def, folded cid_def] obtain v
    where v: "foldE (add_assertion rid cid) ?u (enumerate 0 (pc_Assertions item)) = Inr v"
    and s': "foldE (add_attempt rid cid at) v (enumerate 0 (pc_Alerts item)) = Inr s'"
    by (auto split: if_splits sum.splits)
  have "(st_Runs v, st_Events v, st_Resources v) = (st_Runs ?u, st_Events ?u, st_Resources ?u)"
    by (rule foldE_keeps [OF v, where g = "\<lambda>s. (st_Runs s, st_Events s, st_Resources s)"]) (auto dest: add_assertion_frame)
  moreover have "(st_Runs s', st_Events s', st_Resources s') = (st_Runs v, st_Events v, st_Resources v)"
    by (rule foldE_keeps [OF s', where g = "\<lambda>s. (st_Runs s, st_Events s, st_Resources s)"]) (auto dest: add_attempt_frame)
  ultimately show ?thesis by simp
qed

lemma SetRunExecutionDocuments_frame:
  assumes "SetRunExecutionDocuments s rid capabilities plan at = Inr s'"
  shows "run_states s' = run_states s \<and> st_Events s' = st_Events s \<and> st_Resources s' = st_Resources s"
proof -
  let ?f = "\<lambda>r. r\<lparr>run_CapabilitySnapshotJSON := capabilities, run_CompiledPlanJSON := plan,
      run_StartedAt := (case run_StartedAt r of None \<Rightarrow> Some at | started \<Rightarrow> started), run_UpdatedAt := at\<rparr>"
  let ?u = "s\<lparr>st_Runs := update_where (\<lambda>r. run_ID r = rid) ?f (st_Runs s)\<rparr>"
  from assms obtain pattern cases where loop: "foldE (add_plan_case rid pattern at) ?u cases = Inr s'"
    by (auto simp: SetRunExecutionDocuments_def split: if_splits option.splits prod.splits)
  have "(st_Runs s', st_Events s', st_Resources s') = (st_Runs ?u, st_Events ?u, st_Resources ?u)"
    by (rule foldE_keeps [OF loop, where g = "\<lambda>s. (st_Runs s, st_Events s, st_Resources s)"]) (auto dest: add_plan_case_frame)
  then have "run_states s' = run_states ?u" "st_Events s' = st_Events s" "st_Resources s' = st_Resources s"
    by (simp_all add: run_states_def)
  then show ?thesis by (simp add: run_states_keep)
qed

lemma SetOrdinaryPreflightPlan_frame:
  assumes "SetOrdinaryPreflightPlan s rid plan at = Inr s'"
  shows "run_states s' = run_states s \<and> st_Events s' = st_Events s \<and> st_Resources s' = st_Resources s"
  using assms unfolding SetOrdinaryPreflightPlan_def Let_def if_Inl_Inr by (auto simp: run_states_keep)

section \<open>Reachable ledgers\<close>

text \<open>
  The operations of the ledger as a step relation. The generic \<^verbatim>\<open>AppendRunEvent\<close> is called by
  the rest of the program with other event types than the two the ledger writes for status
  changes; targets, scenarios and pins change independently.
\<close>

inductive ledger_step :: "store \<Rightarrow> store \<Rightarrow> bool" where
  create: "service_CreateRun s random now tid sid version = Inr (run, t) \<Longrightarrow> ledger_step s t"
| event: "AppendRunEvent s e = Inr (e', t) \<Longrightarrow> re_Type e \<notin> {''run.transition'', ''run.interrupted''} \<Longrightarrow> ledger_step s t"
| transition: "TransitionRun s rid next at summary = Inr t \<Longrightarrow> ledger_step s t"
| prepare: "PrepareRunInput s rid at detail = Inr t \<Longrightarrow> ledger_step s t"
| cleanup: "SetTerminalRunCleanup s rid cleanup at summary = Inr t \<Longrightarrow> ledger_step s t"
| recover: "RecoverInterruptedRuns s at = Inr (n, t) \<Longrightarrow> ledger_step s t"
| delete: "DeleteTerminalRun s rid = Inr t \<Longrightarrow> ledger_step s t"
| resource: "CreateResource s r = Inr t \<Longrightarrow> ledger_step s t"
| adopt: "AdoptResource s rid external at = Inr t \<Longrightarrow> ledger_step s t"
| deleted: "MarkResourceDeleted s rid at = Inr t \<Longrightarrow> ledger_step s t"
| dirty: "MarkResourceCleanupError s rid message = Inr t \<Longrightarrow> ledger_step s t"
| preflight: "SetOrdinaryPreflightPlan s rid plan at = Inr t \<Longrightarrow> ledger_step s t"
| documents: "SetRunExecutionDocuments s rid capabilities plan at = Inr t \<Longrightarrow> ledger_step s t"
| finalize: "FinalizeRun s rid facts verdict cl report err at = Inr t \<Longrightarrow> ledger_step s t"
| others: "ledger_step s (s\<lparr>st_TargetIDs := ts, st_ScenarioIDs := ss, st_Pinned := ps\<rparr>)"

definition fresh_store :: store where
  "fresh_store = \<lparr>st_Ready = True, st_TargetIDs = [], st_ScenarioIDs = [], st_Pinned = [], st_Runs = [],
     st_Cases = [], st_Events = [], st_Attempts = [], st_Assertions = [], st_Resources = [], st_Artifacts = []\<rparr>"

inductive reachable :: "store \<Rightarrow> bool" where
  fresh: "reachable fresh_store"
| step: "reachable s \<Longrightarrow> ledger_step s t \<Longrightarrow> reachable t"

lemma CreateResource_frame:
  "CreateResource s r = Inr t \<Longrightarrow> st_Runs t = st_Runs s \<and> st_Events t = st_Events s"
  by (auto simp: CreateResource_def split: option.splits if_splits)

lemma AdoptResource_frame:
  "AdoptResource s rid external at = Inr t \<Longrightarrow> st_Runs t = st_Runs s \<and> st_Events t = st_Events s"
  unfolding AdoptResource_def Let_def if_Inl_Inr by auto

lemma MarkResourceDeleted_frame:
  "MarkResourceDeleted s rid at = Inr t \<Longrightarrow> st_Runs t = st_Runs s \<and> st_Events t = st_Events s"
  unfolding MarkResourceDeleted_def Let_def if_Inl_Inr by auto

lemma MarkResourceCleanupError_frame:
  "MarkResourceCleanupError s rid message = Inr t \<Longrightarrow> st_Runs t = st_Runs s \<and> st_Events t = st_Events s"
  unfolding MarkResourceCleanupError_def if_Inl_Inr by auto

lemmas resource_frames =
  CreateResource_frame AdoptResource_frame MarkResourceDeleted_frame MarkResourceCleanupError_frame

lemma same_rows_ok: "st_Runs t = st_Runs s \<and> st_Events t = st_Events s \<Longrightarrow> store_ok s \<Longrightarrow> store_ok t"
  by (simp add: store_ok_def run_states_def)

lemma ledger_step_ok: "ledger_step s t \<Longrightarrow> store_ok s \<Longrightarrow> store_ok t"
proof (induction rule: ledger_step.induct)
  case (recover s at n t)
  then show ?case using recovery_loop by blast
next
  case (preflight s rid plan at t)
  then show ?case using SetOrdinaryPreflightPlan_frame store_ok_frame by metis
next
  case (documents s rid capabilities plan at t)
  then show ?case using SetRunExecutionDocuments_frame store_ok_frame by metis
next
  case (create s random now tid sid version run t)
  then show ?case using service_CreateRun_ok by blast
next
  case (event s e e' t)
  then show ?case using AppendRunEvent_ok by blast
next
  case (transition s _ _ _ _ t)
  then show ?case using TransitionRun_ok by blast
next
  case (prepare s rid at detail t)
  then show ?case using PrepareRunInput_ok by blast
next
  case (cleanup s rid cleanup at summary t)
  then show ?case using SetTerminalRunCleanup_ok by blast
next
  case (delete s rid t)
  then show ?case using DeleteTerminalRun_ok by blast
next
  case (finalize s rid facts verdict cl report err at t)
  then show ?case using FinalizeRun_ok by blast
next
  case (resource s r t)
  then show ?case using same_rows_ok [OF CreateResource_frame] by blast
next
  case (adopt s rid external at t)
  then show ?case using same_rows_ok [OF AdoptResource_frame] by blast
next
  case (deleted s rid at t)
  then show ?case using same_rows_ok [OF MarkResourceDeleted_frame] by blast
next
  case (dirty s rid message t)
  then show ?case using same_rows_ok [OF MarkResourceCleanupError_frame] by blast
next
  case (others s ts ss ps)
  then show ?case by (simp add: store_ok_def run_states_def)
qed

lemma reachable_ok: "reachable s \<Longrightarrow> store_ok s"
proof (induction rule: reachable.induct)
  case fresh
  show ?case by (simp add: store_ok_def ledger_ok_def run_states_def fresh_store_def events_of_def)
next
  case (step s t)
  then show ?case using ledger_step_ok by blast
qed

end
