(* ===== verification/Oscar_Requests.thy ===== *)
theory Oscar_Requests
  imports Plan_Json
begin

text \<open>
  The bodies \<^verbatim>\<open>internal/oscar\<close> sends (request.go), the evidence of a recorded injection
  (recorded\_injection.go) and the query strings of preview.go. JSON text is what \<^verbatim>\<open>json.Marshal\<close>
  writes for valid UTF-8 without the line separators U+2028 and U+2029. SHA-256 (as hex), base64
  and the parsing of an endpoint are parameters.
\<close>

section \<open>JSON text and query strings\<close>

definition hex_digit :: "nat \<Rightarrow> char" where
  "hex_digit n = (if n < 10 then char_of (48 + n) else char_of (87 + n))"

definition json_char :: "char \<Rightarrow> string" where
  "json_char c =
     (let n = byte c
      in if n = 34 then [CHR 0x5C, CHR 0x22] else if n = 92 then [CHR 0x5C, CHR 0x5C]
         else if n = 8 then CHR 0x5C # ''b'' else if n = 12 then CHR 0x5C # ''f''
         else if n = 10 then CHR 0x5C # ''n'' else if n = 13 then CHR 0x5C # ''r''
         else if n = 9 then CHR 0x5C # ''t''
         else if n < 32 \<or> n = 60 \<or> n = 62 \<or> n = 38
         then CHR 0x5C # ''u00'' @ [hex_digit (n div 16), hex_digit (n mod 16)]
         else [c])"

definition json_string :: "string \<Rightarrow> string" where
  "json_string s = CHR 0x22 # concat (map json_char s) @ [CHR 0x22]"

fun json_text :: "json \<Rightarrow> string" where
  "json_text JNull = ''null''"
| "json_text (JBool b) = (if b then ''true'' else ''false'')"
| "json_text (JNumber s) = s"
| "json_text (JString s) = json_string s"
| "json_text (JArray js) = ''['' @ join '','' (map json_text js) @ '']''"
| "json_text (JObject members) =
     ''{'' @ join '','' (map (\<lambda>(k, v). json_string k @ '':'' @ json_text v) members) @ ''}''"

definition upper_hex :: "nat \<Rightarrow> char" where
  "upper_hex n = (if n < 10 then char_of (48 + n) else char_of (55 + n))"

definition query_char :: "char \<Rightarrow> string" where
  "query_char c =
     (if is_alpha c \<or> is_digit c \<or> c \<in> {CHR ''-'', CHR ''_'', CHR ''.'', CHR ''~''} then [c]
      else if c = CHR '' '' then ''+''
      else [CHR 0x25, upper_hex (byte c div 16), upper_hex (byte c mod 16)])"

definition query_escape :: "string \<Rightarrow> string" where
  "query_escape s = concat (map query_char s)"

type_synonym query = "(string \<times> string) list"

text \<open>\<^verbatim>\<open>url.Values.Encode\<close> of single-valued keys.\<close>

definition query_encode :: "query \<Rightarrow> string" where
  "query_encode q = join ''&'' (map (\<lambda>(k, v). query_escape k @ ''='' @ query_escape v) (sort_key fst q))"

definition validateRulePath :: string where "validateRulePath = ''/api/v1/correlation_rules/validate''"
definition createRulePath :: string where "createRulePath = ''/api/v1/correlation_rules''"
definition alertsPath :: string where "alertsPath = ''/api/v1/alerts''"
definition historyPath :: string where "historyPath = ''/api/v1/alerts/history''"
definition correlationAuditPath :: string where "correlationAuditPath = ''/api/v1/correlation_rules/audit''"
definition notificationAuditPath :: string where "notificationAuditPath = ''/api/v1/notification-audit/''"

definition historyQueryValues :: "string \<Rightarrow> string \<Rightarrow> string \<Rightarrow> query" where
  "historyQueryValues alertName start fin =
     [(''perPage'', ''100''), (''order'', ''asc''), (''column'', ''createdAt''), (''start_datetime'', start),
      (''end_datetime'', fin),
      (''filter'', json_text (JObject [(''items'', JArray [JObject [(''field'', JString ''alertname''),
         (''operator'', JString ''equals''), (''value'', JString alertName)]])]))]"

definition correlationAuditQueryValues :: "string \<Rightarrow> query" where
  "correlationAuditQueryValues fingerprint = [(''fingerprint'', fingerprint), (''perPage'', ''100'')]"

definition notificationAuditQueryValues :: "string \<Rightarrow> string \<Rightarrow> string \<Rightarrow> query" where
  "notificationAuditQueryValues fingerprint start fin =
     [(''alert_fingerprint'', fingerprint), (''per_page'', ''100''), (''date_from'', start), (''date_to'', fin)]"

definition pathWithQuery :: "string \<Rightarrow> query \<Rightarrow> string" where
  "pathWithQuery path q = path @ ''?'' @ query_encode q"

section \<open>Bodies (request.go)\<close>

record EmitSpecRequest =
  em_AlertName :: string
  em_Labels :: labels
  em_Annotations :: labels

record RuleRequest =
  rr_Name :: string
  rr_Pattern :: string
  rr_WindowSeconds :: int
  rr_GroupByLabels :: "string list"
  rr_MatchCriteria :: criteria
  rr_Priority :: int
  rr_MaxSyntheticPerMinute :: int
  rr_Enabled :: bool
  rr_Description :: string
  rr_CreatedBy :: string
  rr_EmitSpec :: "EmitSpecRequest option"

record AlertRequest =
  al_StartsAt :: string
  al_EndsAt :: string
  al_Fingerprint :: string
  al_Status :: string
  al_Labels :: labels
  al_Annotations :: labels

record AlertGroupRequest =
  ag_Receiver :: string
  ag_Status :: string
  ag_GroupKey :: string
  ag_GroupLabels :: labels
  ag_CommonLabels :: labels
  ag_CommonAnnotations :: labels
  ag_Alerts :: "AlertRequest list"

definition BuildRuleRequest :: "RulePlan \<Rightarrow> string \<Rightarrow> RuleRequest" where
  "BuildRuleRequest rule harnessVersion =
     \<lparr>rr_Name = rp_Name rule, rr_Pattern = rp_Pattern rule, rr_WindowSeconds = rp_WindowSeconds rule,
      rr_GroupByLabels = rp_GroupBy rule, rr_MatchCriteria = rp_MatchCriteria rule, rr_Priority = 100,
      rr_MaxSyntheticPerMinute = 10, rr_Enabled = True, rr_Description = rp_Description rule,
      rr_CreatedBy = ''oscar-corrtest/'' @ harnessVersion,
      rr_EmitSpec = (if rp_EmitAlertName rule \<noteq> ''''
         then Some \<lparr>em_AlertName = rp_EmitAlertName rule, em_Labels = rp_EmitLabels rule,
                    em_Annotations = rp_EmitAnnotations rule\<rparr> else None)\<rparr>"

definition fingerprint_input :: "labels \<Rightarrow> string" where
  "fingerprint_input ls = concat (map (\<lambda>k. k @ nul @ sget ls k @ nul) (sort (map fst ls)))"

definition alertmanagerTransportFingerprint :: "(string \<Rightarrow> string) \<Rightarrow> labels \<Rightarrow> go_error + string" where
  "alertmanagerTransportFingerprint sha ls =
     (if ls = [] then Inl (Err ''alert labels are required'')
      else if list_ex (\<lambda>k. k = ''oscar_fingerprint'' \<or> k = ''am_fingerprint'') (map fst ls)
      then Inl (Err ''pre-stamped fingerprint labels are forbidden'')
      else Inr (take 16 (sha (fingerprint_input ls))))"

definition alertTransportAnnotations :: "labels \<Rightarrow> labels" where
  "alertTransportAnnotations m = gdel ''oscar_test_attempt_index'' m"

definition instant_text :: "time \<Rightarrow> string" where
  "instant_text t = (if t = 0 then '''' else rfc3339 t)"

definition BuildAlertRequest :: "(string \<Rightarrow> string) \<Rightarrow> AlertPlan \<Rightarrow> go_error + AlertGroupRequest" where
  "BuildAlertRequest sha alert =
     (let name = trim_space (ap_Name alert); status = trim_space (ap_Status alert)
      in if name = '''' \<or> status = '''' then Inl (Err ''alert name and status are required'')
         else if ap_Labels alert = [] then Inl (Err ''alert labels are required'')
         else
           let ls = gput ''alertname'' name (ap_Labels alert);
               annotations = alertTransportAnnotations (ap_Annotations alert)
           in case alertmanagerTransportFingerprint sha ls of
                Inl e \<Rightarrow> Inl e
              | Inr fingerprint \<Rightarrow> Inr
                  \<lparr>ag_Receiver = ''oscar-corrtest'', ag_Status = status,
                   ag_GroupKey = sget ls ''oscar_test_run_id'' @ '':'' @ name,
                   ag_GroupLabels = [(''alertname'', name)], ag_CommonLabels = ls, ag_CommonAnnotations = annotations,
                   ag_Alerts = [\<lparr>al_StartsAt = instant_text (ap_StartsAt alert),
                     al_EndsAt = instant_text (ap_EndsAt alert), al_Fingerprint = fingerprint, al_Status = status,
                     al_Labels = ls, al_Annotations = annotations\<rparr>]\<rparr>)"

definition BuildResolutionRequest :: "(string \<Rightarrow> string) \<Rightarrow> HistoryRecord \<Rightarrow> go_error + AlertGroupRequest" where
  "BuildResolutionRequest sha record =
     (let rid = trim_space (sget (hr_Labels record) ''oscar_test_run_id'')
      in if hr_AlertName record = '''' \<or> rid = '''' \<or> trim_space (hr_Fingerprint record) = ''''
         then Inl (Err ''history record lacks exact corrtest ownership or server fingerprint'')
         else
           let ls = gput ''oscar_fingerprint'' (hr_Fingerprint record)
                 (gput ''alertname'' (hr_AlertName record) (hr_Labels record));
               annotations = gput ''oscar_test_cleanup'' ''resolved by oscar-corrtest after exact history read-back''
                 (alertTransportAnnotations (hr_Annotations record));
               fingerprint = take 16 (sha (''corrtest-resolve'' @ nul @ hr_Fingerprint record))
           in Inr \<lparr>ag_Receiver = ''oscar-corrtest'', ag_Status = ''resolved'',
                ag_GroupKey = rid @ '':cleanup:'' @ hr_AlertName record,
                ag_GroupLabels = [(''alertname'', hr_AlertName record)], ag_CommonLabels = ls,
                ag_CommonAnnotations = annotations,
                ag_Alerts = [\<lparr>al_StartsAt = instant_text (hr_StartsAt record), al_EndsAt = '''',
                  al_Fingerprint = fingerprint, al_Status = ''resolved'', al_Labels = ls,
                  al_Annotations = annotations\<rparr>]\<rparr>)"

definition BuildLabelProbeAlert :: "string \<Rightarrow> string \<Rightarrow> go_error + AlertPlan" where
  "BuildLabelProbeAlert runID shortToken =
     (let rid = trim_space runID; short = to_upper (trim_space shortToken);
          name = ''CORRTEST_PROBE_P00_SOURCE_'' @ short
      in if rid = '''' \<or> short = '''' then Inl (Err ''probe run ID and short token are required'')
         else Inr \<lparr>ap_Source = '''', ap_Name = name, ap_Status = ''firing'', ap_Labels =
             [(''alertname'', name), (''category'', ''corrtest_probe''), (''oscar_test'', ''true''),
              (''oscar_test_harness'', ''corrtest''), (''oscar_test_schema_version'', ''v1''),
              (''oscar_test_run_id'', rid), (''oscar_test_run_short'', short), (''oscar_test_suite'', ''diagnostic''),
              (''oscar_test_scenario'', ''label-survival''), (''oscar_test_pattern'', ''probe''),
              (''oscar_test_case'', ''label-survival''), (''oscar_test_case_code'', ''P00''),
              (''oscar_test_polarity'', ''diagnostic''), (''oscar_test_alert_class'', ''source''),
              (''oscar_test_alert_role'', ''probe''), (''oscar_test_rule_name'', ''none''), (''severity'', ''warning'')],
           ap_Annotations = [(''summary'', ''[CORRTEST][PROBE] reserved label survival'')], ap_Delay = 0,
           ap_EpisodeOffset = None, ap_StartsAt = 0, ap_EndsAt = 0\<rparr>)"

subsection \<open>Their JSON\<close>

definition marshal_emit :: "EmitSpecRequest \<Rightarrow> json" where
  "marshal_emit e = JObject
     (fld ''alertname'' (JString (em_AlertName e)) @ fld ''labels'' (marshal_strings (em_Labels e)) @
      fld_unless (em_Annotations e = []) ''annotations'' (marshal_strings (em_Annotations e)))"

definition marshal_rule_request :: "RuleRequest \<Rightarrow> json" where
  "marshal_rule_request q = JObject
     (fld ''name'' (JString (rr_Name q)) @ fld ''pattern'' (JString (rr_Pattern q)) @
      fld ''window_seconds'' (jint (rr_WindowSeconds q)) @ fld ''group_by_labels'' (jstrings (rr_GroupByLabels q)) @
      fld ''match_criteria'' (marshal_any (AnyMap (rr_MatchCriteria q))) @ fld ''priority'' (jint (rr_Priority q)) @
      fld ''max_synthetic_per_minute'' (jint (rr_MaxSyntheticPerMinute q)) @ fld ''enabled'' (JBool (rr_Enabled q)) @
      fld ''description'' (JString (rr_Description q)) @ fld ''created_by'' (JString (rr_CreatedBy q)) @
      (case rr_EmitSpec q of None \<Rightarrow> [] | Some e \<Rightarrow> fld ''emit_spec'' (marshal_emit e)))"

definition marshal_alert_request :: "AlertRequest \<Rightarrow> json" where
  "marshal_alert_request a = JObject
     (fld_string ''startsAt'' (al_StartsAt a) @ fld_string ''endsAt'' (al_EndsAt a) @
      fld ''fingerPrint'' (JString (al_Fingerprint a)) @ fld ''status'' (JString (al_Status a)) @
      fld ''labels'' (marshal_strings (al_Labels a)) @
      fld_unless (al_Annotations a = []) ''annotations'' (marshal_strings (al_Annotations a)))"

definition marshal_alert_group :: "AlertGroupRequest \<Rightarrow> json" where
  "marshal_alert_group g = JObject
     (fld ''receiver'' (JString (ag_Receiver g)) @ fld ''status'' (JString (ag_Status g)) @
      fld ''groupKey'' (JString (ag_GroupKey g)) @ fld ''groupLabels'' (marshal_strings (ag_GroupLabels g)) @
      fld ''commonLabels'' (marshal_strings (ag_CommonLabels g)) @
      fld ''commonAnnotations'' (marshal_strings (ag_CommonAnnotations g)) @
      fld ''alerts'' (JArray (map marshal_alert_request (ag_Alerts g))))"

section \<open>Recorded injections (recorded\_injection.go)\<close>

record url =
  ur_Scheme :: string
  ur_Host :: string
  ur_Path :: string
  ur_User :: bool
  ur_RawQuery :: string
  ur_ForceQuery :: bool
  ur_Fragment :: string

record codec =
  co_Sha256 :: "string \<Rightarrow> string"
  co_Base64 :: "string \<Rightarrow> string"
  co_ParseURL :: "string \<Rightarrow> url option"
  co_URLString :: "url \<Rightarrow> string"

definition maxRecordedInjectionBytes :: int where
  "maxRecordedInjectionBytes = 1048576"

definition PrepareInjection :: "codec \<Rightarrow> AlertPlan \<Rightarrow> string \<Rightarrow> string \<Rightarrow> go_error + (RequestEvidence \<times> string)" where
  "PrepareInjection co alert targetID endpoint =
     (let refused = Inl (Err ''recorded injection requires a credential-free HTTP(S) endpoint without query or fragment'')
      in case co_ParseURL co endpoint of
           None \<Rightarrow> refused
         | Some u \<Rightarrow>
             if ur_Host u = '''' \<or> ur_Scheme u \<noteq> ''http'' \<and> ur_Scheme u \<noteq> ''https'' \<or> ur_User u \<or> ur_RawQuery u \<noteq> '''' \<or>
                ur_ForceQuery u \<or> ur_Fragment u \<noteq> '''' then refused
             else case BuildAlertRequest (co_Sha256 co) alert of
                 Inl e \<Rightarrow> Inl e
               | Inr payload \<Rightarrow>
                   let body = json_text (marshal_alert_group payload)
                   in if maxRecordedInjectionBytes < int (length body)
                      then Inl (Err ''recorded injection body exceeds 1 MiB'')
                      else Inr (\<lparr>rq_ProfilePrecondition = '''', rq_Format = ''corrtest-alert-engine-request-v1'',
                        rq_TargetID = targetID, rq_APIProfile = ''public-v1'', rq_Method = ''POST'',
                        rq_Endpoint = endpoint, rq_ContentType = ''application/json'',
                        rq_BodyBytes = int (length body), rq_BodySHA256 = co_Sha256 co body,
                        rq_BodyBase64 = co_Base64 co body\<rparr>, body))"

end
