(* ===== verification/Oscar_Client.thy ===== *)
theory Oscar_Client
  imports Oscar_Requests Runner_World
begin

text \<open>
  The HTTP client of \<^verbatim>\<open>internal/oscar/client.go\<close> on the direct (Alert Engine) route: requests and
  the classification of replies, the rule operations with their bounded pagination, injection and
  resolution, and the recorded injection of recorded\_injection.go. The HTTP exchange is a
  parameter: it gets the request and answers with a reply, a failure to read one, or none. A
  response body is the JSON value it starts with. The reading of History and audit pages stays a
  parameter of the runner; the ordinary webhook route is not modelled.
\<close>

section \<open>Exchange\<close>

record http_request =
  tq_Method :: string
  tq_Path :: string
  tq_Query :: query
  tq_Body :: "string option"

datatype reply = NoResponse | ReadFailed int | TooLarge int | Reply int raw

type_synonym 'x transport = "context_kind \<Rightarrow> http_request \<Rightarrow> 'x \<Rightarrow> reply \<times> 'x"

record client =
  cn_BaseURL :: url
  cn_TargetID :: string
  cn_HarnessVersion :: string
  cn_Codec :: codec

fun decode_int :: "json \<Rightarrow> int \<Rightarrow> int option" where
  "decode_int JNull old = Some old"
| "decode_int (JNumber s) old = atoi s"
| "decode_int _ old = None"

fun decode_bool :: "json \<Rightarrow> bool \<Rightarrow> bool option" where
  "decode_bool JNull old = Some old"
| "decode_bool (JBool b) old = Some b"
| "decode_bool _ old = None"

text \<open>A pointer field: \<^verbatim>\<open>null\<close> clears it.\<close>

fun decode_pointer :: "(json \<Rightarrow> 'a \<Rightarrow> 'a option) \<Rightarrow> 'a \<Rightarrow> json \<Rightarrow> 'a option \<Rightarrow> 'a option option" where
  "decode_pointer d zero JNull old = Some None"
| "decode_pointer d zero j old = map_option Some (d j zero)"

definition safeDetail :: "raw \<Rightarrow> string" where
  "safeDetail body =
     (case (unmarshal_field ''code'' decode_string '''' body, unmarshal_field ''detail'' decode_string '''' body) of
        (Some code, Some detail) \<Rightarrow> if detail \<noteq> '''' then take 512 detail else ''Bad Gateway''
      | _ \<Rightarrow> ''Bad Gateway'')"

definition classify_reply :: "string \<Rightarrow> string \<Rightarrow> reply \<Rightarrow> go_error + (int \<times> raw)" where
  "classify_reply method path answer =
     (let operation = method @ '' '' @ path
      in case answer of
           NoResponse \<Rightarrow> Inl (Machine operation 0 ''transport'' ''OSCAR request failed'')
         | ReadFailed status \<Rightarrow> Inl (Machine operation 0 ''read'' ''could not read OSCAR response'')
         | TooLarge status \<Rightarrow> Inl (Machine operation 0 ''response_too_large'' ''OSCAR response exceeded 4 MiB'')
         | Reply status body \<Rightarrow>
             if status < 200 \<or> 300 \<le> status then Inl (Machine operation status ''http_error'' (safeDetail body))
             else Inr (status, body))"

definition doBytes :: "'x transport \<Rightarrow> context_kind \<Rightarrow> string \<Rightarrow> string \<Rightarrow> query \<Rightarrow> string option \<Rightarrow> 'x \<Rightarrow>
  (go_error + (int \<times> raw)) \<times> 'x" where
  "doBytes tr ctx method path q body x =
     (let (answer, y) = tr ctx \<lparr>tq_Method = method, tq_Path = path, tq_Query = q, tq_Body = body\<rparr> x
      in (classify_reply method path answer, y))"

definition do_call :: "'x transport \<Rightarrow> context_kind \<Rightarrow> string \<Rightarrow> string \<Rightarrow> query \<Rightarrow> json option \<Rightarrow> 'x \<Rightarrow>
  (go_error + (int \<times> raw)) \<times> 'x" where
  "do_call tr ctx method path q input = doBytes tr ctx method path q (map_option json_text input)"

definition doJSON :: "'x transport \<Rightarrow> context_kind \<Rightarrow> string \<Rightarrow> string \<Rightarrow> query \<Rightarrow> json option \<Rightarrow> (raw \<Rightarrow> 'a option) \<Rightarrow> 'a \<Rightarrow>
  'x \<Rightarrow> (go_error + 'a) \<times> 'x" where
  "doJSON tr ctx method path q input output zero x =
     (let (answer, y) = do_call tr ctx method path q input x
      in (case answer of
            Inl e \<Rightarrow> Inl e
          | Inr (status, body) \<Rightarrow>
              if body = NoBytes then Inr zero
              else (case output body of
                  None \<Rightarrow> Inl (Machine (method @ '' '' @ path) 0 ''invalid_json'' ''OSCAR returned malformed JSON'')
                | Some v \<Rightarrow> Inr v), y))"

section \<open>Rules\<close>

definition decode_rule :: "json \<Rightarrow> Rule option" where
  "decode_rule j =
     (case (unmarshal_field ''id'' decode_int 0 (Doc j), unmarshal_field ''name'' decode_string '''' (Doc j),
            unmarshal_field ''pattern'' decode_string '''' (Doc j),
            unmarshal_field ''description'' decode_string '''' (Doc j)) of
        (Some i, Some name, Some pattern, Some description) \<Rightarrow>
          Some \<lparr>ru_ID = i, ru_Name = name, ru_Pattern = pattern, ru_Description = description\<rparr>
      | _ \<Rightarrow> None)"

fun decode_doc :: "(json \<Rightarrow> 'a option) \<Rightarrow> raw \<Rightarrow> 'a option" where
  "decode_doc d (Doc j) = d j"
| "decode_doc d _ = None"

definition no_rule :: Rule where
  "no_rule = \<lparr>ru_ID = 0, ru_Name = '''', ru_Pattern = '''', ru_Description = ''''\<rparr>"

definition decode_validation_error :: "json \<Rightarrow> string option" where
  "decode_validation_error j =
     (case (unmarshal_field ''field'' decode_string '''' (Doc j), unmarshal_field ''message'' decode_string '''' (Doc j)) of
        (Some field, Some message) \<Rightarrow> Some (''{'' @ field @ '' '' @ message @ ''}'')
      | _ \<Rightarrow> None)"

definition decode_validation :: "raw \<Rightarrow> (bool \<times> string list) option" where
  "decode_validation body =
     (case (unmarshal_field ''valid'' decode_bool False body,
            unmarshal_field ''errors'' (decode_list decode_validation_error) [] body) of
        (Some valid, Some errors) \<Rightarrow> Some (valid, errors)
      | _ \<Rightarrow> None)"

definition ValidateRule :: "client \<Rightarrow> 'x transport \<Rightarrow> context_kind \<Rightarrow> RulePlan \<Rightarrow> 'x \<Rightarrow> go_error option \<times> 'x" where
  "ValidateRule c tr ctx rule x =
     (let (answer, y) = doJSON tr ctx ''POST'' validateRulePath []
            (Some (marshal_rule_request (BuildRuleRequest rule (cn_HarnessVersion c)))) decode_validation (False, []) x
      in (case answer of
            Inl e \<Rightarrow> Some e
          | Inr (valid, errors) \<Rightarrow>
              if valid then None
              else Some (Err (''OSCAR rejected correlation rule: ['' @ join '' '' errors @ '']'')), y))"

definition CreateRule :: "client \<Rightarrow> 'x transport \<Rightarrow> context_kind \<Rightarrow> RulePlan \<Rightarrow> 'x \<Rightarrow> (go_error + Rule) \<times> 'x" where
  "CreateRule c tr ctx rule =
     doJSON tr ctx ''POST'' createRulePath []
       (Some (marshal_rule_request (BuildRuleRequest rule (cn_HarnessVersion c)))) (decode_doc decode_rule) no_rule"

definition GetRule :: "'x transport \<Rightarrow> context_kind \<Rightarrow> int \<Rightarrow> 'x \<Rightarrow> (go_error + Rule) \<times> 'x" where
  "GetRule tr ctx i =
     doJSON tr ctx ''GET'' (createRulePath @ ''/'' @ itoa i) [] None (decode_doc decode_rule) no_rule"

definition maxListPages :: nat where "maxListPages = 100"

definition listComplete :: "int \<Rightarrow> int \<Rightarrow> int \<Rightarrow> int \<Rightarrow> bool" where
  "listComplete seen declared pageRows declaredPerPage =
     (if 0 < declared then declared \<le> seen
      else pageRows < (if declaredPerPage \<le> 0 then 100 else declaredPerPage))"

definition paginationLimitError :: "string \<Rightarrow> go_error" where
  "paginationLimitError operation = Machine operation 0 ''pagination_limit'' ''OSCAR list exceeded the 100-page safety bound''"

record rule_page =
  pg_Rows :: "Rule list"
  pg_Total :: int
  pg_PerPage :: int

definition decode_rule_page :: "raw \<Rightarrow> rule_page option" where
  "decode_rule_page body =
     (case (unmarshal_field ''rows'' (decode_list decode_rule) [] body, unmarshal_field ''total'' decode_int 0 body,
            unmarshal_field ''page'' decode_int 0 body, unmarshal_field ''perPage'' decode_int 0 body) of
        (Some rows, Some declared, Some page, Some perPage) \<Rightarrow>
          Some \<lparr>pg_Rows = rows, pg_Total = declared, pg_PerPage = perPage\<rparr>
      | _ \<Rightarrow> None)"

text \<open>The pages left, the next page, the rows seen and the matches so far.\<close>

fun rule_pages :: "nat \<Rightarrow> 'x transport \<Rightarrow> context_kind \<Rightarrow> string \<Rightarrow> int \<Rightarrow> int \<Rightarrow> Rule list \<Rightarrow> 'x \<Rightarrow> (go_error + Rule list) \<times> 'x" where
  "rule_pages 0 tr ctx name page seen found x = (Inl (paginationLimitError ''GET /api/v1/correlation_rules''), x)"
| "rule_pages (Suc left) tr ctx name page seen found x =
     (let (answer, y) = doJSON tr ctx ''GET'' createRulePath
            [(''perPage'', ''100''), (''column'', ''id''), (''order'', ''asc''), (''search'', name), (''page'', itoa page)]
            None decode_rule_page \<lparr>pg_Rows = [], pg_Total = 0, pg_PerPage = 0\<rparr> x
      in case answer of
           Inl e \<Rightarrow> (Inl e, y)
         | Inr response \<Rightarrow>
             let seen = seen + int (length (pg_Rows response));
                 found = found @ filter (\<lambda>item. ru_Name item = name) (pg_Rows response)
             in if listComplete seen (pg_Total response) (int (length (pg_Rows response))) (pg_PerPage response)
                then (Inr found, y)
                else rule_pages left tr ctx name (page + 1) seen found y)"

definition FindRules :: "'x transport \<Rightarrow> context_kind \<Rightarrow> string \<Rightarrow> 'x \<Rightarrow> (go_error + Rule list) \<times> 'x" where
  "FindRules tr ctx name = rule_pages maxListPages tr ctx name 1 0 []"

definition DeleteRule :: "'x transport \<Rightarrow> context_kind \<Rightarrow> int \<Rightarrow> 'x \<Rightarrow> go_error option \<times> 'x" where
  "DeleteRule tr ctx i x =
     (let (answer, y) = doJSON tr ctx ''DELETE'' (createRulePath @ ''/'' @ itoa i) [] None (\<lambda>body. Some ()) () x
      in (case answer of
            Inr _ \<Rightarrow> None
          | Inl e \<Rightarrow> if remote_status e = Some 404 then None else Some e, y))"

section \<open>Alerts\<close>

definition contains_text :: "string \<Rightarrow> string \<Rightarrow> bool" where
  "contains_text text sub = list_ex (\<lambda>i. take (length sub) (drop i text) = sub) [0..<Suc (length text)]"

record injection_response =
  jr_Status :: string
  jr_Message :: string
  jr_Details :: string
  jr_TaskID :: string
  jr_ID :: string
  jr_Accepted :: "int option"
  jr_Rejected :: "int option"
  jr_Queued :: "bool option"

definition decode_injection :: "raw \<Rightarrow> injection_response option" where
  "decode_injection body =
     (let text = (\<lambda>tag. unmarshal_field tag decode_string '''' body)
      in case (text ''status'', text ''message'', text ''details'', text ''task_id'', text ''id'',
               unmarshal_field ''accepted'' (decode_pointer decode_int 0) None body,
               unmarshal_field ''rejected'' (decode_pointer decode_int 0) None body,
               unmarshal_field ''queued'' (decode_pointer decode_bool False) None body) of
           (Some status, Some message, Some details, Some task, Some i, Some accepted, Some rejected, Some queued) \<Rightarrow>
             Some \<lparr>jr_Status = status, jr_Message = message, jr_Details = details, jr_TaskID = task, jr_ID = i,
               jr_Accepted = accepted, jr_Rejected = rejected, jr_Queued = queued\<rparr>
         | _ \<Rightarrow> None)"

definition status_class :: "string \<Rightarrow> InjectionClass" where
  "status_class status =
     (let s = to_lower status
      in if s \<in> {''accepted'', ''scheduled'', ''success'', ''ok''} then InjectionAccepted
         else if s \<in> {''acl_filtered'', ''filtered'', ''rate_limited'', ''rejected'', ''dropped''} then InjectionRejected
         else if s \<in> {''queued'', ''circuit_breaker_queued''} then InjectionQueued
         else if s \<in> {''partial'', ''partially_accepted''} then InjectionPartial
         else InjectionIndeterminate)"

text \<open>The class of a decoded reply: every later rule overrides the ones before it.\<close>

definition response_class :: "injection_response \<Rightarrow> InjectionClass" where
  "response_class q =
     (let text = to_lower (join '' '' [jr_Status q, jr_Message q, jr_Details q]);
          c = status_class (jr_Status q);
          c = (if jr_ID q \<noteq> '''' \<and> equal_fold (jr_Status q) ''Alert group processing initiated in async mode''
               then InjectionAccepted else c);
          c = (case (jr_Accepted q, jr_Rejected q) of
                 (Some a, Some rejected) \<Rightarrow> if 0 < rejected then InjectionPartial else c | _ \<Rightarrow> c);
          c = (if jr_Queued q = Some True then InjectionQueued else c)
      in if contains_text text ''alert rate limited'' \<or> contains_text text ''acl filtered'' \<or>
            contains_text text ''filtered by acl'' \<or> contains_text text ''dropped'' then InjectionRejected
         else if contains_text text ''rate_limited'' \<and>
            (contains_text text ''accepted'' \<or> contains_text text ''processing may be delayed'') then InjectionQueued
         else c)"

definition classifyInjection :: "int \<Rightarrow> raw \<Rightarrow> InjectionResult" where
  "classifyInjection status body =
     (let text = (case body of Doc j \<Rightarrow> json_text j | _ \<Rightarrow> '''')
      in case decode_injection body of
           None \<Rightarrow> \<lparr>ir_Class = InjectionIndeterminate, ir_StatusCode = status, ir_TaskID = '''', ir_Body = text\<rparr>
         | Some q \<Rightarrow> \<lparr>ir_Class = response_class q, ir_StatusCode = status,
             ir_TaskID = (if jr_TaskID q = '''' then jr_ID q else jr_TaskID q), ir_Body = text\<rparr>)"

definition sent_result :: "go_error + (int \<times> raw) \<Rightarrow> InjectionResult \<times> go_error option" where
  "sent_result answer =
     (case answer of Inl e \<Rightarrow> (no_result, Some e) | Inr (status, body) \<Rightarrow> (classifyInjection status body, None))"

definition sendAlert :: "'x transport \<Rightarrow> context_kind \<Rightarrow> AlertGroupRequest \<Rightarrow> 'x \<Rightarrow> (InjectionResult \<times> go_error option) \<times> 'x" where
  "sendAlert tr ctx payload x =
     (let (answer, y) = do_call tr ctx ''POST'' alertsPath [] (Some (marshal_alert_group payload)) x
      in (sent_result answer, y))"

definition Inject :: "client \<Rightarrow> 'x transport \<Rightarrow> context_kind \<Rightarrow> AlertPlan \<Rightarrow> 'x \<Rightarrow> (InjectionResult \<times> go_error option) \<times> 'x" where
  "Inject c tr ctx alert x =
     (case BuildAlertRequest (co_Sha256 (cn_Codec c)) alert of
        Inl e \<Rightarrow> ((no_result, Some e), x)
      | Inr payload \<Rightarrow> sendAlert tr ctx payload x)"

definition ResolveHistory :: "client \<Rightarrow> 'x transport \<Rightarrow> context_kind \<Rightarrow> HistoryRecord \<Rightarrow> 'x \<Rightarrow>
  (InjectionResult \<times> go_error option) \<times> 'x" where
  "ResolveHistory c tr ctx record x =
     (case BuildResolutionRequest (co_Sha256 (cn_Codec c)) record of
        Inl e \<Rightarrow> ((no_result, Some e), x)
      | Inr payload \<Rightarrow> sendAlert tr ctx payload x)"

fun trim_slashes_rev :: "string \<Rightarrow> string" where
  "trim_slashes_rev [] = []"
| "trim_slashes_rev (c # s) = (if c = CHR ''/'' then trim_slashes_rev s else c # s)"

text \<open>\<^verbatim>\<open>strings.TrimRight(path, "/") + alertsPath\<close> on a copy of the base URL.\<close>

definition alerts_endpoint :: "client \<Rightarrow> url" where
  "alerts_endpoint c = (cn_BaseURL c)
     \<lparr>ur_Path := rev (trim_slashes_rev (rev (ur_Path (cn_BaseURL c)))) @ alertsPath\<rparr>"

definition InjectRecorded :: "client \<Rightarrow> 'x transport \<Rightarrow> (context_kind \<Rightarrow> 'x \<Rightarrow> go_error option \<times> 'x) \<Rightarrow> context_kind \<Rightarrow>
  AlertPlan \<Rightarrow> 'x recorder \<Rightarrow> ('x, InjectionResult \<times> go_error option) action" where
  "InjectRecorded c tr ctxErr ctx alert beforeSend =
     (let base = cn_BaseURL c
      in if ur_User base \<or> ur_RawQuery base \<noteq> '''' \<or> ur_ForceQuery base \<or> ur_Fragment base \<noteq> ''''
         then State_Monad.return
           (no_result, Some (Err ''recorded injection target contains forbidden userinfo, query or fragment''))
         else case PrepareInjection (cn_Codec c) alert (cn_TargetID c) (co_URLString (cn_Codec c) (alerts_endpoint c)) of
             Inl e \<Rightarrow> State_Monad.return (no_result, Some e)
           | Inr (evidence, body) \<Rightarrow> do {
               cancelled \<leftarrow> outside (ctxErr ctx);
               case cancelled of
                 Some e \<Rightarrow> State_Monad.return (no_result, Some e)
               | None \<Rightarrow> do {
                   refused \<leftarrow> beforeSend evidence;
                   case refused of
                     Some e \<Rightarrow> State_Monad.return (no_result, Some (Wrap ''record injection before send'' e))
                   | None \<Rightarrow> do {
                       cancelled \<leftarrow> outside (ctxErr ctx);
                       case cancelled of
                         Some e \<Rightarrow> State_Monad.return (no_result, Some e)
                       | None \<Rightarrow> do {
                           answer \<leftarrow> outside (doBytes tr ctx ''POST'' alertsPath [] (Some body));
                           State_Monad.return (sent_result answer)
                         }
                     }
                 }
             })"

section \<open>The API of the direct route\<close>

text \<open>\<^verbatim>\<open>ValidateInputBudget\<close> of a client without an ordinary binding (ordinary\_webhook.go).\<close>

definition validate_direct_budget :: "Plan \<Rightarrow> duration \<Rightarrow> go_error option" where
  "validate_direct_budget plan timeout =
     (if ''alert-engine'' \<noteq> pl_InputPath plan \<and> pl_InputPath plan \<noteq> ''''
      then Some (Err ''client input route does not match scenario'') else None)"

definition direct_client :: "client \<Rightarrow> 'x transport \<Rightarrow> 'x runner \<Rightarrow> 'x runner" where
  "direct_client c tr r = r
     \<lparr>api_ValidateRule := ValidateRule c tr, api_CreateRule := CreateRule c tr, api_FindRules := FindRules tr,
      api_DeleteRule := DeleteRule tr, api_InjectRecorded := InjectRecorded c tr (rn_CtxErr r),
      api_ResolveHistory := ResolveHistory c tr, api_InputPath := Some ''alert-engine'',
      api_InputEndpoint := Some ''POST /api/v1/alerts'', api_ValidateInputBudget := Some validate_direct_budget,
      api_UnresolvedInputCleanup := Some (\<lambda>x. (False, x)),
      api_ResolveHistoryRecorded := Some (\<lambda>ctx record beforeSend. outside (ResolveHistory c tr ctx record))\<rparr>"

text \<open>A transport that keeps the requests it was given.\<close>

definition logged :: "'y transport \<Rightarrow> (http_request list \<times> 'y) transport" where
  "logged tr ctx q = (\<lambda>(log, y). let (answer, y) = tr ctx q y in (answer, (log @ [q], y)))"

end
