(* ===== verification/Runner_Logic.thy ===== *)
theory Runner_Logic
  imports Action_Logic Run_Executor Run_Ledger Oscar_Client
begin

text \<open>
  The contracts of the runner's two interfaces, and what follows from them for every phase of a
  run. \<open>recording_api\<close> is the contract of an \<^verbatim>\<open>API\<close>: an injection touches the process only
  through the recorder it is given. \<open>ledger_invariant\<close> is the contract of a \<^verbatim>\<open>Store\<close>: a property of
  the ledger that the operations of a run keep. Together they give that every phase of
  \<^verbatim>\<open>Execute\<close> before its completion keeps the property. Both are interpreted on the model's client
  and ledger.
\<close>

section \<open>What a run does\<close>

text \<open>
  The primitive actions of a run once its resources are proposed keep \<open>I\<close>: reading the clock,
  sleeping, every call of the API, the operations on the ledger and the bookkeeping of attempts.
\<close>

locale running =
  fixes r :: "'x runner" and I :: "'x world \<Rightarrow> bool"
  assumes now_keeps [preserve_rules]: "preserves I (now r)"
    and sleep_keeps [preserve_rules]: "preserves I (outside (rn_Sleep r ctx d))"
    and context_keeps [preserve_rules]: "preserves I (outside (rn_CtxErr r ctx))"
    and evidence_keeps: "rn_WriteEvidence r = Some write \<Longrightarrow> preserves I (outside (write ctx rid facts at))"
    and validate_keeps [preserve_rules]: "preserves I (outside (api_ValidateRule r ctx rule))"
    and create_keeps [preserve_rules]: "preserves I (outside (api_CreateRule r ctx rule))"
    and find_keeps [preserve_rules]: "preserves I (outside (api_FindRules r ctx name))"
    and delete_keeps [preserve_rules]: "preserves I (outside (api_DeleteRule r ctx i))"
    and history_keeps [preserve_rules]: "preserves I (outside (api_FindHistory r ctx q))"
    and audit_keeps [preserve_rules]: "preserves I (outside (api_CorrelationAudit r ctx fingerprint))"
    and notification_keeps [preserve_rules]: "preserves I (outside (api_NotificationAudit r ctx fingerprint start fin))"
    and resolve_keeps [preserve_rules]: "preserves I (outside (api_ResolveHistory r ctx row))"
    and pending_keeps: "api_UnresolvedInputCleanup r = Some pending \<Longrightarrow> preserves I (outside pending)"
    and inject_keeps: "preserves I (api_InjectRecorded r ctx alert (record_attempt r rid prepared))"
    and recorded_resolve_keeps: "api_ResolveHistoryRecorded r = Some resolver \<Longrightarrow>
      preserves I (resolver ctx row (record_cleanup r ctx rid row))"
    and bookkeeping_keeps: "(\<And>w. wd_Store (change w) = wd_Store w \<and> wd_Ext (change w) = wd_Ext w) \<Longrightarrow>
      preserves I (modify change)"
    and transition_keeps [preserve_rules]:
      "status \<noteq> RunCompleted \<Longrightarrow> preserves I (transition r ctx rid status summary)"
    and append_event_keeps [preserve_rules]: "kind \<notin> {''run.transition'', ''run.interrupted''} \<Longrightarrow>
      preserves I (append_event r ctx rid kind at summary detail)"
    and adopt_op_keeps [preserve_rules]: "preserves I (store_op r ctx (\<lambda>s. AdoptResource s resid external at))"
    and deleted_op_keeps [preserve_rules]: "preserves I (store_op r ctx (\<lambda>s. MarkResourceDeleted s resid at))"
    and dirty_op_keeps [preserve_rules]: "preserves I (store_op r ctx (\<lambda>s. MarkResourceCleanupError s resid message))"
    and documents_op_keeps [preserve_rules]:
      "preserves I (store_op r ctx (\<lambda>s. SetRunExecutionDocuments s rid capabilities plan at))"
begin

lemma budget_keeps [preserve_rules]: "preserves I (budgetError r deadline)"
  unfolding budgetError_def by (intro preserve_rules)

lemma create_rule_keeps [preserve_rules]: "preserves I (create_rule r resource rule)"
  unfolding create_rule_def by (intro preserve_rules) (auto split: list.split intro!: preserve_rules)

lemma send_alert_keeps [preserve_rules]: "preserves I (send_alert r rid item index alert)"
  unfolding send_alert_def set_attempt_def
  by (intro preserve_rules bookkeeping_keeps inject_keeps) simp_all

lemma find_sources_keeps [preserve_rules]: "preserves I (find_sources r ctx rid started deadline eps expected acc)"
proof (induction expected arbitrary: acc)
  case (Cons x rest)
  then show ?case by (cases x) (auto intro!: preserve_rules)
qed (auto intro!: preserve_rules)

lemma no_match_rows_keeps [preserve_rules]: "preserves I (no_match_rows r source rows acc)"
  by (induction rows arbitrary: acc) (auto simp: Let_def intro!: preserve_rules)

lemma no_match_sources_keeps [preserve_rules]: "preserves I (no_match_sources r ctx sources acc)"
  by (induction sources arbitrary: acc) (auto simp: Let_def intro!: preserve_rules)

lemma find_audits_keeps [preserve_rules]: "preserves I (find_audits r ctx item started deadline sources acc)"
  by (induction sources arbitrary: acc) (auto simp: Let_def intro!: preserve_rules)

lemma readSnapshot_keeps [preserve_rules]: "preserves I (readSnapshot r ctx rid item started deadline)"
  unfolding readSnapshot_def readNoMatchAudits_def read_correlation_def by (intro preserve_rules)

lemma stabilize_keeps [preserve_rules]:
  "preserves I (stabilize r ctx rid item started deadline injectedAt shadow full snapshot as)"
  unfolding stabilize_def by (intro preserve_rules)

lemma conclude_keeps [preserve_rules]: "preserves I (conclude r item shadow checkpoint injectedAt ob)"
  unfolding conclude_def Let_def by (intro preserve_rules)

lemma observe_loop_keeps [preserve_rules]:
  "preserves I (observe_loop fuel r ctx rid item started deadline injectedAt shadow full checkpoint ob)"
  by (induction fuel arbitrary: ob) (auto simp: Let_def intro!: preserve_rules)

lemma observe_keeps [preserve_rules]:
  "preserves I (observe fuel r ctx rid item started injectedAt mode checkpoint)"
  unfolding observe_def by (intro preserve_rules)

lemma observeCase_keeps [preserve_rules]: "preserves I (observeCase fuel r ctx rid item started injectedAt mode)"
  unfolding observeCase_def by (rule observe_keeps)

lemma run_checkpoint_keeps [preserve_rules]: "preserves I (run_checkpoint fuel r ex item point checkpoints)"
  unfolding run_checkpoint_def by (intro preserve_rules) simp_all

lemma run_checkpoints_keeps [preserve_rules]:
  "preserves I (run_checkpoints fuel r ex item index points checkpoints)"
  by (induction points arbitrary: checkpoints) (auto intro!: preserve_rules)

lemma inject_alert_keeps [preserve_rules]: "preserves I (inject_alert fuel r ex item ij alert)"
  unfolding inject_alert_def wait_for_def announce_episode_def by (intro preserve_rules) simp_all

lemma inject_alerts_keeps [preserve_rules]: "preserves I (inject_alerts fuel r ex item ij alerts)"
  by (induction alerts arbitrary: ij) (auto intro!: preserve_rules)

lemma inject_cases_keeps [preserve_rules]: "preserves I (inject_cases fuel r ex caseStarted checkpoints items)"
  by (induction items arbitrary: caseStarted checkpoints) (auto intro!: preserve_rules)

lemma observe_cases_keeps [preserve_rules]: "preserves I (observe_cases fuel r ex caseStarted results items)"
  by (induction items arbitrary: results) (auto simp: Let_def split: option.split sum.split intro!: preserve_rules)

lemma cleanup_resources_keeps [preserve_rules]: "preserves I (cleanup_resources r ctx resources failures)"
  by (induction resources arbitrary: failures)
    (auto simp: cleanup_resource_def split del: if_split option.split intro!: preserve_rules)

lemma resolve_history_keeps [preserve_rules]: "preserves I (resolve_history r ctx rid record)"
  unfolding resolve_history_def
  by (intro preserve_rules) (rule recorded_resolve_keeps)

lemma cleanup_histories_keeps [preserve_rules]: "preserves I (cleanup_histories r ctx rid records acc)"
proof (induction records arbitrary: acc)
  case (Cons row rows)
  then show ?case by (cases acc) (auto intro!: preserve_rules)
qed (auto intro!: preserve_rules)

lemma discover_sources_keeps [preserve_rules]: "preserves I (discover_sources r ctx rid start fin expected acc)"
proof (induction expected arbitrary: acc)
  case (Cons x rest)
  show ?case by (cases x; cases acc) (auto intro!: preserve_rules Cons.IH)
qed (auto intro!: preserve_rules)

lemma discover_parents_keeps [preserve_rules]: "preserves I (discover_parents r ctx rid start fin names acc)"
proof (induction names arbitrary: acc)
  case (Cons x rest)
  then show ?case by (cases acc) (auto intro!: preserve_rules)
qed (auto intro!: preserve_rules)

lemma discover_keeps [preserve_rules]: "preserves I (discoverAttemptedHistory r ctx run plan attempts)"
  unfolding discoverAttemptedHistory_def by (intro preserve_rules)

lemma cleanup_keeps [preserve_rules]:
  "(\<And>search. discover = Some search \<Longrightarrow> preserves I search) \<Longrightarrow>
   preserves I (cleanup r ctx rid resources histories discover)"
  unfolding cleanup_def by (intro preserve_rules) simp_all

lemma publish_keeps [preserve_rules]:
  "preserves I (publish_evidence r ctx rid facts completed verdict terminal)"
  unfolding publish_evidence_def by (intro preserve_rules evidence_keeps)

end

text \<open>Setting up also proposes resources.\<close>

locale run_actions = running +
  assumes create_op_keeps [preserve_rules]: "preserves I (store_op r ctx (\<lambda>s. CreateResource s resource))"
begin

lemma setup_case_keeps [preserve_rules]: "preserves I (setup_case r ex resources item)"
  by (cases item) (auto simp: setup_case_def intro!: preserve_rules)

lemma setup_cases_keeps [preserve_rules]: "preserves I (setup_cases r ex resources items)"
  by (induction items arbitrary: resources) (auto intro!: preserve_rules)

end

section \<open>The whole of Execute\<close>

text \<open>What completion keeps as well is kept by the run as a whole.\<close>

locale whole_run = run_actions +
  assumes finalize_keeps: "preserves I (store_op r ctx (\<lambda>s. FinalizeRun s rid facts verdict cl report err at))"
begin

lemma complete_keeps [preserve_rules]:
  "preserves I (complete r ctx run plan capabilities results checkpoints attempts resolutions verdict status terminal)"
  unfolding complete_def by (intro preserve_rules finalize_keeps pending_keeps)

lemma finishWithoutMutation_keeps [preserve_rules]:
  "preserves I (finishWithoutMutation r ctx run plan capabilities verdict explanation)"
  unfolding finishWithoutMutation_def by (intro preserve_rules) simp_all

lemma failAndCleanup_keeps [preserve_rules]:
  "preserves I (failAndCleanup r run plan capabilities resources checkpoints cause)"
  unfolding failAndCleanup_def by (intro preserve_rules) (auto split: if_splits intro!: preserve_rules)

lemma fail_run_keeps [preserve_rules]: "preserves I (fail_run r ex resources checkpoints cause)"
  unfolding fail_run_def by (intro preserve_rules)

lemma stop_at_checkpoint_keeps [preserve_rules]:
  "preserves I (stop_at_checkpoint r ex resources checkpoints verdict)"
  unfolding stop_at_checkpoint_def by (intro preserve_rules) (auto intro!: preserve_rules)

lemma stop_run_keeps [preserve_rules]: "preserves I (stop_run r ex resources checkpoints why)"
  unfolding stop_run_def by (cases why) (auto intro!: preserve_rules)

lemma finish_run_keeps [preserve_rules]: "preserves I (finish_run r ex resources checkpoints results)"
  unfolding finish_run_def by (intro preserve_rules) simp_all

lemma observe_run_keeps [preserve_rules]:
  "preserves I (observe_run fuel r ex resources caseStarted checkpoints)"
  unfolding observe_run_def by (intro preserve_rules) simp_all

lemma inject_run_keeps [preserve_rules]: "preserves I (inject_run fuel r ex resources)"
  unfolding inject_run_def by (intro preserve_rules) simp_all

lemma mutate_run_keeps [preserve_rules]: "preserves I (mutate_run fuel r ex)"
  unfolding mutate_run_def by (intro preserve_rules) simp_all

lemma Execute_keeps: "preserves I (Execute fuel r run plan capabilities)"
  unfolding Execute_def Let_def by (intro preserve_rules bookkeeping_keeps) simp_all

end

section \<open>The API contract\<close>

definition outside_stable :: "('x world \<Rightarrow> bool) \<Rightarrow> bool" where
  "outside_stable I \<longleftrightarrow> (\<forall>w x. I w \<longrightarrow> I (w\<lparr>wd_Ext := x\<rparr>))"

lemma preserves_outside_stable: "outside_stable I \<Longrightarrow> preserves I (outside f)"
  by (rule preserves_outside) (simp add: outside_stable_def)

locale recording_api =
  fixes r :: "'x runner"
  assumes inject_keeps: "\<And>I ctx alert rec. outside_stable I \<Longrightarrow> (\<And>q. preserves I (rec q)) \<Longrightarrow>
      preserves I (api_InjectRecorded r ctx alert rec)"
    and resolve_keeps: "\<And>I ctx item rec f. api_ResolveHistoryRecorded r = Some f \<Longrightarrow> outside_stable I \<Longrightarrow>
      (\<And>q. preserves I (rec q)) \<Longrightarrow> preserves I (f ctx item rec)"

section \<open>The store contract\<close>

locale ledger_invariant =
  fixes J :: "store \<Rightarrow> bool"
  assumes keeps_transition: "J s \<Longrightarrow> status \<noteq> RunCompleted \<Longrightarrow> TransitionRun s rid status at summary = Inr t \<Longrightarrow> J t"
    and keeps_event: "J s \<Longrightarrow> kind \<notin> {''run.transition'', ''run.interrupted''} \<Longrightarrow>
      AppendRunEvent s (store_event rid kind ''info'' at summary detail) = Inr (e, t) \<Longrightarrow> J t"
    and keeps_documents: "J s \<Longrightarrow> SetRunExecutionDocuments s rid capabilities plan at = Inr t \<Longrightarrow> J t"
    and keeps_adopt: "J s \<Longrightarrow> AdoptResource s resid external at = Inr t \<Longrightarrow> J t"
    and keeps_deleted: "J s \<Longrightarrow> MarkResourceDeleted s resid at = Inr t \<Longrightarrow> J t"
    and keeps_dirty: "J s \<Longrightarrow> MarkResourceCleanupError s resid message = Inr t \<Longrightarrow> J t"
begin

abbreviation on_store :: "'x world \<Rightarrow> bool" where
  "on_store w \<equiv> J (wd_Store w)"

lemma stable: "outside_stable on_store"
  by (simp add: outside_stable_def)

lemma keeps_outside [preserve_rules]: "preserves on_store (outside f)"
  by (rule preserves_outside_stable [OF stable])

lemma keeps_now [preserve_rules]: "preserves on_store (now r)"
  unfolding now_def by (rule keeps_outside)

lemma keeps_op: "(\<And>s t. J s \<Longrightarrow> f s = Inr t \<Longrightarrow> J t) \<Longrightarrow> preserves on_store (store_op r ctx f)"
  by (rule preserves_store_op) auto

lemma keeps_modify: "(\<And>w. wd_Store (f w) = wd_Store w) \<Longrightarrow> preserves on_store (modify f)"
  by (rule preserves_modify) simp

lemma store_transition_keeps [preserve_rules]:
  "status \<noteq> RunCompleted \<Longrightarrow> preserves on_store (transition r ctx rid status summary)"
  unfolding transition_def
  by (intro preserves_bind keeps_now keeps_op) (rule keeps_transition)

lemma store_append_event_keeps [preserve_rules]:
  "kind \<notin> {''run.transition'', ''run.interrupted''} \<Longrightarrow> preserves on_store (append_event r ctx rid kind at summary detail)"
  unfolding append_event_def
  by (rule keeps_op) (auto simp: map_sum_Inr intro: keeps_event)

lemma store_adopt_op_keeps [preserve_rules]: "preserves on_store (store_op r ctx (\<lambda>s. AdoptResource s resid external at))"
  by (rule keeps_op) (rule keeps_adopt)

lemma store_deleted_op_keeps [preserve_rules]: "preserves on_store (store_op r ctx (\<lambda>s. MarkResourceDeleted s resid at))"
  by (rule keeps_op) (rule keeps_deleted)

lemma store_dirty_op_keeps [preserve_rules]: "preserves on_store (store_op r ctx (\<lambda>s. MarkResourceCleanupError s resid message))"
  by (rule keeps_op) (rule keeps_dirty)

lemma store_documents_op_keeps [preserve_rules]:
  "preserves on_store (store_op r ctx (\<lambda>s. SetRunExecutionDocuments s rid capabilities plan at))"
  by (rule keeps_op) (rule keeps_documents)

end

locale growing_invariant = ledger_invariant +
  assumes keeps_create: "J s \<Longrightarrow> CreateResource s resource = Inr t \<Longrightarrow> J t"
begin

lemma store_create_op_keeps [preserve_rules]: "preserves on_store (store_op r ctx (\<lambda>s. CreateResource s resource))"
  by (rule keeps_op) (rule keeps_create)

end

section \<open>The contracts give the actions\<close>

locale run_execution = recording_api r + ledger_invariant J for r :: "'x runner" and J
begin

lemma record_attempt_keeps: "preserves on_store (record_attempt r rid prepared q)"
  unfolding record_attempt_def by (intro preserve_rules) (auto intro!: keeps_modify)

lemma record_cleanup_keeps: "preserves on_store (record_cleanup r ctx rid row q)"
  unfolding record_cleanup_def by (intro preserve_rules) simp_all

end

sublocale run_execution \<subseteq> running r "\<lambda>w. J (wd_Store w)"
proof
qed (auto intro!: preserve_rules keeps_modify inject_keeps [OF stable record_attempt_keeps]
  resolve_keeps [OF _ stable record_cleanup_keeps])

locale run_growth = run_execution r J + growing_invariant J for r :: "'x runner" and J

sublocale run_growth \<subseteq> run_actions r "\<lambda>w. J (wd_Store w)"
  by unfold_locales (rule store_create_op_keeps)

locale run_closure = run_growth r J for r :: "'x runner" and J +
  assumes keeps_finalize: "J s \<Longrightarrow> FinalizeRun s rid facts verdict cl report err at = Inr t \<Longrightarrow> J t"

sublocale run_closure \<subseteq> whole_run r "\<lambda>w. J (wd_Store w)"
  by unfold_locales (rule keeps_op, rule keeps_finalize)

section \<open>The model's client and ledger\<close>

lemma InjectRecorded_keeps:
  assumes "outside_stable I" and "\<And>q. preserves I (beforeSend q)"
  shows "preserves I (InjectRecorded c tr ctxErr ctx alert beforeSend)"
  unfolding InjectRecorded_def
  by (intro preserve_rules assms(2) preserves_outside_stable [OF assms(1)])

interpretation dc: recording_api "direct_client c tr r" for c tr and r :: "'x runner"
proof
  fix I :: "'x world \<Rightarrow> bool" and ctx alert and rec :: "'x recorder"
  assume "outside_stable I" and "\<And>q. preserves I (rec q)"
  then show "preserves I (api_InjectRecorded (direct_client c tr r) ctx alert rec)"
    by (simp add: direct_client_def InjectRecorded_keeps)
next
  fix I :: "'x world \<Rightarrow> bool" and ctx item and rec :: "'x recorder" and f
  assume "api_ResolveHistoryRecorded (direct_client c tr r) = Some f" and "outside_stable I"
  then show "preserves I (f ctx item rec)"
    by (auto simp: direct_client_def intro: preserves_outside_stable)
qed

text \<open>Every step of a run is one of the ledger's operations.\<close>

interpretation step: growing_invariant "rtranclp ledger_step s" for s
proof
qed (fastforce simp: store_event_def intro: rtranclp.rtrancl_into_rtrancl ledger_step.intros)+

interpretation step: run_closure "direct_client c tr r" "rtranclp ledger_step s" for c tr and r :: "'x runner" and s
proof
qed (fastforce intro: rtranclp.rtrancl_into_rtrancl ledger_step.intros)

text \<open>
  Before completion no row of the run is completed or has a verdict; afterwards every completed
  row satisfies \<open>P\<close>.
\<close>

definition verdicts_from :: "string \<Rightarrow> (Run \<Rightarrow> bool) \<Rightarrow> store \<Rightarrow> bool" where
  "verdicts_from rid P s \<longleftrightarrow> list_all (\<lambda>row. run_ID row = rid \<longrightarrow>
     (if run_Status row = RunCompleted then P row else run_Verdict row = no_verdict)) (st_Runs s)"

definition open_run :: "string \<Rightarrow> store \<Rightarrow> bool" where
  "open_run rid s \<longleftrightarrow> verdicts_from rid (\<lambda>row. False) s"

lemma verdicts_from_mono: "verdicts_from rid P s \<Longrightarrow> (\<And>row. P row \<Longrightarrow> Q row) \<Longrightarrow> verdicts_from rid Q s"
  by (fastforce simp: verdicts_from_def list_all_iff)

lemma open_run_verdicts: "open_run rid s \<Longrightarrow> verdicts_from rid P s"
  unfolding open_run_def by (erule verdicts_from_mono) simp

lemma open_run_iff: "open_run rid s \<longleftrightarrow>
    (\<forall>row \<in> set (st_Runs s). run_ID row = rid \<longrightarrow> run_Status row \<noteq> RunCompleted \<and> run_Verdict row = no_verdict)"
  by (auto simp: open_run_def verdicts_from_def list_all_iff)

lemma open_run_frame: "st_Runs t = st_Runs s \<Longrightarrow> open_run rid s \<Longrightarrow> open_run rid t"
  by (simp add: open_run_def verdicts_from_def)

lemma open_run_update:
  assumes "open_run rid s" and "st_Runs t = update_where Q f (st_Runs s)"
    and "\<And>row. run_ID (f row) = run_ID row \<and> run_Verdict (f row) = run_Verdict row \<and>
      (run_Status row \<noteq> RunCompleted \<longrightarrow> run_Status (f row) \<noteq> RunCompleted)"
  shows "open_run rid t"
  using assms by (auto simp: open_run_iff update_where_def)

lemma AppendRunEvent_runs: "AppendRunEvent s e = Inr (e', t) \<Longrightarrow> st_Runs t = st_Runs s"
  by (auto simp: AppendRunEvent_def appendEvent_Inr split: if_splits)

lemma TransitionRun_open: "open_run rid s \<Longrightarrow> status \<noteq> RunCompleted \<Longrightarrow> TransitionRun s run status at summary = Inr t \<Longrightarrow> open_run rid t"
  by (erule open_run_update [where f = "\<lambda>r. r\<lparr>run_Status := status, run_UpdatedAt := at\<rparr>" and Q = "\<lambda>r. run_ID r = run"])
    (auto simp: TransitionRun_def Let_def map_sum_Inr appendEvent_Inr split: if_splits sum.splits)

lemma SetRunExecutionDocuments_open:
  assumes "open_run rid s" and "SetRunExecutionDocuments s run capabilities plan at = Inr t"
  shows "open_run rid t"
proof -
  let ?f = "\<lambda>r. r\<lparr>run_CapabilitySnapshotJSON := capabilities, run_CompiledPlanJSON := plan,
      run_StartedAt := (case run_StartedAt r of None \<Rightarrow> Some at | started \<Rightarrow> started), run_UpdatedAt := at\<rparr>"
  let ?u = "s\<lparr>st_Runs := update_where (\<lambda>r. run_ID r = run) ?f (st_Runs s)\<rparr>"
  from assms(2) obtain pattern cases where loop: "foldE (add_plan_case run pattern at) ?u cases = Inr t"
    by (auto simp: SetRunExecutionDocuments_def split: if_splits option.splits prod.splits)
  have "st_Runs t = st_Runs ?u"
    by (rule foldE_keeps [OF loop, where g = st_Runs]) (auto dest: add_plan_case_frame)
  then show ?thesis by (intro open_run_update [OF assms(1), where f = ?f]) auto
qed

interpretation opened: growing_invariant "open_run rid" for rid
proof
qed (auto intro: TransitionRun_open SetRunExecutionDocuments_open open_run_frame
  dest: AppendRunEvent_runs CreateResource_frame AdoptResource_frame MarkResourceDeleted_frame MarkResourceCleanupError_frame)

interpretation opened: run_growth "direct_client c tr r" "open_run rid" for c tr and r :: "'x runner" and rid
  by unfold_locales

end
