(* ===== verification/Plan_Properties.thy ===== *)
theory Plan_Properties
  imports Plan_Compiler
begin

text \<open>
  What \<^verbatim>\<open>Compile\<close> guarantees about the plans of \<^verbatim>\<open>Plan_Compiler\<close>: invariants of
  the loop over the alerts of a case (labels, event identifiers, resolutions), the agreement of
  that loop with the event loop of the validator, and the properties of whole plans that follow.
\<close>

section \<open>The loop over the cases\<close>

definition bare_plan :: "Plan \<Rightarrow> Plan" where
  "bare_plan plan = plan\<lparr>pl_Cases := [], pl_MutationBudget := \<lparr>mb_Rules = 0, mb_Alerts = 0\<rparr>, pl_Digest := ''''\<rparr>"

lemma add_case_loop:
  assumes "foldE (add_case run input code) (empty_plan run input) cases = Inr plan"
  shows "list_all2 (\<lambda>source item. compile_case run input code source = Inr item) cases (pl_Cases plan) \<and>
    pl_MutationBudget plan = \<lparr>mb_Rules = int (length cases),
      mb_Alerts = int (sum_list (map (length \<circ> source_events) cases))\<rparr> \<and>
    bare_plan plan = empty_plan run input"
  using assms
  by (rule foldE_prefix_invariant [where P = "\<lambda>done plan.
      list_all2 (\<lambda>source item. compile_case run input code source = Inr item) done (pl_Cases plan) \<and>
      pl_MutationBudget plan = \<lparr>mb_Rules = int (length done),
        mb_Alerts = int (sum_list (map (length \<circ> source_events) done))\<rparr> \<and>
      bare_plan plan = empty_plan run input"])
    (auto simp: empty_plan_def bare_plan_def add_case_def list_all2_appendI split: sum.splits)

lemma Compile_Inr:
  assumes "Compile digest run input mode = Inr plan"
  shows "compile_guard run input mode = None \<and>
    list_all2 (\<lambda>source item.
        compile_case run input (sget patternCodes (sc_Pattern input)) source = Inr item)
      (sc_Cases input) (pl_Cases plan) \<and>
    pl_MutationBudget plan = \<lparr>mb_Rules = int (length (sc_Cases input)),
      mb_Alerts = int (sum_list (map (length \<circ> source_events) (sc_Cases input)))\<rparr> \<and>
    bare_plan plan = empty_plan run input \<and>
    ValidateControlExclusion (plan\<lparr>pl_Digest := ''''\<rparr>) = None"
proof -
  from assms obtain p where p: "compile_guard run input mode = None"
      "foldE (add_case run input (sget patternCodes (sc_Pattern input))) (empty_plan run input) (sc_Cases input) = Inr p"
      "ValidateControlExclusion p = None" "plan = p\<lparr>pl_Digest := digest p\<rparr>"
    by (auto simp: Compile_def split: option.splits sum.splits)
  from add_case_loop [OF p(2)] have loop:
    "list_all2 (\<lambda>source item. compile_case run input (sget patternCodes (sc_Pattern input)) source = Inr item)
      (sc_Cases input) (pl_Cases p)"
    "pl_MutationBudget p = \<lparr>mb_Rules = int (length (sc_Cases input)),
      mb_Alerts = int (sum_list (map (length \<circ> source_events) (sc_Cases input)))\<rparr>"
    "bare_plan p = empty_plan run input" by simp_all
  from loop(3) have "pl_Digest (bare_plan p) = ''''" by (simp add: empty_plan_def)
  have "ValidateControlExclusion (plan\<lparr>pl_Digest := ''''\<rparr>) = ValidateControlExclusion p"
  proof -
    have same: "control_alerts (q\<lparr>pl_Digest := d\<rparr>) seen seens alerts = control_alerts q seen seens alerts"
      for q d seen seens alerts
      by (induction alerts arbitrary: seen seens) (simp_all add: Let_def split: option.splits)
    have "control_case (p\<lparr>pl_Digest := ''''\<rparr>) = control_case p"
      by (rule ext) (simp add: control_case_def same)
    then show ?thesis by (simp add: ValidateControlExclusion_def p(4))
  qed
  with p loop show ?thesis by (simp add: bare_plan_def)
qed

lemma guard_accepts:
  assumes "compile_guard run input mode = None"
  shows "Validate input = None" and "run_ID run \<noteq> ''''"
    and "sc_InputPath input = ''ordinary-webhook'' \<Longrightarrow> webhook_check input = None"
  using assms unfolding compile_guard_def first_error_None by auto

section \<open>The loop over the alerts\<close>

lemma equal_fold_resolved [simp]: "equal_fold ''resolved'' ''resolved''" "\<not> equal_fold ''firing'' ''resolved''"
  by code_simp+

text \<open>Sources are empty or label names, so the identity key determines role and source.\<close>

lemma IdentityKey_inject:
  assumes "IdentityKey a = IdentityKey b" and "CHR 0x00 \<notin> set (ev_Source a)" and "CHR 0x00 \<notin> set (ev_Source b)"
  shows "ev_Role a = ev_Role b \<and> ev_Source a = ev_Source b"
proof -
  have "takeWhile (\<lambda>c. c \<noteq> CHR 0x00) (rev (IdentityKey e)) = rev (ev_Source e)"
    if "CHR 0x00 \<notin> set (ev_Source e)" for e :: Event
    using that by (simp add: IdentityKey_def nul_def takeWhile_append char_of_def)
  from this [OF assms(2)] this [OF assms(3)] assms(1) have "ev_Source a = ev_Source b"
    by simp
  with assms(1) show ?thesis by (simp add: IdentityKey_def)
qed

lemma label_name_no_nul: "is_label_name s \<Longrightarrow> CHR 0x00 \<notin> set s"
  by (auto simp: is_label_name_def list_all_iff is_alpha_def is_digit_def byte_def split: list.splits)

text \<open>Decimal strings determine their number.\<close>

definition digits_value :: "string \<Rightarrow> nat" where
  "digits_value s = foldl (\<lambda>v c. 10 * v + (byte c - 48)) 0 s"

lemma digits_value_snoc: "digits_value (s @ [c]) = 10 * digits_value s + (byte c - 48)"
  by (simp add: digits_value_def)

lemma byte_digit: "d < 10 \<Longrightarrow> byte (char_of (48 + d)) = 48 + d"
  by (simp add: byte_def)

lemma digits_value_nat_str: "digits_value (nat_str n) = n"
proof (induction n rule: nat_str.induct)
  case (1 n)
  show ?case
  proof (cases "n < 10")
    case True
    then show ?thesis
      by (simp add: nat_str.simps [of n] digits_value_def byte_digit)
  next
    case False
    have "digits_value (nat_str n) = 10 * digits_value (nat_str (n div 10)) + n mod 10"
      using False by (simp add: nat_str.simps [of n] digits_value_snoc byte_digit)
    with 1 False show ?thesis by simp
  qed
qed

lemma digits_value_pad3: "digits_value (pad3 n) = n"
proof -
  have "digits_value (replicate k CHR ''0'' @ s) = digits_value s" for k s
    by (induction k) (simp_all add: digits_value_def byte_def)
  then show ?thesis by (simp add: pad3_def digits_value_nat_str)
qed

lemma pad3_inject: "pad3 m = pad3 n \<longleftrightarrow> m = n"
  by (metis digits_value_pad3)

text \<open>What the loop over the events maintains.\<close>

definition alert_of :: "case_frame \<Rightarrow> Event \<Rightarrow> AlertPlan \<Rightarrow> bool" where
  "alert_of f e a \<longleftrightarrow> ap_Source a = ev_Source e \<and> ap_Status a = ev_Status e \<and> ap_Delay a = ev_Delay e \<and>
     ap_Name a = alert_name f e \<and> map_of (ap_Labels a) ''alertname'' = Some (ap_Name a)"

definition ownership_keys :: "string list" where
  "ownership_keys =
     [''category'', ''oscar_test'', ''oscar_test_harness'', ''oscar_test_schema_version'',
      ''oscar_test_run_id'', ''oscar_test_run_short'', ''oscar_test_suite'', ''oscar_test_scenario'',
      ''oscar_test_pattern'', ''oscar_test_case'', ''oscar_test_case_code'', ''oscar_test_polarity'',
      ''oscar_test_alert_class'', ''oscar_test_rule_name'', ''severity'']"

definition owned :: "case_frame \<Rightarrow> labels \<Rightarrow> bool" where
  "owned f ls \<longleftrightarrow> (\<forall>key \<in> set ownership_keys. map_of ls key =
     map_of (identityLabels (fr_run f) (fr_input f) (fr_source f) (fr_ruleName f) ''source'' '''') key)"

definition event_id :: "case_frame \<Rightarrow> nat \<Rightarrow> string" where
  "event_id f n = run_ID (fr_run f) @ ''-'' @ fr_caseCode f @ ''-'' @ pad3 n"

lemma event_id_inject: "event_id f m = event_id f n \<longleftrightarrow> m = n"
  by (simp add: event_id_def pad3_inject)

definition remembered :: "Event list \<Rightarrow> alert_scan \<Rightarrow> string \<Rightarrow> labels \<Rightarrow> bool" where
  "remembered es s key ls \<longleftrightarrow>
     (\<exists>k < length es. IdentityKey (es ! k) = key \<and> \<not> resolved_status (es ! k) \<and>
        ap_Labels (al_Alerts s ! k) = ls)"

definition scan_inv :: "case_frame \<Rightarrow> Event list \<Rightarrow> alert_scan \<Rightarrow> bool" where
  "scan_inv f es s \<longleftrightarrow>
     length (al_Alerts s) = length es \<and>
     (\<forall>k < length es. alert_of f (es ! k) (al_Alerts s ! k)) \<and>
     (\<forall>k < length es. owned f (ap_Labels (al_Alerts s ! k))) \<and>
     (\<forall>key ls. map_of (al_activeByRole s) key = Some ls \<longrightarrow> remembered es s key ls) \<and>
     (\<forall>key ls. map_of (al_retainedSources s) key = Some ls \<longrightarrow> remembered es s key ls)"

lemma alert_step_Inr:
  assumes "alert_step f s (i, e) = Inr t"
  obtains unnamed where "alert_labels f s e = Inr (unnamed, al_eventSequence t)"
    and "ev_Delay e \<le> fr_window f" and "ev_Delay e \<le> sc_MaxDuration (fr_input f)"
    and "\<exists>a. al_Alerts t = al_Alerts s @ [a] \<and> alert_of f e a \<and>
      ap_Labels a = gput ''alertname'' (alert_name f e) unnamed"
    and "al_activeByRole t =
      (if \<not> resolved_status e then gput (IdentityKey e) (gput ''alertname'' (alert_name f e) unnamed) (al_activeByRole s)
       else gdel (IdentityKey e) (al_activeByRole s))"
    and "al_retainedSources t =
      (if \<not> resolved_status e \<and> ev_Source e \<noteq> '''' then
         gput (IdentityKey e) (gput ''alertname'' (alert_name f e) unnamed) (al_retainedSources s)
       else al_retainedSources s)"
  using assms
  by (auto simp: alert_step_def alert_of_def Let_def split: sum.splits if_splits)

lemma identity_keys:
  "map fst (identityLabels run input item rule cls role) =
     [''category'', ''oscar_test'', ''oscar_test_harness'', ''oscar_test_schema_version'',
      ''oscar_test_run_id'', ''oscar_test_run_short'', ''oscar_test_suite'', ''oscar_test_scenario'',
      ''oscar_test_pattern'', ''oscar_test_case'', ''oscar_test_case_code'', ''oscar_test_polarity'',
      ''oscar_test_alert_class'', ''oscar_test_alert_role'', ''oscar_test_rule_name'', ''severity'']"
  by (simp add: identityLabels_def)

lemma merge_into_other: "key \<notin> fst ` set src \<Longrightarrow> map_of (merge_into dst src) key = map_of dst key"
  by (induction dst src rule: merge_into.induct) auto

lemma ownership_keys_reserved: "key \<in> set ownership_keys \<Longrightarrow> IsReservedLabel key"
proof -
  have "list_all IsReservedLabel ownership_keys" by code_simp
  then show "key \<in> set ownership_keys \<Longrightarrow> IsReservedLabel key" by (simp add: list_all_iff)
qed

lemma ownership_keys_not:
  "key \<in> set ownership_keys \<Longrightarrow>
     key \<noteq> ''alertname'' \<and> key \<noteq> ''oscar_test_event_id'' \<and> key \<noteq> ''oscar_test_event_index'' \<and> key \<noteq> ''oscar_test_alert_role''"
  by (auto simp: ownership_keys_def)

lemma owned_gput:
  "owned f ls \<Longrightarrow> owned f (gput ''alertname'' v ls)"
  unfolding owned_def using ownership_keys_not by fastforce

lemma owned_fresh:
  assumes "\<not> list_ex (\<lambda>(key, _). IsReservedLabel key) (cs_Labels (fr_source f))"
    and "find IsReservedLabel (map fst (ev_Labels e)) = None"
  shows "owned f (gput ''oscar_test_event_index'' x (gput ''oscar_test_event_id'' y
    (merge_into (merge_into (identityLabels (fr_run f) (fr_input f) (fr_source f) (fr_ruleName f) ''source'' role)
       (cs_Labels (fr_source f))) (ev_Labels e))))"
  unfolding owned_def
proof
  fix key assume key: "key \<in> set ownership_keys"
  note reserved = ownership_keys_reserved [OF key] and others = ownership_keys_not [OF key]
  from reserved assms(1) have "key \<notin> fst ` set (cs_Labels (fr_source f))"
    by (auto simp: list_ex_iff)
  moreover from reserved assms(2) have "key \<notin> fst ` set (ev_Labels e)"
    by (auto simp: find_None_iff)
  moreover have "map_of (identityLabels (fr_run f) (fr_input f) (fr_source f) (fr_ruleName f) ''source'' role) key =
      map_of (identityLabels (fr_run f) (fr_input f) (fr_source f) (fr_ruleName f) ''source'' '''') key"
    using others by (simp add: identityLabels_def)
  ultimately show "map_of (gput ''oscar_test_event_index'' x (gput ''oscar_test_event_id'' y
    (merge_into (merge_into (identityLabels (fr_run f) (fr_input f) (fr_source f) (fr_ruleName f) ''source'' role)
       (cs_Labels (fr_source f))) (ev_Labels e)))) key =
      map_of (identityLabels (fr_run f) (fr_input f) (fr_source f) (fr_ruleName f) ''source'' '''') key"
    using others by (simp add: merge_into_other)
qed

lemma remembered_snoc:
  assumes "remembered es s key ls" and "length (al_Alerts s) = length es" and "al_Alerts t = al_Alerts s @ [a]"
  shows "remembered (es @ [e]) t key ls"
proof -
  from assms(1) obtain k where "k < length es" "IdentityKey (es ! k) = key"
      "\<not> resolved_status (es ! k)" "ap_Labels (al_Alerts s ! k) = ls"
    unfolding remembered_def by blast
  with assms(2,3) show ?thesis
    unfolding remembered_def by (intro exI [of _ k]) (simp add: nth_append)
qed

lemma remembered_new:
  assumes "\<not> resolved_status e" and "length (al_Alerts s) = length es" and "al_Alerts t = al_Alerts s @ [a]"
  shows "remembered (es @ [e]) t (IdentityKey e) (ap_Labels a)"
  unfolding remembered_def using assms by (intro exI [of _ "length es"]) (simp add: nth_append)

lemma alert_labels_cases:
  assumes "alert_labels f s e = Inr (unnamed, seq)"
  obtains
    (resolution) "resolved_status e" "map_of (al_activeByRole s) (IdentityKey e) = Some unnamed"
      "ev_Labels e = []" "seq = al_eventSequence s"
  | (refire) "\<not> resolved_status e" "ev_Source e \<noteq> ''''"
      "map_of (al_retainedSources s) (IdentityKey e) = Some unnamed" "seq = al_eventSequence s"
  | (fresh) "\<not> resolved_status e" "ev_Source e = '''' \<or> map_of (al_retainedSources s) (IdentityKey e) = None"
      "find IsReservedLabel (map fst (ev_Labels e)) = None" "seq = Suc (al_eventSequence s)"
      "unnamed = gput ''oscar_test_event_index'' (itoa (int seq)) (gput ''oscar_test_event_id'' (event_id f seq)
         (merge_into (merge_into (identityLabels (fr_run f) (fr_input f) (fr_source f) (fr_ruleName f)
            ''source'' (ev_Role e)) (cs_Labels (fr_source f))) (ev_Labels e)))"
  using assms
  by (auto simp: alert_labels_def event_id_def Let_def split: if_splits option.splits)

lemma scan_inv_step:
  assumes guard: "\<not> list_ex (\<lambda>(key, _). IsReservedLabel key) (cs_Labels (fr_source f))"
    and inv: "scan_inv f es s" and step: "alert_step f s (i, e) = Inr t"
  shows "scan_inv f (es @ [e]) t"
proof -
  from step obtain unnamed a where labels: "alert_labels f s e = Inr (unnamed, al_eventSequence t)"
    and a: "al_Alerts t = al_Alerts s @ [a]" "alert_of f e a"
      "ap_Labels a = gput ''alertname'' (alert_name f e) unnamed"
    and active: "al_activeByRole t = (if \<not> resolved_status e
        then gput (IdentityKey e) (gput ''alertname'' (alert_name f e) unnamed) (al_activeByRole s)
        else gdel (IdentityKey e) (al_activeByRole s))"
    and retained: "al_retainedSources t = (if \<not> resolved_status e \<and> ev_Source e \<noteq> ''''
        then gput (IdentityKey e) (gput ''alertname'' (alert_name f e) unnamed) (al_retainedSources s)
        else al_retainedSources s)"
    by (rule alert_step_Inr) blast
  from inv have len: "length (al_Alerts s) = length es" by (simp add: scan_inv_def)
  have "owned f unnamed"
    using labels
  proof (cases rule: alert_labels_cases)
    case resolution
    then have "remembered es s (IdentityKey e) unnamed" using inv by (simp add: scan_inv_def)
    then show ?thesis using inv unfolding scan_inv_def remembered_def by blast
  next
    case refire
    then have "remembered es s (IdentityKey e) unnamed" using inv by (simp add: scan_inv_def)
    then show ?thesis using inv unfolding scan_inv_def remembered_def by blast
  next
    case fresh
    then show ?thesis using owned_fresh [OF guard] by blast
  qed
  then have "owned f (ap_Labels a)" unfolding a(3) by (rule owned_gput)
  moreover have "remembered (es @ [e]) t key ls"
    if "map_of (al_activeByRole t) key = Some ls" for key ls
  proof (cases "key = IdentityKey e")
    case True
    with that active have "\<not> resolved_status e" "ls = ap_Labels a" by (auto simp: a(3) split: if_splits)
    with True show ?thesis using remembered_new [OF _ len a(1)] by blast
  next
    case False
    with that active have "map_of (al_activeByRole s) key = Some ls" by (auto split: if_splits)
    then have "remembered es s key ls" using inv by (simp add: scan_inv_def)
    then show ?thesis using remembered_snoc [OF _ len a(1)] by blast
  qed
  moreover have "remembered (es @ [e]) t key ls"
    if "map_of (al_retainedSources t) key = Some ls" for key ls
  proof (cases "map_of (al_retainedSources s) key = Some ls")
    case True
    then have "remembered es s key ls" using inv by (simp add: scan_inv_def)
    then show ?thesis using remembered_snoc [OF _ len a(1)] by blast
  next
    case False
    with that retained have "\<not> resolved_status e" "key = IdentityKey e" "ls = ap_Labels a"
      by (auto simp: a(3) split: if_splits)
    then show ?thesis using remembered_new [OF _ len a(1)] by blast
  qed
  ultimately show ?thesis
    using inv a len unfolding scan_inv_def by (auto simp: nth_append less_Suc_eq)
qed

lemma enumerate_snd: "enumerate n xs = done @ x # rest \<Longrightarrow> xs = map snd done @ snd x # map snd rest"
  by (metis map_snd_enumerate map_append list.simps(9))

lemma alert_loop_invariant:
  assumes loop: "foldE (alert_step f) no_alerts (enumerate 0 events) = Inr s"
    and init: "P [] no_alerts"
    and step: "\<And>done e rest s i t. events = done @ e # rest \<Longrightarrow> P done s \<Longrightarrow>
      alert_step f s (i, e) = Inr t \<Longrightarrow> P (done @ [e]) t"
  shows "P events s"
proof -
  have "P (map snd (enumerate 0 events)) s"
    using loop
  proof (rule foldE_prefix_invariant [where P = "\<lambda>done s. P (map snd done) s"])
    show "P (map snd []) no_alerts" using init by simp
  next
    fix pre x rest u t
    assume e: "enumerate 0 events = pre @ x # rest" and p: "P (map snd pre) u"
      and s: "alert_step f u x = Inr t"
    have "alert_step f u (fst x, snd x) = Inr t" using s by simp
    from step [OF enumerate_snd [OF e] p this] show "P (map snd (pre @ [x])) t" by simp
  qed
  then show ?thesis by simp
qed

lemma case_scan_inv:
  assumes "foldE (alert_step f) no_alerts (enumerate 0 events) = Inr s"
    and "case_limits (fr_source f) es = None"
  shows "scan_inv f events s"
proof -
  from assms(2) have "\<not> list_ex (\<lambda>(key, _). IsReservedLabel key) (cs_Labels (fr_source f))"
    unfolding case_limits_def first_error_None by simp
  note step = scan_inv_step [OF this]
  from assms(1) show ?thesis
  proof (rule alert_loop_invariant)
    show "scan_inv f [] no_alerts" by (simp add: scan_inv_def no_alerts_def)
  qed (rule step)
qed

text \<open>Event identifiers name episodes.\<close>

definition label_id :: "AlertPlan \<Rightarrow> string option" where
  "label_id a = map_of (ap_Labels a) ''oscar_test_event_id''"

definition ids_inv :: "case_frame \<Rightarrow> Event list \<Rightarrow> alert_scan \<Rightarrow> bool" where
  "ids_inv f es s \<longleftrightarrow>
     (\<forall>k < length es. \<exists>n \<le> al_eventSequence s. label_id (al_Alerts s ! k) = Some (event_id f n)) \<and>
     (\<forall>j < length es. \<forall>i < j. label_id (al_Alerts s ! i) = label_id (al_Alerts s ! j) \<longrightarrow>
        ap_Labels (al_Alerts s ! i) = ap_Labels (al_Alerts s ! j) \<and>
        IdentityKey (es ! i) = IdentityKey (es ! j) \<and>
        (resolved_status (es ! j) \<or> ev_Source (es ! j) \<noteq> ''''))"

definition nul_free :: "Event list \<Rightarrow> bool" where
  "nul_free es \<longleftrightarrow> (\<forall>e \<in> set es. CHR 0x00 \<notin> set (ev_Source e))"

lemma same_name:
  assumes "remembered es s (IdentityKey e) ls" and "scan_inv f es s" and "nul_free (es @ [e])"
  shows "gput ''alertname'' (alert_name f e) ls = ls"
proof -
  from assms(1) obtain k where k: "k < length es" "IdentityKey (es ! k) = IdentityKey e"
      "ap_Labels (al_Alerts s ! k) = ls" unfolding remembered_def by blast
  from assms(3) k(1) have "CHR 0x00 \<notin> set (ev_Source (es ! k))" "CHR 0x00 \<notin> set (ev_Source e)"
    by (auto simp: nul_free_def)
  with IdentityKey_inject [OF k(2)] have "alert_name f (es ! k) = alert_name f e"
    by (simp add: alert_name_def)
  moreover from assms(2) k have "map_of ls ''alertname'' = Some (alert_name f (es ! k))"
    by (auto simp: scan_inv_def alert_of_def)
  ultimately show ?thesis by (simp add: update_triv)
qed

lemma ids_inv_known:
  assumes inv: "ids_inv f es s" "scan_inv f es s" and known: "remembered es s (IdentityKey e) (ap_Labels a)"
    and a: "al_Alerts t = al_Alerts s @ [a]" "al_eventSequence t = al_eventSequence s"
    and e: "resolved_status e \<or> ev_Source e \<noteq> ''''"
  shows "ids_inv f (es @ [e]) t"
proof -
  from inv(2) have len: "length (al_Alerts s) = length es" by (simp add: scan_inv_def)
  from known obtain k where k: "k < length es" "IdentityKey (es ! k) = IdentityKey e"
      "ap_Labels (al_Alerts s ! k) = ap_Labels a" unfolding remembered_def by blast
  then have idk: "label_id (al_Alerts s ! k) = label_id a" by (simp add: label_id_def)
  have "ap_Labels (al_Alerts s ! i) = ap_Labels a \<and> IdentityKey (es ! i) = IdentityKey e"
    if "i < length es" "label_id (al_Alerts s ! i) = label_id a" for i
  proof -
    consider "i = k" | "i < k" | "k < i" by linarith
    then show ?thesis
      using inv(1) that k idk unfolding ids_inv_def by cases (simp, metis, metis)
  qed
  moreover have "\<exists>n \<le> al_eventSequence s. label_id a = Some (event_id f n)"
    using inv(1) k(1) idk unfolding ids_inv_def by metis
  ultimately show ?thesis
    using inv(1) e len a unfolding ids_inv_def by (auto simp: nth_append less_Suc_eq)
qed

lemma ids_inv_step:
  assumes inv: "ids_inv f es s" "scan_inv f es s" and nul: "nul_free (es @ [e])"
    and step: "alert_step f s (i, e) = Inr t"
  shows "ids_inv f (es @ [e]) t"
proof -
  from step obtain unnamed a where labels: "alert_labels f s e = Inr (unnamed, al_eventSequence t)"
    and a: "al_Alerts t = al_Alerts s @ [a]" "ap_Labels a = gput ''alertname'' (alert_name f e) unnamed"
    by (rule alert_step_Inr) blast
  from inv(2) have len: "length (al_Alerts s) = length es" by (simp add: scan_inv_def)
  from labels show ?thesis
  proof (cases rule: alert_labels_cases)
    case resolution
    then have known: "remembered es s (IdentityKey e) unnamed" using inv(2) by (simp add: scan_inv_def)
    from same_name [OF this inv(2) nul] have "ap_Labels a = unnamed" by (simp add: a(2))
    with ids_inv_known [OF inv _ a(1)] resolution known show ?thesis by simp
  next
    case refire
    then have known: "remembered es s (IdentityKey e) unnamed" using inv(2) by (simp add: scan_inv_def)
    from same_name [OF this inv(2) nul] have "ap_Labels a = unnamed" by (simp add: a(2))
    with ids_inv_known [OF inv _ a(1)] refire known show ?thesis by simp
  next
    case fresh
    have new: "label_id a = Some (event_id f (al_eventSequence t))"
      unfolding label_id_def a(2) fresh(5) by simp
    moreover have "label_id (al_Alerts s ! k) \<noteq> label_id a" if k: "k < length es" for k
    proof -
      from inv(1) k obtain n where "n \<le> al_eventSequence s" "label_id (al_Alerts s ! k) = Some (event_id f n)"
        unfolding ids_inv_def by blast
      then show ?thesis using new fresh(4) by (simp add: event_id_inject)
    qed
    moreover have "\<exists>n \<le> al_eventSequence t. label_id (al_Alerts s ! k) = Some (event_id f n)"
      if k: "k < length es" for k
    proof -
      from inv(1) k obtain n where "n \<le> al_eventSequence s" "label_id (al_Alerts s ! k) = Some (event_id f n)"
        unfolding ids_inv_def by blast
      then show ?thesis using fresh(4) by (intro exI [of _ n]) simp
    qed
    ultimately have ids: "\<forall>k < length es. label_id (al_Alerts s ! k) \<noteq> label_id a \<and>
        (\<exists>n \<le> al_eventSequence t. label_id (al_Alerts s ! k) = Some (event_id f n))"
      and new: "\<exists>n \<le> al_eventSequence t. label_id a = Some (event_id f n)" by blast+
    have old: "al_Alerts t ! k = al_Alerts s ! k" "(es @ [e]) ! k = es ! k" if "k < length es" for k
      using that len a(1) by (simp_all add: nth_append)
    have last: "al_Alerts t ! length es = a" using len a(1) by (simp add: nth_append)
    show ?thesis
      unfolding ids_inv_def
    proof (intro conjI allI impI)
      fix k assume "k < length (es @ [e])"
      then show "\<exists>n \<le> al_eventSequence t. label_id (al_Alerts t ! k) = Some (event_id f n)"
        using ids new old last by (cases "k = length es") auto
    next
      fix j i assume "j < length (es @ [e])" "i < j" "label_id (al_Alerts t ! i) = label_id (al_Alerts t ! j)"
      moreover from this ids old last have "j < length es" by (cases "j = length es") auto
      ultimately show "ap_Labels (al_Alerts t ! i) = ap_Labels (al_Alerts t ! j)"
          and "IdentityKey ((es @ [e]) ! i) = IdentityKey ((es @ [e]) ! j)"
          and "resolved_status ((es @ [e]) ! j) \<or> ev_Source ((es @ [e]) ! j) \<noteq> ''''"
        using inv(1) old unfolding ids_inv_def by simp_all
    qed
  qed
qed

lemma case_ids_inv:
  assumes loop: "foldE (alert_step f) no_alerts (enumerate 0 events) = Inr s"
    and guard: "case_limits (fr_source f) es = None" and nul: "nul_free events"
  shows "ids_inv f events s"
proof -
  from guard have reserved: "\<not> list_ex (\<lambda>(key, _). IsReservedLabel key) (cs_Labels (fr_source f))"
    unfolding case_limits_def first_error_None by simp
  from loop have "scan_inv f events s \<and> ids_inv f events s"
  proof (rule alert_loop_invariant [where P = "\<lambda>es s. scan_inv f es s \<and> ids_inv f es s"])
    show "scan_inv f [] no_alerts \<and> ids_inv f [] no_alerts"
      by (simp add: scan_inv_def ids_inv_def no_alerts_def)
  next
    fix pre e rest s i t
    assume "events = pre @ e # rest" "scan_inv f pre s \<and> ids_inv f pre s" "alert_step f s (i, e) = Inr t"
    moreover from this(1) nul have "nul_free (pre @ [e])" by (simp add: nul_free_def)
    ultimately show "scan_inv f (pre @ [e]) t \<and> ids_inv f (pre @ [e]) t"
      using scan_inv_step [OF reserved] ids_inv_step by blast
  qed
  then show ?thesis ..
qed

text \<open>A resolution repeats the labels of an earlier firing of the same source.\<close>

definition resolutions_inv :: "Event list \<Rightarrow> alert_scan \<Rightarrow> bool" where
  "resolutions_inv es s \<longleftrightarrow>
     (\<forall>j < length es. resolved_status (es ! j) \<longrightarrow>
        (\<exists>i < j. \<not> resolved_status (es ! i) \<and> IdentityKey (es ! i) = IdentityKey (es ! j) \<and>
           ap_Labels (al_Alerts s ! i) = ap_Labels (al_Alerts s ! j)))"

lemma resolutions_inv_step:
  assumes inv: "resolutions_inv es s" "scan_inv f es s" and nul: "nul_free (es @ [e])"
    and step: "alert_step f s (i, e) = Inr t"
  shows "resolutions_inv (es @ [e]) t"
proof -
  from step obtain unnamed a where labels: "alert_labels f s e = Inr (unnamed, al_eventSequence t)"
    and a: "al_Alerts t = al_Alerts s @ [a]" "ap_Labels a = gput ''alertname'' (alert_name f e) unnamed"
    by (rule alert_step_Inr) blast
  from inv(2) have len: "length (al_Alerts s) = length es" by (simp add: scan_inv_def)
  have new: "\<exists>i < length es. \<not> resolved_status (es ! i) \<and> IdentityKey (es ! i) = IdentityKey e \<and>
      ap_Labels (al_Alerts s ! i) = ap_Labels a" if "resolved_status e"
  proof -
    from labels that have "map_of (al_activeByRole s) (IdentityKey e) = Some unnamed"
      by (cases rule: alert_labels_cases) auto
    then have known: "remembered es s (IdentityKey e) unnamed" using inv(2) by (simp add: scan_inv_def)
    from same_name [OF this inv(2) nul] have "ap_Labels a = unnamed" by (simp add: a(2))
    with known show ?thesis unfolding remembered_def by auto
  qed
  show ?thesis
    unfolding resolutions_inv_def
  proof (intro allI impI)
    fix j assume j: "j < length (es @ [e])" "resolved_status ((es @ [e]) ! j)"
    show "\<exists>i < j. \<not> resolved_status ((es @ [e]) ! i) \<and>
        IdentityKey ((es @ [e]) ! i) = IdentityKey ((es @ [e]) ! j) \<and>
        ap_Labels (al_Alerts t ! i) = ap_Labels (al_Alerts t ! j)"
    proof (cases "j < length es")
      case True
      with j have "resolved_status (es ! j)" by (simp add: nth_append)
      with inv(1) True obtain i where "i < j" "\<not> resolved_status (es ! i)"
          "IdentityKey (es ! i) = IdentityKey (es ! j)" "ap_Labels (al_Alerts s ! i) = ap_Labels (al_Alerts s ! j)"
        unfolding resolutions_inv_def by blast
      with True len a(1) show ?thesis by (intro exI [of _ i]) (simp add: nth_append)
    next
      case False
      with j have "j = length es" "resolved_status e" by (simp_all add: nth_append less_Suc_eq)
      with new len a(1) show ?thesis by (auto simp: nth_append)
    qed
  qed
qed

lemma case_resolutions_inv:
  assumes loop: "foldE (alert_step f) no_alerts (enumerate 0 events) = Inr s"
    and guard: "case_limits (fr_source f) es = None" and nul: "nul_free events"
  shows "resolutions_inv events s"
proof -
  from guard have reserved: "\<not> list_ex (\<lambda>(key, _). IsReservedLabel key) (cs_Labels (fr_source f))"
    unfolding case_limits_def first_error_None by simp
  from loop have "scan_inv f events s \<and> resolutions_inv events s"
  proof (rule alert_loop_invariant [where P = "\<lambda>es s. scan_inv f es s \<and> resolutions_inv es s"])
    show "scan_inv f [] no_alerts \<and> resolutions_inv [] no_alerts"
      by (simp add: scan_inv_def resolutions_inv_def no_alerts_def)
  next
    fix pre e rest s i t
    assume "events = pre @ e # rest" "scan_inv f pre s \<and> resolutions_inv pre s" "alert_step f s (i, e) = Inr t"
    moreover from this(1) nul have "nul_free (pre @ [e])" by (simp add: nul_free_def)
    ultimately show "scan_inv f (pre @ [e]) t \<and> resolutions_inv (pre @ [e]) t"
      using scan_inv_step [OF reserved] resolutions_inv_step by blast
  qed
  then show ?thesis ..
qed

section \<open>Validated scenarios\<close>

text \<open>The events of a case as both stages expand them are accepted episode histories.\<close>

definition events_ok :: "Scenario \<Rightarrow> Event list \<Rightarrow> bool" where
  "events_ok document events \<longleftrightarrow>
     (\<forall>pre e rest. events = pre @ e # rest \<longrightarrow>
        (ev_Status e = ''firing'' \<or> ev_Status e = ''resolved'' \<and> ev_Labels e = [] \<and> is_active pre (IdentityKey e)) \<and>
        (\<forall>(name, value) \<in> set (ev_Labels e). safe_label name value) \<and>
        CHR 0x00 \<notin> set (ev_Source e))"

lemma accepted_events_ok:
  assumes "Validate document = None" and "item \<in> set (sc_Cases document)"
  shows "events_ok document (source_events item)"
proof (cases "cs_Events item = []")
  case True
  have "ev_Status e = ''firing'' \<and> ev_Labels e = [] \<and> ev_Source e = ''''" if "e \<in> set (source_events item)" for e
    using that True by (auto simp: source_events_def)
  then show ?thesis unfolding events_ok_def by auto
next
  case False
  then have src: "source_events item = cs_Events item" by (simp add: source_events_def)
  show ?thesis
    unfolding events_ok_def src
  proof (intro allI impI)
    fix pre e rest assume "cs_Events item = pre @ e # rest"
    from accepted_event [OF assms this] have ok: "event_ok document pre e" .
    then have "CHR 0x00 \<notin> set (ev_Source e)"
      using label_name_no_nul [of "ev_Source e"] by (auto simp: event_ok_def Let_def)
    with ok show "(ev_Status e = ''firing'' \<or> ev_Status e = ''resolved'' \<and> ev_Labels e = [] \<and>
          is_active pre (IdentityKey e)) \<and>
        (\<forall>(name, value) \<in> set (ev_Labels e). safe_label name value) \<and> CHR 0x00 \<notin> set (ev_Source e)"
      by (auto simp: event_ok_def Let_def)
  qed
qed

lemma events_ok_status: "events_ok document events \<Longrightarrow> e \<in> set events \<Longrightarrow>
  ev_Status e = ''firing'' \<or> ev_Status e = ''resolved''"
  unfolding events_ok_def by (metis split_list)

lemma events_ok_nul_free: "events_ok document events \<Longrightarrow> nul_free events"
  unfolding events_ok_def nul_free_def by (metis split_list)

lemma resolved_status_exact:
  "ev_Status e = ''firing'' \<or> ev_Status e = ''resolved'' \<Longrightarrow> resolved_status e \<longleftrightarrow> ev_Status e = ''resolved''"
  by (auto simp: resolved_status_def)

text \<open>The two loops agree on which sources are active.\<close>

definition active_inv :: "Event list \<Rightarrow> alert_scan \<Rightarrow> bool" where
  "active_inv es s \<longleftrightarrow> (\<forall>key. map_of (al_activeByRole s) key \<noteq> None \<longleftrightarrow> is_active es key)"

lemma active_inv_step:
  assumes "active_inv es s" and "ev_Status e = ''firing'' \<or> ev_Status e = ''resolved''"
    and "alert_step f s (i, e) = Inr t"
  shows "active_inv (es @ [e]) t"
proof -
  from assms(3) obtain ls where "al_activeByRole t = (if \<not> resolved_status e
      then gput (IdentityKey e) ls (al_activeByRole s) else gdel (IdentityKey e) (al_activeByRole s))"
    by (rule alert_step_Inr) blast
  then show ?thesis
    using assms(1) resolved_status_exact [OF assms(2)] unfolding active_inv_def is_active_snoc by auto
qed

lemma alert_step_error:
  assumes inv: "active_inv pre s" and ok: "events_ok document events" and here: "events = pre @ e # rest"
    and err: "alert_step f s (i, e) = Inl err"
  shows "err = DelayBudget (cs_Name (fr_source f))"
proof -
  from ok here have status: "ev_Status e = ''firing'' \<or> ev_Status e = ''resolved'' \<and> ev_Labels e = [] \<and>
        is_active pre (IdentityKey e)"
      and safe: "\<forall>(name, value) \<in> set (ev_Labels e). safe_label name value"
    unfolding events_ok_def by blast+
  from safe have "find IsReservedLabel (map fst (ev_Labels e)) = None"
    by (auto simp: find_None_iff safe_label_def)
  moreover have "resolved_status e \<Longrightarrow> ev_Labels e = [] \<and> map_of (al_activeByRole s) (IdentityKey e) \<noteq> None"
    using status inv resolved_status_exact [of e] by (auto simp: active_inv_def)
  ultimately have "\<exists>r. alert_labels f s e = Inr r"
    by (auto simp: alert_labels_def Let_def)
  then show ?thesis
    using err by (auto simp: alert_step_def Let_def split: if_splits)
qed

lemma alert_loop_error:
  assumes ok: "events_ok document events" and loop: "foldE (alert_step f) no_alerts (enumerate 0 events) = Inl err"
  shows "err = DelayBudget (cs_Name (fr_source f))"
proof -
  from foldE_error [OF loop] obtain pre x rest t where split: "enumerate 0 events = pre @ x # rest"
      "foldE (alert_step f) no_alerts pre = Inr t" "alert_step f t x = Inl err" by blast
  have here: "events = map snd pre @ snd x # map snd rest" by (rule enumerate_snd [OF split(1)])
  have "active_inv (map snd pre) t"
    using split(2)
  proof (rule foldE_prefix_invariant [where P = "\<lambda>done s. active_inv (map snd done) s"])
    show "active_inv (map snd []) no_alerts"
      by (simp add: active_inv_def no_alerts_def is_active_def history_def)
  next
    fix p y r u v
    assume y: "pre = p @ y # r" "active_inv (map snd p) u" "alert_step f u y = Inr v"
    from y(3) have step: "alert_step f u (fst y, snd y) = Inr v" by simp
    have "ev_Status (snd y) = ''firing'' \<or> ev_Status (snd y) = ''resolved''"
      by (rule events_ok_status [OF ok]) (simp add: here y(1))
    from active_inv_step [OF y(2) this step] show "active_inv (map snd (p @ [y])) v" by simp
  qed
  moreover have "alert_step f t (fst x, snd x) = Inl err" using split(3) by simp
  ultimately show ?thesis by (rule alert_step_error [OF _ ok here])
qed

section \<open>Compiled cases\<close>

lemma frame_fields [simp]:
  "fr_source (case_frame_of run input code source events) = source"
  "fr_run (case_frame_of run input code source events) = run"
  "fr_input (case_frame_of run input code source events) = input"
  "fr_caseCode (case_frame_of run input code source events) = to_upper (cs_Code source)"
  by (simp_all add: case_frame_of_def Let_def)

lemma compiled_case:
  assumes "Compile digest run input mode = Inr plan" and "item \<in> set (pl_Cases plan)"
  obtains source f s where "source \<in> set (sc_Cases input)"
    and "f = case_frame_of run input (sget patternCodes (sc_Pattern input)) source (source_events source)"
    and "case_limits source (source_events source) = None"
    and "foldE (alert_step f) no_alerts (enumerate 0 (source_events source)) = Inr s"
    and "cl_Alerts item = al_Alerts s" and "cl_Rule item = rule_plan f"
    and "cl_Name item = cs_Name source" and "cl_Control item = cs_Control source"
    and "cl_Code item = to_upper (cs_Code source)"
    and "events_ok input (source_events source)"
proof -
  note c = Compile_Inr [OF assms(1)]
  from c have "list_all2 (\<lambda>source item.
      compile_case run input (sget patternCodes (sc_Pattern input)) source = Inr item)
    (sc_Cases input) (pl_Cases plan)" by blast
  from list_all2_source [OF this assms(2)] obtain source where s: "source \<in> set (sc_Cases input)"
      "compile_case run input (sget patternCodes (sc_Pattern input)) source = Inr item" by blast
  moreover have "events_ok input (source_events source)"
    using accepted_events_ok guard_accepts(1) c s(1) by blast
  ultimately show ?thesis
    using that by (auto simp: compile_case_def Let_def split: option.splits sum.splits)
qed

lemma compiled_alerts:
  assumes "Compile digest run input mode = Inr plan" and "item \<in> set (pl_Cases plan)"
  shows "\<exists>source f s. source \<in> set (sc_Cases input) \<and> fr_source f = source \<and> fr_run f = run \<and> fr_input f = input \<and>
    cl_Alerts item = al_Alerts s \<and> cl_Rule item = rule_plan f \<and> cl_Name item = cs_Name source \<and>
    events_ok input (source_events source) \<and>
    scan_inv f (source_events source) s \<and> ids_inv f (source_events source) s \<and>
    resolutions_inv (source_events source) s"
proof -
  from compiled_case [OF assms] obtain source f s where c: "source \<in> set (sc_Cases input)"
    "f = case_frame_of run input (sget patternCodes (sc_Pattern input)) source (source_events source)"
    "case_limits source (source_events source) = None"
    "foldE (alert_step f) no_alerts (enumerate 0 (source_events source)) = Inr s"
    "cl_Alerts item = al_Alerts s" "cl_Rule item = rule_plan f"
    "cl_Name item = cs_Name source" "events_ok input (source_events source)" .
  from c(2) have f: "fr_source f = source" "fr_run f = run" "fr_input f = input" by simp_all
  note nul = events_ok_nul_free [OF c(8)]
  from c(3) have g: "case_limits (fr_source f) (source_events source) = None" by (simp add: f)
  show ?thesis
    using case_scan_inv [OF c(4) g] case_ids_inv [OF c(4) g nul] case_resolutions_inv [OF c(4) g nul] c f
    by blast
qed

lemma alert_fields:
  assumes "scan_inv f es s" and "k < length (al_Alerts s)"
  shows "k < length es" and "ap_Source (al_Alerts s ! k) = ev_Source (es ! k)"
    and "ap_Status (al_Alerts s ! k) = ev_Status (es ! k)"
    and "map_of (ap_Labels (al_Alerts s ! k)) ''alertname'' = Some (ap_Name (al_Alerts s ! k))"
    and "owned f (ap_Labels (al_Alerts s ! k))"
  using assms by (auto simp: scan_inv_def alert_of_def)

definition demo_run :: Run where
  "demo_run = \<lparr>run_ID = ''crt_00000000000000000000000000'', run_ShortToken = ''00000000'', run_TargetID = ''t'',
     run_ScenarioID = '''', run_Status = RunPreflight, run_Verdict = no_verdict, run_CleanupStatus = CleanupNotRequired,
     run_HarnessVersion = ''1'', run_CapabilitySnapshotJSON = NoBytes, run_CompiledPlanJSON = NoBytes,
     run_CanonicalReportJSON = NoBytes, run_StartedAt = None, run_EndedAt = None,
     run_CreatedAt = 1, run_UpdatedAt = 1, run_TerminalError = ''''\<rparr>"

lemma accepted_case_limits:
  assumes "Validate input = None" and "source \<in> set (sc_Cases input)"
  shows "case_limits source (source_events source) = None"
proof -
  from accepted_case [OF assms] have c: "0 < cs_Window source" "cs_Window source \<le> MaxCaseWindow"
      "validateLabels (cs_Labels source) = None"
      "length (cs_SuppressForNotifiers source) \<le> MaxNotifierNames"
      "length (cs_TagForNotifiers source) \<le> MaxNotifierNames"
      "validateNames (cs_SuppressForNotifiers source @ cs_TagForNotifiers source) MaxNotifierNameLength ''notifier'' = None"
      "validate_stimuli input source = None"
    unfolding case_step_Inr by blast+
  from c(7) have "1 \<le> length (source_events source) \<and> length (source_events source) \<le> MaxEvents"
    by (auto simp: validate_stimuli_def source_events_def Suc_le_eq split: if_splits)
  moreover from c(3) have "\<not> list_ex (\<lambda>(key, _). IsReservedLabel key) (cs_Labels source)"
    by (auto simp: validateLabels_None safe_label_def list_ex_iff)
  ultimately show ?thesis
    using c(1,2,4,5,6) unfolding case_limits_def first_error_None
    by (auto simp: validateNames_None not_less)
qed

lemma compile_case_error:
  assumes "Validate input = None" and "source \<in> set (sc_Cases input)"
    and "compile_case run input code source = Inl e"
  shows "e = DelayBudget (cs_Name source)"
proof -
  have "foldE (alert_step (case_frame_of run input code source (source_events source))) no_alerts
      (enumerate 0 (source_events source)) = Inl e"
    using assms(3) accepted_case_limits [OF assms(1,2)]
    by (auto simp: compile_case_def Let_def split: sum.splits)
  from alert_loop_error [OF accepted_events_ok [OF assms(1,2)] this] show ?thesis by simp
qed

lemma control_fixture:
  assumes "compile_case run input code source = Inr item" and "sc_Pattern input = ''flood''"
  shows "fixture_check alert item \<in> {None, Some (ControlOverlap (rp_Name (cl_Rule item)))}"
  using assms
  by (auto simp: compile_case_def fixture_check_def Let_def rule_plan_def matchCriteria_def first_error_Cons
      split: option.splits sum.splits)

lemma control_alerts_errors:
  assumes "control_alerts plan seen seenSources alerts = Some e"
    and "\<forall>alert \<in> set alerts. ap_Name alert \<noteq> '''' \<and> sget (ap_Labels alert) ''alertname'' = ap_Name alert \<and>
      ap_Source alert \<noteq> '''' \<and> ap_EpisodeOffset alert \<noteq> None \<and> ap_Status alert = ''firing''"
    and "\<forall>alert. \<forall>item \<in> set (pl_Cases plan).
      fixture_check alert item \<in> {None, Some (ControlOverlap (rp_Name (cl_Rule item)))}"
  shows "e = ControlUniqueInputs \<or> (\<exists>rule. e = ControlOverlap rule)"
  using assms(1,2)
proof (induction alerts arbitrary: seen seenSources)
  case (Cons alert alerts)
  have "first_error (map (fixture_check alert) items) = Some e' \<Longrightarrow> \<exists>rule. e' = ControlOverlap rule"
    if "set items \<subseteq> set (pl_Cases plan)" for items e'
    using that
  proof (induction items)
    case (Cons x items)
    then have "fixture_check alert x \<in> {None, Some (ControlOverlap (rp_Name (cl_Rule x)))}"
      using assms(3) by simp
    with Cons show ?case by (auto simp: first_error_Cons)
  qed simp
  from this [of "pl_Cases plan"] Cons show ?case
    by (auto simp: Let_def split: if_splits option.splits)
qed simp

lemma alert_step_offset:
  assumes "alert_step f s (i, e) = Inr t"
  shows "ap_EpisodeOffset (last (al_Alerts t)) \<noteq> None \<longleftrightarrow> ev_Source e \<noteq> ''''"
  using assms by (auto simp: alert_step_def Let_def split: sum.splits if_splits)

lemma alert_offsets:
  assumes "foldE (alert_step f) no_alerts (enumerate 0 events) = Inr s"
  shows "\<forall>a \<in> set (al_Alerts s). ap_EpisodeOffset a \<noteq> None \<longleftrightarrow> ap_Source a \<noteq> ''''"
  using assms
proof (rule alert_loop_invariant)
  show "\<forall>a \<in> set (al_Alerts no_alerts). ap_EpisodeOffset a \<noteq> None \<longleftrightarrow> ap_Source a \<noteq> ''''"
    by (simp add: no_alerts_def)
next
  fix pre e rest s i t
  assume IH: "\<forall>a \<in> set (al_Alerts s). ap_EpisodeOffset a \<noteq> None \<longleftrightarrow> ap_Source a \<noteq> ''''"
    and step: "alert_step f s (i, e) = Inr t"
  from step obtain a where "al_Alerts t = al_Alerts s @ [a]" "ap_Source a = ev_Source e"
    by (rule alert_step_Inr) (auto simp: alert_of_def)
  with IH alert_step_offset [OF step]
  show "\<forall>a \<in> set (al_Alerts t). ap_EpisodeOffset a \<noteq> None \<longleftrightarrow> ap_Source a \<noteq> ''''" by simp
qed

lemma control_events_None:
  "control_events seen events = None \<Longrightarrow> \<forall>e \<in> set events. ev_Source e \<noteq> '''' \<and> ev_Status e = ''firing''"
proof (induction events arbitrary: seen)
  case (Cons e events)
  then have "ev_Source e \<noteq> '''' \<and> ev_Status e = ''firing''"
      "control_events (insert (IdentityKey e) seen) events = None"
    by (simp_all split: if_splits)
  with Cons.IH show ?case by simp
qed simp

lemma physicalName_nonempty: "physicalName patternCode caseCode role short \<noteq> ''''"
  by (simp add: physicalName_def Let_def)

lemma accepted_control:
  assumes "Validate input = None" and "source \<in> set (sc_Cases input)" and "cs_Control source \<noteq> ''''"
  shows "cs_Control source = ''downstream-unmatched'' \<and> sc_Pattern input = ''flood'' \<and> cs_Code source = ''N01'' \<and>
    source_events source \<noteq> [] \<and> (\<forall>e \<in> set (source_events source). ev_Source e \<noteq> '''' \<and> ev_Status e = ''firing'')"
proof -
  from accepted_case [OF assms(1,2)] have c: "validateDownstreamControl (sc_Pattern input) source = None"
    unfolding case_step_Inr by blast
  from c assms(3) have d: "cs_Control source = ''downstream-unmatched''" "sc_Pattern input = ''flood''"
      "cs_Code source = ''N01''" "cs_Events source \<noteq> []" "control_events {} (cs_Events source) = None"
    by (simp_all add: validateDownstreamControl_def first_error_None)
  with control_events_None [OF d(5)] show ?thesis by (simp add: source_events_def)
qed

lemma control_case_error:
  assumes valid: "Validate input = None" and items: "list_all2 (\<lambda>source item.
      compile_case run input code source = Inr item) (sc_Cases input) (pl_Cases plan)"
    and pattern: "pl_Pattern plan = sc_Pattern input"
    and item: "item \<in> set (pl_Cases plan)" and err: "control_case plan item = Some e"
  shows "e = ControlUniqueInputs \<or> (\<exists>rule. e = ControlOverlap rule)"
proof -
  have source: "\<exists>source \<in> set (sc_Cases input). compile_case run input code source = Inr x"
    if "x \<in> set (pl_Cases plan)" for x
    by (rule list_all2_source [OF items that])
  from source [OF item] obtain source where s: "source \<in> set (sc_Cases input)"
      "compile_case run input code source = Inr item" by blast
  let ?f = "case_frame_of run input code source (source_events source)"
  from s(2) obtain scan where scan: "case_limits source (source_events source) = None"
      "foldE (alert_step ?f) no_alerts (enumerate 0 (source_events source)) = Inr scan"
      "cl_Alerts item = al_Alerts scan" "cl_Control item = cs_Control source"
      "cl_Code item = to_upper (cs_Code source)"
    by (auto simp: compile_case_def Let_def split: option.splits sum.splits)
  from err have control: "cs_Control source \<noteq> ''''" using scan(4) by (auto simp: control_case_def)
  note ok = accepted_control [OF valid s(1) control]
  from scan(1) have "case_limits (fr_source ?f) (source_events source) = None" by simp
  from case_scan_inv [OF scan(2) this] have inv: "scan_inv ?f (source_events source) scan" .
  have complete: "\<forall>alert \<in> set (cl_Alerts item). ap_Name alert \<noteq> '''' \<and>
      sget (ap_Labels alert) ''alertname'' = ap_Name alert \<and> ap_Source alert \<noteq> '''' \<and>
      ap_EpisodeOffset alert \<noteq> None \<and> ap_Status alert = ''firing''"
  proof
    fix alert assume "alert \<in> set (cl_Alerts item)"
    then obtain k where k: "k < length (al_Alerts scan)" "alert = al_Alerts scan ! k"
      using scan(3) by (auto simp: in_set_conv_nth)
    note fields = alert_fields [OF inv k(1)]
    have "source_events source ! k \<in> set (source_events source)" using fields(1) by simp
    with ok have e: "ev_Source (source_events source ! k) \<noteq> ''''"
        "ev_Status (source_events source ! k) = ''firing''" by blast+
    then have a1: "ap_Source alert \<noteq> ''''" and a2: "ap_Status alert = ''firing''"
      unfolding k(2) fields(2,3) by simp_all
    have a3: "ap_EpisodeOffset alert \<noteq> None"
      using alert_offsets [OF scan(2)] k a1 by auto
    have "alert_of ?f (source_events source ! k) (al_Alerts scan ! k)"
      using inv fields(1) unfolding scan_inv_def by blast
    then have "ap_Name alert = alert_name ?f (source_events source ! k)"
      by (simp add: alert_of_def k(2))
    moreover have "alert_name ?f (source_events source ! k) \<noteq> ''''"
      unfolding alert_name_def frame_fields using conjunct1 [OF ok]
      by (simp only: simp_thms if_True physicalName_nonempty)
    ultimately have "ap_Name alert \<noteq> ''''" by simp
    moreover have "sget (ap_Labels alert) ''alertname'' = ap_Name alert"
      using fields(4) k(2) by (simp add: sget_def)
    ultimately show "ap_Name alert \<noteq> '''' \<and> sget (ap_Labels alert) ''alertname'' = ap_Name alert \<and>
      ap_Source alert \<noteq> '''' \<and> ap_EpisodeOffset alert \<noteq> None \<and> ap_Status alert = ''firing''"
      using a1 a2 a3 by blast
  qed
  have fixtures: "\<forall>alert. \<forall>x \<in> set (pl_Cases plan).
      fixture_check alert x \<in> {None, Some (ControlOverlap (rp_Name (cl_Rule x)))}"
    using source control_fixture ok by blast
  have "length (al_Alerts scan) = length (source_events source)"
    using inv unfolding scan_inv_def by blast
  then have "cl_Alerts item \<noteq> []" using ok scan(3) by auto
  moreover have "cl_Code item = ''N01''" using ok scan(5) by (simp add: to_upper_def) code_simp
  ultimately have "control_alerts plan {} {} (cl_Alerts item) = Some e"
    using err control ok scan(4) pattern by (simp add: control_case_def first_error_Cons split: option.splits)
  then show ?thesis by (rule control_alerts_errors [OF _ complete fixtures])
qed

text \<open>A control input carries no name a rule of the plan matches.\<close>

lemma control_alerts_disjoint:
  assumes "control_alerts plan seen seenSources alerts = None" and "alert \<in> set alerts"
    and "fixture \<in> set (pl_Cases plan)"
  shows "fixture_check alert fixture = None \<and> ap_Status alert = ''firing'' \<and> ap_Source alert \<noteq> '''' \<and>
    sget (ap_Labels alert) ''alertname'' = ap_Name alert"
  using assms(1,2)
proof (induction alerts arbitrary: seen seenSources)
  case (Cons a alerts)
  then have "first_error (map (fixture_check a) (pl_Cases plan)) = None"
      "ap_Status a = ''firing'' \<and> ap_Source a \<noteq> '''' \<and> sget (ap_Labels a) ''alertname'' = ap_Name a"
      "\<exists>seen seenSources. control_alerts plan seen seenSources alerts = None"
    by (auto simp: Let_def split: if_splits option.splits)
  with Cons assms(3) show ?case by (auto simp: first_error_None)
qed simp

lemma alert_delays:
  assumes "foldE (alert_step f) no_alerts (enumerate 0 events) = Inr s"
  shows "\<forall>a \<in> set (al_Alerts s). ap_Delay a \<le> fr_window f \<and> ap_Delay a \<le> sc_MaxDuration (fr_input f)"
  using assms
proof (rule alert_loop_invariant)
  show "\<forall>a \<in> set (al_Alerts no_alerts). ap_Delay a \<le> fr_window f \<and> ap_Delay a \<le> sc_MaxDuration (fr_input f)"
    by (simp add: no_alerts_def)
next
  fix pre e rest s i t
  assume IH: "\<forall>a \<in> set (al_Alerts s). ap_Delay a \<le> fr_window f \<and> ap_Delay a \<le> sc_MaxDuration (fr_input f)"
    and step: "alert_step f s (i, e) = Inr t"
  from step obtain a where "al_Alerts t = al_Alerts s @ [a]" "ap_Delay a = ev_Delay e"
      "ev_Delay e \<le> fr_window f" "ev_Delay e \<le> sc_MaxDuration (fr_input f)"
    by (rule alert_step_Inr) (auto simp: alert_of_def)
  with IH show "\<forall>a \<in> set (al_Alerts t). ap_Delay a \<le> fr_window f \<and> ap_Delay a \<le> sc_MaxDuration (fr_input f)"
    by simp
qed

lemma case_alert_count:
  assumes "compile_case run input code source = Inr item"
  shows "length (cl_Alerts item) = length (source_events source)" and "length (cl_Alerts item) \<le> MaxEvents"
proof -
  let ?f = "case_frame_of run input code source (source_events source)"
  from assms obtain s where s: "case_limits source (source_events source) = None"
      "foldE (alert_step ?f) no_alerts (enumerate 0 (source_events source)) = Inr s" "cl_Alerts item = al_Alerts s"
    by (auto simp: compile_case_def Let_def split: option.splits sum.splits)
  from s(1) have "case_limits (fr_source ?f) (source_events source) = None" by simp
  from case_scan_inv [OF s(2) this] show "length (cl_Alerts item) = length (source_events source)"
    unfolding scan_inv_def s(3) by blast
  with s(1) show "length (cl_Alerts item) \<le> MaxEvents"
    unfolding case_limits_def first_error_None by auto
qed

text \<open>Concrete runs of the compiler.\<close>

definition demo_control :: Scenario where
  "demo_control = demo_flood\<lparr>sc_Cases := [demo_positive, demo_negative
     \<lparr>cs_Control := ''downstream-unmatched'', cs_Role := '''', cs_Repeat := 0,
      cs_Assertions := [\<lparr>as_Kind = ''downstream-no-match-count'', as_Outcome = '''', as_Equals = 1\<rparr>],
      cs_Events := [(demo_event ''firing'' 0)\<lparr>ev_Source := ''north''\<rparr>]\<rparr>]\<rparr>"

definition demo_late :: Scenario where
  "demo_late = demo_flood\<lparr>sc_Cases := [demo_positive
     \<lparr>cs_Window := second, cs_Checkpoints := [],
      cs_Events := replicate 5 (demo_event ''firing'' 0) @ [demo_event ''resolved'' (20 * second)]\<rparr>, demo_negative]\<rparr>"

definition no_digest :: "Plan \<Rightarrow> string" where
  "no_digest plan = ''''"

lemma demo_compiled: "\<exists>plan. Compile no_digest demo_run demo_flood ''phase_b_dispatch'' = Inr plan \<and>
   length (pl_Cases plan) = 2 \<and> map ap_Status (cl_Alerts (hd (pl_Cases plan))) = replicate 5 ''firing'' @ [''resolved'']"
proof -
  have "(case Compile no_digest demo_run demo_flood ''phase_b_dispatch'' of Inl e \<Rightarrow> False | Inr plan \<Rightarrow>
      length (pl_Cases plan) = 2 \<and> map ap_Status (cl_Alerts (hd (pl_Cases plan))) = replicate 5 ''firing'' @ [''resolved''])"
    by code_simp
  then show ?thesis by (auto split: sum.splits)
qed

lemma demo_control_compiled: "\<exists>plan. Compile no_digest demo_run demo_control ''phase_b_dispatch'' = Inr plan \<and>
   cl_Control (pl_Cases plan ! 1) \<noteq> '''' \<and> length (pl_Cases plan) = 2 \<and> length (cl_Alerts (pl_Cases plan ! 1)) = 1"
proof -
  have "(case Compile no_digest demo_run demo_control ''phase_b_dispatch'' of Inl e \<Rightarrow> False | Inr plan \<Rightarrow>
      cl_Control (pl_Cases plan ! 1) \<noteq> '''' \<and> length (pl_Cases plan) = 2 \<and> length (cl_Alerts (pl_Cases plan ! 1)) = 1)"
    by code_simp
  then show ?thesis by (auto split: sum.splits)
qed

lemma demo_late_error: "compile_guard demo_run demo_late ''phase_b_dispatch'' = None \<and>
   Compile no_digest demo_run demo_late ''phase_b_dispatch'' = Inl (DelayBudget ''burst'')"
  by code_simp

text \<open>
  Two limits of the compiler: distinct roles may share a physical name (also with the parent the
  rule emits), and a window below one second compiles to a rule window of zero seconds.
\<close>

lemma role_names_collide:
  "physicalName p c ''disk-full'' s = physicalName p c ''disk_full'' s \<and>
   physicalName p c ''Synthetic'' s = physicalName p c ''synthetic'' s"
proof -
  have "clean_role ''disk-full'' = clean_role ''disk_full''" "clean_role ''Synthetic'' = clean_role ''synthetic''"
    by code_simp+
  then show ?thesis by (simp only: physicalName_def simp_thms)
qed

lemma subsecond_window_is_zero:
  "case Compile no_digest demo_run
     (demo_flood\<lparr>sc_Cases := [demo_positive\<lparr>cs_Window := 500 * millisecond, cs_Checkpoints := [],
        cs_Events := replicate 5 (demo_event ''firing'' 0)\<rparr>, demo_negative]\<rparr>) ''phase_b_dispatch'' of
     Inl e \<Rightarrow> False | Inr plan \<Rightarrow> rp_WindowSeconds (cl_Rule (hd (pl_Cases plan))) = 0"
  by code_simp

section \<open>Properties\<close>



text \<open>
  C34. A resolution addresses what was fired: every resolved alert of a compiled case is preceded
  by a firing alert of the same source with the same name and the very same labels.
\<close>

theorem compiled_resolutions:
  assumes "Compile digest run input mode = Inr plan" and "item \<in> set (pl_Cases plan)"
    and "j < length (cl_Alerts item)" and "ap_Status (cl_Alerts item ! j) = ''resolved''"
  shows "\<exists>i < j. ap_Status (cl_Alerts item ! i) = ''firing'' \<and>
    ap_Source (cl_Alerts item ! i) = ap_Source (cl_Alerts item ! j) \<and>
    ap_Name (cl_Alerts item ! i) = ap_Name (cl_Alerts item ! j) \<and>
    ap_Labels (cl_Alerts item ! i) = ap_Labels (cl_Alerts item ! j)"
proof -
  from compiled_alerts [OF assms(1,2)] obtain source f s where c: "cl_Alerts item = al_Alerts s"
    "events_ok input (source_events source)" "scan_inv f (source_events source) s"
    "resolutions_inv (source_events source) s" by blast
  let ?es = "source_events source"
  have j: "j < length (al_Alerts s)" using assms(3) c(1) by simp
  note fj = alert_fields [OF c(3) j]
  have "resolved_status (?es ! j)"
    using fj(3) assms(4) c(1) by (simp add: resolved_status_def)
  with c(4) fj(1) obtain i where i: "i < j" "\<not> resolved_status (?es ! i)"
      "IdentityKey (?es ! i) = IdentityKey (?es ! j)"
      "ap_Labels (al_Alerts s ! i) = ap_Labels (al_Alerts s ! j)"
    unfolding resolutions_inv_def by blast
  have i': "i < length (al_Alerts s)" using i(1) j by simp
  note fi = alert_fields [OF c(3) i']
  have mem: "?es ! i \<in> set ?es" "?es ! j \<in> set ?es" using fi(1) fj(1) by simp_all
  then have "ev_Status (?es ! i) = ''firing''"
    using i(2) events_ok_status [OF c(2) mem(1)] resolved_status_exact [of "?es ! i"] by auto
  moreover have "ev_Source (?es ! i) = ev_Source (?es ! j)"
    using IdentityKey_inject [OF i(3)] events_ok_nul_free [OF c(2)] mem by (auto simp: nul_free_def)
  moreover have "ap_Name (al_Alerts s ! i) = ap_Name (al_Alerts s ! j)"
    using fi(4) fj(4) i(4) by simp
  ultimately show ?thesis
    using i(1,4) fi(2,3) fj(2) c(1) by (intro exI [of _ i]) simp
qed

theorem compiled_resolutions_witness:
  "\<exists>plan i. Compile no_digest demo_run demo_flood ''phase_b_dispatch'' = Inr plan \<and> i < 5 \<and>
     ap_Labels (cl_Alerts (hd (pl_Cases plan)) ! i) = ap_Labels (cl_Alerts (hd (pl_Cases plan)) ! 5)"
proof -
  from demo_compiled obtain plan where p: "Compile no_digest demo_run demo_flood ''phase_b_dispatch'' = Inr plan"
    "length (pl_Cases plan) = 2"
    "map ap_Status (cl_Alerts (hd (pl_Cases plan))) = replicate 5 ''firing'' @ [''resolved'']" by blast
  from p(2) have item: "hd (pl_Cases plan) \<in> set (pl_Cases plan)" by (cases "pl_Cases plan") auto
  from arg_cong [OF p(3), of length] have len: "5 < length (cl_Alerts (hd (pl_Cases plan)))" by simp
  from arg_cong [OF p(3), of "\<lambda>xs. xs ! 5"] len
  have "ap_Status (cl_Alerts (hd (pl_Cases plan)) ! 5) = ''resolved''" by (simp add: nth_append)
  from compiled_resolutions [OF p(1) item len this] p(1) show ?thesis by blast
qed

text \<open>
  Event identifiers name episodes: two alerts of a compiled case that carry the same
  \<^verbatim>\<open>oscar_test_event_id\<close> come from the same source and carry the same labels, and the later
  one is a resolution or the refire of a named source; independent firings never share one.
\<close>

theorem compiled_event_ids:
  assumes "Compile digest run input mode = Inr plan" and "item \<in> set (pl_Cases plan)"
    and "i < j" and "j < length (cl_Alerts item)"
    and "map_of (ap_Labels (cl_Alerts item ! i)) ''oscar_test_event_id'' =
      map_of (ap_Labels (cl_Alerts item ! j)) ''oscar_test_event_id''"
  shows "ap_Labels (cl_Alerts item ! i) = ap_Labels (cl_Alerts item ! j) \<and>
    ap_Source (cl_Alerts item ! i) = ap_Source (cl_Alerts item ! j) \<and>
    (ap_Status (cl_Alerts item ! j) = ''resolved'' \<or> ap_Source (cl_Alerts item ! j) \<noteq> '''')"
proof -
  from compiled_alerts [OF assms(1,2)] obtain source f s where c: "cl_Alerts item = al_Alerts s"
    "events_ok input (source_events source)" "scan_inv f (source_events source) s"
    "ids_inv f (source_events source) s" by blast
  let ?es = "source_events source"
  have j: "j < length (al_Alerts s)" and i: "i < length (al_Alerts s)" using assms(3,4) c(1) by simp_all
  note fj = alert_fields [OF c(3) j] and fi = alert_fields [OF c(3) i]
  have mem: "?es ! i \<in> set ?es" "?es ! j \<in> set ?es" using fi(1) fj(1) by simp_all
  from assms(5) c(1) have "label_id (al_Alerts s ! i) = label_id (al_Alerts s ! j)"
    by (simp add: label_id_def)
  with c(4) fj(1) assms(3) have same: "ap_Labels (al_Alerts s ! i) = ap_Labels (al_Alerts s ! j)"
      "IdentityKey (?es ! i) = IdentityKey (?es ! j)"
      "resolved_status (?es ! j) \<or> ev_Source (?es ! j) \<noteq> ''''"
    unfolding ids_inv_def by blast+
  moreover have "ev_Source (?es ! i) = ev_Source (?es ! j)"
    using IdentityKey_inject [OF same(2)] events_ok_nul_free [OF c(2)] mem by (auto simp: nul_free_def)
  moreover have "resolved_status (?es ! j) \<longleftrightarrow> ev_Status (?es ! j) = ''resolved''"
    using events_ok_status [OF c(2) mem(2)] by (rule resolved_status_exact)
  ultimately show ?thesis
    using fi(2) fj(2,3) c(1) by simp
qed

theorem compiled_event_ids_witness:
  "\<exists>plan. Compile no_digest demo_run demo_flood ''phase_b_dispatch'' = Inr plan \<and>
     map_of (ap_Labels (cl_Alerts (hd (pl_Cases plan)) ! 4)) ''oscar_test_event_id'' =
     map_of (ap_Labels (cl_Alerts (hd (pl_Cases plan)) ! 5)) ''oscar_test_event_id'' \<and>
     ap_Labels (cl_Alerts (hd (pl_Cases plan)) ! 4) = ap_Labels (cl_Alerts (hd (pl_Cases plan)) ! 5)"
proof -
  have "(case Compile no_digest demo_run demo_flood ''phase_b_dispatch'' of Inl e \<Rightarrow> False | Inr plan \<Rightarrow>
      length (pl_Cases plan) = 2 \<and> length (cl_Alerts (hd (pl_Cases plan))) = 6 \<and>
      map_of (ap_Labels (cl_Alerts (hd (pl_Cases plan)) ! 4)) ''oscar_test_event_id'' =
      map_of (ap_Labels (cl_Alerts (hd (pl_Cases plan)) ! 5)) ''oscar_test_event_id'')"
    by code_simp
  then obtain plan where p: "Compile no_digest demo_run demo_flood ''phase_b_dispatch'' = Inr plan"
    "length (pl_Cases plan) = 2" "length (cl_Alerts (hd (pl_Cases plan))) = 6"
    "map_of (ap_Labels (cl_Alerts (hd (pl_Cases plan)) ! 4)) ''oscar_test_event_id'' =
      map_of (ap_Labels (cl_Alerts (hd (pl_Cases plan)) ! 5)) ''oscar_test_event_id''"
    by (auto split: sum.splits)
  from p(2) have item: "hd (pl_Cases plan) \<in> set (pl_Cases plan)" by (cases "pl_Cases plan") auto
  from compiled_event_ids [OF p(1) item _ _ p(4)] p show ?thesis by simp
qed



text \<open>
  The mutation budget is exact and bounded: a compiled plan has two rules, its budget
  counts exactly the alerts it will send, and these are at most two hundred.
\<close>

theorem compiled_budget:
  assumes "Compile digest run input mode = Inr plan"
  shows "mb_Rules (pl_MutationBudget plan) = 2 \<and> length (pl_Cases plan) = 2 \<and>
    mb_Alerts (pl_MutationBudget plan) = int (sum_list (map (length \<circ> cl_Alerts) (pl_Cases plan))) \<and>
    mb_Alerts (pl_MutationBudget plan) \<le> 200"
proof -
  note c = Compile_Inr [OF assms]
  have two: "length (sc_Cases input) = 2"
    using Validate_None [OF guard_accepts(1) [OF conjunct1 [OF c]]] by (simp add: RequiredCaseCount_def)
  have counts: "map (length \<circ> cl_Alerts) (pl_Cases plan) = map (length \<circ> source_events) (sc_Cases input) \<and>
      sum_list (map (length \<circ> cl_Alerts) (pl_Cases plan)) \<le> 100 * length (pl_Cases plan)"
  proof -
    from c have "list_all2 (\<lambda>source item.
        compile_case run input (sget patternCodes (sc_Pattern input)) source = Inr item)
      (sc_Cases input) (pl_Cases plan)" by blast
    then show ?thesis
    proof (induction rule: list_all2_induct)
      case (Cons x xs y ys)
      with case_alert_count [OF Cons(1)] show ?case by (auto simp: MaxEvents_def)
    qed simp
  qed
  have len: "length (pl_Cases plan) = 2" using c two by (metis list_all2_lengthD)
  from c have budget: "pl_MutationBudget plan = \<lparr>mb_Rules = int (length (sc_Cases input)),
      mb_Alerts = int (sum_list (map (length \<circ> source_events) (sc_Cases input)))\<rparr>" by blast
  have "mb_Alerts (pl_MutationBudget plan) = int (sum_list (map (length \<circ> cl_Alerts) (pl_Cases plan)))"
    unfolding conjunct1 [OF counts] budget by simp
  moreover have "sum_list (map (length \<circ> cl_Alerts) (pl_Cases plan)) \<le> 200"
    using conjunct2 [OF counts] len by simp
  moreover have "mb_Rules (pl_MutationBudget plan) = 2" using budget two by simp
  ultimately show ?thesis using len by simp
qed

theorem compiled_budget_witness:
  "\<exists>plan. Compile no_digest demo_run demo_flood ''phase_b_dispatch'' = Inr plan \<and>
     mb_Rules (pl_MutationBudget plan) = 2 \<and> mb_Alerts (pl_MutationBudget plan) \<le> 200"
  using demo_compiled compiled_budget by blast

text \<open>
  C15. A downstream control stays outside the experiment: the alerts of a controlled case are
  named firings, and no rule of the plan matches their name.
\<close>

theorem control_never_matches:
  assumes "Compile digest run input mode = Inr plan" and "item \<in> set (pl_Cases plan)"
    and "cl_Control item \<noteq> ''''" and "alert \<in> set (cl_Alerts item)" and "fixture \<in> set (pl_Cases plan)"
  shows "fixture_name (rp_MatchCriteria (cl_Rule fixture)) \<notin> {'''', ap_Name alert} \<and>
    ap_Status alert = ''firing'' \<and> ap_Source alert \<noteq> ''''"
proof -
  let ?plan = "plan\<lparr>pl_Digest := ''''\<rparr>"
  from Compile_Inr [OF assms(1)] have "ValidateControlExclusion ?plan = None" by blast
  with assms(2) have "control_case ?plan item = None"
    by (simp add: ValidateControlExclusion_def first_error_None)
  with assms(3) have "control_alerts ?plan {} {} (cl_Alerts item) = None"
    unfolding control_case_def first_error_None by (auto split: if_splits simp: first_error_None)
  from control_alerts_disjoint [OF this assms(4)] assms(5) have check: "fixture_check alert fixture = None"
      and alert: "ap_Status alert = ''firing'' \<and> ap_Source alert \<noteq> ''''" by simp_all
  from check have "fixture_name (rp_MatchCriteria (cl_Rule fixture)) \<notin> {'''', ap_Name alert}"
    unfolding fixture_check_def Let_def first_error_None by auto
  with alert show ?thesis by blast
qed

theorem control_never_matches_witness:
  "\<exists>plan alert. Compile no_digest demo_run demo_control ''phase_b_dispatch'' = Inr plan \<and>
     alert \<in> set (cl_Alerts (pl_Cases plan ! 1)) \<and>
     fixture_name (rp_MatchCriteria (cl_Rule (pl_Cases plan ! 0))) \<noteq> ap_Name alert"
proof -
  from demo_control_compiled obtain plan where
    p: "Compile no_digest demo_run demo_control ''phase_b_dispatch'' = Inr plan"
      "cl_Control (pl_Cases plan ! 1) \<noteq> ''''" "length (pl_Cases plan) = 2"
      "length (cl_Alerts (pl_Cases plan ! 1)) = 1" by blast
  from p(3) have items: "pl_Cases plan ! 1 \<in> set (pl_Cases plan)" "pl_Cases plan ! 0 \<in> set (pl_Cases plan)"
    by simp_all
  from p(4) have "hd (cl_Alerts (pl_Cases plan ! 1)) \<in> set (cl_Alerts (pl_Cases plan ! 1))"
    by (cases "cl_Alerts (pl_Cases plan ! 1)") auto
  with control_never_matches [OF p(1) items(1) p(2) this items(2)] p(1) show ?thesis by blast
qed

end
