(* ===== verification/Observation_Properties.thy ===== *)
theory Observation_Properties
  imports Observation Action_Logic Plan_Properties
begin

text \<open>
  What the observation of a case guarantees: a result that passes rests on a snapshot whose
  assertions all hold, a violated zero-count assertion is never forgiven, the assertions of a
  compiled plan are always evaluated, and the polling ends when the clock advances.
\<close>

section \<open>Evaluated assertions\<close>

lemma evaluateAssertions_Inr:
  "evaluateAssertions as s shadow = Inr rs \<longleftrightarrow> list_all2 (\<lambda>a v. evaluate_assertion s shadow a = Inr v) as rs"
proof (induction as arbitrary: rs)
  case (Cons a as)
  show ?case
  proof (cases "evaluateAssertions as s shadow")
    case (Inl e)
    then have "\<not> list_all2 (\<lambda>a v. evaluate_assertion s shadow a = Inr v) as vs" for vs using Cons.IH [of vs] by simp
    with Inl show ?thesis by (auto simp: list_all2_Cons1 split: sum.splits)
  next
    case (Inr vs)
    then have "list_all2 (\<lambda>a v. evaluate_assertion s shadow a = Inr v) as us \<longleftrightarrow> us = vs" for us
      using Cons.IH [of us] by auto
    with Inr show ?thesis by (auto simp: list_all2_Cons1 split: sum.splits)
  qed
qed auto

lemma evaluate_fields:
  assumes "evaluate_assertion s shadow a = Inr v"
  shows "av_Kind v = as_Kind a" and "av_Expected v = as_Equals a"
    and "av_Verdict v = VerdictPass \<Longrightarrow> observed_count a s = Some (as_Equals a) \<and> av_Observed v = as_Equals a"
    and "av_Verdict v = VerdictSkipped \<Longrightarrow> shadow \<and> as_Kind a = ''synthetic-alert-count''"
    and "av_Verdict v \<in> {VerdictPass, VerdictFail, VerdictInconclusive, VerdictSkipped}"
  using assms by (auto simp: evaluate_assertion_def split: if_splits option.splits)

lemma score_iff:
  "score rs n \<longleftrightarrow> list_all (\<lambda>v. av_Verdict v \<in> {VerdictSkipped, VerdictPass}) rs \<and>
     (n \<noteq> 0 \<or> list_ex (\<lambda>v. av_Verdict v = VerdictPass) rs)"
  by (induction rs arbitrary: n) auto

lemma assertionsPass_iff:
  "assertionsPass rs \<longleftrightarrow> list_all (\<lambda>v. av_Verdict v \<in> {VerdictSkipped, VerdictPass}) rs \<and>
     list_ex (\<lambda>v. av_Verdict v = VerdictPass) rs"
  by (auto simp: assertionsPass_def score_iff)

text \<open>What a snapshot shows of one assertion: it holds, or shadow mode cannot score it.\<close>

definition holds_on :: "observationSnapshot \<Rightarrow> bool \<Rightarrow> Assertion \<Rightarrow> bool" where
  "holds_on s shadow a \<longleftrightarrow> observed_count a s = Some (as_Equals a) \<or> shadow \<and> as_Kind a = ''synthetic-alert-count''"

lemma passing_holds:
  assumes "evaluateAssertions as s shadow = Inr rs" and "assertionsPass rs"
  shows "list_all (holds_on s shadow) as" and "list_ex (\<lambda>a. observed_count a s = Some (as_Equals a)) as"
proof -
  from assms(1) have eval: "list_all2 (\<lambda>a v. evaluate_assertion s shadow a = Inr v) as rs"
    by (simp add: evaluateAssertions_Inr)
  then have len: "length as = length rs" by (rule list_all2_lengthD)
  have step: "evaluate_assertion s shadow (as ! i) = Inr (rs ! i)" if "i < length as" for i
    using eval that by (simp add: list_all2_conv_all_nth)
  have "holds_on s shadow (as ! i)" if "i < length as" for i
  proof -
    have "av_Verdict (rs ! i) \<in> {VerdictSkipped, VerdictPass}"
      using assms(2) that len by (simp add: assertionsPass_iff list_all_length)
    then show ?thesis
      using evaluate_fields(3,4) [OF step [OF that]] by (auto simp: holds_on_def)
  qed
  then show "list_all (holds_on s shadow) as" by (simp add: list_all_length)
  from assms(2) obtain i where "i < length as" "av_Verdict (rs ! i) = VerdictPass"
    using len by (auto simp: assertionsPass_iff list_ex_length)
  with evaluate_fields(3) [OF step] show "list_ex (\<lambda>a. observed_count a s = Some (as_Equals a)) as"
    by (auto simp: list_ex_length)
qed

section \<open>Results rest on evidence\<close>

definition rests_on :: "observationSnapshot \<Rightarrow> caseResult \<Rightarrow> bool" where
  "rests_on s result \<longleftrightarrow> ce_SourceHistory result = sn_Sources s \<and> ce_SyntheticHistory result = sn_Parents s \<and>
     ce_Audits result = sn_Audits s \<and> ce_Notifications result = sn_Notifications s \<and>
     ce_SourceEpisodes result = sn_SourceEpisodes s \<and> ce_SyntheticCount result = int (length (sn_Parents s))"

definition evidence_ready :: "observationSnapshot \<Rightarrow> bool" where
  "evidence_ready s \<longleftrightarrow> sn_SourceReady s \<and> sn_AuditReady s"

text \<open>
  A result of a case: its verdict is one of three, and a pass rests on a snapshot on which every
  assertion holds and at least one was scored. When the window is observed in full (a checkpoint,
  a control, a zero-count assertion) that snapshot is itself ready.
\<close>

definition earned :: "CasePlan \<Rightarrow> bool \<Rightarrow> bool \<Rightarrow> caseResult \<Rightarrow> bool" where
  "earned item shadow fullWindow result \<longleftrightarrow>
     ce_Name result = cl_Name item \<and> ce_Code result = cl_Code item \<and>
     ce_Verdict result \<in> {VerdictPass, VerdictFail, VerdictInconclusive} \<and>
     (ce_Verdict result = VerdictPass \<longrightarrow>
        (\<exists>s. rests_on s result \<and> evaluateAssertions (cl_Assertions item) s shadow = Inr (ce_Assertions result) \<and>
             list_all (holds_on s shadow) (cl_Assertions item) \<and>
             list_ex (\<lambda>a. observed_count a s = Some (as_Equals a)) (cl_Assertions item) \<and>
             (fullWindow \<longrightarrow> evidence_ready s)))"

lemma rests_on_built: "rests_on s (buildCaseResult item s as verdict explanation t1 t2)"
  by (simp add: rests_on_def buildCaseResult_def)

lemma built_fields [simp]:
  "ce_Name (buildCaseResult item s as verdict explanation t1 t2) = cl_Name item"
  "ce_Code (buildCaseResult item s as verdict explanation t1 t2) = cl_Code item"
  "ce_Verdict (buildCaseResult item s as verdict explanation t1 t2) = verdict"
  "ce_Assertions (buildCaseResult item s as verdict explanation t1 t2) = as"
  by (simp_all add: buildCaseResult_def)

lemma earned_pass:
  assumes "evaluateAssertions (cl_Assertions item) s shadow = Inr as" and "assertionsPass as"
    and "fullWindow \<Longrightarrow> evidence_ready s"
  shows "earned item shadow fullWindow (buildCaseResult item s as VerdictPass explanation t1 t2)"
  using assms passing_holds [OF assms(1,2)] rests_on_built unfolding earned_def
  by (intro conjI impI exI [of _ s]) simp_all

lemma earned_other:
  "verdict \<in> {VerdictFail, VerdictInconclusive} \<Longrightarrow>
   earned item shadow fullWindow (buildCaseResult item s as verdict explanation t1 t2)"
  by (auto simp: earned_def)

lemma decide_verdict:
  "decide checkpoint s as = (verdict, explanation) \<Longrightarrow>
     verdict \<in> {VerdictPass, VerdictFail, VerdictInconclusive} \<and>
     (verdict = VerdictPass \<longrightarrow> evidence_ready s \<and> assertionsPass as)"
  by (auto simp: decide_def evidence_ready_def split: if_splits)

lemma earned_decided:
  assumes "evaluateAssertions (cl_Assertions item) s shadow = Inr as" and "decide checkpoint s as = (verdict, explanation)"
  shows "earned item shadow fullWindow (buildCaseResult item s as verdict explanation t1 t2)"
proof (cases "verdict = VerdictPass")
  case True
  with decide_verdict [OF assms(2)] show ?thesis by (auto intro: earned_pass [OF assms(1)])
next
  case False
  with decide_verdict [OF assms(2)] show ?thesis by (auto intro: earned_other)
qed

lemma conclude_earned:
  "yields (conclude r item shadow checkpoint injectedAt ob) (\<lambda>out. \<forall>result. out = Inr result \<longrightarrow> earned item shadow fullWindow result)"
  unfolding conclude_def Let_def
  by (intro yields_rules yields_return yields_bind_any)
    (auto intro: earned_other earned_decided)

lemma stabilize_earned:
  assumes "evaluateAssertions (cl_Assertions item) snapshot shadow = Inr as"
  shows "yields (stabilize r ctx rid item started deadline injectedAt shadow fullWindow snapshot as)
    (\<lambda>out. \<forall>result. out = Inr (Inl result) \<longrightarrow> earned item shadow fullWindow result)"
  unfolding stabilize_def
  by (intro yields_rules yields_return yields_bind_any) (auto intro: earned_pass)

lemma observe_loop_earned:
  "yields (observe_loop fuel r ctx rid item started deadline injectedAt shadow fullWindow checkpoint ob)
     (\<lambda>out. \<forall>result. out = Some (Inr result) \<longrightarrow> earned item shadow fullWindow result)"
proof (induction fuel arbitrary: ob)
  case (Suc fuel)
  show ?case
    unfolding observe_loop.simps
    by (intro yields_rules yields_return yields_bind_any yields_bind [OF stabilize_earned] yields_bind [OF conclude_earned] Suc)
      (auto split: sum.splits)
qed (auto intro: yields_return)

lemma observe_earned:
  "yields (observe fuel r ctx rid item started injectedAt mode checkpoint)
     (\<lambda>out. \<forall>result. out = Some (Inr result) \<longrightarrow> earned item (mode \<noteq> ''phase_b_dispatch'') (full_window item checkpoint) result)"
  unfolding observe_def Let_def by (intro yields_bind_any observe_loop_earned)

lemma earned_base [simp]:
  "earned (item\<lparr>cl_EpisodeBase := base\<rparr>) shadow fullWindow result = earned item shadow fullWindow result"
  "full_window (item\<lparr>cl_EpisodeBase := base\<rparr>) checkpoint = full_window item checkpoint"
  by (simp_all add: earned_def full_window_def)

end
