(* ===== verification/Run_Properties.thy ===== *)
theory Run_Properties
  imports Runner_Logic Observation_Properties
begin

text \<open>
  What a run leaves in the ledger: its steps are operations of the ledger, a stored verdict of
  PASS is earned by every case, an error is never stored as a pass, and an unfinished run stays
  open.
\<close>

section \<open>Completion\<close>

lemma hoare_store_op:
  assumes "\<And>w x. P w \<Longrightarrow> P (w\<lparr>wd_Ext := x\<rparr>)" and "\<And>e w. P w \<Longrightarrow> Q (Some e) w"
    and "\<And>w s. P w \<Longrightarrow> f (wd_Store w) = Inr s \<Longrightarrow> Q None (w\<lparr>wd_Store := s\<rparr>)"
  shows "hoare P (store_op r ctx f) Q"
proof -
  have "preserves P (outside (rn_StoreFault r ctx))" by (rule preserves_outside) (rule assms(1))
  moreover have "hoare P (State (\<lambda>w. case f (wd_Store w) of
      Inl e \<Rightarrow> (Some (StoreErr e), w) | Inr s \<Rightarrow> (None, w\<lparr>wd_Store := s\<rparr>))) Q"
    using assms(2,3) by (auto simp: hoare_def split: sum.splits)
  moreover have "hoare P (State_Monad.return (Some e)) Q" for e by (rule hoare_return) (rule assms(2))
  ultimately show ?thesis unfolding store_op_def by (intro hoare_bind_keep hoare_rules) assumption+
qed

definition completed_run :: "string \<Rightarrow> store \<Rightarrow> bool" where
  "completed_run rid s \<longleftrightarrow> list_ex (\<lambda>row. run_ID row = rid \<and> run_Status row = RunCompleted) (st_Runs s)"

lemma affected_pos: "affected P rows \<noteq> 0 \<longleftrightarrow> list_ex P rows"
  by (auto simp: affected_def list_ex_iff filter_empty_conv)

lemma FinalizeRun_open:
  assumes "open_run rid s" and "FinalizeRun s rid facts v cl report err at = Inr t"
  shows "verdicts_from rid (\<lambda>row. run_Verdict row = v \<and> run_CleanupStatus row = cl \<and>
      run_CanonicalReportJSON row = report \<and> run_TerminalError row = err) t \<and> completed_run rid t"
proof -
  let ?P = "\<lambda>r. run_ID r = rid \<and> run_Status r = RunCleaningUp"
  let ?f = "\<lambda>r. r\<lparr>run_Status := RunCompleted, run_Verdict := v, run_CleanupStatus := cl, run_CanonicalReportJSON := report,
               run_TerminalError := err, run_EndedAt := Some at, run_UpdatedAt := at\<rparr>"
  from assms(2) obtain s2 e' where f: "affected ?P (st_Runs s) = 1"
    "appendEvent ((finalize_rest rid (fallback_verdict v) at s2)\<lparr>st_Runs := update_where ?P ?f (st_Runs s)\<rparr>)
      (store_event rid ''run.transition'' ''info'' at ''Run completed''
        (transition_detail RunCleaningUp RunCompleted)) = Inr (e', t)"
    by (rule FinalizeRun_Inr) blast
  from f(2) have t: "st_Runs t = update_where ?P ?f (st_Runs s)" unfolding appendEvent_Inr by auto
  from f(1) obtain row where "row \<in> set (st_Runs s)" "?P row"
    using affected_pos [of ?P "st_Runs s"] by (auto simp: list_ex_iff)
  then have "?f row \<in> set (st_Runs t)" by (force simp: t update_where_def)
  with \<open>?P row\<close> have "completed_run rid t"
    unfolding completed_run_def list_ex_iff by (intro bexI [where x = "?f row"]) simp_all
  with assms(1) show ?thesis
    by (auto simp: t open_run_iff verdicts_from_def update_where_def list_all_iff)
qed

text \<open>The row a completion writes: the report speaks of the stored verdict and cleanup status.\<close>

definition reported :: "'x runner \<Rightarrow> Run \<Rightarrow> Plan \<Rightarrow> CapabilitySnapshot \<Rightarrow> caseResult list \<Rightarrow> checkpointResult list \<Rightarrow>
  AlertAttemptFact list \<Rightarrow> AlertResolutionFact list \<Rightarrow> Verdict \<Rightarrow> CleanupStatus \<Rightarrow> Run \<Rightarrow> bool" where
  "reported r run plan capabilities results checkpoints attempts resolutions verdict status row \<longleftrightarrow>
     run_Verdict row \<in> {verdict, VerdictError} \<and> run_CleanupStatus row \<in> {status, CleanupDirty} \<and>
     (\<exists>artifacts completed. run_CanonicalReportJSON row = Doc (canonical_report (report_coverage (api_InputEndpoint r) plan)
        (run_ID run) plan capabilities results checkpoints
        ((normalizedFacts plan results attempts)\<lparr>ef_Resolutions := resolutions, ef_Artifacts := artifacts\<rparr>)
        (run_Verdict row) (run_CleanupStatus row) completed))"

definition completion :: "string \<Rightarrow> (Run \<Rightarrow> bool) \<Rightarrow> go_error option \<Rightarrow> 'x world \<Rightarrow> bool" where
  "completion rid P e w \<longleftrightarrow>
     (case e of Some _ \<Rightarrow> open_run rid (wd_Store w)
      | None \<Rightarrow> verdicts_from rid P (wd_Store w) \<and> completed_run rid (wd_Store w))"

lemma publish_yields:
  "yields (publish_evidence r ctx rid facts completed verdict terminal)
     (\<lambda>(facts', verdict', terminal'). verdict' \<in> {verdict, VerdictError} \<and>
        (\<exists>artifacts. facts' = facts\<lparr>ef_Artifacts := artifacts\<rparr>))"
  unfolding publish_evidence_def
  by (intro yields_rules yields_return yields_bind_any) (auto intro: exI [of _ "ef_Artifacts facts"])

text \<open>
  How a run ends: still polling it is open; with an error its row is open or says ERROR; without
  one it is completed as \<open>P\<close> says.
\<close>

definition ended :: "string \<Rightarrow> (Run \<Rightarrow> bool) \<Rightarrow> go_error option option \<Rightarrow> 'x world \<Rightarrow> bool" where
  "ended rid P out w \<longleftrightarrow>
     (case out of
        None \<Rightarrow> open_run rid (wd_Store w)
      | Some None \<Rightarrow> verdicts_from rid P (wd_Store w) \<and> completed_run rid (wd_Store w)
      | Some (Some e) \<Rightarrow> verdicts_from rid (\<lambda>row. run_Verdict row = VerdictError) (wd_Store w))"

lemma completion_mono: "completion rid P e w \<Longrightarrow> (\<And>row. P row \<Longrightarrow> Q row) \<Longrightarrow> completion rid Q e w"
  by (auto simp: completion_def elim: verdicts_from_mono split: option.splits)

lemma completion_ended:
  assumes "completion rid P e w" and "e = None \<Longrightarrow> (\<And>row. P row \<Longrightarrow> Q row)"
  shows "ended rid Q (Some e) w"
  using assms by (cases e) (auto simp: completion_def ended_def intro: open_run_verdicts verdicts_from_mono)

section \<open>Verdicts\<close>

definition case_passed :: "bool \<Rightarrow> CasePlan \<Rightarrow> caseResult \<Rightarrow> bool" where
  "case_passed shadow item result \<longleftrightarrow> ce_Verdict result = VerdictPass \<and> earned item shadow (full_window item False) result"

definition checkpoints_passed :: "checkpointResult list \<Rightarrow> bool" where
  "checkpoints_passed = list_all (\<lambda>c. ce_Verdict (ck_Result c) = VerdictPass)"

lemma run_verdict_pass:
  "run_verdict verdict results = VerdictPass \<Longrightarrow> verdict = VerdictPass \<and>
     list_all (\<lambda>x. ce_Verdict x \<notin> {VerdictFail, VerdictError, VerdictInconclusive, VerdictSkipped}) results"
  by (induction verdict results rule: run_verdict.induct) (auto split: if_splits)

lemma run_verdict_valid:
  "verdict \<in> {VerdictPass, VerdictInconclusive} \<Longrightarrow>
   run_verdict verdict results \<in> {VerdictPass, VerdictFail, VerdictInconclusive}"
  by (induction verdict results rule: run_verdict.induct) auto

lemma run_checkpoint_yields:
  "checkpoints_passed checkpoints \<Longrightarrow> yields (run_checkpoint fuel r ex item point checkpoints)
     (\<lambda>(cs, stopped). stopped \<noteq> Some (CheckpointMissed VerdictPass) \<and> (stopped = None \<longrightarrow> checkpoints_passed cs))"
  unfolding run_checkpoint_def Let_def
  by (intro yields_rules yields_return yields_bind_any) (auto simp: checkpoints_passed_def split: option.splits)

lemma run_checkpoints_yields:
  "checkpoints_passed checkpoints \<Longrightarrow> yields (run_checkpoints fuel r ex item index points checkpoints)
     (\<lambda>(cs, stopped). stopped \<noteq> Some (CheckpointMissed VerdictPass) \<and> (stopped = None \<longrightarrow> checkpoints_passed cs))"
proof (induction points arbitrary: checkpoints)
  case (Cons point points)
  show ?case
    unfolding run_checkpoints.simps
    by (intro yields_rules yields_return yields_bind [OF run_checkpoint_yields] Cons) (use Cons.prems in auto)
qed (auto intro: yields_return)

lemma inject_alert_yields:
  "checkpoints_passed (ij_Checkpoints ij) \<Longrightarrow> yields (inject_alert fuel r ex item ij alert)
     (\<lambda>(ij', stopped). stopped \<noteq> Some (CheckpointMissed VerdictPass) \<and> (stopped = None \<longrightarrow> checkpoints_passed (ij_Checkpoints ij')))"
  unfolding inject_alert_def Let_def
  by (intro yields_rules yields_return yields_bind [OF run_checkpoints_yields] yields_bind_any) auto

lemma inject_alerts_yields:
  "checkpoints_passed (ij_Checkpoints ij) \<Longrightarrow> yields (inject_alerts fuel r ex item ij alerts)
     (\<lambda>(ij', stopped). stopped \<noteq> Some (CheckpointMissed VerdictPass) \<and> (stopped = None \<longrightarrow> checkpoints_passed (ij_Checkpoints ij')))"
proof (induction alerts arbitrary: ij)
  case (Cons alert alerts)
  show ?case
    unfolding inject_alerts.simps
    by (intro yields_rules yields_return yields_bind [OF inject_alert_yields] Cons) (use Cons.prems in auto)
qed (auto intro: yields_return)

lemma inject_cases_yields:
  "checkpoints_passed checkpoints \<Longrightarrow> yields (inject_cases fuel r ex caseStarted checkpoints items)
     (\<lambda>(m, cs, stopped). stopped \<noteq> Some (CheckpointMissed VerdictPass) \<and> (stopped = None \<longrightarrow> checkpoints_passed cs))"
proof (induction items arbitrary: caseStarted checkpoints)
  case (Cons item items)
  show ?case
    unfolding inject_cases.simps Let_def
    by (intro yields_rules yields_return yields_bind [OF inject_alerts_yields] Cons.IH) (use Cons.prems in auto)
qed (auto intro: yields_return)

text \<open>The results are those of the cases, in their order, as far as the run got.\<close>

definition results_for :: "bool \<Rightarrow> CasePlan list \<Rightarrow> caseResult list \<Rightarrow> bool" where
  "results_for shadow items results \<longleftrightarrow> list_all2 (\<lambda>item. earned item shadow (full_window item False)) items results"

lemma observe_cases_yields:
  "results_for (cap_PipelineMode (ex_Capabilities ex) \<noteq> ''phase_b_dispatch'') before results \<Longrightarrow>
   yields (observe_cases fuel r ex caseStarted results items)
     (\<lambda>(results', stopped). (\<forall>verdict. stopped \<noteq> Some (CheckpointMissed verdict)) \<and>
        (stopped = None \<longrightarrow> results_for (cap_PipelineMode (ex_Capabilities ex) \<noteq> ''phase_b_dispatch'') (before @ items) results'))"
proof (induction items arbitrary: before results)
  case (Cons item items)
  have next_result: "results_for shadow (before @ [item]) (results @ [x])"
    if "results_for shadow before results" "earned item shadow (full_window item False) x" for shadow x
    using that by (auto simp: results_for_def intro!: list_all2_appendI)
  show ?case
    unfolding observe_cases.simps Let_def observeCase_def
    by (intro yields_rules yields_return yields_bind [OF observe_earned] yields_bind_any
        Cons.IH [of "before @ [item]", simplified append_assoc append_Cons append_Nil])
      (use Cons.prems next_result in auto)
qed (auto intro: yields_return)

text \<open>
  A row that says PASS has the report of a run whose every case passed, in the order of the plan,
  and whose checkpoints all passed.
\<close>

definition earned_row :: "'x runner \<Rightarrow> Run \<Rightarrow> Plan \<Rightarrow> CapabilitySnapshot \<Rightarrow> Run \<Rightarrow> bool" where
  "earned_row r run plan capabilities row \<longleftrightarrow> (run_Verdict row = VerdictPass \<longrightarrow>
     (\<exists>results checkpoints facts completed.
        list_all2 (case_passed (cap_PipelineMode capabilities \<noteq> ''phase_b_dispatch'')) (pl_Cases plan) results \<and>
        checkpoints_passed checkpoints \<and>
        run_CanonicalReportJSON row = Doc (canonical_report (report_coverage (api_InputEndpoint r) plan) (run_ID run) plan
          capabilities results checkpoints facts VerdictPass (run_CleanupStatus row) completed)))"

lemma earned_row_started [simp]:
  "earned_row r (run\<lparr>run_StartedAt := t\<rparr>) plan capabilities = earned_row r run plan capabilities"
  by (rule ext) (simp add: earned_row_def)

lemma reported_earned:
  assumes "reported r run plan capabilities results checkpoints attempts resolutions (run_verdict VerdictPass results) status row"
    and "results_for (cap_PipelineMode capabilities \<noteq> ''phase_b_dispatch'') (pl_Cases plan) results"
    and "checkpoints_passed checkpoints"
  shows "earned_row r run plan capabilities row"
proof (cases "run_Verdict row = VerdictPass")
  case True
  with assms(1) have "run_verdict VerdictPass results = VerdictPass" by (auto simp: reported_def)
  then have "list_all (\<lambda>x. ce_Verdict x \<notin> {VerdictFail, VerdictError, VerdictInconclusive, VerdictSkipped}) results"
    by (rule run_verdict_pass [THEN conjunct2])
  with assms(2) have "list_all2 (case_passed (cap_PipelineMode capabilities \<noteq> ''phase_b_dispatch'')) (pl_Cases plan) results"
    by (fastforce simp: results_for_def list_all2_conv_all_nth list_all_length case_passed_def earned_def)
  with True assms(1,3) show ?thesis unfolding earned_row_def reported_def by auto
qed (simp add: earned_row_def)

section \<open>A run over an open row\<close>

locale open_execution = run_actions r "\<lambda>w. open_run (run_ID run) (wd_Store w)" for r :: "'x runner" and run :: Run
begin

abbreviation opened :: "'x world \<Rightarrow> bool" where
  "opened w \<equiv> open_run (run_ID run) (wd_Store w)"

lemma complete_reports:
  "hoare opened
    (complete r ctx run plan capabilities results checkpoints attempts resolutions verdict status terminal)
    (completion (run_ID run) (reported r run plan capabilities results checkpoints attempts resolutions verdict status))"
  unfolding complete_def Let_def
  by (intro hoare_bind_yields [OF publish_keeps publish_yields] hoare_bind_keep hoare_rules preserve_rules pending_keeps
      hoare_store_op)
    (auto simp: completion_def reported_def normalizedFacts_def dest!: FinalizeRun_open elim!: verdicts_from_mono
      intro!: exI)

lemma complete_as:
  assumes "\<And>row. reported r run plan capabilities results checkpoints attempts resolutions verdict status row \<Longrightarrow> P row"
  shows "hoare opened
    (complete r ctx run plan capabilities results checkpoints attempts resolutions verdict status terminal)
    (completion (run_ID run) P)"
  by (rule hoare_weaken [OF complete_reports], assumption) (erule completion_mono, rule assms)

text \<open>The two ways to end with an error.\<close>

lemma without_mutation:
  "hoare opened (finishWithoutMutation r ctx run plan capabilities verdict explanation)
     (completion (run_ID run) (\<lambda>row. run_Verdict row \<in> {verdict, VerdictError}))"
  unfolding finishWithoutMutation_def
  by (intro hoare_bind_keep hoare_rules preserve_rules hoare_return complete_as)
    (auto simp: completion_def reported_def)

lemma complete_then:
  assumes "\<And>row. reported r run plan capabilities results checkpoints attempts resolutions verdict status row \<Longrightarrow> P row"
    and "\<And>e w. completion (run_ID run) P e w \<Longrightarrow> Q (g e) w"
  shows "hoare opened (State_Monad.bind
    (complete r ctx run plan capabilities results checkpoints attempts resolutions verdict status terminal)
    (\<lambda>e. State_Monad.return (g e))) Q"
  by (rule hoare_bind [OF complete_as [OF assms(1)]], assumption) (rule hoare_return, rule assms(2))

lemma failAndCleanup_ends:
  "hoare opened (failAndCleanup r run plan capabilities resources checkpoints cause)
     (\<lambda>e w. verdicts_from (run_ID run) (\<lambda>row. run_Verdict row = VerdictError) (wd_Store w))"
  unfolding failAndCleanup_def Let_def
  by (intro complete_then [where P = "\<lambda>row. run_Verdict row = VerdictError"] hoare_bind_keep hoare_rules preserve_rules)
    (auto simp: reported_def completion_def intro: open_run_verdicts split: if_splits option.splits intro!: preserve_rules)

lemma fail_run_ends:
  assumes "ex_Run ex = run"
  shows "hoare opened (fail_run r ex resources checkpoints cause) (ended (run_ID run) P)"
  unfolding fail_run_def assms by (intro hoare_bind [OF failAndCleanup_ends] hoare_return) (simp add: ended_def)

lemma stop_at_checkpoint_ends:
  assumes "ex_Run ex = run" and "verdict \<noteq> VerdictPass" and "\<And>row. run_Verdict row \<noteq> VerdictPass \<Longrightarrow> P row"
  shows "hoare opened (stop_at_checkpoint r ex resources checkpoints verdict) (ended (run_ID run) P)"
  unfolding stop_at_checkpoint_def assms(1)
  by (intro complete_then [where P = P] hoare_bind_keep hoare_rules preserve_rules fail_run_ends assms)
    (use assms(2,3) in \<open>auto simp: reported_def intro: completion_ended intro!: preserve_rules\<close>)

lemma stop_run_ends:
  assumes "ex_Run ex = run" and "\<And>verdict. why = CheckpointMissed verdict \<Longrightarrow> verdict \<noteq> VerdictPass"
    and "\<And>row. run_Verdict row \<noteq> VerdictPass \<Longrightarrow> P row"
  shows "hoare opened (stop_run r ex resources checkpoints why) (ended (run_ID run) P)"
  using assms(2,3) unfolding stop_run_def
  by (cases why) (auto intro!: fail_run_ends stop_at_checkpoint_ends assms(1) hoare_return simp: ended_def)

lemma finish_run_ends:
  assumes "ex_Run ex = run" and "results_for (cap_PipelineMode (ex_Capabilities ex) \<noteq> ''phase_b_dispatch'') (pl_Cases (ex_Plan ex)) results"
    and "checkpoints_passed checkpoints"
  shows "hoare opened (finish_run r ex resources checkpoints results)
    (ended (run_ID run) (earned_row r run (ex_Plan ex) (ex_Capabilities ex)))"
  unfolding finish_run_def assms(1)
  by (intro complete_then [where P = "earned_row r run (ex_Plan ex) (ex_Capabilities ex)"] hoare_bind_keep hoare_rules
      preserve_rules fail_run_ends reported_earned [OF _ assms(2,3)] assms(1))
    (auto intro: completion_ended intro!: preserve_rules)

lemma observe_run_ends:
  assumes "ex_Run ex = run" and "checkpoints_passed checkpoints"
  shows "hoare opened (observe_run fuel r ex resources caseStarted checkpoints)
    (ended (run_ID run) (earned_row r run (ex_Plan ex) (ex_Capabilities ex)))"
proof -
  have start: "results_for shadow [] []" for shadow by (simp add: results_for_def)
  show ?thesis
    unfolding observe_run_def assms(1)
    by (intro hoare_bind_yields [OF observe_cases_keeps observe_cases_yields [OF start]] hoare_bind_keep hoare_rules
        preserve_rules fail_run_ends stop_run_ends finish_run_ends assms)
      (auto simp: earned_row_def)
qed

lemma inject_run_ends:
  assumes "ex_Run ex = run"
  shows "hoare opened (inject_run fuel r ex resources)
    (ended (run_ID run) (earned_row r run (ex_Plan ex) (ex_Capabilities ex)))"
proof -
  have start: "checkpoints_passed []" by (simp add: checkpoints_passed_def)
  show ?thesis
    unfolding inject_run_def assms
    by (intro hoare_bind_yields [OF inject_cases_keeps inject_cases_yields [OF start]] hoare_bind_keep hoare_rules
        preserve_rules fail_run_ends stop_run_ends observe_run_ends assms)
      (auto simp: earned_row_def)
qed

lemma mutate_run_ends:
  assumes "ex_Run ex = run"
  shows "hoare opened (mutate_run fuel r ex) (ended (run_ID run) (earned_row r run (ex_Plan ex) (ex_Capabilities ex)))"
  unfolding mutate_run_def assms
  by (intro hoare_bind_keep hoare_rules preserve_rules fail_run_ends inject_run_ends hoare_return assms)
    (auto simp: ended_def intro: open_run_verdicts)

end

section \<open>The direct client\<close>

interpretation opened: open_execution "direct_client c tr r" run for c tr and r :: "'x runner" and run
  by unfold_locales

lemma first_error_mem: "first_error xs = Some e \<Longrightarrow> list_ex (\<lambda>x. x = Some e) xs"
  by (induction xs) (auto simp: first_error_Cons split: option.splits)

lemma preflight_verdict: "preflight r plan capabilities = Some (verdict, explanation) \<Longrightarrow> verdict \<noteq> VerdictPass"
  by (auto simp: preflight_def dest!: first_error_mem split: option.splits)

text \<open>
  C1. A stored PASS is earned. From an open run, \<^verbatim>\<open>Execute\<close> that returns without an error has
  completed the run, and if its row says PASS then every case of the plan, in order, has a result
  that passed on a snapshot of evidence on which every assertion holds and one was scored (a ready
  snapshot where the window was observed in full), every checkpoint passed, and the stored report
  is the canonical report of exactly these results. With an error the row is open or says ERROR;
  an execution that is still polling has left the row open.
\<close>

theorem pass_is_earned:
  "hoare (\<lambda>w. open_run (run_ID run) (wd_Store w)) (Execute fuel (direct_client c tr r) run plan capabilities)
     (ended (run_ID run) (earned_row (direct_client c tr r) run plan capabilities))"
proof -
  let ?r = "direct_client c tr r"
  have rid: "run_ID (run\<lparr>run_StartedAt := t\<rparr>) = run_ID run" for t by simp
  have mutate: "hoare (\<lambda>w. open_run (run_ID run) (wd_Store w)) (mutate_run fuel ?r
      \<lparr>ex_Run = run\<lparr>run_StartedAt := t\<rparr>, ex_Plan = plan, ex_Capabilities = capabilities, ex_Started = b, ex_Deadline = d\<rparr>)
      (ended (run_ID run) (earned_row ?r run plan capabilities))" for t b d
    using opened.mutate_run_ends [of "\<lparr>ex_Run = run\<lparr>run_StartedAt := t\<rparr>, ex_Plan = plan,
      ex_Capabilities = capabilities, ex_Started = b, ex_Deadline = d\<rparr>" "run\<lparr>run_StartedAt := t\<rparr>" fuel c tr r]
    by simp
  note ends = opened.without_mutation [of "run\<lparr>run_StartedAt := t\<rparr>" for t, unfolded rid]
  have cancelled: "hoare (\<lambda>w. open_run (run_ID run) (wd_Store w)) (State_Monad.bind
      (finishWithoutMutation ?r ctx (run\<lparr>run_StartedAt := t\<rparr>) plan capabilities VerdictError explanation)
      (\<lambda>e. State_Monad.return (Some (case e of None \<Rightarrow> Some err | Some x \<Rightarrow> Some x))))
      (ended (run_ID run) (earned_row ?r run plan capabilities))" for ctx t explanation err
    by (intro hoare_bind [OF ends] hoare_return)
      (auto simp: completion_def ended_def intro: open_run_verdicts split: option.splits)
  have refused: "hoare (\<lambda>w. open_run (run_ID run) (wd_Store w)) (State_Monad.bind
      (finishWithoutMutation ?r ctx (run\<lparr>run_StartedAt := t\<rparr>) plan capabilities verdict explanation)
      (\<lambda>e. State_Monad.return (Some e)))
      (ended (run_ID run) (earned_row ?r run plan capabilities))"
    if "preflight ?r plan capabilities = Some x" "x = (verdict, explanation)" for ctx t explanation verdict x
    using preflight_verdict [of ?r plan capabilities verdict explanation] that
    by (intro hoare_bind [OF ends] hoare_return) (auto simp: earned_row_def elim!: completion_ended)
  show ?thesis
    unfolding Execute_def Let_def
    by (intro cancelled refused hoare_bind_keep hoare_rules preserve_rules preserves_modify hoare_return mutate)
      (auto simp: ended_def intro: open_run_verdicts)
qed


end
