(* ===== verification/Ledger_Properties.thy ===== *)
theory Ledger_Properties
  imports Run_Ledger
begin

text \<open>
  What the ledger guarantees: the timeline and the status of a run agree, recovery is exact,
  idempotent and never forgets an input, completion is all or nothing, deletion is safe, active
  resource names are unique. A concrete ledger shows that the theorems apply.
\<close>

section \<open>Consequences\<close>

lemma sorted_ints: "sorted (map int [a..<b])"
  by (simp add: sorted_map)

lemma ListRunEvents_order:
  assumes "reachable s"
  shows "ListRunEvents s rid = events_of (st_Events s) rid" and "numbered (ListRunEvents s rid)"
proof -
  from reachable_ok [OF assms] have n: "numbered (events_of (st_Events s) rid)"
    unfolding store_ok_def ledger_ok_def by blast
  then have "sorted (map re_Sequence (events_of (st_Events s) rid))"
    unfolding numbered_def by (simp only: sorted_ints)
  then show "ListRunEvents s rid = events_of (st_Events s) rid"
    by (simp add: ListRunEvents_def run_events_def events_of_def sort_key_id_if_sorted)
  with n show "numbered (ListRunEvents s rid)" by simp
qed

text \<open>Active resource names are unique.\<close>

definition active_names :: "Resource list \<Rightarrow> string list" where
  "active_names rows = map rs_ExternalName (filter (\<lambda>r. rs_DeletedAt r = None) rows)"

lemma active_names_simps [simp]:
  "active_names [] = []"
  "active_names (r # rows) = (if rs_DeletedAt r = None then rs_ExternalName r # active_names rows else active_names rows)"
  by (simp_all add: active_names_def)

lemma update_where_simps [simp]:
  "update_where P f [] = []"
  "update_where P f (r # rows) = (if P r then f r else r) # update_where P f rows"
  by (simp_all add: update_where_def)

lemma active_names_filter:
  "distinct (active_names rows) \<Longrightarrow> distinct (active_names (filter P rows))"
  by (induction rows) (auto simp: active_names_def)

lemma active_names_update:
  assumes "\<And>r. rs_ExternalName (f r) = rs_ExternalName r" and "\<And>r. rs_DeletedAt (f r) = None \<Longrightarrow> rs_DeletedAt r = None"
    and "distinct (active_names rows)"
  shows "distinct (active_names (update_where P f rows))"
proof -
  have sub: "set (active_names (update_where P f rows)) \<subseteq> set (active_names rows)" for rows
    using assms(1,2) by (auto simp: active_names_def update_where_def split: if_splits)
  show ?thesis
    using assms(3)
  proof (induction rows)
    case (Cons r rows)
    have tail: "distinct (active_names (update_where P f rows))"
      using Cons by (simp split: if_splits)
    show ?case
    proof (cases "rs_DeletedAt (if P r then f r else r) = None")
      case True
      then have "rs_DeletedAt r = None" using assms(2) by (auto split: if_splits)
      then have "rs_ExternalName r \<notin> set (active_names rows)"
        using Cons.prems by simp
      with sub [of rows] have "rs_ExternalName (if P r then f r else r) \<notin> set (active_names (update_where P f rows))"
        using assms(1) by auto
      with tail True show ?thesis by simp
    next
      case False
      have "active_names (update_where P f (r # rows)) = active_names (update_where P f rows)"
        using False by (simp del: not_None_eq split: if_splits)
      with tail show ?thesis by simp
    qed
  qed simp
qed

lemma appendEvent_resources: "appendEvent s e = Inr (e', s') \<Longrightarrow> st_Resources s' = st_Resources s"
  unfolding appendEvent_Inr by auto

lemma interrupt_resources: "interrupt_run at s item = Inr s' \<Longrightarrow> st_Resources s' = st_Resources s"
  by (erule interrupt_run_Inr) (auto dest!: appendEvent_resources)

lemma step_resources:
  assumes "ledger_step s t" and "distinct (active_names (st_Resources s))"
  shows "distinct (active_names (st_Resources t))"
  using assms
proof (induction rule: ledger_step.induct)
  case (create s random now tid sid version run t)
  then show ?case
    by (auto simp: service_CreateRun_def CreateRun_def Let_def map_sum_Inr split: option.splits if_splits)
next
  case (event s e e' t)
  then show ?case by (auto simp: AppendRunEvent_def dest: appendEvent_resources split: if_splits)
next
  case (transition s _ _ _ _ t)
  then have "st_Resources t = st_Resources s"
    by (auto simp: TransitionRun_def Let_def map_sum_Inr dest!: appendEvent_resources split: if_splits sum.splits)
  with transition show ?case by simp
next
  case (prepare s rid at detail t)
  then have "st_Resources t = st_Resources s"
    by (auto simp: PrepareRunInput_def Let_def map_sum_Inr dest!: appendEvent_resources split: if_splits)
  with prepare show ?case by simp
next
  case (cleanup s rid cleanup at summary t)
  then have "st_Resources t = st_Resources s"
    by (auto simp: SetTerminalRunCleanup_def Let_def map_sum_Inr dest!: appendEvent_resources split: if_splits)
  with cleanup show ?case by simp
next
  case (recover s at n t)
  then obtain items where "foldE (interrupt_run at) s items = Inr t"
    by (auto simp: RecoverInterruptedRuns_def Let_def map_sum_Inr split: if_splits)
  from foldE_keeps [OF this, where g = st_Resources] interrupt_resources have "st_Resources t = st_Resources s"
    by blast
  with recover show ?case by simp
next
  case (delete s rid t)
  then have "\<exists>P. st_Resources t = filter P (st_Resources s)"
    by (auto simp: DeleteTerminalRun_def split: sum.splits if_splits)
  with delete active_names_filter show ?case by auto
next
  case (resource s r t)
  then have "st_Resources t = st_Resources s @ [r]"
      "affected (\<lambda>x. rs_ExternalName x = rs_ExternalName r \<and> rs_DeletedAt x = None) (st_Resources s) = 0"
    by (auto simp: CreateResource_def split: option.splits if_splits)
  with resource show ?case
    by (auto simp: active_names_def affected_def filter_empty_conv)
next
  case (adopt s rid external at t)
  then show ?case unfolding AdoptResource_def Let_def if_Inl_Inr by (auto intro!: active_names_update)
next
  case (deleted s rid at t)
  then show ?case unfolding MarkResourceDeleted_def Let_def if_Inl_Inr by (auto intro!: active_names_update)
next
  case (dirty s rid message t)
  then show ?case unfolding MarkResourceCleanupError_def if_Inl_Inr by (auto intro!: active_names_update)
next
  case (preflight s rid plan at t)
  then show ?case using SetOrdinaryPreflightPlan_frame by metis
next
  case (documents s rid capabilities plan at t)
  then show ?case using SetRunExecutionDocuments_frame by metis
next
  case (finalize s rid facts verdict cl report err at t)
  from finalize.hyps obtain s1 s2 e' x y where f: "foldE (finalize_case rid) s (ef_Cases facts) = Inr s1"
    "foldE (finalize_attempt rid at) s1 (ef_Attempts facts) = Inr s2"
    "appendEvent ((finalize_rest rid (fallback_verdict verdict) at s2)\<lparr>st_Runs := x\<rparr>) y = Inr (e', t)"
    by (rule FinalizeRun_Inr) blast
  have "st_Resources s1 = st_Resources s"
    by (rule foldE_keeps [OF f(1), where g = st_Resources]) (auto dest: finalize_case_frame)
  moreover have "st_Resources s2 = st_Resources s1"
    by (rule foldE_keeps [OF f(2), where g = st_Resources]) (auto dest: finalize_attempt_frame)
  ultimately have "st_Resources t = st_Resources s"
    using appendEvent_resources [OF f(3)] by (simp add: finalize_rest_def)
  with finalize.prems show ?case by simp
next
  case (others s ts ss ps)
  then show ?case by simp
qed

section \<open>Recovery\<close>

lemma interrupt_run_effect:
  assumes "interrupt_run at s item = Inr s'"
  shows "st_Runs s' = map (\<lambda>r. if run_ID r = run_ID item then r\<lparr>run_Status := RunInterrupted,
      run_CleanupStatus := recovered_cleanup s item, run_UpdatedAt := at\<rparr> else r) (st_Runs s) \<and>
    st_Resources s' = st_Resources s \<and> st_Ready s' = st_Ready s \<and>
    (\<forall>rid. rid \<noteq> run_ID item \<longrightarrow> run_events s' rid = run_events s rid)"
  using assms
proof (rule interrupt_run_Inr)
  fix e'
  assume app: "appendEvent
      (s\<lparr>st_Runs := update_where (\<lambda>r. run_ID r = run_ID item)
        (\<lambda>r. r\<lparr>run_Status := RunInterrupted, run_CleanupStatus := recovered_cleanup s item, run_UpdatedAt := at\<rparr>)
        (st_Runs s)\<rparr>)
      (store_event (run_ID item) ''run.interrupted'' ''warning'' at ''Run interrupted by process restart''
        (Doc (marshal_strings [(''previousStatus'', status_str (run_Status item))]))) = Inr (e', s')"
  have "re_RunID e' = run_ID item" using app unfolding appendEvent_Inr by (simp add: store_event_def)
  with app show ?thesis
    unfolding appendEvent_Inr by (auto simp: update_where_def run_events_def)
qed

lemma recovered_cleanup_cong:
  assumes "st_Resources u = st_Resources s" and "run_events u (run_ID item) = run_events s (run_ID item)"
  shows "recovered_cleanup u item = recovered_cleanup s item"
  using assms by (simp add: recovered_cleanup_def open_resources_def ListRunEvents_def)

definition interrupted_row :: "time \<Rightarrow> store \<Rightarrow> Run \<Rightarrow> Run" where
  "interrupted_row at s r = r\<lparr>run_Status := RunInterrupted, run_CleanupStatus := recovered_cleanup s r,
     run_UpdatedAt := at\<rparr>"

lemma interrupt_loop_effect:
  assumes "foldE (interrupt_run at) s items = Inr t" and "distinct (map run_ID items)"
    and "\<forall>item \<in> set items. \<forall>r \<in> set (st_Runs s). run_ID r = run_ID item \<longrightarrow> r = item"
  shows "st_Runs t = map (\<lambda>r. if run_ID r \<in> run_ID ` set items then interrupted_row at s r else r) (st_Runs s) \<and>
    st_Resources t = st_Resources s \<and> st_Ready t = st_Ready s"
  using assms
proof (induction items arbitrary: s)
  case (Cons item items)
  from Cons.prems(1) obtain u where u: "interrupt_run at s item = Inr u" "foldE (interrupt_run at) u items = Inr t"
    by (auto split: sum.splits)
  note eff = interrupt_run_effect [OF u(1)]
  have new: "run_ID item \<notin> run_ID ` set items" and dist: "distinct (map run_ID items)"
    using Cons.prems(2) by simp_all
  have runs: "st_Runs u = map (\<lambda>r. if run_ID r = run_ID item then interrupted_row at s r else r) (st_Runs s)"
    using eff Cons.prems(3) by (auto simp: interrupted_row_def)
  have others: "r \<in> set (st_Runs s)" if "r \<in> set (st_Runs u)" "run_ID r \<noteq> run_ID item" for r
    using that by (auto simp: runs interrupted_row_def split: if_splits)
  have "\<forall>x \<in> set items. \<forall>r \<in> set (st_Runs u). run_ID r = run_ID x \<longrightarrow> r = x"
  proof (intro ballI impI)
    fix x r assume a: "x \<in> set items" "r \<in> set (st_Runs u)" "run_ID r = run_ID x"
    from a(1) have "run_ID x \<in> run_ID ` set items" by simp
    with new have "run_ID x \<noteq> run_ID item" by metis
    with others a have "r \<in> set (st_Runs s)" by simp
    with Cons.prems(3) a show "r = x" by simp
  qed
  note IH = Cons.IH [OF u(2) dist this]
  have same: "interrupted_row at u r = interrupted_row at s r" if "run_ID r \<noteq> run_ID item" for r
    using recovered_cleanup_cong [of u s r] eff that by (simp add: interrupted_row_def)
  have "(if run_ID r' \<in> run_ID ` set items then interrupted_row at u r' else r') =
      (if run_ID r \<in> run_ID ` set (item # items) then interrupted_row at s r else r)"
    if "r' = (if run_ID r = run_ID item then interrupted_row at s r else r)" for r r'
    using that new same by (auto simp: interrupted_row_def)
  then have "map (\<lambda>r. if run_ID r \<in> run_ID ` set items then interrupted_row at u r else r) (st_Runs u) =
      map (\<lambda>r. if run_ID r \<in> run_ID ` set (item # items) then interrupted_row at s r else r) (st_Runs s)"
    unfolding runs by simp
  with IH eff show ?case by simp
qed simp

lemma recover_effect:
  assumes ok: "store_ok s" and r: "RecoverInterruptedRuns s at = Inr (n, t)"
  shows "n = length (filter recoverable (st_Runs s)) \<and>
    st_Runs t = map (\<lambda>r. if recoverable r then interrupted_row at s r else r) (st_Runs s) \<and>
    st_Resources t = st_Resources s \<and> st_Ready t"
proof -
  let ?items = "sort_key run_ID (filter recoverable (st_Runs s))"
  from r have loop: "foldE (interrupt_run at) s ?items = Inr t" and n: "n = length ?items" and ready: "st_Ready s"
    by (auto simp: RecoverInterruptedRuns_def Let_def map_sum_Inr split: if_splits)
  have dist: "distinct (map run_ID (st_Runs s))" by (rule store_distinct [OF ok])
  have "distinct (map run_ID ?items)" using dist by (simp add: distinct_map inj_on_def)
  moreover have "\<forall>item \<in> set ?items. \<forall>r \<in> set (st_Runs s). run_ID r = run_ID item \<longrightarrow> r = item"
    using dist by (auto simp: distinct_map inj_on_def)
  ultimately have "st_Runs t = map (\<lambda>r. if run_ID r \<in> run_ID ` set ?items then interrupted_row at s r else r) (st_Runs s) \<and>
      st_Resources t = st_Resources s \<and> st_Ready t = st_Ready s"
    by (rule interrupt_loop_effect [OF loop])
  moreover have "run_ID r \<in> run_ID ` set ?items \<longleftrightarrow> recoverable r" if "r \<in> set (st_Runs s)" for r
    using dist that by (auto simp: distinct_map inj_on_def)
  ultimately show ?thesis using n ready by simp
qed

lemma nothing_recoverable: "st_Ready s \<Longrightarrow> filter recoverable (st_Runs s) = [] \<Longrightarrow>
  RecoverInterruptedRuns s at = Inr (0, s)"
  by (simp add: RecoverInterruptedRuns_def)

text \<open>Events after which an alert may have left the process.\<close>

definition shows_input :: "RunEvent \<Rightarrow> bool" where
  "shows_input e \<longleftrightarrow> re_Type e \<in> {''alert.attempting'', ''alert.prepared'', ''checkpoint.started'', ''checkpoint.completed''} \<or>
     (\<exists>(a, b) \<in> set (move_of e). afterIngest a \<or> afterIngest b)"

lemma move_of_shows_input:
  assumes "(a, b) \<in> set (move_of e)" and "afterIngest a \<or> afterIngest b"
  shows "event_shows_input e"
proof -
  from assms(1) obtain f t p where d: "decode_detail (re_DetailJSON e) = Some (f, t, p)"
    and ab: "re_Type e = ''run.transition'' \<and> a = f \<and> b = t \<or>
      re_Type e = ''run.interrupted'' \<and> a = p \<and> b = RunInterrupted"
  proof -
    have "(a, b) \<in> set (if re_Type e = ''run.transition'' then
        (case decode_detail (re_DetailJSON e) of Some (f, t, _) \<Rightarrow> [(f, t)] | None \<Rightarrow> [])
      else if re_Type e = ''run.interrupted'' then
        (case decode_detail (re_DetailJSON e) of Some (_, _, p) \<Rightarrow> [(p, RunInterrupted)] | None \<Rightarrow> [])
      else [])" using assms(1) unfolding move_of_def .
    then show ?thesis
      using that by (cases "decode_detail (re_DetailJSON e)"; cases "re_Type e = ''run.transition''";
          cases "re_Type e = ''run.interrupted''") (simp_all, blast+)
  qed
  from ab have "re_Type e \<in> {''run.transition'', ''run.interrupted''}" by blast
  then have "event_shows_input e \<longleftrightarrow> re_Type e \<in> {''alert.attempting'', ''alert.prepared'',
        ''checkpoint.started'', ''checkpoint.completed''} \<or>
      afterIngest f \<or> afterIngest t \<or> afterIngest p \<or> p = RunCleaningUp \<or> p = RunRecovering"
    unfolding event_shows_input_def d by simp
  moreover have "afterIngest f \<or> afterIngest t \<or> afterIngest p"
    using ab assms(2) by (auto simp: afterIngest_def)
  ultimately show ?thesis by blast
qed

lemma shows_input_event: "shows_input e \<Longrightarrow> event_shows_input e"
proof -
  assume "shows_input e"
  then consider "re_Type e \<in> {''alert.attempting'', ''alert.prepared'', ''checkpoint.started'', ''checkpoint.completed''}"
    | a b where "(a, b) \<in> set (move_of e)" "afterIngest a \<or> afterIngest b"
    unfolding shows_input_def by blast
  then show "event_shows_input e"
  proof cases
    case 1
    then show ?thesis unfolding event_shows_input_def by simp
  next
    case 2
    then show ?thesis by (rule move_of_shows_input)
  qed
qed

section \<open>Completion\<close>

text \<open>Rows of other runs are never touched.\<close>

definition other_rows :: "string \<Rightarrow> store \<Rightarrow> CaseRow list \<times> AssertionRow list \<times> AttemptRow list" where
  "other_rows rid s = (filter (\<lambda>c. cr_RunID c \<noteq> rid) (st_Cases s),
     filter (\<lambda>x. ax_RunID x \<noteq> rid) (st_Assertions s), filter (\<lambda>x. at_RunID x \<noteq> rid) (st_Attempts s))"

lemma filter_update_where:
  assumes "\<And>r. P r \<Longrightarrow> \<not> Q r" and "\<And>r. P r \<Longrightarrow> \<not> Q (f r)"
  shows "filter Q (update_where P f rows) = filter Q rows"
  using assms by (induction rows) auto

lemma finalize_assertion_other:
  "finalize_assertion rid key s x = Inr s' \<Longrightarrow> other_rows rid s' = other_rows rid s"
  unfolding finalize_assertion_def Let_def if_Inl_Inr
  by (auto simp: other_rows_def intro!: filter_update_where)

lemma finalize_case_other:
  assumes "finalize_case rid s x = Inr s'"
  shows "other_rows rid s' = other_rows rid s"
proof -
  let ?u = "s\<lparr>st_Cases := update_where
      (\<lambda>c. cr_RunID c = rid \<and> cr_StableKey c = cf_StableKey x \<and> cr_Status c = ''PLANNED'')
      (\<lambda>c. c\<lparr>cr_Status := ''COMPLETED'', cr_Verdict := Some (cf_Verdict x),
        cr_StartedAt := Some (cf_StartedAt x), cr_EndedAt := Some (cf_EndedAt x)\<rparr>) (st_Cases s)\<rparr>"
  from assms have loop: "foldE (finalize_assertion rid (cf_StableKey x)) ?u (cf_Assertions x) = Inr s'"
    unfolding finalize_case_def Let_def if_Inl_Inr by auto
  have "other_rows rid ?u = other_rows rid s"
    by (auto simp: other_rows_def intro!: filter_update_where)
  with foldE_keeps [OF loop, where g = "other_rows rid"] finalize_assertion_other
  show ?thesis by metis
qed

lemma finalize_attempt_other:
  "finalize_attempt rid at s x = Inr s' \<Longrightarrow> other_rows rid s' = other_rows rid s"
  unfolding finalize_attempt_def Let_def if_Inl_Inr
  by (auto simp: other_rows_def intro!: filter_update_where)

lemma finalize_rest_other: "other_rows rid (finalize_rest rid v at s) = other_rows rid s"
  by (auto simp: other_rows_def finalize_rest_def intro!: filter_update_where)

text \<open>A completed case keeps the verdict its fact reported.\<close>

definition case_done :: "string \<Rightarrow> string \<Rightarrow> Verdict \<Rightarrow> store \<Rightarrow> bool" where
  "case_done rid key verdict s \<longleftrightarrow>
     list_ex (\<lambda>c. cr_RunID c = rid \<and> cr_StableKey c = key \<and> cr_Status c = ''COMPLETED'' \<and> cr_Verdict c = Some verdict)
       (st_Cases s)"

lemma case_done_update:
  assumes "case_done rid key verdict s" and "\<And>c. P c \<Longrightarrow> cr_Status c = ''PLANNED''"
  shows "case_done rid key verdict (s\<lparr>st_Cases := update_where P f (st_Cases s)\<rparr>)"
proof -
  from assms(1) obtain c where c: "c \<in> set (st_Cases s)" "cr_RunID c = rid" "cr_StableKey c = key"
      "cr_Status c = ''COMPLETED''" "cr_Verdict c = Some verdict"
    by (auto simp: case_done_def list_ex_iff)
  then have "\<not> P c" using assms(2) [of c] by auto
  with c(1) have "c \<in> set (update_where P f (st_Cases s))"
    by (force simp: update_where_def)
  with c show ?thesis by (auto simp: case_done_def list_ex_iff)
qed

lemma finalize_case_steps:
  assumes "finalize_case rid s x = Inr s'"
  shows "case_done rid (cf_StableKey x) (cf_Verdict x) s'"
    and "case_done rid key verdict s \<Longrightarrow> case_done rid key verdict s'"
proof -
  let ?P = "\<lambda>c. cr_RunID c = rid \<and> cr_StableKey c = cf_StableKey x \<and> cr_Status c = ''PLANNED''"
  let ?f = "\<lambda>c. c\<lparr>cr_Status := ''COMPLETED'', cr_Verdict := Some (cf_Verdict x),
                cr_StartedAt := Some (cf_StartedAt x), cr_EndedAt := Some (cf_EndedAt x)\<rparr>"
  let ?u = "s\<lparr>st_Cases := update_where ?P ?f (st_Cases s)\<rparr>"
  from assms have one: "affected ?P (st_Cases s) = 1"
    and loop: "foldE (finalize_assertion rid (cf_StableKey x)) ?u (cf_Assertions x) = Inr s'"
    unfolding finalize_case_def Let_def if_Inl_Inr by auto
  have same: "st_Cases s' = st_Cases ?u"
    by (rule foldE_keeps [OF loop, where g = st_Cases]) (auto dest: finalize_assertion_frame)
  from one obtain c where "filter ?P (st_Cases s) = [c]" by (auto simp: affected_def length_Suc_conv)
  then have "c \<in> set (filter ?P (st_Cases s))" by simp
  then have c: "c \<in> set (st_Cases s)" "?P c" by simp_all
  then have "?f c \<in> set (st_Cases ?u)" by (force simp: update_where_def)
  then show "case_done rid (cf_StableKey x) (cf_Verdict x) s'"
    using c(2) unfolding case_done_def same list_ex_iff by (intro bexI [of _ "?f c"]) simp_all
  assume "case_done rid key verdict s"
  then have "case_done rid key verdict ?u" by (rule case_done_update) simp
  then show "case_done rid key verdict s'" by (simp add: case_done_def same)
qed

lemma finalize_cases_done:
  "foldE (finalize_case rid) s facts = Inr t \<Longrightarrow>
     (\<forall>x \<in> set facts. case_done rid (cf_StableKey x) (cf_Verdict x) t) \<and>
     (\<forall>key verdict. case_done rid key verdict s \<longrightarrow> case_done rid key verdict t)"
proof (induction facts arbitrary: s)
  case (Cons x facts)
  then obtain u where u: "finalize_case rid s x = Inr u" "foldE (finalize_case rid) u facts = Inr t"
    by (auto split: sum.splits)
  from Cons.IH [OF u(2)] finalize_case_steps [OF u(1)] show ?case by auto
qed simp

lemma no_match_left: "(\<And>r. \<not> P (f r)) \<Longrightarrow> \<not> list_ex P (update_where P f rows)"
  by (induction rows) auto

section \<open>A concrete ledger\<close>

definition demo_id :: string where
  "demo_id = ''crt_7ZZZZZZZZZZZZZZZZZZZZZZZZZ''"

definition demo_resource :: Resource where
  "demo_resource = \<lparr>rs_ID = ''r'', rs_RunID = demo_id, rs_Kind = ''rule'', rs_ExternalID = '''',
     rs_ExternalName = ''corrtest-flood'', rs_OwnershipToken = demo_id, rs_LifecycleState = ResourceProposed,
     rs_CreatedAt = None, rs_DeletedAt = None, rs_CleanupError = ''''\<rparr>"

definition demo_ops :: "(store \<Rightarrow> StoreError + store) list" where
  "demo_ops =
     [\<lambda>s. map_sum id snd (service_CreateRun s (replicate 16 255) 1 '''' '''' ''1''),
      \<lambda>s. TransitionRun s demo_id RunPreflight 2 ''preflight'',
      \<lambda>s. TransitionRun s demo_id RunSettingUp 3 ''set up'',
      \<lambda>s. CreateResource s demo_resource,
      \<lambda>s. TransitionRun s demo_id RunInjecting 4 ''inject'',
      \<lambda>s. TransitionRun s demo_id RunObserving 5 ''observe'',
      \<lambda>s. TransitionRun s demo_id RunAsserting 6 ''assert'',
      \<lambda>s. MarkResourceDeleted s ''r'' 7,
      \<lambda>s. TransitionRun s demo_id RunCleaningUp 7 ''clean up'',
      \<lambda>s. FinalizeRun s demo_id no_facts VerdictPass CleanupClean (Doc JNull) '''' 8]"

definition demo_ledger :: "nat \<Rightarrow> StoreError + store" where
  "demo_ledger n = foldE (\<lambda>s f. f s) fresh_store (take n demo_ops)"

lemma demo_ops_step: "f \<in> set demo_ops \<Longrightarrow> f s = Inr t \<Longrightarrow> ledger_step s t"
  by (auto simp: demo_ops_def map_sum_Inr intro: ledger_step.intros)

lemma demo_reachable:
  assumes "demo_ledger n = Inr s"
  shows "reachable s"
  using assms unfolding demo_ledger_def
proof (rule foldE_invariant)
  show "reachable fresh_store" by (rule reachable.fresh)
  fix s f t assume "f \<in> set (take n demo_ops)" "reachable s" "f s = Inr t"
  then show "reachable t" using demo_ops_step in_set_takeD reachable.step by metis
qed

lemma demo_injecting:
  "case demo_ledger 5 of Inl e \<Rightarrow> False | Inr s \<Rightarrow>
     (case GetRun s demo_id of Inl e \<Rightarrow> False | Inr run \<Rightarrow> run_ID run = demo_id \<and> recoverable run \<and>
        run_Status run = RunInjecting \<and>
        list_ex (\<lambda>r. rs_RunID r = run_ID run \<and> rs_DeletedAt r = None) (st_Resources s) \<and>
        length (run_events s demo_id) = 3 \<and>
        (case RecoverInterruptedRuns s 9 of Inl e \<Rightarrow> False | Inr (n, t) \<Rightarrow> n = 1))"
  by code_simp

lemma demo_finished:
  "case demo_ledger 9 of Inl e \<Rightarrow> False | Inr s \<Rightarrow>
     (case FinalizeRun s demo_id no_facts VerdictPass CleanupClean (Doc JNull) '''' 8 of Inl e \<Rightarrow> False | Inr t \<Rightarrow>
       (case DeleteTerminalRun t demo_id of Inl e \<Rightarrow> False | Inr u \<Rightarrow> True))"
  by code_simp

section \<open>Properties\<close>



text \<open>
  C36. The timeline of a run has no gaps: in every reachable ledger the events of a run carry the
  sequences 1, 2, ... in the order in which they were appended, also across recovery,
  completion and the deletion of other runs.
\<close>

theorem event_sequences_contiguous:
  assumes "reachable s"
  shows "map re_Sequence (ListRunEvents s rid) = map int [1..<Suc (length (run_events s rid))] \<and>
    ListRunEvents s rid = run_events s rid"
  using ListRunEvents_order [OF assms, of rid] by (simp add: numbered_def run_events_def events_of_def)

theorem event_sequences_contiguous_witness:
  "case demo_ledger 5 of Inl e \<Rightarrow> False | Inr s \<Rightarrow> map re_Sequence (ListRunEvents s demo_id) = [1, 2, 3]"
proof -
  from demo_injecting obtain s where s: "demo_ledger 5 = Inr s" "length (run_events s demo_id) = 3"
    by (auto split: sum.splits)
  have "map re_Sequence (ListRunEvents s demo_id) = map int [1..<Suc 3]"
    using conjunct1 [OF event_sequences_contiguous [OF demo_reachable [OF s(1)], of demo_id]]
    by (simp only: s(2))
  moreover have "map int [1..<Suc 3] = [1, 2, 3]" by (simp add: upt_conv_Cons)
  ultimately show ?thesis by (simp only: s(1) sum.case)
qed

text \<open>
  C9. Recovery never forgets an input: a run that still owns a resource, or whose timeline shows
  an attempted or prepared alert, a checkpoint or a phase from injection to assertion, comes out
  of recovery interrupted with cleanup status unknown.
\<close>

theorem recovery_keeps_responsibility:
  assumes "reachable s" and "RecoverInterruptedRuns s at = Inr (n, t)"
    and "run \<in> set (st_Runs s)" and "recoverable run"
    and "list_ex shows_input (ListRunEvents s (run_ID run)) \<or>
      list_ex (\<lambda>r. rs_RunID r = run_ID run \<and> rs_DeletedAt r = None) (st_Resources s)"
  shows "GetRun t (run_ID run) = Inr (run\<lparr>run_Status := RunInterrupted, run_CleanupStatus := CleanupUnknown, run_UpdatedAt := at\<rparr>)"
proof -
  note ok = reachable_ok [OF assms(1)]
  note e = recover_effect [OF ok assms(2)]
  have "0 < open_resources s (run_ID run) \<or> PossibleAlertInputs run (ListRunEvents s (run_ID run))"
    using assms(5)
  proof
    assume "list_ex shows_input (ListRunEvents s (run_ID run))"
    then have "list_ex event_shows_input (ListRunEvents s (run_ID run))"
      using shows_input_event by (auto simp: list_ex_iff)
    then show ?thesis by (simp add: PossibleAlertInputs_def)
  next
    assume "list_ex (\<lambda>r. rs_RunID r = run_ID run \<and> rs_DeletedAt r = None) (st_Resources s)"
    then show ?thesis by (auto simp: open_resources_def affected_def list_ex_iff filter_empty_conv)
  qed
  then have "recovered_cleanup s run = CleanupUnknown" by (simp add: recovered_cleanup_def)
  then have row: "run\<lparr>run_Status := RunInterrupted, run_CleanupStatus := CleanupUnknown, run_UpdatedAt := at\<rparr> \<in> set (st_Runs t)"
    using e assms(3,4) by (auto simp: interrupted_row_def image_iff intro!: bexI [of _ run])
  have "store_ok t" using recovery_loop [OF ok assms(2)] by blast
  then have dist: "distinct (map run_ID (st_Runs t))" by (rule store_distinct)
  let ?row = "run\<lparr>run_Status := RunInterrupted, run_CleanupStatus := CleanupUnknown, run_UpdatedAt := at\<rparr>"
  from row have "find (\<lambda>x. run_ID x = run_ID run) (st_Runs t) \<noteq> None"
    unfolding find_None_iff by force
  then obtain y where y: "find (\<lambda>x. run_ID x = run_ID run) (st_Runs t) = Some y" by blast
  then have g: "GetRun t (run_ID run) = Inr y" by (simp add: GetRun_def)
  from GetRun_Inr [OF g] have "y \<in> set (st_Runs t)" "run_ID y = run_ID ?row" by simp_all
  with dist row have "y = ?row" unfolding distinct_map inj_on_def by blast
  with g show ?thesis by simp
qed

theorem recovery_keeps_responsibility_witness:
  "case demo_ledger 5 of Inl e \<Rightarrow> False | Inr s \<Rightarrow>
     (case RecoverInterruptedRuns s 9 of Inl e \<Rightarrow> False | Inr (n, t) \<Rightarrow>
       map_sum id run_CleanupStatus (GetRun t demo_id) = Inr CleanupUnknown)"
proof -
  from demo_injecting obtain s n t run where s: "demo_ledger 5 = Inr s" "RecoverInterruptedRuns s 9 = Inr (n, t)"
    "GetRun s demo_id = Inr run" "run_ID run = demo_id" "recoverable run"
    "list_ex (\<lambda>r. rs_RunID r = run_ID run \<and> rs_DeletedAt r = None) (st_Resources s)"
    by (auto split: sum.splits)
  from recovery_keeps_responsibility [OF demo_reachable [OF s(1)] s(2) conjunct1 [OF GetRun_Inr [OF s(3)]] s(5)
      disjI2 [OF s(6)]] s
  show ?thesis by simp
qed

text \<open>
  C37. Recovery is exact and idempotent: it interrupts precisely the runs that were still active
  (or completed without a verdict), reports their number, gives each the cleanup status its own
  events and resources call for, leaves every other run untouched, and a second recovery finds
  nothing to do.
\<close>

theorem recovery_idempotent:
  assumes "reachable s" and "RecoverInterruptedRuns s at = Inr (n, t)"
  shows "n = length (filter recoverable (st_Runs s)) \<and>
    st_Runs t = map (\<lambda>r. if recoverable r then r\<lparr>run_Status := RunInterrupted,
      run_CleanupStatus := recovered_cleanup s r, run_UpdatedAt := at\<rparr> else r) (st_Runs s) \<and>
    RecoverInterruptedRuns t later = Inr (0, t)"
proof -
  note e = recover_effect [OF reachable_ok [OF assms(1)] assms(2)]
  have "filter recoverable (st_Runs t) = []"
    using e by (auto simp: filter_empty_conv interrupted_row_def recoverable_def)
  with e nothing_recoverable show ?thesis by (auto simp: interrupted_row_def cong: map_cong)
qed

theorem recovery_idempotent_witness:
  "case demo_ledger 5 of Inl e \<Rightarrow> False | Inr s \<Rightarrow>
     (case RecoverInterruptedRuns s 9 of Inl e \<Rightarrow> False | Inr (n, t) \<Rightarrow> RecoverInterruptedRuns t 10 = Inr (0, t))"
proof -
  from demo_injecting obtain s n t where s: "demo_ledger 5 = Inr s" "RecoverInterruptedRuns s 9 = Inr (n, t)"
    by (auto split: sum.splits)
  from recovery_idempotent [OF demo_reachable [OF s(1)] s(2)] s show ?thesis by simp
qed

text \<open>
  C14. Completion is all or nothing: \<^verbatim>\<open>FinalizeRun\<close> succeeds only on a run that is cleaning up and
  whose facts all name planned rows; then the run is completed with exactly the verdict,
  cleanup status, report and error it was given, every case keeps the verdict its fact reported,
  nothing of the run is left planned or without a verdict, and no row of another run changes.
\<close>

theorem finalize_completes:
  assumes "reachable s" and "FinalizeRun s rid facts verdict cleanup report terminalError at = Inr t"
  shows "(\<exists>before after. GetRun s rid = Inr before \<and> run_Status before = RunCleaningUp \<and> GetRun t rid = Inr after \<and>
      run_Status after = RunCompleted \<and> run_Verdict after = verdict \<and> run_CleanupStatus after = cleanup \<and>
      run_CanonicalReportJSON after = report \<and> run_TerminalError after = terminalError) \<and>
    list_all (\<lambda>x. case_done rid (cf_StableKey x) (cf_Verdict x) t) (ef_Cases facts) \<and>
    \<not> list_ex (\<lambda>c. cr_RunID c = rid \<and> cr_Status c = ''PLANNED'') (st_Cases t) \<and>
    \<not> list_ex (\<lambda>x. ax_RunID x = rid \<and> ax_Verdict x = None) (st_Assertions t) \<and>
    \<not> list_ex (\<lambda>x. at_RunID x = rid \<and> at_SendState x = ''PLANNED'') (st_Attempts t) \<and>
    other_rows rid t = other_rows rid s"
proof -
  note ok = reachable_ok [OF assms(1)]
  let ?P = "\<lambda>r. run_ID r = rid \<and> run_Status r = RunCleaningUp"
  let ?f = "\<lambda>r. r\<lparr>run_Status := RunCompleted, run_Verdict := verdict, run_CleanupStatus := cleanup,
               run_CanonicalReportJSON := report, run_TerminalError := terminalError,
               run_EndedAt := Some at, run_UpdatedAt := at\<rparr>"
  from assms(2) obtain s1 s2 e' where f: "foldE (finalize_case rid) s (ef_Cases facts) = Inr s1"
    "foldE (finalize_attempt rid at) s1 (ef_Attempts facts) = Inr s2"
    "affected ?P (st_Runs s) = 1"
    "appendEvent ((finalize_rest rid (fallback_verdict verdict) at s2)\<lparr>st_Runs := update_where ?P ?f (st_Runs s)\<rparr>)
      (store_event rid ''run.transition'' ''info'' at ''Run completed''
        (transition_detail RunCleaningUp RunCompleted)) = Inr (e', t)"
    by (rule FinalizeRun_Inr) blast
  let ?s3 = "finalize_rest rid (fallback_verdict verdict) at s2"
  from f(4) have t: "st_Runs t = update_where ?P ?f (st_Runs s)" "st_Cases t = st_Cases ?s3"
      "st_Assertions t = st_Assertions ?s3" "st_Attempts t = st_Attempts ?s3"
    unfolding appendEvent_Inr by auto
  from f(3) obtain r where "filter ?P (st_Runs s) = [r]" by (auto simp: affected_def length_Suc_conv)
  then have "r \<in> set (filter ?P (st_Runs s))" by simp
  then have r: "r \<in> set (st_Runs s)" "run_ID r = rid" "run_Status r = RunCleaningUp" by simp_all
  have get: "GetRun u rid = Inr x" if "x \<in> set (st_Runs u)" "run_ID x = rid" "distinct (map run_ID (st_Runs u))" for u x
  proof -
    from that have "find (\<lambda>x. run_ID x = rid) (st_Runs u) \<noteq> None" unfolding find_None_iff by blast
    then obtain y where y: "find (\<lambda>x. run_ID x = rid) (st_Runs u) = Some y" by blast
    then have g: "GetRun u rid = Inr y" by (simp add: GetRun_def)
    from GetRun_Inr [OF g] that have "y = x" unfolding distinct_map inj_on_def by blast
    with g show ?thesis by simp
  qed
  have before: "GetRun s rid = Inr r" by (rule get [OF r(1,2) store_distinct [OF ok]])
  have "?f r \<in> set (st_Runs t)" using r by (force simp: t(1) update_where_def)
  moreover have "distinct (map run_ID (st_Runs t))"
    using store_distinct [OF FinalizeRun_ok [OF ok assms(2)]] .
  ultimately have after: "GetRun t rid = Inr (?f r)" using r(2) by (intro get) simp_all
  have cases2: "st_Cases s2 = st_Cases s1"
    by (rule foldE_keeps [OF f(2), where g = st_Cases]) (auto dest: finalize_attempt_frame)
  have stored: "case_done rid (cf_StableKey x) (cf_Verdict x) t" if "x \<in> set (ef_Cases facts)" for x
  proof -
    have "case_done rid (cf_StableKey x) (cf_Verdict x) s2"
      using finalize_cases_done [OF f(1)] that cases2 by (simp add: case_done_def)
    then have "case_done rid (cf_StableKey x) (cf_Verdict x) (s2\<lparr>st_Cases := update_where
        (\<lambda>c. cr_RunID c = rid \<and> cr_Status c = ''PLANNED'')
        (\<lambda>c. c\<lparr>cr_Status := ''COMPLETED'', cr_Verdict := Some (fallback_verdict verdict),
          cr_StartedAt := (case cr_StartedAt c of None \<Rightarrow> Some at | started \<Rightarrow> started),
          cr_EndedAt := Some at\<rparr>) (st_Cases s2)\<rparr>)"
      by (rule case_done_update) simp
    then show ?thesis unfolding case_done_def t(2) finalize_rest_def by simp
  qed
  have "other_rows rid s1 = other_rows rid s" "other_rows rid s2 = other_rows rid s1"
    using foldE_keeps [OF f(1), where g = "other_rows rid"] foldE_keeps [OF f(2), where g = "other_rows rid"]
      finalize_case_other finalize_attempt_other by metis+
  then have other: "other_rows rid t = other_rows rid s"
    using finalize_rest_other [of rid "fallback_verdict verdict" at s2] t(2-4) by (simp add: other_rows_def)
  have "\<not> list_ex (\<lambda>c. cr_RunID c = rid \<and> cr_Status c = ''PLANNED'') (st_Cases ?s3)"
      "\<not> list_ex (\<lambda>x. ax_RunID x = rid \<and> ax_Verdict x = None) (st_Assertions ?s3)"
      "\<not> list_ex (\<lambda>x. at_RunID x = rid \<and> at_SendState x = ''PLANNED'') (st_Attempts ?s3)"
    unfolding finalize_rest_def by (simp_all add: no_match_left)
  with before after r stored other show ?thesis
    unfolding t(2-4) by (simp add: list_all_iff)
qed

theorem finalize_completes_witness:
  "\<exists>t. reachable t \<and> map_sum id run_Verdict (GetRun t demo_id) = Inr VerdictPass"
proof -
  from demo_finished obtain s t where s: "demo_ledger 9 = Inr s"
    "FinalizeRun s demo_id no_facts VerdictPass CleanupClean (Doc JNull) '''' 8 = Inr t"
    by (auto split: sum.splits)
  have "reachable t" by (rule reachable.step [OF demo_reachable [OF s(1)] ledger_step.finalize [OF s(2)]])
  moreover from finalize_completes [OF demo_reachable [OF s(1)] s(2)]
  have "map_sum id run_Verdict (GetRun t demo_id) = Inr VerdictPass" by auto
  ultimately show ?thesis by blast
qed



text \<open>
  An external name has one owner: in every reachable ledger no two resources that are not
  deleted share an external name, so cleanup by name can only reach the run's own resource.
\<close>

theorem active_resource_names_unique:
  assumes "reachable s"
  shows "distinct (map rs_ExternalName (filter (\<lambda>r. rs_DeletedAt r = None) (st_Resources s)))"
proof -
  from assms have "distinct (active_names (st_Resources s))"
  proof (induction rule: reachable.induct)
    case fresh
    show ?case by (simp add: fresh_store_def active_names_def)
  next
    case (step s t)
    then show ?case using step_resources by blast
  qed
  then show ?thesis by (simp add: active_names_def)
qed

theorem active_resource_names_unique_witness:
  "case demo_ledger 5 of Inl e \<Rightarrow> False | Inr s \<Rightarrow>
     distinct (map rs_ExternalName (filter (\<lambda>r. rs_DeletedAt r = None) (st_Resources s)))"
proof -
  from demo_injecting obtain s where s: "demo_ledger 5 = Inr s" by (auto split: sum.splits)
  from active_resource_names_unique [OF demo_reachable [OF s]] s show ?thesis by simp
qed

end
