(* ===== verification/Run_Release.thy ===== *)
theory Run_Release
  imports Run_Properties Ledger_Properties
begin

text \<open>
  What a clean run means: every temporary resource the run proposed in the ledger is marked
  deleted there when its stored cleanup status is CLEAN or NOT\_REQUIRED.
\<close>

section \<open>Owned resources\<close>

text \<open>The undeleted resources of a run are among \<open>A\<close>, in a state from which they can be deleted.\<close>

definition owned :: "string \<Rightarrow> string set \<Rightarrow> store \<Rightarrow> bool" where
  "owned rid A s \<longleftrightarrow> (\<forall>x \<in> set (st_Resources s). rs_RunID x = rid \<and> rs_DeletedAt x = None \<longrightarrow>
     rs_ID x \<in> A \<and> rs_LifecycleState x \<in> {ResourceProposed, ResourceCreated, ResourceUnknown})"

lemma owned_mono: "owned rid A s \<Longrightarrow> A \<subseteq> B \<Longrightarrow> owned rid B s"
  by (auto simp: owned_def)

lemma owned_frame: "st_Resources t = st_Resources s \<Longrightarrow> owned rid A s \<Longrightarrow> owned rid A t"
  by (simp add: owned_def)

lemma owned_none: "owned rid {} s \<Longrightarrow> open_resources s rid = 0"
  by (auto simp: owned_def open_resources_def affected_def filter_empty_conv)

lemma owned_update:
  assumes "owned rid A s" and "st_Resources t = update_where Q f (st_Resources s)"
    and "\<And>x. rs_ID (f x) = rs_ID x \<and> rs_RunID (f x) = rs_RunID x \<and>
      (rs_DeletedAt (f x) = None \<longrightarrow> rs_DeletedAt x = None \<and>
        rs_LifecycleState (f x) \<in> {ResourceProposed, ResourceCreated, ResourceUnknown})"
  shows "owned rid A t"
  using assms by (fastforce simp: owned_def update_where_def)

lemma AdoptResource_owned: "owned rid A s \<Longrightarrow> AdoptResource s resid external at = Inr t \<Longrightarrow> owned rid A t"
  by (erule owned_update [where f = "\<lambda>r. r\<lparr>rs_ExternalID := external, rs_LifecycleState := ResourceCreated,
        rs_CreatedAt := Some at, rs_CleanupError := ''''\<rparr>"])
    (auto simp: AdoptResource_def Let_def split: if_splits)

lemma MarkResourceCleanupError_owned: "owned rid A s \<Longrightarrow> MarkResourceCleanupError s resid message = Inr t \<Longrightarrow> owned rid A t"
  by (erule owned_update [where f = "\<lambda>r. r\<lparr>rs_LifecycleState := ResourceUnknown, rs_CleanupError := message\<rparr>"])
    (auto simp: MarkResourceCleanupError_def split: if_splits)

lemma MarkResourceDeleted_released:
  assumes "owned rid (insert resid A) s" and "MarkResourceDeleted s resid at = Inr t"
  shows "owned rid A t"
proof -
  let ?e = "\<lambda>r. rs_ID r = resid \<and> rs_LifecycleState r \<in> {ResourceProposed, ResourceCreated, ResourceUnknown}"
  let ?f = "\<lambda>r. r\<lparr>rs_LifecycleState := ResourceDeleted, rs_DeletedAt := Some at, rs_CleanupError := ''''\<rparr>"
  have "st_Resources t = update_where ?e ?f (st_Resources s)"
    using assms(2) by (auto simp: MarkResourceDeleted_def Let_def split: if_splits)
  then show ?thesis using assms(1) by (auto simp: owned_def update_where_def)
qed

lemma MarkResourceDeleted_owned: "owned rid A s \<Longrightarrow> MarkResourceDeleted s resid at = Inr t \<Longrightarrow> owned rid A t"
  by (rule MarkResourceDeleted_released) (auto elim: owned_mono)

lemma CreateResource_owned:
  assumes "owned rid A s" and "CreateResource s x = Inr t" and "rs_LifecycleState x = ResourceProposed"
  shows "owned rid (insert (rs_ID x) A) t"
  using assms by (auto simp: CreateResource_def owned_def split: option.splits if_splits)

lemma event_resources: "AppendRunEvent s e = Inr (e', t) \<Longrightarrow> st_Resources t = st_Resources s"
  by (auto simp: AppendRunEvent_def dest: appendEvent_resources split: if_splits)

lemma transition_resources: "TransitionRun s rid status at summary = Inr t \<Longrightarrow> st_Resources t = st_Resources s"
  by (auto simp: TransitionRun_def Let_def map_sum_Inr dest!: appendEvent_resources split: if_splits sum.splits)

definition held :: "string \<Rightarrow> string set \<Rightarrow> store \<Rightarrow> bool" where
  "held rid A s \<longleftrightarrow> open_run rid s \<and> owned rid A s"

interpretation held: ledger_invariant "held rid A" for rid A
proof
  fix s t rid' capabilities plan at
  assume "held rid A s" "SetRunExecutionDocuments s rid' capabilities plan at = Inr t"
  then show "held rid A t"
    using SetRunExecutionDocuments_frame SetRunExecutionDocuments_open by (auto simp: held_def intro: owned_frame)
qed (auto simp: held_def intro: opened.keeps_transition opened.keeps_event opened.keeps_adopt opened.keeps_deleted
    opened.keeps_dirty owned_frame AdoptResource_owned MarkResourceDeleted_owned MarkResourceCleanupError_owned
    dest: event_resources transition_resources)

interpretation held: run_execution "direct_client c tr r" "held rid A" for c tr and r :: "'x runner" and rid A
  by unfold_locales

section \<open>Cleanup\<close>

lemma held_open: "held rid A s \<Longrightarrow> open_run rid s"
  by (simp add: held_def)

text \<open>A resource that is not a failure is deleted in the ledger.\<close>

lemma cleanup_resource_releases:
  "hoare (\<lambda>w. held rid (insert (rs_ID resource) A) (wd_Store w)) (cleanup_resource (direct_client c tr r) ctx resource)
     (\<lambda>failed w. open_run rid (wd_Store w) \<and> (\<not> failed \<longrightarrow> held rid A (wd_Store w)))"
proof -
  let ?I = "\<lambda>w. held rid (insert (rs_ID resource) A) (wd_Store w)"
  let ?Q = "\<lambda>failed w. open_run rid (wd_Store w) \<and> (\<not> failed \<longrightarrow> held rid A (wd_Store w))"
  have mark: "hoare ?I (State_Monad.bind (store_op (direct_client c tr r) ctx (\<lambda>s. MarkResourceDeleted s (rs_ID resource) t))
      (\<lambda>marked. State_Monad.return (marked \<noteq> None))) ?Q" for t
    by (rule hoare_bind [where R = "\<lambda>marked w. open_run rid (wd_Store w) \<and> (marked = None \<longrightarrow> held rid A (wd_Store w))"])
      (auto simp: held_def intro!: hoare_store_op hoare_return
        intro: opened.keeps_deleted MarkResourceDeleted_released)
  show ?thesis
    unfolding cleanup_resource_def
    by (intro mark hoare_bind_keep hoare_rules preserve_rules hoare_return) (auto simp: held_def)
qed

lemma cleanup_resources_grows:
  "yields (cleanup_resources r ctx resources failures) (\<lambda>out. out = [] \<longrightarrow> failures = [])"
proof (induction resources arbitrary: failures)
  case (Cons x rest)
  have grow: "yields (cleanup_resources r ctx rest fs) (\<lambda>out. out = [] \<longrightarrow> failures = [])" if "fs = [] \<Longrightarrow> failures = []" for fs
    by (rule yields_mono [OF Cons.IH [of fs]]) (use that in simp)
  show ?case unfolding cleanup_resources.simps by (intro yields_bind_any grow) (simp split: if_splits)
qed (auto intro: yields_return)

lemma cleanup_resources_releases:
  "hoare (\<lambda>w. held rid (rs_ID ` set resources) (wd_Store w)) (cleanup_resources (direct_client c tr r) ctx resources failures)
     (\<lambda>out w. open_run rid (wd_Store w) \<and> (out = [] \<longrightarrow> held rid {} (wd_Store w)))"
proof (cases "failures = []")
  case True
  then show ?thesis
  proof (induction resources arbitrary: failures)
    case (Cons x rest)
    let ?r = "direct_client c tr r"
    let ?Q = "\<lambda>out w. open_run rid (wd_Store w) \<and> (out = [] \<longrightarrow> held rid {} (wd_Store w))"
    have failed: "hoare (\<lambda>w. open_run rid (wd_Store w)) (cleanup_resources ?r ctx rest [n]) ?Q" for n
      by (rule hoare_weaken [OF hoare_conj [OF opened.cleanup_resources_keeps [unfolded preserves_def]
            hoare_yields [OF cleanup_resources_grows [where failures = "[n]"]]]]) auto
    have rest: "hoare (\<lambda>w. open_run rid (wd_Store w) \<and> (\<not> b \<longrightarrow> held rid (rs_ID ` set rest) (wd_Store w)))
        (cleanup_resources ?r ctx rest (if b then failures @ [rs_ExternalName x] else failures)) ?Q" for b
    proof (cases b)
      case True
      then show ?thesis using failed Cons.prems by simp
    next
      case False
      have "hoare (\<lambda>w. open_run rid (wd_Store w) \<and> held rid (rs_ID ` set rest) (wd_Store w))
          (cleanup_resources ?r ctx rest failures) ?Q"
        by (rule hoare_weaken [OF Cons.IH]) (simp_all add: Cons.prems)
      with False show ?thesis by simp
    qed
    have "hoare (\<lambda>w. held rid (insert (rs_ID x) (rs_ID ` set rest)) (wd_Store w))
        (cleanup_resources ?r ctx (x # rest) failures) ?Q"
      unfolding cleanup_resources.simps by (rule hoare_bind [OF cleanup_resource_releases rest])
    then show ?case by simp
  qed (auto intro!: hoare_return simp: held_def)
next
  case False
  have "hoare (\<lambda>w. open_run rid (wd_Store w)) (cleanup_resources (direct_client c tr r) ctx resources failures)
     (\<lambda>out w. open_run rid (wd_Store w) \<and> (out = [] \<longrightarrow> failures = []))"
    by (rule hoare_conj [OF opened.cleanup_resources_keeps [unfolded preserves_def] hoare_yields [OF cleanup_resources_grows]])
  with False show ?thesis by (auto elim!: hoare_weaken simp: held_def)
qed

lemma cleanup_histories_grows:
  "yields (cleanup_histories r ctx rid rows (failures, resolutions)) (\<lambda>(out, facts). out = [] \<longrightarrow> failures = [])"
proof (induction rows arbitrary: failures resolutions)
  case (Cons x rest)
  have grow: "yields (cleanup_histories r ctx rid rest (fs, rs)) (\<lambda>(out, facts). out = [] \<longrightarrow> failures = [])"
    if "fs = [] \<Longrightarrow> failures = []" for fs rs
    by (rule yields_mono [OF Cons.IH [of fs rs]]) (use that in auto)
  show ?case unfolding cleanup_histories.simps by (intro yields_rules yields_bind_any grow) (simp_all split: if_splits)
qed (auto intro: yields_return)

text \<open>A cleanup that is not dirty has released everything it was given.\<close>

definition released_if :: "string \<Rightarrow> CleanupStatus \<Rightarrow> store \<Rightarrow> bool" where
  "released_if rid status s \<longleftrightarrow> open_run rid s \<and> (status \<in> {CleanupClean, CleanupNotRequired} \<longrightarrow> held rid {} s)"

lemma preserves_held_if:
  assumes "preserves (\<lambda>w. open_run rid (wd_Store w)) m" and "preserves (\<lambda>w. held rid {} (wd_Store w)) m"
  shows "preserves (\<lambda>w. open_run rid (wd_Store w) \<and> (b \<longrightarrow> held rid {} (wd_Store w))) m"
  using assms by (fastforce simp: preserves_def hoare_def split: prod.splits)

lemma cleanup_releases:
  assumes "\<And>search A. discover = Some search \<Longrightarrow> preserves (\<lambda>w. held rid A (wd_Store w)) search"
    and "\<And>search. discover = Some search \<Longrightarrow> preserves (\<lambda>w. open_run rid (wd_Store w)) search"
  shows "hoare (\<lambda>w. held rid (rs_ID ` set resources) (wd_Store w))
    (cleanup (direct_client c tr r) ctx rid resources histories discover)
    (\<lambda>(status, resolutions, err) w. released_if rid status (wd_Store w))"
proof -
  let ?r = "direct_client c tr r"
  let ?K = "\<lambda>fs w. open_run rid (wd_Store w) \<and> (fs = [] \<longrightarrow> held rid {} (wd_Store w))"
  let ?Q = "\<lambda>(status, resolutions, err) w. released_if rid status (wd_Store w)"
  have histories: "hoare (?K fs) (State_Monad.bind (cleanup_histories ?r ctx rid rows (fs', []))
      (\<lambda>(failures, resolutions). if failures \<noteq> []
        then State_Monad.return (CleanupDirty, resolutions, Some (Err (''cleanup failed for '' @ join '', '' failures)))
        else State_Monad.return (CleanupClean, resolutions, None))) ?Q" if "fs' = [] \<Longrightarrow> fs = []" for fs fs' rows
    using that
    by (intro hoare_bind_yields [OF preserves_held_if [OF opened.cleanup_histories_keeps held.cleanup_histories_keeps]
          cleanup_histories_grows] hoare_rules hoare_return)
      (auto simp: released_if_def)
  have searched: "preserves (?K fs) (case discover of None \<Rightarrow> State_Monad.return ([], None) | Some search \<Rightarrow> search)" for fs
    by (intro preserves_held_if preserve_rules assms)
  show ?thesis
    unfolding cleanup_def Let_def
    by (intro hoare_bind [OF cleanup_resources_releases] hoare_bind_keep [OF searched] histories hoare_bind_keep
        hoare_rules preserve_rules hoare_return)
      (auto simp: released_if_def held_def split: option.splits)
qed

section \<open>Completion\<close>

lemma FinalizeRun_resources:
  assumes "FinalizeRun s rid facts verdict cl report err at = Inr t"
  shows "st_Resources t = st_Resources s"
proof -
  from assms obtain s1 s2 e' x y where f: "foldE (finalize_case rid) s (ef_Cases facts) = Inr s1"
    "foldE (finalize_attempt rid at) s1 (ef_Attempts facts) = Inr s2"
    "appendEvent ((finalize_rest rid (fallback_verdict verdict) at s2)\<lparr>st_Runs := x\<rparr>) y = Inr (e', t)"
    by (rule FinalizeRun_Inr) blast
  have "st_Resources s1 = st_Resources s"
    by (rule foldE_keeps [OF f(1), where g = st_Resources]) (auto dest: finalize_case_frame)
  moreover have "st_Resources s2 = st_Resources s1"
    by (rule foldE_keeps [OF f(2), where g = st_Resources]) (auto dest: finalize_attempt_frame)
  ultimately show ?thesis
    using appendEvent_resources [OF f(3)] by (simp add: finalize_rest_def)
qed

text \<open>A row that says CLEAN or NOT\_REQUIRED leaves no resource of the run open.\<close>

definition clean_means_released :: "string \<Rightarrow> store \<Rightarrow> bool" where
  "clean_means_released rid s \<longleftrightarrow> list_all (\<lambda>row. run_ID row = rid \<and> run_Status row = RunCompleted \<and>
     run_CleanupStatus row \<in> {CleanupClean, CleanupNotRequired} \<longrightarrow> open_resources s rid = 0) (st_Runs s)"

lemma open_clean: "open_run rid s \<Longrightarrow> clean_means_released rid s"
  by (auto simp: clean_means_released_def open_run_iff list_all_iff)

lemma FinalizeRun_released:
  assumes "released_if rid cl s" and "FinalizeRun s rid facts verdict cl report err at = Inr t"
  shows "clean_means_released rid t"
proof (cases "cl \<in> {CleanupClean, CleanupNotRequired}")
  case True
  with assms(1) have "owned rid {} t"
    using FinalizeRun_resources [OF assms(2)] by (auto simp: released_if_def held_def intro: owned_frame)
  then show ?thesis by (simp add: clean_means_released_def owned_none list_all_iff)
next
  case False
  from FinalizeRun_open [OF _ assms(2)] assms(1)
  have "verdicts_from rid (\<lambda>row. run_CleanupStatus row = cl) t"
    by (auto simp: released_if_def elim: verdicts_from_mono)
  with False show ?thesis by (auto simp: clean_means_released_def verdicts_from_def list_all_iff)
qed

lemma released_dirty: "released_if rid status s \<Longrightarrow> released_if rid CleanupDirty s"
  by (simp add: released_if_def)

lemma preserves_released:
  assumes "preserves (\<lambda>w. open_run rid (wd_Store w)) m" and "preserves (\<lambda>w. held rid {} (wd_Store w)) m"
  shows "preserves (\<lambda>w. released_if rid status (wd_Store w)) m"
  unfolding released_if_def by (rule preserves_held_if [OF assms])

lemma complete_releases:
  "hoare (\<lambda>w. released_if (run_ID run) status (wd_Store w))
     (complete (direct_client c tr r) ctx run plan capabilities results checkpoints attempts resolutions verdict status terminal)
     (\<lambda>e w. clean_means_released (run_ID run) (wd_Store w))"
proof -
  let ?r = "direct_client c tr r"
  have "hoare (\<lambda>w. released_if (run_ID run) status (wd_Store w))
      (store_op ?r ctx (\<lambda>s. FinalizeRun s (run_ID run) facts v (if b then CleanupDirty else status) report message t))
      (\<lambda>e w. clean_means_released (run_ID run) (wd_Store w))" for facts v b report message t
  proof (rule hoare_store_op)
    fix w s
    assume "released_if (run_ID run) status (wd_Store w)"
      "FinalizeRun (wd_Store w) (run_ID run) facts v (if b then CleanupDirty else status) report message t = Inr s"
    then show "clean_means_released (run_ID run) (wd_Store (w\<lparr>wd_Store := s\<rparr>))"
      by (cases b) (auto dest: FinalizeRun_released [OF released_dirty] FinalizeRun_released)
  qed (auto simp: released_if_def intro: open_clean)
  note finalize = this
  have pending: "preserves (\<lambda>w. released_if (run_ID run) status (wd_Store w))
      (case api_UnresolvedInputCleanup ?r of None \<Rightarrow> State_Monad.return False | Some pending \<Rightarrow> outside pending)"
    by (intro preserves_released preserve_rules)
  show ?thesis
    unfolding complete_def Let_def
    by (intro hoare_bind_keep [OF pending] hoare_bind_keep [OF preserves_released [OF opened.publish_keeps held.publish_keeps]]
        hoare_bind_keep [OF preserves_released [OF opened.now_keeps held.now_keeps]] hoare_prod)
      (rule finalize)
qed

lemma complete_after:
  assumes "\<And>w. P w \<Longrightarrow> released_if (run_ID run) status (wd_Store w)"
  shows "hoare P (State_Monad.bind
    (complete (direct_client c tr r) ctx run plan capabilities results checkpoints attempts resolutions verdict status terminal)
    (\<lambda>e. State_Monad.return (g e))) (\<lambda>e w. clean_means_released (run_ID run) (wd_Store w))"
proof (rule hoare_bind)
  show "hoare P (complete (direct_client c tr r) ctx run plan capabilities results checkpoints attempts resolutions
      verdict status terminal) (\<lambda>e w. clean_means_released (run_ID run) (wd_Store w))"
    by (rule hoare_weaken [OF complete_releases]) (use assms in auto)
qed (auto intro: hoare_return)

lemma failAndCleanup_releases:
  "hoare (\<lambda>w. held (run_ID run) (rs_ID ` set resources) (wd_Store w))
     (failAndCleanup (direct_client c tr r) run plan capabilities resources checkpoints cause)
     (\<lambda>e w. clean_means_released (run_ID run) (wd_Store w))"
  unfolding failAndCleanup_def Let_def
  by (intro hoare_bind [OF cleanup_releases] complete_after hoare_bind_keep hoare_rules preserve_rules)
    (auto split: if_splits dest: released_dirty intro!: held.discover_keeps opened.discover_keeps)

lemma fail_run_releases:
  assumes "ex_Run ex = run"
  shows "hoare (\<lambda>w. held (run_ID run) (rs_ID ` set resources) (wd_Store w))
     (fail_run (direct_client c tr r) ex resources checkpoints cause)
     (\<lambda>out w. clean_means_released (run_ID run) (wd_Store w))"
  unfolding fail_run_def assms by (intro hoare_bind [OF failAndCleanup_releases] hoare_return)

lemma stop_at_checkpoint_releases:
  assumes "ex_Run ex = run"
  shows "hoare (\<lambda>w. held (run_ID run) (rs_ID ` set resources) (wd_Store w))
     (stop_at_checkpoint (direct_client c tr r) ex resources checkpoints verdict)
     (\<lambda>out w. clean_means_released (run_ID run) (wd_Store w))"
  unfolding stop_at_checkpoint_def assms
  by (intro hoare_bind [OF cleanup_releases] complete_after hoare_bind_keep hoare_rules preserve_rules fail_run_releases assms)
    (auto intro!: held.discover_keeps opened.discover_keeps)

lemma stop_run_releases:
  assumes "ex_Run ex = run"
  shows "hoare (\<lambda>w. held (run_ID run) (rs_ID ` set resources) (wd_Store w))
     (stop_run (direct_client c tr r) ex resources checkpoints why)
     (\<lambda>out w. clean_means_released (run_ID run) (wd_Store w))"
  unfolding stop_run_def
  by (cases why) (auto intro!: fail_run_releases stop_at_checkpoint_releases assms hoare_return open_clean dest: held_open)

lemma finish_run_releases:
  assumes "ex_Run ex = run"
  shows "hoare (\<lambda>w. held (run_ID run) (rs_ID ` set resources) (wd_Store w))
     (finish_run (direct_client c tr r) ex resources checkpoints results)
     (\<lambda>out w. clean_means_released (run_ID run) (wd_Store w))"
  unfolding finish_run_def assms
  by (intro hoare_bind [OF cleanup_releases] complete_after hoare_bind_keep hoare_rules preserve_rules fail_run_releases assms)
    (auto split: if_splits dest: released_dirty)

section \<open>The whole run\<close>

lemma propose_held:
  assumes "rs_LifecycleState x = ResourceProposed"
  shows "hoare (\<lambda>w. held rid A (wd_Store w)) (store_op r ctx (\<lambda>s. CreateResource s x))
    (\<lambda>e w. held rid (if e = None then insert (rs_ID x) A else A) (wd_Store w))"
  by (rule hoare_store_op) (auto simp: held_def assms intro: opened.keeps_create CreateResource_owned)

lemma setup_case_holds:
  assumes "run_ID (ex_Run ex) = rid"
  shows "hoare (\<lambda>w. held rid (rs_ID ` set resources) (wd_Store w)) (setup_case (direct_client c tr r) ex resources item)
    (\<lambda>(out, e) w. held rid (rs_ID ` set out) (wd_Store w))"
proof (cases item)
  case (Pair index case_plan)
  let ?x = "proposed_resource (ex_Run ex) index case_plan"
  have proposed: "hoare (\<lambda>w. held rid (rs_ID ` set resources) (wd_Store w))
      (store_op (direct_client c tr r) ctx (\<lambda>s. CreateResource s ?x))
      (\<lambda>e w. held rid (rs_ID ` set (if e = None then resources @ [?x] else resources)) (wd_Store w))" for ctx
    by (rule hoare_weaken [OF propose_held]) (auto simp: proposed_resource_def split: if_splits)
  show ?thesis
    unfolding Pair setup_case_def Let_def prod.case
    by (intro hoare_bind [OF proposed] hoare_bind_keep [OF held.budget_keeps] hoare_rules hoare_bind_keep preserve_rules
        hoare_return) auto
qed

lemma setup_cases_holds:
  assumes "run_ID (ex_Run ex) = rid"
  shows "hoare (\<lambda>w. held rid (rs_ID ` set resources) (wd_Store w)) (setup_cases (direct_client c tr r) ex resources items)
    (\<lambda>(out, e) w. held rid (rs_ID ` set out) (wd_Store w))"
proof (induction items arbitrary: resources)
  case (Cons item items)
  show ?case
    unfolding setup_cases.simps
    by (intro hoare_bind [OF setup_case_holds [OF assms]] hoare_prod)
      (auto split: option.splits intro!: hoare_return Cons.IH)
qed (auto intro!: hoare_return)

lemma observe_run_releases:
  assumes "ex_Run ex = run"
  shows "hoare (\<lambda>w. held (run_ID run) (rs_ID ` set resources) (wd_Store w))
     (observe_run fuel (direct_client c tr r) ex resources caseStarted checkpoints)
     (\<lambda>out w. clean_means_released (run_ID run) (wd_Store w))"
  unfolding observe_run_def assms
  by (intro hoare_bind_keep hoare_rules preserve_rules fail_run_releases stop_run_releases finish_run_releases assms) simp

lemma inject_run_releases:
  assumes "ex_Run ex = run"
  shows "hoare (\<lambda>w. held (run_ID run) (rs_ID ` set resources) (wd_Store w))
     (inject_run fuel (direct_client c tr r) ex resources)
     (\<lambda>out w. clean_means_released (run_ID run) (wd_Store w))"
  unfolding inject_run_def assms
  by (intro hoare_bind_keep hoare_rules preserve_rules fail_run_releases stop_run_releases observe_run_releases assms) simp

lemma mutate_run_releases:
  assumes "ex_Run ex = run"
  shows "hoare (\<lambda>w. held (run_ID run) {} (wd_Store w)) (mutate_run fuel (direct_client c tr r) ex)
     (\<lambda>out w. clean_means_released (run_ID run) (wd_Store w))"
proof -
  have id: "run_ID (ex_Run ex) = run_ID run" by (simp add: assms)
  note rules = setup_cases_holds [OF id, where resources = "[]", simplified]
  show ?thesis
    unfolding mutate_run_def id
    by (intro hoare_bind [OF rules] hoare_bind_keep hoare_prod hoare_rules preserve_rules
        hoare_return) (auto intro!: fail_run_releases inject_run_releases assms intro: open_clean held_open)
qed

lemma without_mutation_releases:
  "hoare (\<lambda>w. held (run_ID run) {} (wd_Store w))
     (finishWithoutMutation (direct_client c tr r) ctx run plan capabilities verdict explanation)
     (\<lambda>e w. clean_means_released (run_ID run) (wd_Store w))"
  unfolding finishWithoutMutation_def
  by (intro hoare_bind_keep hoare_rules preserve_rules hoare_return hoare_weaken [OF complete_releases])
    (auto simp: released_if_def intro: open_clean held_open)

text \<open>
  C3. A run that says it is clean has released everything. From an open run without undeleted
  resources, after \<^verbatim>\<open>Execute\<close> a completed row with cleanup CLEAN or NOT\_REQUIRED means that every
  temporary rule the run proposed in the ledger is marked deleted there.
\<close>

theorem clean_run_released:
  "hoare (\<lambda>w. held (run_ID run) {} (wd_Store w)) (Execute fuel (direct_client c tr r) run plan capabilities)
     (\<lambda>out w. clean_means_released (run_ID run) (wd_Store w))"
proof -
  have rid: "run_ID (run\<lparr>run_StartedAt := t\<rparr>) = run_ID run" for t by simp
  note rules = without_mutation_releases [of "run\<lparr>run_StartedAt := t\<rparr>" for t, unfolded rid]
  have mutate: "hoare (\<lambda>w. held (run_ID run) {} (wd_Store w)) (mutate_run fuel (direct_client c tr r)
      \<lparr>ex_Run = run\<lparr>run_StartedAt := t\<rparr>, ex_Plan = plan, ex_Capabilities = capabilities, ex_Started = b, ex_Deadline = d\<rparr>)
      (\<lambda>out w. clean_means_released (run_ID run) (wd_Store w))" for t b d
    by (rule mutate_run_releases [where run = "run\<lparr>run_StartedAt := t\<rparr>", unfolded rid]) simp
  show ?thesis
    unfolding Execute_def Let_def
    by (intro hoare_bind [OF rules] hoare_bind_keep hoare_rules preserve_rules preserves_modify hoare_return mutate)
      (auto intro: open_clean held_open)
qed

lemma demo_queued: "\<exists>s. demo_ledger 1 = Inr s \<and> held demo_id {} s"
proof -
  have "(case demo_ledger 1 of Inl e \<Rightarrow> False | Inr s \<Rightarrow> list_all (\<lambda>row. run_Status row = RunQueued \<and> run_Verdict row = no_verdict) (st_Runs s) \<and>
      st_Resources s = [])"
    by code_simp
  then show ?thesis by (auto simp: held_def open_run_iff owned_def list_all_iff split: sum.splits)
qed

theorem clean_run_released_witness:
  "\<exists>s. demo_ledger 1 = Inr s \<and> (\<forall>fuel c capabilities plan. \<forall>tr :: unit transport. \<forall>r.
     hoare (\<lambda>w. wd_Store w = s) (Execute fuel (direct_client c tr r) (demo_run\<lparr>run_ID := demo_id\<rparr>) plan capabilities)
       (\<lambda>out w. clean_means_released demo_id (wd_Store w)))"
proof -
  from demo_queued obtain s where s: "demo_ledger 1 = Inr s" "held demo_id {} s" by blast
  note released = clean_run_released [where run = "demo_run\<lparr>run_ID := demo_id\<rparr>", simplified]
  have "hoare (\<lambda>w. wd_Store w = s) (Execute fuel (direct_client c tr r) (demo_run\<lparr>run_ID := demo_id\<rparr>) plan capabilities)
      (\<lambda>out w. clean_means_released demo_id (wd_Store w))" for fuel c capabilities plan and tr :: "unit transport" and r
    by (rule hoare_weaken [OF released]) (simp_all add: s(2))
  with s(1) show ?thesis by blast
qed

theorem pass_is_earned_witness:
  "\<exists>s. demo_ledger 1 = Inr s \<and> (\<forall>fuel c capabilities plan. \<forall>tr :: unit transport. \<forall>r.
     hoare (\<lambda>w. wd_Store w = s) (Execute fuel (direct_client c tr r) (demo_run\<lparr>run_ID := demo_id\<rparr>) plan capabilities)
       (ended demo_id (earned_row (direct_client c tr r) (demo_run\<lparr>run_ID := demo_id\<rparr>) plan capabilities)))"
proof -
  from demo_queued obtain s where s: "demo_ledger 1 = Inr s" "open_run demo_id s" by (auto intro: held_open)
  note earned = pass_is_earned [where run = "demo_run\<lparr>run_ID := demo_id\<rparr>", simplified]
  have "hoare (\<lambda>w. wd_Store w = s) (Execute fuel (direct_client c tr r) (demo_run\<lparr>run_ID := demo_id\<rparr>) plan capabilities)
      (ended demo_id (earned_row (direct_client c tr r) (demo_run\<lparr>run_ID := demo_id\<rparr>) plan capabilities))"
    for fuel c capabilities plan and tr :: "unit transport" and r
    by (rule hoare_weaken [OF earned]) (simp_all add: s(2))
  with s(1) show ?thesis by blast
qed

end
