(* ===== verification/Run_Recording.thy ===== *)
theory Run_Recording
  imports Runner_Logic Run_Properties
begin

text \<open>
  An injection is recorded before it is sent. The environment of a run keeps the log of the
  requests that reached the transport; the ledger only gains events while a run executes; and the
  recorded injection sends nothing whose evidence is not yet an event.
\<close>

section \<open>Events stay\<close>

definition grows :: "(store \<Rightarrow> StoreError + store) \<Rightarrow> bool" where
  "grows f \<longleftrightarrow> (\<forall>s t. f s = Inr t \<longrightarrow> set (st_Events s) \<subseteq> set (st_Events t))"

lemma growsD: "grows f \<Longrightarrow> f s = Inr t \<Longrightarrow> e \<in> set (st_Events s) \<Longrightarrow> e \<in> set (st_Events t)"
  by (auto simp: grows_def)

lemma AppendRunEvent_events: "AppendRunEvent s e = Inr (e', t) \<Longrightarrow> st_Events t = st_Events s @ [e']"
  by (auto simp: AppendRunEvent_def appendEvent_Inr split: if_splits)

lemma event_grows: "grows (\<lambda>s. map_sum id snd (AppendRunEvent s e))"
  by (auto simp: grows_def map_sum_Inr dest: AppendRunEvent_events)

lemma transition_grows: "grows (\<lambda>s. TransitionRun s rid status at summary)"
  by (auto simp: grows_def TransitionRun_def Let_def map_sum_Inr appendEvent_Inr split: if_splits sum.splits)

lemma documents_grows: "grows (\<lambda>s. SetRunExecutionDocuments s rid capabilities plan at)"
  by (auto simp: grows_def dest: SetRunExecutionDocuments_frame)

lemma resources_grow:
  "grows (\<lambda>s. CreateResource s resource)" "grows (\<lambda>s. AdoptResource s resid external at)"
  "grows (\<lambda>s. MarkResourceDeleted s resid at)" "grows (\<lambda>s. MarkResourceCleanupError s resid message)"
  by (auto simp: grows_def dest: resource_frames)

lemma finalize_grows: "grows (\<lambda>s. FinalizeRun s rid facts verdict cl report err at)"
  unfolding grows_def
  by (auto elim!: FinalizeRun_Inr simp: appendEvent_Inr finalize_rest_def)

lemmas ledger_grows = event_grows transition_grows documents_grows resources_grow finalize_grows

section \<open>An environment with a request log\<close>

definition lifted :: "('y \<Rightarrow> 'a \<times> 'y) \<Rightarrow> http_request list \<times> 'y \<Rightarrow> 'a \<times> http_request list \<times> 'y" where
  "lifted f = (\<lambda>(log, y). let (a, z) = f y in (a, (log, z)))"

text \<open>The runner's environment beside a log that only the transport writes.\<close>

definition with_log :: "'y runner \<Rightarrow> (http_request list \<times> 'y) runner" where
  "with_log r =
     \<lparr>rn_PollInterval = rn_PollInterval r, rn_ObservationWindow = rn_ObservationWindow r,
      rn_Stabilization = rn_Stabilization r, rn_CleanupTimeout = rn_CleanupTimeout r,
      rn_Now = lifted (rn_Now r), rn_Sleep = (\<lambda>ctx d. lifted (rn_Sleep r ctx d)),
      rn_CtxErr = (\<lambda>ctx. lifted (rn_CtxErr r ctx)), rn_StoreFault = (\<lambda>ctx. lifted (rn_StoreFault r ctx)),
      rn_StoreText = rn_StoreText r,
      rn_WriteEvidence = map_option (\<lambda>write ctx rid facts at. lifted (write ctx rid facts at)) (rn_WriteEvidence r),
      api_ValidateRule = (\<lambda>ctx rule. lifted (api_ValidateRule r ctx rule)),
      api_CreateRule = (\<lambda>ctx rule. lifted (api_CreateRule r ctx rule)),
      api_FindRules = (\<lambda>ctx name. lifted (api_FindRules r ctx name)),
      api_DeleteRule = (\<lambda>ctx i. lifted (api_DeleteRule r ctx i)),
      api_InjectRecorded = (\<lambda>ctx alert before. State_Monad.return (no_result, None)),
      api_ResolveHistory = (\<lambda>ctx row. lifted (api_ResolveHistory r ctx row)),
      api_FindHistory = (\<lambda>ctx q. lifted (api_FindHistory r ctx q)),
      api_CorrelationAudit = (\<lambda>ctx fingerprint. lifted (api_CorrelationAudit r ctx fingerprint)),
      api_NotificationAudit = (\<lambda>ctx fingerprint a b. lifted (api_NotificationAudit r ctx fingerprint a b)),
      api_InputPath = api_InputPath r, api_InputEndpoint = api_InputEndpoint r,
      api_ValidateInputBudget = api_ValidateInputBudget r,
      api_UnresolvedInputCleanup = map_option lifted (api_UnresolvedInputCleanup r),
      api_ResolveHistoryRecorded = None\<rparr>"

section \<open>Accounted requests\<close>

text \<open>An event of the ledger that carries the evidence of a body.\<close>

definition attempt_recorded :: "codec \<Rightarrow> string \<Rightarrow> store \<Rightarrow> bool" where
  "attempt_recorded co body s \<longleftrightarrow>
     (\<exists>e \<in> set (st_Events s). \<exists>prepared evidence.
        re_Type e = ''alert.attempting'' \<and>
        re_DetailJSON e = Doc (JObject (attempt_fields prepared @ fld ''request'' (marshal_request evidence))) \<and>
        rq_Method evidence = ''POST'' \<and> rq_BodyBytes evidence = int (length body) \<and>
        rq_BodySHA256 evidence = co_Sha256 co body \<and> rq_BodyBase64 evidence = co_Base64 co body)"

definition resolution_body :: "codec \<Rightarrow> string option \<Rightarrow> bool" where
  "resolution_body co body \<longleftrightarrow> (\<exists>row payload. BuildResolutionRequest (co_Sha256 co) row = Inr payload \<and>
     body = Some (json_text (marshal_alert_group payload)))"

definition accounted :: "codec \<Rightarrow> store \<Rightarrow> http_request \<Rightarrow> bool" where
  "accounted co s q \<longleftrightarrow> tq_Path q \<noteq> alertsPath \<or> resolution_body co (tq_Body q) \<or>
     (\<exists>body. tq_Body q = Some body \<and> attempt_recorded co body s)"

definition answerable :: "codec \<Rightarrow> (http_request list \<times> 'y) world \<Rightarrow> bool" where
  "answerable co w \<longleftrightarrow> list_all (accounted co (wd_Store w)) (fst (wd_Ext w))"

lemma attempt_recorded_mono:
  "attempt_recorded co body s \<Longrightarrow> set (st_Events s) \<subseteq> set (st_Events t) \<Longrightarrow> attempt_recorded co body t"
  unfolding attempt_recorded_def by blast

lemma accounted_mono: "accounted co s q \<Longrightarrow> set (st_Events s) \<subseteq> set (st_Events t) \<Longrightarrow> accounted co t q"
  unfolding accounted_def using attempt_recorded_mono by blast

text \<open>A property of the log that more events cannot break.\<close>

definition steady :: "((http_request list \<times> 'y) world \<Rightarrow> bool) \<Rightarrow> bool" where
  "steady I \<longleftrightarrow> (\<forall>v w. I v \<longrightarrow> fst (wd_Ext w) = fst (wd_Ext v) \<longrightarrow>
     set (st_Events (wd_Store v)) \<subseteq> set (st_Events (wd_Store w)) \<longrightarrow> I w)"

lemma steadyD: "steady I \<Longrightarrow> I v \<Longrightarrow> fst (wd_Ext w) = fst (wd_Ext v) \<Longrightarrow>
    set (st_Events (wd_Store v)) \<subseteq> set (st_Events (wd_Store w)) \<Longrightarrow> I w"
  unfolding steady_def by blast

lemma answerable_steady: "steady (answerable co)"
  unfolding steady_def answerable_def list_all_iff using accounted_mono by metis

lemma attempted_steady: "steady (\<lambda>w. answerable co w \<and> attempt_recorded co body (wd_Store w))"
  unfolding steady_def using attempt_recorded_mono steadyD [OF answerable_steady] by blast

lemma lifted_keeps: "steady I \<Longrightarrow> preserves I (outside (lifted f))"
  unfolding outside_def lifted_def
  by (rule preserves_State) (auto simp: case_prod_beta Let_def elim: steadyD)

lemma modify_keeps: "steady I \<Longrightarrow> (\<And>w. wd_Store (f w) = wd_Store w \<and> wd_Ext (f w) = wd_Ext w) \<Longrightarrow> preserves I (modify f)"
  by (rule preserves_modify) (auto elim: steadyD)

lemma hoare_logged_op:
  assumes "steady I" and "\<And>e w. I w \<Longrightarrow> Q (Some e) w" and "\<And>w s. I w \<Longrightarrow> f (wd_Store w) = Inr s \<Longrightarrow> Q None (w\<lparr>wd_Store := s\<rparr>)"
  shows "hoare I (store_op (direct_client c tr (with_log r)) ctx f) Q"
proof -
  have "preserves I (outside (rn_StoreFault (direct_client c tr (with_log r)) ctx))"
    by (simp add: direct_client_def with_log_def lifted_keeps [OF assms(1)])
  moreover have "hoare I (State (\<lambda>w. case f (wd_Store w) of
      Inl e \<Rightarrow> (Some (StoreErr e), w) | Inr s \<Rightarrow> (None, w\<lparr>wd_Store := s\<rparr>))) Q"
    using assms(2,3) by (auto simp: hoare_def split: sum.splits)
  ultimately show ?thesis
    unfolding store_op_def by (intro hoare_bind_keep hoare_option hoare_return assms(2)) assumption+
qed

lemma op_grows_keeps:
  assumes "steady I" and "grows f"
  shows "preserves I (store_op (direct_client c tr (with_log r)) ctx f)"
  unfolding preserves_def
  by (rule hoare_logged_op [OF assms(1)]) (auto elim!: steadyD [OF assms(1)] dest: growsD [OF assms(2)])

lemma now_log_keeps: "steady I \<Longrightarrow> preserves I (now (direct_client c tr (with_log r)))"
  unfolding now_def by (simp add: direct_client_def with_log_def lifted_keeps)

section \<open>What the client sends\<close>

definition sends :: "(http_request \<Rightarrow> bool) \<Rightarrow> (http_request list \<times> 'y \<Rightarrow> 'a \<times> http_request list \<times> 'y) \<Rightarrow> bool" where
  "sends P f \<longleftrightarrow> (\<forall>log y. \<exists>new. fst (snd (f (log, y))) = log @ new \<and> list_all P new)"

lemma sends_keeps: "sends P f \<Longrightarrow> (\<And>q s. P q \<Longrightarrow> accounted co s q) \<Longrightarrow> preserves (answerable co) (outside f)"
  unfolding outside_def
proof (rule preserves_State, goal_cases)
  case (1 w)
  obtain log y where ext: "wd_Ext w = (log, y)" by (cases "wd_Ext w")
  from 1(1) obtain new where new: "fst (snd (f (log, y))) = log @ new" "list_all P new" unfolding sends_def by blast
  with 1(2,3) show ?case by (auto simp: answerable_def ext case_prod_beta Let_def list_all_iff)
qed

lemma sends_doBytes: "P \<lparr>tq_Method = verb, tq_Path = path, tq_Query = q, tq_Body = body\<rparr> \<Longrightarrow>
    sends P (doBytes (logged tr) ctx verb path q body)"
  by (auto simp: sends_def doBytes_def logged_def case_prod_beta Let_def)

lemma sends_map: "sends P f \<Longrightarrow> (\<And>x. snd (g x) = snd (f x)) \<Longrightarrow> sends P g"
  by (simp add: sends_def)

lemma sends_doJSON:
  assumes "path \<noteq> alertsPath"
  shows "sends (\<lambda>q. tq_Path q \<noteq> alertsPath) (doJSON (logged tr) ctx verb path q input parse zero)"
  by (rule sends_map [OF sends_doBytes [where verb = verb and path = path and q = q and body = "map_option json_text input"]])
    (simp_all add: assms doJSON_def do_call_def case_prod_beta Let_def)

lemma rule_paths: "createRulePath \<noteq> alertsPath" "validateRulePath \<noteq> alertsPath" "createRulePath @ tail \<noteq> alertsPath"
  by (simp_all add: createRulePath_def validateRulePath_def alertsPath_def)

lemma sends_rules:
  shows "sends (\<lambda>q. tq_Path q \<noteq> alertsPath) (ValidateRule c (logged tr) ctx rule)"
    and "sends (\<lambda>q. tq_Path q \<noteq> alertsPath) (CreateRule c (logged tr) ctx rule)"
    and "sends (\<lambda>q. tq_Path q \<noteq> alertsPath) (DeleteRule (logged tr) ctx i)"
    apply (rule sends_map [OF sends_doJSON [OF rule_paths(2)]], simp add: ValidateRule_def case_prod_beta Let_def)
   apply (rule sends_map [OF sends_doJSON [OF rule_paths(1)]], simp add: CreateRule_def)
  apply (rule sends_map [OF sends_doJSON [OF rule_paths(3)]], simp add: DeleteRule_def case_prod_beta Let_def)
  done

lemma sends_none: "(\<And>x. fst (snd (f x)) = fst x) \<Longrightarrow> sends P f"
  by (auto simp: sends_def)

lemma sends_if: "sends P f \<Longrightarrow> sends P g \<Longrightarrow> sends P (\<lambda>x. if b then f x else g x)"
  by (cases b) simp_all

lemma sends_sum: "(\<And>a. sends P (f a)) \<Longrightarrow> (\<And>b. sends P (g b)) \<Longrightarrow> sends P (\<lambda>x. case a of Inl a \<Rightarrow> f a x | Inr b \<Rightarrow> g b x)"
  by (cases a) simp_all

lemma sends_then:
  assumes "sends P f" and "\<And>x. g x = (let (a, y) = f x in h a y)" and "\<And>a. sends P (h a)"
  shows "sends P g"
  unfolding sends_def
proof (intro allI)
  fix log y
  obtain a log' z where f: "f (log, y) = (a, (log', z))" by (cases "f (log, y)") auto
  with assms(1) obtain new where new: "log' = log @ new" "list_all P new"
    unfolding sends_def by (metis fst_conv snd_conv)
  from assms(3) obtain more where "fst (snd (h a (log', z))) = log' @ more" "list_all P more" unfolding sends_def by blast
  with new f show "\<exists>new. fst (snd (g (log, y))) = log @ new \<and> list_all P new"
    by (intro exI [of _ "new @ more"]) (simp add: assms(2))
qed

lemma sends_pages: "sends (\<lambda>q. tq_Path q \<noteq> alertsPath) (rule_pages left (logged tr) ctx name page seen found)"
proof (induction left arbitrary: page seen found)
  case (Suc left)
  show ?case
    by (rule sends_then [OF sends_doJSON [OF rule_paths(1)] rule_pages.simps(2)])
      (unfold Let_def, intro sends_sum sends_if Suc sends_none, simp_all)
qed (auto intro: sends_none)

lemma sends_resolution: "sends (\<lambda>q. resolution_body (cn_Codec c) (tq_Body q)) (ResolveHistory c (logged tr) ctx row)"
proof (cases "BuildResolutionRequest (co_Sha256 (cn_Codec c)) row")
  case (Inr payload)
  then have body: "resolution_body (cn_Codec c) (Some (json_text (marshal_alert_group payload)))"
    unfolding resolution_body_def by blast
  show ?thesis
    by (rule sends_map [OF sends_doBytes [where verb = "''POST''" and path = alertsPath and q = "[]"
          and body = "Some (json_text (marshal_alert_group payload))"]])
      (simp_all add: body ResolveHistory_def Inr sendAlert_def do_call_def case_prod_beta Let_def)
qed (auto simp: sends_def ResolveHistory_def)

text \<open>The attempt is an event before the body is sent.\<close>

lemma record_attempt_records:
  assumes "rq_Method evidence = ''POST''" and "rq_BodyBytes evidence = int (length body)"
    and "rq_BodySHA256 evidence = co_Sha256 co body" and "rq_BodyBase64 evidence = co_Base64 co body"
  shows "hoare (answerable co) (record_attempt (direct_client c tr (with_log r)) rid prepared evidence)
    (\<lambda>e w. answerable co w \<and> (e = None \<longrightarrow> attempt_recorded co body (wd_Store w)))"
proof -
  let ?r = "direct_client c tr (with_log r)"
  let ?detail = "JObject (attempt_fields prepared @ fld ''request'' (marshal_request evidence))"
  let ?Q = "\<lambda>e w. answerable co w \<and> (e = None \<longrightarrow> attempt_recorded co body (wd_Store w))"
  have event: "hoare (answerable co) (append_event ?r Execution rid ''alert.attempting'' t summary ?detail) ?Q" for t summary
    unfolding append_event_def
  proof (rule hoare_logged_op [OF answerable_steady])
    fix w s
    assume w: "answerable co w" and app: "map_sum id snd (AppendRunEvent (wd_Store w)
      (store_event rid ''alert.attempting'' ''info'' t summary (Doc ?detail))) = Inr s"
    then obtain e' where e: "st_Events s = st_Events (wd_Store w) @ [e']"
        "re_Type e' = ''alert.attempting''" "re_DetailJSON e' = Doc ?detail"
      by (auto simp: map_sum_Inr AppendRunEvent_def appendEvent_Inr store_event_def split: if_splits)
    then have "attempt_recorded co body s" unfolding attempt_recorded_def using assms by fastforce
    moreover have "answerable co (w\<lparr>wd_Store := s\<rparr>)" by (rule steadyD [OF answerable_steady w]) (auto simp: e)
    ultimately show "?Q None (w\<lparr>wd_Store := s\<rparr>)" by simp
  qed simp
  show ?thesis
    unfolding record_attempt_def
    by (intro hoare_bind_keep [OF preserves_observe] hoare_bind_keep [OF now_log_keeps [OF answerable_steady]] hoare_if
        hoare_bind [OF event])
      (auto simp: hoare_def modify_def answerable_def split: option.splits)
qed

lemma PrepareInjection_evidence:
  assumes "PrepareInjection co alert targetID endpoint = Inr (evidence, body)"
  shows "rq_Method evidence = ''POST''" and "rq_BodyBytes evidence = int (length body)"
    and "rq_BodySHA256 evidence = co_Sha256 co body" and "rq_BodyBase64 evidence = co_Base64 co body"
  using assms by (auto simp: PrepareInjection_def Let_def split: option.splits if_splits sum.splits)

lemma send_recorded:
  "hoare (\<lambda>w. answerable co w \<and> attempt_recorded co body (wd_Store w))
     (outside (doBytes (logged tr) ctx ''POST'' alertsPath [] (Some body))) (\<lambda>a. answerable co)"
proof (rule hoareI)
  fix w a t
  assume w: "answerable co w \<and> attempt_recorded co body (wd_Store w)"
    and run: "run_state (outside (doBytes (logged tr) ctx ''POST'' alertsPath [] (Some body))) w = (a, t)"
  then have "accounted co (wd_Store w) \<lparr>tq_Method = ''POST'', tq_Path = alertsPath, tq_Query = [], tq_Body = Some body\<rparr>"
    by (simp add: accounted_def)
  with w run show "answerable co t"
    by (cases "wd_Ext w") (auto simp: outside_def doBytes_def logged_def answerable_def case_prod_beta Let_def)
qed

lemma InjectRecorded_answerable:
  "preserves (answerable (cn_Codec c)) (InjectRecorded c (logged tr) (rn_CtxErr (with_log r)) ctx alert
     (record_attempt (direct_client c (logged tr) (with_log r)) rid prepared))"
proof -
  have cancelled: "steady I \<Longrightarrow> preserves I (outside (rn_CtxErr (with_log r) ctx))" for I
    by (simp add: with_log_def lifted_keeps)
  have send: "hoare (\<lambda>w. answerable (cn_Codec c) w \<and> (refused = None \<longrightarrow> attempt_recorded (cn_Codec c) body (wd_Store w)))
      (case refused of Some e \<Rightarrow> State_Monad.return (no_result, Some (Wrap ''record injection before send'' e))
       | None \<Rightarrow> State_Monad.bind (outside (rn_CtxErr (with_log r) ctx)) (\<lambda>cancelled. case cancelled of
           Some e \<Rightarrow> State_Monad.return (no_result, Some e)
         | None \<Rightarrow> State_Monad.bind (outside (doBytes (logged tr) ctx ''POST'' alertsPath [] (Some body)))
             (\<lambda>answer. State_Monad.return (sent_result answer)))) (\<lambda>a. answerable (cn_Codec c))" for refused body
    by (cases refused)
      (auto intro!: hoare_return hoare_bind_keep [OF cancelled [OF attempted_steady]] hoare_option hoare_bind [OF send_recorded])
  have recorded: "hoare (answerable (cn_Codec c)) (record_attempt (direct_client c (logged tr) (with_log r)) rid prepared evidence)
      (\<lambda>refused w. answerable (cn_Codec c) w \<and> (refused = None \<longrightarrow> attempt_recorded (cn_Codec c) body (wd_Store w)))"
    if "PrepareInjection (cn_Codec c) alert targetID endpoint = Inr p" "p = (evidence, body)" for targetID endpoint p evidence body
    using that by (intro record_attempt_records PrepareInjection_evidence) simp_all
  show ?thesis
    unfolding InjectRecorded_def Let_def preserves_def
    by (intro hoare_if hoare_sum hoare_prod hoare_return hoare_bind_keep [OF cancelled [OF answerable_steady]] hoare_option
        hoare_bind [OF recorded send]) simp_all
qed

section \<open>Every action of a run\<close>

lemmas logged_op = op_grows_keeps [OF answerable_steady]

lemma logged_transition:
  "preserves (answerable co) (transition (direct_client c tr (with_log r)) ctx rid status summary)"
  unfolding transition_def by (intro preserves_bind now_log_keeps [OF answerable_steady] logged_op ledger_grows)

lemma logged_append_event:
  "preserves (answerable co) (append_event (direct_client c tr (with_log r)) ctx rid kind at summary detail)"
  unfolding append_event_def by (intro logged_op ledger_grows)

text \<open>The calls of the direct client beside a log.\<close>

lemma logged_calls:
  "rn_Sleep (direct_client c tr (with_log r)) ctx d = lifted (rn_Sleep r ctx d)"
  "rn_CtxErr (direct_client c tr (with_log r)) ctx = lifted (rn_CtxErr r ctx)"
  "rn_WriteEvidence (direct_client c tr (with_log r)) =
     map_option (\<lambda>write ctx rid facts at. lifted (write ctx rid facts at)) (rn_WriteEvidence r)"
  "api_ValidateRule (direct_client c tr (with_log r)) = ValidateRule c tr"
  "api_CreateRule (direct_client c tr (with_log r)) = CreateRule c tr"
  "api_FindRules (direct_client c tr (with_log r)) = FindRules tr"
  "api_DeleteRule (direct_client c tr (with_log r)) = DeleteRule tr"
  "api_FindHistory (direct_client c tr (with_log r)) ctx q = lifted (api_FindHistory r ctx q)"
  "api_CorrelationAudit (direct_client c tr (with_log r)) ctx fingerprint = lifted (api_CorrelationAudit r ctx fingerprint)"
  "api_NotificationAudit (direct_client c tr (with_log r)) ctx fingerprint a b = lifted (api_NotificationAudit r ctx fingerprint a b)"
  "api_ResolveHistory (direct_client c tr (with_log r)) = ResolveHistory c tr"
  "api_InjectRecorded (direct_client c tr (with_log r)) = InjectRecorded c tr (rn_CtxErr (with_log r))"
  "api_UnresolvedInputCleanup (direct_client c tr (with_log r)) = Some (\<lambda>x. (False, x))"
  "api_ResolveHistoryRecorded (direct_client c tr (with_log r)) =
     Some (\<lambda>ctx row beforeSend. outside (ResolveHistory c tr ctx row))"
  by (simp_all add: direct_client_def with_log_def)

interpretation logged: whole_run "direct_client c (logged tr) (with_log r)" "answerable (cn_Codec c)"
  for c tr and r :: "'y runner"
proof (unfold_locales, goal_cases)
  case (4 publish ctx rid facts at)
  then show ?case by (auto simp: logged_calls intro: lifted_keeps answerable_steady)
next
  case (13 pending)
  then have "pending = Pair False" by (auto simp: logged_calls)
  then show ?case by (auto intro!: sends_keeps [where P = "\<lambda>q. False"] sends_none)
next
  case (15 resolver ctx row rid)
  then show ?case
    by (auto simp: logged_calls accounted_def intro: sends_keeps [OF sends_resolution])
next
  case (16 change)
  then show ?case by (rule modify_keeps [OF answerable_steady])
qed (auto simp: logged_calls FindRules_def accounted_def
    intro: now_log_keeps [OF answerable_steady] lifted_keeps [OF answerable_steady] logged_transition logged_append_event
      InjectRecorded_answerable logged_op [OF ledger_grows(1)] logged_op ledger_grows
      sends_keeps [OF sends_rules(1)] sends_keeps [OF sends_rules(2)] sends_keeps [OF sends_rules(3)]
      sends_keeps [OF sends_pages] sends_keeps [OF sends_resolution])

text \<open>
  C2. Nothing is injected unrecorded: whatever the server answers and whichever step fails, every
  alert request that reached the transport during an execution is a resolution of exact History
  evidence, or its exact body is the subject of an \<^verbatim>\<open>alert.attempting\<close> event of the ledger, with the
  length, the SHA-256 and the encoding of that body.
\<close>

theorem recorded_before_send:
  "hoare (\<lambda>w. fst (wd_Ext w) = []) (Execute fuel (direct_client c (logged tr) (with_log r)) run plan capabilities)
     (\<lambda>out w. list_all (accounted (cn_Codec c) (wd_Store w)) (fst (wd_Ext w)))"
  by (rule hoare_weaken [OF logged.Execute_keeps [unfolded preserves_def]]) (simp_all add: answerable_def)

end
