(* ===== verification/Client_Properties.thy ===== *)
theory Client_Properties
  imports Run_Recording
begin

text \<open>What the client promises about its listing of rules: bounded, in pages, exact in the name.\<close>

section \<open>Listing rules\<close>

definition page_request :: "string \<Rightarrow> int \<Rightarrow> http_request" where
  "page_request name page =
     \<lparr>tq_Method = ''GET'', tq_Path = createRulePath,
      tq_Query = [(''perPage'', ''100''), (''column'', ''id''), (''order'', ''asc''), (''search'', name), (''page'', itoa page)],
      tq_Body = None\<rparr>"

definition listing :: "nat \<Rightarrow> string \<Rightarrow> int \<Rightarrow> http_request list \<Rightarrow> bool" where
  "listing left name page new \<longleftrightarrow> (\<exists>n \<le> left. new = map (\<lambda>i. page_request name (page + int i)) [0..<n])"

definition exactly_named :: "string \<Rightarrow> go_error + Rule list \<Rightarrow> bool" where
  "exactly_named name answer = (case answer of Inl e \<Rightarrow> True | Inr rules \<Rightarrow> list_all (\<lambda>rule. ru_Name rule = name) rules)"

lemma listing_0 [simp]: "listing left name page []"
  unfolding listing_def by (rule exI [of _ 0]) simp

lemma listing_Suc: "listing left name (page + 1) new \<Longrightarrow> listing (Suc left) name page (page_request name page # new)"
proof -
  assume "listing left name (page + 1) new"
  then obtain n where n: "n \<le> left" "new = map (\<lambda>i. page_request name (page + 1 + int i)) [0..<n]"
    by (auto simp: listing_def)
  have "map (\<lambda>i. page_request name (page + int i)) [0..<Suc n] =
      page_request name page # map (\<lambda>i. page_request name (page + 1 + int i)) [0..<n]"
    unfolding upt_conv_Cons [OF zero_less_Suc] map_Suc_upt [symmetric]
    by (simp add: add.assoc)
  with n show ?thesis unfolding listing_def by (intro exI [of _ "Suc n"]) simp
qed

lemma rule_pages_listing:
  "list_all (\<lambda>rule. ru_Name rule = name) found \<Longrightarrow>
   \<exists>new. fst (snd (rule_pages left (logged tr) ctx name page seen found (log, y))) = log @ new \<and>
     listing left name page new \<and> exactly_named name (fst (rule_pages left (logged tr) ctx name page seen found (log, y)))"
proof (induction left arbitrary: page seen found log y)
  case (Suc left)
  let ?call = "doJSON (logged tr) ctx ''GET'' createRulePath
    [(''perPage'', ''100''), (''column'', ''id''), (''order'', ''asc''), (''search'', name), (''page'', itoa page)]
    None decode_rule_page \<lparr>pg_Rows = [], pg_Total = 0, pg_PerPage = 0\<rparr>"
  obtain a log' z where call: "?call (log, y) = (a, (log', z))" by (cases "?call (log, y)") auto
  then have log': "log' = log @ [page_request name page]"
    by (auto simp: doJSON_def do_call_def doBytes_def logged_def page_request_def case_prod_beta Let_def)
  show ?case
  proof (cases a)
    case (Inl e)
    with call log' show ?thesis
      using listing_Suc [OF listing_0] by (intro exI [of _ "[page_request name page]"]) (simp add: exactly_named_def)
  next
    case (Inr p)
    let ?found = "found @ filter (\<lambda>item. ru_Name item = name) (pg_Rows p)"
    have ok: "list_all (\<lambda>rule. ru_Name rule = name) ?found" using Suc.prems by (auto simp: list_all_iff)
    from Suc.IH [OF ok, of "page + 1" "seen + int (length (pg_Rows p))" "log'" z] obtain new where
      "fst (snd (rule_pages left (logged tr) ctx name (page + 1) (seen + int (length (pg_Rows p))) ?found (log', z))) = log' @ new"
      "listing left name (page + 1) new"
      "exactly_named name (fst (rule_pages left (logged tr) ctx name (page + 1) (seen + int (length (pg_Rows p))) ?found (log', z)))"
      by blast
    with call Inr log' ok show ?thesis
      using listing_Suc [OF listing_0]
      by (cases "listComplete (seen + int (length (pg_Rows p))) (pg_Total p) (int (length (pg_Rows p))) (pg_PerPage p)")
        (auto simp: exactly_named_def intro: listing_Suc)
  qed
qed (simp add: exactly_named_def)

text \<open>
  C39. The search for a temporary rule is bounded and exact: against any server \<^verbatim>\<open>FindRules\<close> sends
  only the pages 1, 2, \<dots> of the listing, at most 100 of them, and what it returns has exactly the
  name it was asked for; a server that never ends its listing gives an error, not a partial list.
\<close>

theorem rule_listing_bounded:
  "\<exists>new. fst (snd (FindRules (logged tr) ctx name (log, y))) = log @ new \<and> listing 100 name 1 new \<and>
     exactly_named name (fst (FindRules (logged tr) ctx name (log, y)))"
  unfolding FindRules_def maxListPages_def by (rule rule_pages_listing) simp

end
