(* ===== verification/Run_Liveness.thy ===== *)
theory Run_Liveness
  imports Runner_Logic Plan_Properties
begin

text \<open>
  Polling ends. The clock of the outside world is any reading \<open>clk\<close> of its state that no call
  turns back; \<^verbatim>\<open>Now\<close> reads it and a \<^verbatim>\<open>Sleep\<close> that returns has let its duration pass. Then an
  observation takes at most one poll per interval of its window, and a run whose windows all fit
  the fuel comes to an end.
\<close>

section \<open>A clock that advances\<close>

definition forward :: "('x \<Rightarrow> time) \<Rightarrow> ('x \<Rightarrow> 'a \<times> 'x) \<Rightarrow> bool" where
  "forward clk f \<longleftrightarrow> (\<forall>x. clk x \<le> clk (snd (f x)))"

text \<open>What is documented of the clock, the timers, the contexts and the calls of an \<^verbatim>\<open>API\<close>.\<close>

definition advancing :: "('x \<Rightarrow> time) \<Rightarrow> 'x runner \<Rightarrow> bool" where
  "advancing clk r \<longleftrightarrow>
     (\<forall>x. clk x \<le> fst (rn_Now r x) \<and> fst (rn_Now r x) \<le> clk (snd (rn_Now r x))) \<and>
     (\<forall>ctx d x. fst (rn_Sleep r ctx d x) = None \<longrightarrow> clk x + d \<le> clk (snd (rn_Sleep r ctx d x))) \<and>
     (\<forall>ctx d. forward clk (rn_Sleep r ctx d)) \<and> (\<forall>ctx. forward clk (rn_CtxErr r ctx)) \<and>
     (\<forall>ctx. forward clk (rn_StoreFault r ctx)) \<and>
     (\<forall>write ctx rid facts at. rn_WriteEvidence r = Some write \<longrightarrow> forward clk (write ctx rid facts at)) \<and>
     (\<forall>ctx q. forward clk (api_FindHistory r ctx q)) \<and>
     (\<forall>ctx fingerprint. forward clk (api_CorrelationAudit r ctx fingerprint)) \<and>
     (\<forall>ctx fingerprint a b. forward clk (api_NotificationAudit r ctx fingerprint a b))"

definition advancing_transport :: "('x \<Rightarrow> time) \<Rightarrow> 'x transport \<Rightarrow> bool" where
  "advancing_transport clk tr \<longleftrightarrow> (\<forall>ctx q. forward clk (tr ctx q))"

text \<open>The instants of \<open>S\<close> are past; the zero instant stands for none.\<close>

definition past :: "('x \<Rightarrow> time) \<Rightarrow> time set \<Rightarrow> 'x world \<Rightarrow> bool" where
  "past clk S w \<longleftrightarrow> (\<forall>t \<in> S. t = 0 \<or> t \<le> clk (wd_Ext w))"

definition since :: "('x \<Rightarrow> time) \<Rightarrow> time \<Rightarrow> 'x world \<Rightarrow> bool" where
  "since clk t w \<longleftrightarrow> t \<le> clk (wd_Ext w)"

lemma past_mono: "past clk S w \<Longrightarrow> T \<subseteq> S \<Longrightarrow> past clk T w"
  by (auto simp: past_def)

lemma past_empty [simp]: "past clk {} w"
  by (simp add: past_def)

lemma past_zero [simp]: "past clk (insert 0 S) = past clk S"
  by (rule ext) (simp add: past_def)

text \<open>Both are properties that the passing of time cannot undo.\<close>

definition lasting :: "('x \<Rightarrow> time) \<Rightarrow> ('x world \<Rightarrow> bool) \<Rightarrow> bool" where
  "lasting clk I \<longleftrightarrow> (\<forall>v w. I v \<longrightarrow> clk (wd_Ext v) \<le> clk (wd_Ext w) \<longrightarrow> I w)"

lemma past_lasting: "lasting clk (past clk S)"
  by (fastforce simp: lasting_def past_def intro: order_trans)

lemma since_lasting: "lasting clk (since clk t)"
  by (auto simp: lasting_def since_def)

lemma lasting_same: "lasting clk I \<Longrightarrow> wd_Ext w = wd_Ext v \<Longrightarrow> I v \<Longrightarrow> I w"
  by (simp add: lasting_def)

lemma forward_keeps: "lasting clk I \<Longrightarrow> forward clk f \<Longrightarrow> preserves I (outside f)"
  unfolding outside_def
  by (rule preserves_State) (auto simp: lasting_def forward_def case_prod_beta)

lemma advancingD:
  assumes "advancing clk r"
  shows "clk x \<le> fst (rn_Now r x)" and "fst (rn_Now r x) \<le> clk (snd (rn_Now r x))" and "forward clk (rn_StoreFault r ctx)"
    and "forward clk (rn_CtxErr r ctx)" and "fst (rn_Sleep r ctx d x) = None \<Longrightarrow> clk x + d \<le> clk (snd (rn_Sleep r ctx d x))"
  using assms [unfolded advancing_def] by (elim conjE; simp)+

lemma now_since: "advancing clk r \<Longrightarrow> hoare (since clk b) (now r) (\<lambda>t w. b \<le> t \<and> since clk t w)"
  by (auto simp: hoare_def now_def outside_def since_def case_prod_beta intro: order_trans advancingD)

lemma sleep_since: "advancing clk r \<Longrightarrow> hoare (since clk t) (outside (rn_Sleep r ctx d)) (\<lambda>e w. e = None \<longrightarrow> since clk (t + d) w)"
  by (auto simp: hoare_def outside_def since_def case_prod_beta intro: order_trans [OF add_right_mono advancingD(5)])

lemma now_instant: "advancing clk r \<Longrightarrow> hoare (\<lambda>_. True) (now r) (\<lambda>t. since clk t)"
  by (auto simp: hoare_def now_def outside_def since_def case_prod_beta intro: advancingD)

lemma now_forward: "advancing clk r \<Longrightarrow> forward clk (rn_Now r)"
  unfolding forward_def by (blast intro: order_trans advancingD)

lemma now_past: "advancing clk r \<Longrightarrow> hoare (past clk S) (now r) (\<lambda>t. past clk (insert t S))"
  by (auto simp: hoare_def now_def outside_def past_def case_prod_beta intro: advancingD order_trans [OF _ order_trans [OF advancingD(1,2)]])

lemma op_keeps:
  assumes "lasting clk I" and "advancing clk r"
  shows "preserves I (store_op r ctx f)"
proof -
  have "preserves I (outside (rn_StoreFault r ctx))"
    by (intro forward_keeps [OF assms(1)] advancingD [OF assms(2)])
  moreover have "preserves I (State (\<lambda>w. case f (wd_Store w) of
      Inl e \<Rightarrow> (Some (StoreErr e), w) | Inr s \<Rightarrow> (None, w\<lparr>wd_Store := s\<rparr>)))"
    by (rule preserves_State) (auto split: sum.splits intro: lasting_same [OF assms(1)])
  ultimately show ?thesis unfolding store_op_def by (intro preserve_rules)
qed

section \<open>The direct client keeps time\<close>

lemma forward_map: "forward clk f \<Longrightarrow> (\<And>x. snd (g x) = snd (f x)) \<Longrightarrow> forward clk g"
  by (simp add: forward_def)

lemma forward_doJSON: "advancing_transport clk tr \<Longrightarrow> forward clk (doJSON tr ctx verb path q input parse zero)"
  by (simp add: forward_def advancing_transport_def doJSON_def do_call_def doBytes_def case_prod_beta)

lemma forward_rules:
  assumes "advancing_transport clk tr"
  shows "forward clk (ValidateRule c tr ctx rule)" and "forward clk (CreateRule c tr ctx rule)"
    and "forward clk (DeleteRule tr ctx i)"
  using forward_doJSON [OF assms]
  by (simp_all add: forward_def ValidateRule_def CreateRule_def DeleteRule_def case_prod_beta)

lemma rule_pages_forward:
  assumes "advancing_transport clk tr"
  shows "clk x \<le> clk (snd (rule_pages left tr ctx name page seen found x))"
proof (induction left arbitrary: page seen found x)
  case (Suc left)
  have step: "clk x \<le> clk (snd (doJSON tr ctx verb path q input parse zero x))"
    for verb path q input parse and zero :: rule_page
    by (rule forward_doJSON [OF assms, unfolded forward_def, rule_format])
  show ?case
    by (auto simp: Let_def case_prod_beta split: sum.splits intro: step order_trans [OF step Suc])
qed simp

lemma forward_sends:
  assumes "advancing_transport clk tr"
  shows "forward clk (doBytes tr ctx verb path q body)" and "forward clk (ResolveHistory c tr ctx row)"
  using assms
  by (auto simp: forward_def advancing_transport_def ResolveHistory_def sendAlert_def do_call_def doBytes_def
      case_prod_beta split: sum.splits)

lemma direct_advancing: "advancing clk r \<Longrightarrow> advancing clk (direct_client c tr r)"
  by (simp add: advancing_def direct_client_def)

lemma direct_keeps_time:
  fixes r :: "'x runner"
  assumes "advancing clk r" and "advancing_transport clk tr" and "lasting clk I"
  shows "run_actions (direct_client c tr r) I"
proof -
  let ?r = "direct_client c tr r"
  note clock = assms(1) [unfolded advancing_def]
  note keeps = forward_keeps [OF assms(3)]
  have op: "preserves I (store_op ?r ctx f)" for ctx f
    by (rule op_keeps [OF assms(3) direct_advancing [OF assms(1)]])
  have now: "preserves I (now ?r)"
    unfolding now_def by (intro keeps now_forward direct_advancing assms(1))
  have book: "preserves I (modify change)" if "\<And>w. wd_Store (change w) = wd_Store w \<and> wd_Ext (change w) = wd_Ext w"
    for change using that by (auto intro: preserves_modify lasting_same [OF assms(3)])
  have move: "preserves I (transition ?r ctx rid status summary)" for ctx rid status summary
    unfolding transition_def by (intro preserve_rules now op)
  have event: "preserves I (append_event ?r ctx rid kind at summary detail)" for ctx rid kind at summary detail
    unfolding append_event_def by (rule op)
  have attempt: "preserves I (record_attempt ?r rid prepared q)" for rid prepared q
    unfolding record_attempt_def by (intro preserve_rules now event book) simp
  have inject: "preserves I (InjectRecorded c tr (rn_CtxErr r) ctx alert (record_attempt ?r rid prepared))"
    for ctx alert rid prepared
    unfolding InjectRecorded_def
    by (intro preserve_rules attempt keeps forward_sends assms(2)) (use clock in simp_all)
  show ?thesis
    by unfold_locales
      (use clock in \<open>auto simp: direct_client_def FindRules_def forward_def rule_pages_forward [OF assms(2)]
        intro!: keeps forward_rules forward_sends assms(2)
        intro: now [unfolded direct_client_def] op [unfolded direct_client_def] book move [unfolded direct_client_def]
          event [unfolded direct_client_def] inject [unfolded direct_client_def]\<close>)
qed

section \<open>One observation\<close>

text \<open>
  What the proofs about polling use of a runner: its clock, and that every action before the
  completion of a run keeps what has lasted.
\<close>

definition polling :: "('x \<Rightarrow> time) \<Rightarrow> 'x runner \<Rightarrow> bool" where
  "polling clk r \<longleftrightarrow> advancing clk r \<and> 0 < rn_PollInterval r \<and> (\<forall>I. lasting clk I \<longrightarrow> run_actions r I)"

lemma direct_polling:
  "advancing clk r \<Longrightarrow> advancing_transport clk tr \<Longrightarrow> 0 < rn_PollInterval r \<Longrightarrow> polling clk (direct_client c tr r)"
  by (simp add: polling_def direct_advancing direct_keeps_time) (simp add: direct_client_def)

lemma polling_running: "polling clk r \<Longrightarrow> lasting clk I \<Longrightarrow> running r I"
  by (simp add: polling_def run_actions_def)

lemma stabilize_since:
  assumes "polling clk r"
  shows "preserves (since clk t) (stabilize r ctx rid item started deadline injectedAt shadow full snapshot as)"
  by (rule running.stabilize_keeps [OF polling_running [OF assms since_lasting]])

lemma polling_clock:
  assumes "polling clk r"
  shows "hoare (since clk b) (now r) (\<lambda>t w. b \<le> t \<and> since clk t w)"
    and "hoare (since clk t) (outside (rn_Sleep r ctx d)) (\<lambda>e w. e = None \<longrightarrow> since clk (t + d) w)"
    and "0 < rn_PollInterval r"
  using assms by (auto simp: polling_def intro: now_since sleep_since)

lemma since_weaken: "since clk a w \<Longrightarrow> b \<le> a \<Longrightarrow> since clk b w"
  by (simp add: since_def)

lemma observe_loop_ends:
  assumes "polling clk r"
  shows "hoare (since clk (deadline - int fuel * rn_PollInterval r))
    (observe_loop (Suc fuel) r ctx rid item started deadline injectedAt shadow full checkpoint ob) (\<lambda>out w. out \<noteq> None)"
proof (induction fuel arbitrary: ob)
  case 0
  have late: "hoare (since clk t) (if \<not> t < deadline then State_Monad.bind (conclude r item shadow checkpoint injectedAt ob)
        (\<lambda>result. State_Monad.return (Some result)) else m) (\<lambda>out w. out \<noteq> None)" if "deadline \<le> t" for t ob m
    using that by (auto intro: hoare_bind [OF hoare_any] hoare_return)
  show ?case
    unfolding observe_loop.simps Let_def
    by (intro hoare_bind_keep [OF running.readSnapshot_keeps [OF polling_running [OF assms since_lasting]]]
        hoare_bind [OF polling_clock(1) [OF assms]] hoare_fact
        hoare_bind_keep [OF stabilize_since [OF assms]] late hoare_sum hoare_return)
      auto
next
  case (Suc fuel)
  note poll = polling_clock [OF assms]
  let ?loop = "observe_loop (Suc fuel) r ctx rid item started deadline injectedAt shadow full checkpoint"
  have again: "hoare (since clk t) (State_Monad.bind (outside (rn_Sleep r ctx (min (rn_PollInterval r) (deadline - t))))
      (\<lambda>slept. case slept of None \<Rightarrow> ?loop ob | Some e \<Rightarrow> State_Monad.return (Some (Inl e)))) (\<lambda>out w. out \<noteq> None)"
    if "deadline - int (Suc fuel) * rn_PollInterval r \<le> t" for t ob
  proof (rule hoare_bind [OF poll(2)])
    fix e
    have "deadline - int fuel * rn_PollInterval r \<le> t + min (rn_PollInterval r) (deadline - t)"
      using that poll(3) by (auto simp: min_def algebra_simps)
    then have "hoare (since clk (t + min (rn_PollInterval r) (deadline - t))) (?loop ob) (\<lambda>out w. out \<noteq> None)"
      by (intro hoare_weaken [OF Suc.IH]) (auto intro: since_weaken)
    then show "hoare (\<lambda>w. e = None \<longrightarrow> since clk (t + min (rn_PollInterval r) (deadline - t)) w)
        (case e of None \<Rightarrow> ?loop ob | Some e \<Rightarrow> State_Monad.return (Some (Inl e))) (\<lambda>out w. out \<noteq> None)"
      by (cases e) (auto intro: hoare_return)
  qed
  show ?case
    unfolding observe_loop.simps(2) [of "Suc fuel"] Let_def
    by (intro hoare_bind_keep [OF running.readSnapshot_keeps [OF polling_running [OF assms since_lasting]]]
        hoare_bind [OF poll(1)] hoare_fact hoare_bind_keep [OF stabilize_since [OF assms]] again
        hoare_sum hoare_if hoare_return hoare_bind [OF hoare_any])
      auto
qed

text \<open>The fuel covers the window: one poll per interval, and a last one at the deadline.\<close>

definition covers :: "nat \<Rightarrow> 'x runner \<Rightarrow> duration \<Rightarrow> bool" where
  "covers fuel r window \<longleftrightarrow> window + rn_PollInterval r \<le> int fuel * rn_PollInterval r"

lemma observe_loop_within:
  assumes "polling clk r" and "covers fuel r window" and "0 < window" and "deadline \<le> t + window"
  shows "hoare (since clk t) (observe_loop fuel r ctx rid item started deadline injectedAt shadow full checkpoint ob)
    (\<lambda>out w. out \<noteq> None)"
proof (cases fuel)
  case 0
  with assms(2,3) polling_clock(3) [OF assms(1)] show ?thesis by (simp add: covers_def)
next
  case (Suc n)
  have "deadline - int n * rn_PollInterval r \<le> t"
    using assms(2,4) by (simp add: covers_def Suc algebra_simps)
  then show ?thesis
    unfolding Suc by (intro hoare_weaken [OF observe_loop_ends [OF assms(1)]]) (auto intro: since_weaken)
qed

lemma observation_window_pos: "0 < observation_window r item checkpoint"
  by (auto simp: observation_window_def Let_def second_def)

lemma observe_ends:
  assumes "polling clk r" and "covers fuel r (observation_window r item checkpoint)"
  shows "hoare (past clk {injectedAt}) (observe fuel r ctx rid item started injectedAt mode checkpoint) (\<lambda>out w. out \<noteq> None)"
proof (cases "injectedAt = 0")
  case True
  have deadline: "hoare (\<lambda>w. True) (State_Monad.bind (now r) (\<lambda>t. State_Monad.return (t + window)))
      (\<lambda>deadline. since clk (deadline - window))" for window
    using assms(1) by (intro hoare_bind [OF now_instant] hoare_return) (auto simp: polling_def since_def)
  show ?thesis
    unfolding observe_def Let_def if_P [OF True]
    by (rule hoare_weaken [where P = "\<lambda>w. True"], rule hoare_bind [OF deadline],
        rule observe_loop_within [OF assms(1,2) observation_window_pos]) simp_all
next
  case False
  have "hoare (since clk injectedAt) (observe fuel r ctx rid item started injectedAt mode checkpoint) (\<lambda>out w. out \<noteq> None)"
    unfolding observe_def Let_def if_not_P [OF False] bind_return
    by (rule observe_loop_within [OF assms(1,2) observation_window_pos]) simp
  then show ?thesis by (rule hoare_weaken) (use False in \<open>simp_all add: past_def since_def\<close>)
qed

section \<open>A whole run\<close>

text \<open>Every observation of the plan, at its checkpoints and at its end.\<close>

definition covers_plan :: "nat \<Rightarrow> 'x runner \<Rightarrow> CasePlan \<Rightarrow> bool" where
  "covers_plan fuel r item \<longleftrightarrow> covers fuel r (observation_window r item False) \<and>
     list_all (\<lambda>point. covers fuel r (observation_window r (checkpoint_prefix item point) True)) (cl_Checkpoints item)"

lemma run_checkpoint_ends:
  assumes "polling clk r" and "covers fuel r (observation_window r (checkpoint_prefix item point) True)"
  shows "yields (run_checkpoint fuel r ex item point checkpoints) (\<lambda>(cs, stopped). stopped \<noteq> Some Polling)"
proof -
  have event: "preserves (past clk S) (append_event r ctx rid kind at summary detail)" for S ctx rid kind at summary detail
    unfolding append_event_def using assms(1) by (intro op_keeps [OF past_lasting]) (simp add: polling_def)
  have start: "hoare (\<lambda>_. True) (now r) (\<lambda>t. past clk {t})"
    using assms(1) by (intro hoare_weaken [OF now_instant]) (auto simp: polling_def past_def since_def)
  note ends = hoare_bind [OF start] hoare_bind_keep [OF event] hoare_bind [OF observe_ends [OF assms]]
  have known: "hoare (\<lambda>w. out \<noteq> None) (case out of None \<Rightarrow> m | Some x \<Rightarrow> f x)
      (\<lambda>a w. case a of (cs, stopped) \<Rightarrow> stopped \<noteq> Some Polling)"
    if "\<And>x. yields (f x) (\<lambda>(cs, stopped). stopped \<noteq> Some Polling)"
    for out :: "(go_error + caseResult) option" and m and f :: "_ \<Rightarrow> ('a, checkpointResult list \<times> stop option) action"
  proof (cases out)
    case (Some x)
    show ?thesis unfolding Some option.case by (rule hoare_yields [OF that])
  qed (simp add: hoare_def)
  show ?thesis
    unfolding yields_def run_checkpoint_def
    by (intro ends known hoare_option hoare_return)
      (auto intro!: yields_rules yields_return yields_bind_any split: option.splits sum.splits)
qed

lemma run_checkpoints_ends:
  assumes "polling clk r"
  shows "list_all (\<lambda>point. covers fuel r (observation_window r (checkpoint_prefix item point) True)) points \<Longrightarrow>
    yields (run_checkpoints fuel r ex item index points checkpoints) (\<lambda>(cs, stopped). stopped \<noteq> Some Polling)"
proof (induction points arbitrary: checkpoints)
  case (Cons point points)
  then show ?case
    unfolding run_checkpoints.simps
    by (intro yields_rules yields_return yields_bind [OF run_checkpoint_ends [OF assms]] Cons.IH) auto
qed (auto intro: yields_return)

lemma checkpoint_prefix_base [simp]:
  "observation_window r (checkpoint_prefix (item\<lparr>cl_EpisodeBase := base\<rparr>) point) checkpoint =
   observation_window r (checkpoint_prefix item point) checkpoint"
  by (simp add: observation_window_def checkpoint_prefix_def)

lemma inject_alert_ends:
  assumes "polling clk r" and "covers_plan fuel r item"
  shows "yields (inject_alert fuel r ex item ij alert) (\<lambda>(ij', stopped). stopped \<noteq> Some Polling)"
  unfolding inject_alert_def Let_def
  by (intro yields_rules yields_return yields_bind [OF run_checkpoints_ends [OF assms(1)]] yields_bind_any)
    (use assms(2) in \<open>auto simp: covers_plan_def\<close>)

lemma inject_alerts_ends:
  assumes "polling clk r" and "covers_plan fuel r item"
  shows "yields (inject_alerts fuel r ex item ij alerts) (\<lambda>(ij', stopped). stopped \<noteq> Some Polling)"
proof (induction alerts arbitrary: ij)
  case (Cons alert alerts)
  then show ?case
    unfolding inject_alerts.simps
    by (intro yields_rules yields_return yields_bind [OF inject_alert_ends [OF assms]]) auto
qed (auto intro: yields_return)

lemma inject_cases_ends:
  assumes "polling clk r"
  shows "list_all (covers_plan fuel r) items \<Longrightarrow>
    yields (inject_cases fuel r ex caseStarted checkpoints items) (\<lambda>(m, cs, stopped). stopped \<noteq> Some Polling)"
proof (induction items arbitrary: caseStarted checkpoints)
  case (Cons item items)
  then show ?case
    unfolding inject_cases.simps Let_def
    by (intro yields_rules yields_return yields_bind [OF inject_alerts_ends [OF assms]] Cons.IH) auto
qed (auto intro: yields_return)

text \<open>The start of every case was read from the clock.\<close>

lemma inject_alert_past:
  assumes "polling clk r"
  shows "hoare (past clk (insert (ij_Started ij) S)) (inject_alert fuel r ex item ij alert)
    (\<lambda>(ij', stopped). past clk (insert (ij_Started ij') S))"
proof (cases alert)
  case (Pair index a)
  note holds = polling_running [OF assms past_lasting]
  note keeps = running.budget_keeps [OF holds] running.now_keeps [OF holds] running.append_event_keeps [OF holds]
    running.sleep_keeps [OF holds] running.send_alert_keeps [OF holds] running.run_checkpoints_keeps [OF holds]
  have began: "hoare (past clk (insert (ij_Started ij) S)) (if index = 0 then now r else State_Monad.return (ij_Started ij))
      (\<lambda>began. past clk (insert began S))"
    using assms by (auto simp: polling_def intro!: hoare_return hoare_weaken [OF now_past] elim: past_mono)
  show ?thesis
    unfolding Pair inject_alert_def prod.case Let_def wait_for_def announce_episode_def
    by (intro hoare_bind [OF began] hoare_bind_keep hoare_rules keeps preserve_rules hoare_return) simp_all
qed

lemma inject_alerts_past:
  assumes "polling clk r"
  shows "hoare (past clk (insert (ij_Started ij) S)) (inject_alerts fuel r ex item ij alerts)
    (\<lambda>(ij', stopped). past clk (insert (ij_Started ij') S))"
proof (induction alerts arbitrary: ij)
  case (Cons alert alerts)
  show ?case
    unfolding inject_alerts.simps
    by (intro hoare_bind [OF inject_alert_past [OF assms]] hoare_prod)
      (auto split: option.splits intro!: hoare_return Cons.IH)
qed (auto intro!: hoare_return)

lemma gput_value: "(a, b) \<in> set (gput k v m) \<Longrightarrow> b = v \<or> b \<in> snd ` set m"
proof (induction m)
  case (Cons x m)
  then show ?case by (cases x) (auto split: if_splits intro: rev_image_eqI)
qed simp

lemma inject_cases_past:
  assumes "polling clk r"
  shows "hoare (past clk (snd ` set m)) (inject_cases fuel r ex m checkpoints items)
    (\<lambda>(m', cs, stopped). past clk (snd ` set m'))"
proof (induction items arbitrary: m checkpoints)
  case (Cons item items)
  have start: "hoare (past clk (snd ` set m)) (inject_alerts fuel r ex item \<lparr>ij_Elapsed = 0, ij_Started = 0, ij_Checkpoints = checkpoints\<rparr> alerts)
    (\<lambda>(ij', stopped). past clk (insert (ij_Started ij') (snd ` set m)))" for alerts
    using inject_alerts_past [OF assms, of "\<lparr>ij_Elapsed = 0, ij_Started = 0, ij_Checkpoints = checkpoints\<rparr>" "snd ` set m"]
    by simp
  have put: "past clk (insert t (snd ` set m)) w \<Longrightarrow> past clk (snd ` set (if b then m else gput k t m)) w" for t k b w
    by (auto elim!: past_mono dest: gput_value)
  show ?case
    unfolding inject_cases.simps Let_def
    by (intro hoare_bind [OF start] hoare_prod)
      (auto split: option.splits split del: if_split intro!: hoare_return put hoare_weaken [OF Cons.IH])
qed (auto intro!: hoare_return)

lemma observe_cases_ends:
  assumes "polling clk r"
  shows "list_all (covers_plan fuel r) items \<Longrightarrow>
    hoare (past clk (snd ` set m)) (observe_cases fuel r ex m results items) (\<lambda>(results', stopped) w. stopped \<noteq> Some Polling)"
proof (induction items arbitrary: results)
  case (Cons item items)
  let ?began = "started_at m (cl_Code item)"
  have began: "past clk (snd ` set m) w \<Longrightarrow> past clk {?began} w" for w
    by (auto simp: started_at_def past_def split: option.splits dest!: map_of_SomeD)
  have observed: "hoare (past clk (snd ` set m))
      (observeCase fuel r Execution rid (item\<lparr>cl_EpisodeBase := base\<rparr>) started ?began mode)
      (\<lambda>out w. out \<noteq> None \<and> past clk (snd ` set m) w)" for rid base started mode
  proof (rule hoare_conj)
    show "hoare (past clk (snd ` set m)) (observeCase fuel r Execution rid (item\<lparr>cl_EpisodeBase := base\<rparr>) started ?began mode)
        (\<lambda>out w. out \<noteq> None)"
      unfolding observeCase_def using Cons.prems
      by (intro hoare_weaken [OF observe_ends [OF assms]] began) (auto simp: covers_plan_def observation_window_def)
    show "hoare (past clk (snd ` set m)) (observeCase fuel r Execution rid (item\<lparr>cl_EpisodeBase := base\<rparr>) started ?began mode)
        (\<lambda>out. past clk (snd ` set m))"
      using running.observeCase_keeps [OF polling_running [OF assms past_lasting]] by (simp add: preserves_def)
  qed
  show ?case
    unfolding observe_cases.simps Let_def
  proof (rule hoare_bind [OF observed])
    fix out :: "(go_error + caseResult) option"
    have budget: "preserves (past clk (snd ` set m)) (budgetError r (ex_Deadline ex))"
      by (rule running.budget_keeps [OF polling_running [OF assms past_lasting]])
    show "hoare (\<lambda>w. out \<noteq> None \<and> past clk (snd ` set m) w)
        (case out of None \<Rightarrow> State_Monad.return (results, Some Polling)
         | Some (Inl e) \<Rightarrow> State_Monad.return (results, Some (Failed e))
         | Some (Inr result) \<Rightarrow> State_Monad.bind (budgetError r (ex_Deadline ex))
             (\<lambda>over. case over of Some e \<Rightarrow> State_Monad.return (results, Some (Failed e))
              | None \<Rightarrow> observe_cases fuel r ex m (results @ [result]) items))
        (\<lambda>(results', stopped) w. stopped \<noteq> Some Polling)"
      using Cons.prems
      by (intro hoare_fact hoare_option hoare_sum hoare_bind_keep [OF budget] hoare_return Cons.IH) auto
  qed
qed (auto intro: hoare_return)

text \<open>No phase is left polling.\<close>

definition returned :: "go_error option option \<Rightarrow> bool" where
  "returned out \<longleftrightarrow> out \<noteq> None"

lemma returned_Some [simp]: "returned (Some e)"
  by (simp add: returned_def)

lemma fail_run_returns: "yields (fail_run r ex resources checkpoints cause) returned"
  unfolding fail_run_def by (intro yields_bind_any yields_return) simp

lemma stop_run_returns: "why \<noteq> Polling \<Longrightarrow> yields (stop_run r ex resources checkpoints why) returned"
  unfolding stop_run_def stop_at_checkpoint_def
  by (cases why) (auto intro!: yields_rules yields_bind_any yields_return fail_run_returns split: option.splits)

lemma finish_run_returns: "yields (finish_run r ex resources checkpoints results) returned"
  unfolding finish_run_def
  by (intro yields_rules yields_bind_any yields_return fail_run_returns) simp_all

lemma stopped_returns:
  assumes "yields m returned"
  shows "hoare (\<lambda>w. stopped \<noteq> Some Polling)
    (case stopped of None \<Rightarrow> m | Some why \<Rightarrow> stop_run r ex resources checkpoints why) (\<lambda>out w. returned out)"
proof (cases stopped)
  case None
  then show ?thesis using hoare_yields [OF assms] by simp
next
  case (Some why)
  then show ?thesis
    using hoare_yields [OF stop_run_returns [of why r ex resources checkpoints]] by (cases "why = Polling") (auto simp: hoare_def)
qed

lemma observe_run_returns:
  assumes "polling clk r" and "list_all (covers_plan fuel r) (pl_Cases (ex_Plan ex))"
  shows "hoare (past clk (snd ` set m)) (observe_run fuel r ex resources m checkpoints) (\<lambda>out w. returned out)"
proof -
  have move: "preserves (past clk (snd ` set m)) (transition r ctx rid RunObserving summary)" for ctx rid summary
    by (rule running.transition_keeps [OF polling_running [OF assms(1) past_lasting]]) simp
  show ?thesis
    unfolding observe_run_def
    by (rule hoare_bind_keep [OF move], rule hoare_option, rule hoare_bind [OF observe_cases_ends [OF assms]], rule hoare_prod)
      (simp_all add: stopped_returns [OF finish_run_returns] hoare_yields [OF fail_run_returns])
qed

lemma inject_run_returns:
  assumes "polling clk r" and "list_all (covers_plan fuel r) (pl_Cases (ex_Plan ex))"
  shows "yields (inject_run fuel r ex resources) returned"
proof -
  have injected: "hoare P (inject_cases fuel r ex [] [] (pl_Cases (ex_Plan ex)))
      (\<lambda>out w. (case out of (m, cs, stopped) \<Rightarrow> stopped \<noteq> Some Polling) \<and>
        (case out of (m, cs, stopped) \<Rightarrow> past clk (snd ` set m) w))" for P
    by (rule hoare_conj [OF hoare_yields [OF inject_cases_ends [OF assms]] hoare_weaken [OF inject_cases_past [OF assms(1)]]])
      (auto split: prod.splits)
  have next_phase: "hoare (\<lambda>w. stopped \<noteq> Some Polling \<and> past clk (snd ` set m) w)
      (case stopped of None \<Rightarrow> observe_run fuel r ex resources m cs | Some why \<Rightarrow> stop_run r ex resources cs why)
      (\<lambda>out w. returned out)" for m cs stopped
    by (cases stopped) (simp_all add: observe_run_returns [OF assms] hoare_fact [OF hoare_yields [OF stop_run_returns]])
  show ?thesis
    unfolding yields_def inject_run_def
    by (rule hoare_bind [OF hoare_any [where Q = "\<lambda>e w. True"]], simp, rule hoare_option, rule hoare_bind [OF injected],
        intro hoare_prod)
      (simp_all add: hoare_yields [OF fail_run_returns] next_phase)
qed

lemma mutate_run_returns:
  assumes "polling clk r" and "list_all (covers_plan fuel r) (pl_Cases (ex_Plan ex))"
  shows "yields (mutate_run fuel r ex) returned"
  unfolding mutate_run_def
  by (intro yields_rules yields_bind_any yields_return inject_run_returns [OF assms] fail_run_returns) simp_all

lemma Execute_returns:
  assumes "polling clk r" and "list_all (covers_plan fuel r) (pl_Cases plan)"
  shows "yields (Execute fuel r run plan capabilities) returned"
  unfolding Execute_def Let_def
  by (intro yields_rules yields_bind_any yields_return mutate_run_returns [OF assms(1)]) (use assms(2) in simp_all)

section \<open>Runs end\<close>

text \<open>A world that is only a clock, which sleeping advances.\<close>

definition tick_runner :: "time runner" where
  "tick_runner =
     \<lparr>rn_PollInterval = second, rn_ObservationWindow = 0, rn_Stabilization = 5 * second, rn_CleanupTimeout = 30 * second,
      rn_Now = (\<lambda>t. (t, t)), rn_Sleep = (\<lambda>ctx d t. (None, t + max 0 d)),
      rn_CtxErr = (\<lambda>ctx t. (None, t)), rn_StoreFault = (\<lambda>ctx t. (None, t)), rn_StoreText = (\<lambda>e. ''store''),
      rn_WriteEvidence = None,
      api_ValidateRule = (\<lambda>ctx rule t. (None, t)), api_CreateRule = (\<lambda>ctx rule t. (Inr no_rule, t)),
      api_FindRules = (\<lambda>ctx name t. (Inr [], t)), api_DeleteRule = (\<lambda>ctx i t. (None, t)),
      api_InjectRecorded = (\<lambda>ctx alert before. State_Monad.return (no_result, None)),
      api_ResolveHistory = (\<lambda>ctx row t. ((no_result, None), t)),
      api_FindHistory = (\<lambda>ctx q t. (Inr [], t)), api_CorrelationAudit = (\<lambda>ctx fingerprint t. (Inr [], t)),
      api_NotificationAudit = (\<lambda>ctx fingerprint a b t. (Inr [], t)),
      api_InputPath = None, api_InputEndpoint = None, api_ValidateInputBudget = None, api_UnresolvedInputCleanup = None,
      api_ResolveHistoryRecorded = None\<rparr>"

lemma tick_advancing: "advancing id tick_runner" "advancing_transport id (\<lambda>ctx q t. (NoResponse, t))"
  by (auto simp: advancing_def advancing_transport_def forward_def tick_runner_def)

lemma direct_covers [simp]: "covers_plan fuel (direct_client c tr r) = covers_plan fuel r"
  by (rule ext) (simp add: covers_plan_def covers_def observation_window_def direct_client_def)

lemma demo_covered: "\<exists>plan. Compile no_digest demo_run demo_flood ''phase_b_dispatch'' = Inr plan \<and>
    list_all (covers_plan 100 tick_runner) (pl_Cases plan)"
proof -
  have "(case Compile no_digest demo_run demo_flood ''phase_b_dispatch'' of Inl e \<Rightarrow> False | Inr plan \<Rightarrow>
      list_all (covers_plan 100 tick_runner) (pl_Cases plan))"
    by code_simp
  then show ?thesis by (auto split: sum.splits)
qed

text \<open>
  C4. An execution comes to an end: on a clock that advances, with fuel for one poll per interval of
  every observation window and one more, \<^verbatim>\<open>Execute\<close> returns, whatever the server answers and
  whatever fails. So the polling of \<^verbatim>\<open>observeCase\<close> cannot hang a run.
\<close>

theorem execution_ends:
  assumes "advancing clk r" and "advancing_transport clk tr" and "0 < rn_PollInterval r"
    and "list_all (covers_plan fuel r) (pl_Cases plan)"
  shows "fst (run_state (Execute fuel (direct_client c tr r) run plan capabilities) w) \<noteq> None"
proof -
  have "yields (Execute fuel (direct_client c tr r) run plan capabilities) returned"
    using assms by (intro Execute_returns [OF direct_polling]) simp_all
  then show ?thesis
    by (auto simp: returned_def dest!: yieldsD [OF _ prod.collapse [symmetric]])
qed

theorem execution_ends_witness:
  "\<exists>plan. Compile no_digest demo_run demo_flood ''phase_b_dispatch'' = Inr plan \<and>
     (\<forall>c capabilities. \<forall>w :: time world.
        fst (run_state (Execute 100 (direct_client c (\<lambda>ctx q t. (NoResponse, t)) tick_runner) demo_run plan capabilities) w) \<noteq> None)"
  using demo_covered execution_ends [OF tick_advancing] by (fastforce simp: tick_runner_def second_def)

end
