(* ===== verification/Compiled_Runs.thy ===== *)
theory Compiled_Runs
  imports Run_Liveness Ledger_Properties Observation_Properties
begin

text \<open>
  What the compiler guarantees to the runner and the ledger: the assertions of a compiled plan can
  be evaluated on every snapshot, and every attempt the runner can report is planned in the
  ledger. And the rule of the observation loop for zero-count violations.
\<close>

section \<open>Assertions\<close>

definition plan_assertions :: "CasePlan \<Rightarrow> Assertion list list" where
  "plan_assertions item = cl_Assertions item # map cp_Assertions (cl_Checkpoints item)"

lemma supported_kind: "assertion_ok a \<Longrightarrow> \<exists>result. evaluate_assertion s shadow a = Inr result"
  by (auto simp: assertion_ok_def assertionKinds_def evaluate_assertion_def observed_count_def)

lemma supported_all: "list_all assertion_ok as \<Longrightarrow> \<exists>results. evaluateAssertions as s shadow = Inr results \<and> length results = length as"
proof (induction as)
  case (Cons a as)
  with supported_kind [of a s shadow] show ?case by auto
qed simp

lemma foldE_step: "foldE f s xs = Inr t \<Longrightarrow> x \<in> set xs \<Longrightarrow> \<exists>u v. f u x = Inr v"
  by (induction xs arbitrary: s) (auto split: sum.splits)

lemma accepted_assertions:
  assumes "Validate input = None" and "source \<in> set (sc_Cases input)"
  shows "list_all assertion_ok (cs_Assertions source) \<and> cs_Assertions source \<noteq> []"
    and "point \<in> set (cs_Checkpoints source) \<Longrightarrow> list_all assertion_ok (cp_Assertions point) \<and> cp_Assertions point \<noteq> []"
proof -
  from accepted_case [OF assms] have c: "validateAssertions (cs_Name source) (cs_Assertions source) = None"
      "validateCheckpoints source (sc_MaxDuration input) = None"
    unfolding case_step_Inr by blast+
  from c(1) show "list_all assertion_ok (cs_Assertions source) \<and> cs_Assertions source \<noteq> []"
    by (simp add: validateAssertions_None list_all_iff)
  from c(2) obtain t where t: "foldE (checkpoint_step source (sc_MaxDuration input)) ({}, 0) (cs_Checkpoints source) = Inr t"
    unfolding validateCheckpoints_def by (auto simp: as_error_None split: if_splits)
  show "list_all assertion_ok (cp_Assertions point) \<and> cp_Assertions point \<noteq> []" if "point \<in> set (cs_Checkpoints source)"
  proof -
    from foldE_step [OF t that] obtain u v where "checkpoint_step source (sc_MaxDuration input) u point = Inr v" by blast
    then have "validateAssertions (cp_Name point) (cp_Assertions point) = None"
      by (cases u) (simp add: checkpoint_step_Inr)
    then show ?thesis by (simp add: validateAssertions_None list_all_iff)
  qed
qed

text \<open>
  C13. The assertions of a compiled plan are well typed for the runner: for every case, and every
  checkpoint of a case, of a plan that \<^verbatim>\<open>Compile\<close> returns, \<^verbatim>\<open>evaluateAssertions\<close> gives a result per
  assertion on every snapshot, in shadow mode or not; its error for an unsupported kind cannot
  occur, and there is always something to evaluate.
\<close>

theorem compiled_assertions_supported:
  assumes "Compile digest run input mode = Inr plan" and "item \<in> set (pl_Cases plan)" and "as \<in> set (plan_assertions item)"
  shows "as \<noteq> [] \<and> (\<exists>results. evaluateAssertions as snapshot shadow = Inr results \<and> length results = length as)"
proof -
  note c = Compile_Inr [OF assms(1)]
  then have valid: "Validate input = None" using guard_accepts(1) by blast
  from c have "list_all2 (\<lambda>source item. compile_case run input (sget patternCodes (sc_Pattern input)) source = Inr item)
    (sc_Cases input) (pl_Cases plan)" by blast
  from list_all2_source [OF this assms(2)] obtain source where source: "source \<in> set (sc_Cases input)"
      "compile_case run input (sget patternCodes (sc_Pattern input)) source = Inr item" by blast
  then have "cl_Assertions item = cs_Assertions source" "cl_Checkpoints item = cs_Checkpoints source"
    by (auto simp: compile_case_def Let_def split: option.splits sum.splits)
  with assms(3) accepted_assertions [OF valid source(1)] have "list_all assertion_ok as \<and> as \<noteq> []"
    by (auto simp: plan_assertions_def)
  then show ?thesis using supported_all by blast
qed

theorem compiled_assertions_supported_witness:
  "\<exists>plan item. Compile no_digest demo_run demo_flood ''phase_b_dispatch'' = Inr plan \<and> item \<in> set (pl_Cases plan) \<and>
     cl_Assertions item \<noteq> [] \<and> (\<exists>results. evaluateAssertions (cl_Assertions item) empty_snapshot False = Inr results \<and>
       length results = length (cl_Assertions item))"
proof -
  from demo_compiled obtain plan where p: "Compile no_digest demo_run demo_flood ''phase_b_dispatch'' = Inr plan"
      "length (pl_Cases plan) = 2" by blast
  then obtain item where "item \<in> set (pl_Cases plan)" by (cases "pl_Cases plan") auto
  with p(1) compiled_assertions_supported [OF p(1) this, of "cl_Assertions item"] show ?thesis
    by (auto simp: plan_assertions_def)
qed

section \<open>Zero counts\<close>

lemma conclude_violation:
  assumes "ob_Violation ob = Some s"
  shows "yields (conclude r item shadow checkpoint injectedAt ob)
    (\<lambda>out. \<forall>result. out = Inr result \<longrightarrow> ce_Verdict result = VerdictFail \<and> rests_on s result)"
  unfolding conclude_def Let_def assms option.case
  by (intro yields_rules yields_return yields_bind_any) (auto simp: rests_on_built)

text \<open>A result that fails on the evidence of \<open>s\<close>, if there is a result.\<close>

definition fails_on :: "observationSnapshot \<Rightarrow> (go_error + caseResult) option \<Rightarrow> bool" where
  "fails_on s out \<longleftrightarrow> (case out of Some (Inr result) \<Rightarrow> ce_Verdict result = VerdictFail \<and> rests_on s result | _ \<Rightarrow> True)"

lemma remember_violation:
  "ob_Violation (remember True checkpoint snapshot as ob) =
     (case ob_Violation ob of Some s \<Rightarrow> Some s
      | None \<Rightarrow> if list_ex (zero_violated checkpoint) as then Some snapshot else None)"
  by (simp add: remember_def split: option.split)

lemma stabilize_full: "yields (stabilize r ctx rid item started deadline injectedAt shadow True snapshot as)
    (\<lambda>out. \<forall>result. out \<noteq> Inr (Inl result))"
  by (simp add: stabilize_def yields_return)

lemma observe_loop_fails:
  "ob_Violation ob = Some s \<Longrightarrow>
   yields (observe_loop fuel r ctx rid item started deadline injectedAt shadow True checkpoint ob) (fails_on s)"
proof (induction fuel arbitrary: ob)
  case (Suc fuel)
  have kept: "ob_Violation ((remember True checkpoint snapshot as ob)\<lparr>ob_Last := latest\<rparr>) = Some s" for snapshot as latest
    using Suc.prems by (simp add: remember_violation)
  show ?case
    unfolding observe_loop.simps Let_def
    by (intro yields_rules yields_return yields_bind_any yields_bind [OF stabilize_full]
        yields_bind [OF conclude_violation [OF kept]] Suc.IH kept)
      (auto simp: fails_on_def split: sum.splits)
qed (auto intro: yields_return simp: fails_on_def)


section \<open>Planned attempts\<close>

text \<open>What identifies an attempt row to \<^verbatim>\<open>FinalizeRun\<close>, and the rows a case of the plan adds.\<close>

type_synonym row_key = "string \<times> string \<times> string \<times> int \<times> string"

definition key_of :: "AttemptRow \<Rightarrow> row_key" where
  "key_of x = (at_RunID x, at_CaseID x, at_EventID x, at_EventIndex x, at_SendState x)"

definition alert_key :: "string \<Rightarrow> string \<Rightarrow> nat \<times> plan_alert \<Rightarrow> row_key" where
  "alert_key rid caseID = (\<lambda>(i, alert).
     (rid, caseID,
      (let annotated = sget (pa_Annotations alert) ''oscar_test_event_id''
       in if annotated = '''' then caseID @ '':event:'' @ index_str i else annotated),
      int i + 1, ''PLANNED''))"

definition case_keys :: "string \<Rightarrow> plan_case \<Rightarrow> row_key list" where
  "case_keys rid item = map (alert_key rid (rid @ '':case:'' @ pc_Code item)) (enumerate 0 (pc_Alerts item))"

lemma foldE_collects:
  assumes "foldE f s xs = Inr t" and "\<And>s x t. f s x = Inr t \<Longrightarrow> g t = g s @ h x"
  shows "g t = g s @ concat (map h xs)"
  using assms(1) by (induction xs arbitrary: s) (auto split: sum.splits dest: assms(2))

lemma add_attempt_keys:
  "add_attempt rid caseID at s x = Inr t \<Longrightarrow> map key_of (st_Attempts t) = map key_of (st_Attempts s) @ [alert_key rid caseID x]"
  by (cases x) (auto simp: add_attempt_def Let_def key_of_def alert_key_def split: if_splits)

lemma add_plan_case_keys:
  assumes "add_plan_case rid pattern at s item = Inr t"
  shows "map key_of (st_Attempts t) = map key_of (st_Attempts s) @ case_keys rid item"
    and "\<exists>row. cr_ID row = rid @ '':case:'' @ pc_Code item \<and> st_Cases t = st_Cases s @ [row]"
    and "\<not> has_case s (rid @ '':case:'' @ pc_Code item)"
proof -
  let ?id = "rid @ '':case:'' @ pc_Code item"
  define row where "row = \<lparr>cr_ID = ?id, cr_RunID = rid, cr_StableKey = pc_Code item, cr_Pattern = pattern, cr_Name = pc_Name item,
    cr_Status = ''PLANNED'', cr_Verdict = None, cr_StartedAt = None, cr_EndedAt = None\<rparr>"
  then have row: "cr_ID row = ?id" by simp
  from assms obtain u where fresh: "\<not> has_case s ?id"
    and u: "foldE (add_assertion rid ?id) (s\<lparr>st_Cases := st_Cases s @ [row]\<rparr>) (enumerate 0 (pc_Assertions item)) = Inr u"
    and t: "foldE (add_attempt rid ?id at) u (enumerate 0 (pc_Alerts item)) = Inr t"
    unfolding row_def by (auto simp: add_plan_case_def Let_def split: if_splits sum.splits)
  have "(st_Attempts u, st_Cases u) = (st_Attempts (s\<lparr>st_Cases := st_Cases s @ [row]\<rparr>), st_Cases (s\<lparr>st_Cases := st_Cases s @ [row]\<rparr>))"
    by (rule foldE_keeps [OF u, where g = "\<lambda>s. (st_Attempts s, st_Cases s)"])
      (auto simp: add_assertion_def Let_def split: prod.splits if_splits option.splits)
  moreover have "st_Cases t = st_Cases u"
    by (rule foldE_keeps [OF t]) (auto simp: add_attempt_def Let_def split: if_splits)
  moreover have "map key_of (st_Attempts t) = map key_of (st_Attempts u) @ concat (map (\<lambda>x. [alert_key rid ?id x]) (enumerate 0 (pc_Alerts item)))"
    by (rule foldE_collects [OF t, where g = "\<lambda>s. map key_of (st_Attempts s)"]) (rule add_attempt_keys)
  ultimately show "map key_of (st_Attempts t) = map key_of (st_Attempts s) @ case_keys rid item"
    and "\<exists>row. cr_ID row = ?id \<and> st_Cases t = st_Cases s @ [row]" and "\<not> has_case s ?id"
    using row fresh by (auto simp: case_keys_def)
qed

lemma add_plan_cases:
  assumes "foldE (add_plan_case rid pattern at) s items = Inr t"
  shows "map key_of (st_Attempts t) = map key_of (st_Attempts s) @ concat (map (case_keys rid) items)"
    and "distinct (map pc_Code items) \<and> (\<forall>item \<in> set items. \<not> has_case s (rid @ '':case:'' @ pc_Code item))"
proof -
  show "map key_of (st_Attempts t) = map key_of (st_Attempts s) @ concat (map (case_keys rid) items)"
    by (rule foldE_collects [OF assms, where g = "\<lambda>s. map key_of (st_Attempts s)"]) (rule add_plan_case_keys)
  show "distinct (map pc_Code items) \<and> (\<forall>item \<in> set items. \<not> has_case s (rid @ '':case:'' @ pc_Code item))"
    using assms
  proof (induction items arbitrary: s)
    case (Cons item items)
    then obtain u where u: "add_plan_case rid pattern at s item = Inr u" "foldE (add_plan_case rid pattern at) u items = Inr t"
      by (auto split: sum.splits)
    from add_plan_case_keys(2) [OF u(1)] obtain row where "cr_ID row = rid @ '':case:'' @ pc_Code item" "st_Cases u = st_Cases s @ [row]"
      by blast
    then have "has_case u x \<longleftrightarrow> has_case s x \<or> x = rid @ '':case:'' @ pc_Code item" for x
      by (auto simp: has_case_def)
    with Cons.IH [OF u(2)] add_plan_case_keys(3) [OF u(1)] show ?case by auto
  qed simp
qed

lemma case_keys_distinct: "distinct (case_keys rid item)"
  by (auto simp: case_keys_def distinct_map inj_on_def alert_key_def in_set_enumerate_eq split: prod.splits)

lemma all_keys_distinct: "distinct (map pc_Code items) \<Longrightarrow> distinct (concat (map (case_keys rid) items))"
proof (induction items)
  case (Cons item items)
  have "set (case_keys rid item) \<inter> set (concat (map (case_keys rid) items)) = {}"
    using Cons.prems by (auto simp: case_keys_def alert_key_def image_iff split: prod.splits)
  with Cons show ?case by (simp add: case_keys_distinct)
qed simp

text \<open>A compiled alert carries its event in the labels and, the same, in the annotations.\<close>

definition annotated :: "AlertPlan \<Rightarrow> bool" where
  "annotated a \<longleftrightarrow> sget (ap_Annotations a) ''oscar_test_event_id'' = sget (ap_Labels a) ''oscar_test_event_id''"

lemma alerts_annotated:
  assumes "foldE (alert_step f) no_alerts xs = Inr s"
  shows "list_all annotated (al_Alerts s)"
  by (rule foldE_invariant [OF assms, where P = "\<lambda>s. list_all annotated (al_Alerts s)"])
    (auto simp: alert_step_def annotated_def sget_def Let_def no_alerts_def split: sum.splits if_splits)

lemma compiled_identity:
  assumes "Compile digest run input mode = Inr plan" and "item \<in> set (pl_Cases plan)" and "a \<in> set (cl_Alerts item)"
  shows "sget (ap_Annotations a) ''oscar_test_event_id'' = sget (ap_Labels a) ''oscar_test_event_id''"
    and "sget (ap_Labels a) ''oscar_test_event_id'' \<noteq> ''''"
proof -
  from compiled_case [OF assms(1,2)] obtain f es s where
    "foldE (alert_step f) no_alerts (enumerate 0 es) = Inr s" "cl_Alerts item = al_Alerts s" by metis
  with alerts_annotated assms(3) show "sget (ap_Annotations a) ''oscar_test_event_id'' = sget (ap_Labels a) ''oscar_test_event_id''"
    by (fastforce simp: list_all_iff annotated_def)
  from compiled_alerts [OF assms(1,2)] obtain source f s where c: "cl_Alerts item = al_Alerts s"
    "scan_inv f (source_events source) s" "ids_inv f (source_events source) s" by blast
  from assms(3) c(1,2) obtain k where "k < length (source_events source)" "a = al_Alerts s ! k"
    by (auto simp: in_set_conv_nth scan_inv_def)
  with c(3) obtain n where "map_of (ap_Labels a) ''oscar_test_event_id'' = Some (event_id f n)"
    unfolding ids_inv_def label_id_def by blast
  then show "sget (ap_Labels a) ''oscar_test_event_id'' \<noteq> ''''" by (simp add: sget_def event_id_def)
qed

lemma documents_keys:
  assumes "SetRunExecutionDocuments s rid capabilities plan at = Inr t" and "decode_plan plan = Some (rid', pattern, items)"
  shows "map key_of (st_Attempts t) = map key_of (st_Attempts s) @ concat (map (case_keys rid) items)"
    and "distinct (map pc_Code items)"
proof -
  from assms obtain u where u: "foldE (add_plan_case rid pattern at) u items = Inr t" "st_Attempts u = st_Attempts s"
    by (auto simp: SetRunExecutionDocuments_def split: if_splits)
  from add_plan_cases [OF u(1)] u(2)
  show "map key_of (st_Attempts t) = map key_of (st_Attempts s) @ concat (map (case_keys rid) items)"
    and "distinct (map pc_Code items)" by simp_all
qed

lemma unique_affected:
  assumes "distinct ks" and "k \<in> set ks" and "map key_of rows = old @ ks" and "k \<notin> set old"
  shows "affected (\<lambda>x. key_of x = k) rows = 1"
proof -
  have "affected (\<lambda>x. key_of x = k) rows = count_list (map key_of rows) k"
    by (induction rows) (auto simp: affected_def)
  also have "count_list ks k = 1" using assms(1,2) by (induction ks) (auto simp: count_list_0_iff)
  then have "count_list (map key_of rows) k = 1" using assms(3,4) by (simp add: count_list_0_iff)
  finally show ?thesis .
qed

text \<open>
  C10. The attempts a run can report are exactly planned: for a compiled plan whose document the
  ledger accepted for a run without attempts, the fact the runner prepares for any alert of any
  case, whatever became of its sending, names exactly one planned attempt row, so that the
  completion of the run does not reject it.
\<close>

theorem attempts_are_planned:
  assumes "Compile digest run input mode = Inr plan" and "plan_keyed plan"
    and "SetRunExecutionDocuments s (run_ID run) capabilities (Doc (marshal_plan plan)) at = Inr t"
    and "list_all (\<lambda>x. at_RunID x \<noteq> run_ID run) (st_Attempts s)"
    and "item \<in> set (pl_Cases plan)" and "i < length (cl_Alerts item)"
  shows "\<exists>u. finalize_attempt (run_ID run) later t ((prepared_attempt item i (cl_Alerts item ! i))
    \<lparr>aa_SendState := state, aa_InjectionClass := class, aa_StatusCode := code\<rparr>) = Inr u"
proof -
  let ?a = "cl_Alerts item ! i" and ?rid = "run_ID run"
  let ?k = "(?rid, ?rid @ '':case:'' @ cl_Code item, sget (ap_Labels ?a) ''oscar_test_event_id'', int i + 1, ''PLANNED'')"
  have a: "?a \<in> set (cl_Alerts item)" using assms(6) by simp
  note identity = compiled_identity [OF assms(1,5) a]
  from decode_marshal_plan [OF assms(2)] have doc: "decode_plan (Doc (marshal_plan plan)) =
      Some (pl_RunID plan, pl_Pattern plan, map stored_case (pl_Cases plan))" .
  note keys = documents_keys [OF assms(3) doc]
  have keyed: "well_keyed (ap_Annotations ?a)" using assms(2,5) a by (auto simp: plan_keyed_def list_all_iff)
  have "?k = alert_key ?rid (?rid @ '':case:'' @ cl_Code item) (i, stored_alert ?a)"
    using identity keyed by (simp add: alert_key_def stored_alert_def)
  moreover have "(i, stored_alert ?a) \<in> set (enumerate 0 (map stored_alert (cl_Alerts item)))"
    using assms(6) by (simp add: in_set_enumerate_eq)
  ultimately have "?k \<in> set (case_keys ?rid (stored_case item))"
    unfolding case_keys_def by (auto simp: stored_case_def intro: rev_image_eqI)
  with assms(5) have "?k \<in> set (concat (map (case_keys ?rid) (map stored_case (pl_Cases plan))))" by auto
  moreover have "?k \<notin> set (map key_of (st_Attempts s))"
    using assms(4) by (auto simp: key_of_def list_all_iff)
  ultimately have "affected (\<lambda>x. key_of x = ?k) (st_Attempts t) = 1"
    by (rule unique_affected [OF all_keys_distinct [OF keys(2)] _ keys(1)])
  then show ?thesis
    by (simp add: finalize_attempt_def prepared_attempt_def key_of_def Let_def)
qed

text \<open>The rows of a document do not depend on the runs of the store.\<close>

lemma foldE_through:
  assumes "\<And>s x. f (u s) x = map_sum id u (f s x)"
  shows "foldE f (u s) xs = map_sum id u (foldE f s xs)"
  by (induction xs arbitrary: s) (simp_all add: assms split: sum.splits)

lemma add_plan_case_runs:
  "add_plan_case rid pattern at (st_Runs_update (\<lambda>_. R) s) item = map_sum id (st_Runs_update (\<lambda>_. R)) (add_plan_case rid pattern at s item)"
proof -
  have assertion: "add_assertion rid cid (st_Runs_update (\<lambda>_. R) s) x = map_sum id (st_Runs_update (\<lambda>_. R)) (add_assertion rid cid s x)" for cid s x
    by (cases x) (simp add: add_assertion_def Let_def split: option.splits)
  have attempt: "add_attempt rid cid at (st_Runs_update (\<lambda>_. R) s) x = map_sum id (st_Runs_update (\<lambda>_. R)) (add_attempt rid cid at s x)" for cid s x
    by (cases x) (simp add: add_attempt_def Let_def)
  note steps = foldE_through [where u = "st_Runs_update (\<lambda>_. R)" and f = "add_assertion rid cid" for cid, OF assertion]
    foldE_through [where u = "st_Runs_update (\<lambda>_. R)" and f = "add_attempt rid cid at" for cid, OF attempt]
  have swap: "st_Cases_update g (st_Runs_update (\<lambda>_. R) s) = st_Runs_update (\<lambda>_. R) (st_Cases_update g s)" for g and s :: store by simp
  show ?thesis
    unfolding add_plan_case_def Let_def swap
    by (simp add: has_case_def steps split: sum.splits)
qed

lemma add_plan_cases_runs:
  "foldE (add_plan_case rid pattern at) (st_Runs_update (\<lambda>_. R) s) items =
     map_sum id (st_Runs_update (\<lambda>_. R)) (foldE (add_plan_case rid pattern at) s items)"
  by (rule foldE_through [where f = "add_plan_case rid pattern at" and u = "st_Runs_update (\<lambda>_. R)"]) (rule add_plan_case_runs)

definition demo_store :: store where
  "demo_store = fresh_store\<lparr>st_Runs := [demo_run]\<rparr>"

lemma demo_rows:
  "\<exists>plan. Compile no_digest demo_run demo_flood ''phase_b_dispatch'' = Inr plan \<and> plan_keyed plan \<and>
     pl_RunID plan = run_ID demo_run \<and> pl_Pattern plan \<noteq> '''' \<and>
     length (pl_Cases plan) = 2 \<and> length (cl_Alerts (hd (pl_Cases plan))) = 6 \<and>
     as_error (foldE (add_plan_case (run_ID demo_run) (pl_Pattern plan) 1) demo_store (map stored_case (pl_Cases plan))) = None"
proof -
  have "(case Compile no_digest demo_run demo_flood ''phase_b_dispatch'' of Inl e \<Rightarrow> False | Inr plan \<Rightarrow>
      plan_keyed plan \<and> pl_RunID plan = run_ID demo_run \<and> pl_Pattern plan \<noteq> '''' \<and>
      length (pl_Cases plan) = 2 \<and> length (cl_Alerts (hd (pl_Cases plan))) = 6 \<and>
      as_error (foldE (add_plan_case (run_ID demo_run) (pl_Pattern plan) 1) demo_store (map stored_case (pl_Cases plan))) = None)"
    by code_simp
  then show ?thesis by (auto split: sum.splits)
qed

lemma demo_documents:
  "\<exists>plan t. Compile no_digest demo_run demo_flood ''phase_b_dispatch'' = Inr plan \<and> plan_keyed plan \<and>
     length (pl_Cases plan) = 2 \<and> length (cl_Alerts (hd (pl_Cases plan))) = 6 \<and>
     SetRunExecutionDocuments demo_store (run_ID demo_run) (Doc JNull) (Doc (marshal_plan plan)) 1 = Inr t"
proof -
  from demo_rows obtain plan t where c: "Compile no_digest demo_run demo_flood ''phase_b_dispatch'' = Inr plan"
    and p: "plan_keyed plan" "pl_RunID plan = run_ID demo_run" "pl_Pattern plan \<noteq> ''''"
      "length (pl_Cases plan) = 2" "length (cl_Alerts (hd (pl_Cases plan))) = 6"
    and t: "foldE (add_plan_case (run_ID demo_run) (pl_Pattern plan) 1) demo_store (map stored_case (pl_Cases plan)) = Inr t"
    unfolding as_error_None by blast
  have "affected (\<lambda>r. run_ID r = run_ID demo_run) (st_Runs demo_store) = 1"
    by (simp add: demo_store_def affected_def)
  then have "\<exists>t. SetRunExecutionDocuments demo_store (run_ID demo_run) (Doc JNull) (Doc (marshal_plan plan)) 1 = Inr t"
    using p t by (simp add: SetRunExecutionDocuments_def decode_marshal_plan add_plan_cases_runs)
  with c p show ?thesis by blast
qed

theorem attempts_are_planned_witness:
  "\<exists>plan t u. Compile no_digest demo_run demo_flood ''phase_b_dispatch'' = Inr plan \<and>
     SetRunExecutionDocuments demo_store (run_ID demo_run) (Doc JNull) (Doc (marshal_plan plan)) 1 = Inr t \<and>
     finalize_attempt (run_ID demo_run) 2 t ((prepared_attempt (hd (pl_Cases plan)) 5 (cl_Alerts (hd (pl_Cases plan)) ! 5))
       \<lparr>aa_SendState := ''SENT'', aa_InjectionClass := ''accepted'', aa_StatusCode := 200\<rparr>) = Inr u"
proof -
  from demo_documents obtain plan t where c: "Compile no_digest demo_run demo_flood ''phase_b_dispatch'' = Inr plan"
    and p: "plan_keyed plan" "length (pl_Cases plan) = 2" "length (cl_Alerts (hd (pl_Cases plan))) = 6"
    and t: "SetRunExecutionDocuments demo_store (run_ID demo_run) (Doc JNull) (Doc (marshal_plan plan)) 1 = Inr t" by blast
  have none: "list_all (\<lambda>x. at_RunID x \<noteq> run_ID demo_run) (st_Attempts demo_store)"
    by (simp add: demo_store_def fresh_store_def)
  have "hd (pl_Cases plan) \<in> set (pl_Cases plan)" "5 < length (cl_Alerts (hd (pl_Cases plan)))" using p by (cases "pl_Cases plan"; simp)+
  from attempts_are_planned [OF c p(1) t none this] c t show ?thesis by blast
qed

end
