(* ===== verification/Snmp_Load.thy ===== *)
theory Snmp_Load
  imports Oscar_Types
begin

text \<open>
  Bounded SNMP load (\<^verbatim>\<open>internal/snmpload\<close>): options, the fixture of an episode, the compilation of a
  packet schedule (plan.go); the reconciliation of its episodes is in \<^theory_text>\<open>Snmp_Reconcile\<close>. Sending packets (sender.go) runs an external program and is not modelled. Instants of a schedule
  are milliseconds from its start. Every number of a schedule is below \<open>2 ^ 40\<close> once the options
  are valid, so that \<^verbatim>\<open>int\<close> and \<^verbatim>\<open>int64\<close> do not wrap.
\<close>

section \<open>Types (plan.go)\<close>

record LoadOptions =
  lo_Port :: int
  lo_Profile :: string
  lo_Rate :: int
  lo_Duration :: int
  lo_ClearDelay :: int
  lo_DrainTimeout :: int

record Varbind =
  vb_OID :: string
  vb_Type :: string
  vb_Value :: string

record Episode =
  ep_Family :: string
  ep_Token :: string
  ep_Mapping :: string
  ep_MappingSource :: string
  ep_MappingSHA256 :: string
  ep_AlertName :: string
  ep_AlertGroup :: string
  ep_Agent :: string
  ep_Severity :: string
  ep_AlertKey :: string
  ep_ProblemOID :: string
  ep_ClearOID :: string
  ep_Varbinds :: "Varbind list"

record Packet =
  pk_Episode :: nat
  pk_Kind :: string
  pk_AtMillis :: int

record LoadPlan =
  lp_RunID :: string
  lp_Pattern :: string
  lp_InputPath :: string
  lp_Options :: LoadOptions
  lp_OfferPackets :: int
  lp_Episodes :: "Episode list"
  lp_Packets :: "Packet list"

datatype LoadError = LoadBounds | LoadProfile | FixtureIdentity | FixtureFamily

definition Families :: "string list" where
  "Families = [''dhcpv6-limit'', ''dhcp-limit'', ''aaa-server'', ''address-pool'']"

definition options_Validate :: "LoadOptions \<Rightarrow> LoadError option" where
  "options_Validate o' =
     (if lo_Port o' < 1 \<or> 65535 < lo_Port o' \<or> lo_Rate o' < 1 \<or> 25 < lo_Rate o' \<or> lo_Duration o' < 10 \<or>
         600 < lo_Duration o' \<or> lo_ClearDelay o' < 1 \<or> 120 < lo_ClearDelay o' \<or> lo_DrainTimeout o' < 10 \<or>
         1800 < lo_DrainTimeout o' then Some LoadBounds
      else if lo_Profile o' \<noteq> ''mixed'' \<and> lo_Profile o' \<notin> set Families then Some LoadProfile
      else None)"

section \<open>Fixtures\<close>

text \<open>\<^verbatim>\<open>^[A-Za-z0-9_-]{1,80}$\<close>\<close>

definition identity_char :: "char \<Rightarrow> bool" where
  "identity_char c \<longleftrightarrow> is_alpha c \<or> is_digit c \<or> c = CHR ''_'' \<or> c = CHR ''-''"

definition fixture_identity :: "string \<Rightarrow> int \<Rightarrow> bool" where
  "fixture_identity runID sequence \<longleftrightarrow> runID \<noteq> '''' \<and> length runID \<le> 80 \<and> list_all identity_char runID \<and>
     0 \<le> sequence \<and> sequence \<le> 15000"

definition fixture_token :: "string \<Rightarrow> int \<Rightarrow> string" where
  "fixture_token runID sequence = ''ct-'' @ runID @ ''-'' @ itoa sequence"

definition dhcp_interface :: "int \<Rightarrow> string \<Rightarrow> string" where
  "dhcp_interface sequence suffix = ''ge-0/0/'' @ itoa (sequence mod 48) @ suffix"

definition dhcpv6_fixture :: "string \<Rightarrow> int \<Rightarrow> Episode" where
  "dhcpv6_fixture token sequence =
     (let m = ''1.3.6.1.4.1.2636.3.62.62.2.3''; iface = dhcp_interface sequence ''.200''
      in \<lparr>ep_Family = ''dhcpv6-limit'', ep_Token = token, ep_Mapping = m,
          ep_MappingSource = ''juniper-jdhcpv6-mapping.json'',
          ep_MappingSHA256 = ''a108b4efdc582f2fbcc80de40277c48320c6c3728e5d09b82fa0d5097eba534a'',
          ep_AlertName = ''jnx_jdhcpv6_local_server_interface_limit_status'',
          ep_AlertGroup = ''jnxJdhcpv6LocalServerInterfaceLimitStatus'', ep_Agent = ''JUNIPER-JDHCPV6-MIB'',
          ep_Severity = ''major'',
          ep_AlertKey = ''jnxJdhcpv6RouterName:'' @ token @ '', jnxJdhcpv6LocalServerInterfaceName:'' @ iface,
          ep_ProblemOID = m @ ''.0.1'', ep_ClearOID = m @ ''.0.2'',
          ep_Varbinds = [\<lparr>vb_OID = ''1.3.6.1.4.1.2636.3.62.62.2.4.1.0'', vb_Type = ''s'', vb_Value = token\<rparr>,
            \<lparr>vb_OID = ''1.3.6.1.4.1.2636.3.62.62.2.4.2.0'', vb_Type = ''s'', vb_Value = iface\<rparr>,
            \<lparr>vb_OID = ''1.3.6.1.4.1.2636.3.62.62.2.4.3.0'', vb_Type = ''u'', vb_Value = ''2048''\<rparr>]\<rparr>)"

definition dhcp_fixture :: "string \<Rightarrow> int \<Rightarrow> Episode" where
  "dhcp_fixture token sequence =
     (let m = ''1.3.6.1.4.1.2636.3.61.61.1.3''; iface = dhcp_interface sequence ''.100''
      in \<lparr>ep_Family = ''dhcp-limit'', ep_Token = token, ep_Mapping = m,
          ep_MappingSource = ''juniper-jdhcp-jdhcp-1-3-mapping.json'',
          ep_MappingSHA256 = ''97816fe5ee90dc61434f64b042604d6bbd3622a08d6ab33402703681c34cd462'',
          ep_AlertName = ''jnx_jdhcp_local_server_interface_limit_status'',
          ep_AlertGroup = ''jnxJdhcpLocalServerInterfaceLimitStatus'', ep_Agent = ''JUNIPER-JDHCP-MIB'',
          ep_Severity = ''major'',
          ep_AlertKey = ''jnxJdhcpRouterName:'' @ token @ '', jnxJdhcpLocalServerInterfaceName:'' @ iface,
          ep_ProblemOID = m @ ''.0.2'', ep_ClearOID = m @ ''.0.3'',
          ep_Varbinds = [\<lparr>vb_OID = ''1.3.6.1.4.1.2636.3.61.61.1.4.2.0'', vb_Type = ''s'', vb_Value = token\<rparr>,
            \<lparr>vb_OID = ''1.3.6.1.4.1.2636.3.61.61.1.4.4.0'', vb_Type = ''s'', vb_Value = iface\<rparr>,
            \<lparr>vb_OID = ''1.3.6.1.4.1.2636.3.61.61.1.4.5.0'', vb_Type = ''u'', vb_Value = ''1024''\<rparr>]\<rparr>)"

definition aaa_fixture :: "string \<Rightarrow> string \<Rightarrow> Episode" where
  "aaa_fixture family token =
     (let m = ''1.3.6.1.4.1.2636.3.51.1'';
          base = \<lparr>ep_Family = family, ep_Token = token, ep_Mapping = m,
            ep_MappingSource = ''juniper-user-aaa-mapping.json'',
            ep_MappingSHA256 = ''d830dd889e87773fad3ad87a54c8eac6869cf7dac2ed4fb95798e521a812dad9'',
            ep_AlertName = '''', ep_AlertGroup = '''', ep_Agent = ''JUNIPER-USER-AAA-MIB'', ep_Severity = ''major'',
            ep_AlertKey = '''', ep_ProblemOID = '''', ep_ClearOID = '''', ep_Varbinds = []\<rparr>
      in if family = ''aaa-server'' then base
           \<lparr>ep_AlertName := ''jnx_access_auth_server_status'', ep_AlertGroup := ''jnxAccessAuthServerStatus'',
            ep_Severity := ''critical'', ep_AlertKey := ''jnxUserAAAServerName:'' @ token,
            ep_ProblemOID := m @ ''.0.3'', ep_ClearOID := m @ ''.0.4'',
            ep_Varbinds := [\<lparr>vb_OID = m @ ''.1.3.1.0'', vb_Type = ''s'', vb_Value = token\<rparr>]\<rparr>
         else base
           \<lparr>ep_AlertName := ''jnx_access_auth_address_pool_threshold_status'',
            ep_AlertGroup := ''jnxAccessAuthAddressPoolThresholdStatus'',
            ep_AlertKey := ''jnxUserAAAAddressPoolName:'' @ token,
            ep_ProblemOID := m @ ''.0.5'', ep_ClearOID := m @ ''.0.6'',
            ep_Varbinds := [\<lparr>vb_OID = m @ ''.1.3.2.0'', vb_Type = ''s'', vb_Value = token\<rparr>]\<rparr>)"

definition Fixture :: "string \<Rightarrow> int \<Rightarrow> string \<Rightarrow> LoadError + Episode" where
  "Fixture runID sequence family =
     (let token = fixture_token runID sequence
      in if \<not> fixture_identity runID sequence then Inl FixtureIdentity
         else if family = ''dhcpv6-limit'' then Inr (dhcpv6_fixture token sequence)
         else if family = ''dhcp-limit'' then Inr (dhcp_fixture token sequence)
         else if family = ''aaa-server'' \<or> family = ''address-pool'' then Inr (aaa_fixture family token)
         else Inl FixtureFamily)"

section \<open>Compilation\<close>

record schedule =
  sd_Created :: "int list"
  sd_Repeated :: "bool list"
  sd_Pending :: "nat list"
  sd_Episodes :: "Episode list"
  sd_Packets :: "Packet list"

definition slots :: string where
  "slots = ''PPPPRCPCCC''"

definition load_family :: "LoadOptions \<Rightarrow> nat \<Rightarrow> string" where
  "load_family o' i =
     (if lo_Profile o' = ''mixed'' then Families ! ([0, 1, 2, 3, 0, 1, 0, 2, 1, 0] ! (i mod 10)) else lo_Profile o')"

definition clear_millis :: "LoadOptions \<Rightarrow> int" where
  "clear_millis o' = lo_ClearDelay o' * 1000"

text \<open>The packet of a slot that is not a new problem, if there is one.\<close>

definition due_clear :: "LoadOptions \<Rightarrow> schedule \<Rightarrow> int \<Rightarrow> bool" where
  "due_clear o' s at \<longleftrightarrow>
     (case sd_Pending s of [] \<Rightarrow> False | n # rest \<Rightarrow> clear_millis o' \<le> at - sd_Created s ! n)"

definition repeatable :: "LoadOptions \<Rightarrow> schedule \<Rightarrow> int \<Rightarrow> nat \<Rightarrow> bool" where
  "repeatable o' s at n \<longleftrightarrow> \<not> sd_Repeated s ! n \<and> 1000 \<le> at - sd_Created s ! n \<and>
     1000 \<le> sd_Created s ! n + clear_millis o' - at"

definition add_packet :: "nat \<Rightarrow> string \<Rightarrow> int \<Rightarrow> schedule \<Rightarrow> schedule" where
  "add_packet n kind at s = s\<lparr>sd_Packets := sd_Packets s @ [\<lparr>pk_Episode = n, pk_Kind = kind, pk_AtMillis = at\<rparr>]\<rparr>"

definition new_problem :: "string \<Rightarrow> LoadOptions \<Rightarrow> int \<Rightarrow> schedule \<Rightarrow> LoadError + schedule" where
  "new_problem runID o' at s =
     (let n = length (sd_Episodes s)
      in case Fixture runID (int n) (load_family o' n) of
           Inl e \<Rightarrow> Inl e
         | Inr e \<Rightarrow> Inr (add_packet n ''problem'' at (s
             \<lparr>sd_Episodes := sd_Episodes s @ [e], sd_Created := sd_Created s @ [at],
              sd_Repeated := sd_Repeated s @ [False], sd_Pending := sd_Pending s @ [n]\<rparr>)))"

definition offer_step :: "string \<Rightarrow> LoadOptions \<Rightarrow> schedule \<Rightarrow> nat \<Rightarrow> LoadError + schedule" where
  "offer_step runID o' s i =
     (let at = int i * 1000 div lo_Rate o'; slot = slots ! (i mod length slots)
      in if slot = CHR ''C'' \<and> due_clear o' s at then
           Inr (add_packet (hd (sd_Pending s)) ''clear'' at (s\<lparr>sd_Pending := tl (sd_Pending s)\<rparr>))
         else case (if slot = CHR ''R'' then find (repeatable o' s at) (sd_Pending s) else None) of
             Some n \<Rightarrow> Inr (add_packet n ''repeat'' at (s\<lparr>sd_Repeated := (sd_Repeated s)[n := True]\<rparr>))
           | None \<Rightarrow> new_problem runID o' at s)"

text \<open>The pending episodes are cleared in order after the offer, at the same rate.\<close>

definition drain_gap :: "LoadOptions \<Rightarrow> int" where
  "drain_gap o' = (1000 + lo_Rate o' - 1) div lo_Rate o'"

fun drain :: "LoadOptions \<Rightarrow> int list \<Rightarrow> int \<Rightarrow> nat list \<Rightarrow> Packet list" where
  "drain o' created at [] = []"
| "drain o' created at (n # rest) =
     (let at = max at (created ! n + clear_millis o')
      in \<lparr>pk_Episode = n, pk_Kind = ''clear'', pk_AtMillis = at\<rparr> # drain o' created (at + drain_gap o') rest)"

definition no_schedule :: schedule where
  "no_schedule = \<lparr>sd_Created = [], sd_Repeated = [], sd_Pending = [], sd_Episodes = [], sd_Packets = []\<rparr>"

definition load_Compile :: "string \<Rightarrow> LoadOptions \<Rightarrow> LoadError + LoadPlan" where
  "load_Compile runID o' =
     (case options_Validate o' of
        Some e \<Rightarrow> Inl e
      | None \<Rightarrow>
          (let offered = lo_Rate o' * lo_Duration o'
           in case foldE (offer_step runID o') no_schedule [0..<nat offered] of
                Inl e \<Rightarrow> Inl e
              | Inr s \<Rightarrow> Inr
                  \<lparr>lp_RunID = runID, lp_Pattern = ''snmp-load'', lp_InputPath = ''snmp-load'', lp_Options = o',
                   lp_OfferPackets = offered, lp_Episodes = sd_Episodes s,
                   lp_Packets = sd_Packets s @ drain o' (sd_Created s) (lo_Duration o' * 1000) (sd_Pending s)\<rparr>))"

end
