(* ===== verification/Snmp_Properties.thy ===== *)
theory Snmp_Properties
  imports Snmp_Load
begin

text \<open>
  What a compiled load schedule promises: the life of every episode and the pace of the packets.
\<close>

section \<open>The life of an episode\<close>

definition packets_of :: "nat \<Rightarrow> Packet list \<Rightarrow> Packet list" where
  "packets_of n = filter (\<lambda>p. pk_Episode p = n)"

abbreviation packet :: "nat \<Rightarrow> string \<Rightarrow> int \<Rightarrow> Packet" where
  "packet n kind at \<equiv> \<lparr>pk_Episode = n, pk_Kind = kind, pk_AtMillis = at\<rparr>"

text \<open>
  A problem at \<open>c\<close>; at most one repeat, at least a second after it and at least a second before
  the earliest clear; and, once cleared, one clear that is not early.
\<close>

definition lived :: "int \<Rightarrow> int \<Rightarrow> nat \<Rightarrow> bool \<Rightarrow> bool \<Rightarrow> Packet list \<Rightarrow> bool" where
  "lived c delay n repeated cleared ps \<longleftrightarrow>
     (\<exists>again gone. ps = [packet n ''problem'' c] @ (if repeated then [packet n ''repeat'' again] else []) @
        (if cleared then [packet n ''clear'' gone] else []) \<and>
      (repeated \<longrightarrow> c + 1000 \<le> again \<and> again \<le> c + delay - 1000) \<and> (cleared \<longrightarrow> c + delay \<le> gone))"

lemma lived_problem: "lived c delay n False False [packet n ''problem'' c]"
  by (simp add: lived_def)

lemma lived_repeat: "lived c delay n False False ps \<Longrightarrow> c + 1000 \<le> at \<Longrightarrow> at \<le> c + delay - 1000 \<Longrightarrow>
    lived c delay n True False (ps @ [packet n ''repeat'' at])"
  by (simp add: lived_def)

lemma lived_clear: "lived c delay n repeated False ps \<Longrightarrow> c + delay \<le> at \<Longrightarrow>
    lived c delay n repeated True (ps @ [packet n ''clear'' at])"
  by (auto simp: lived_def)

definition offer_inv :: "LoadOptions \<Rightarrow> nat \<Rightarrow> schedule \<Rightarrow> bool" where
  "offer_inv o' k s \<longleftrightarrow>
     length (sd_Created s) = length (sd_Episodes s) \<and> length (sd_Repeated s) = length (sd_Episodes s) \<and>
     distinct (sd_Pending s) \<and> (\<forall>n \<in> set (sd_Pending s). n < length (sd_Episodes s)) \<and>
     (\<forall>p \<in> set (sd_Packets s). pk_Episode p < length (sd_Episodes s)) \<and>
     (\<forall>n < length (sd_Episodes s). lived (sd_Created s ! n) (clear_millis o') n (sd_Repeated s ! n)
        (n \<notin> set (sd_Pending s)) (packets_of n (sd_Packets s))) \<and>
     map pk_AtMillis (sd_Packets s) = map (\<lambda>i. int i * 1000 div lo_Rate o') [0..<k]"

lemma packets_of_append [simp]: "packets_of n (ps @ [packet m kind at]) = packets_of n ps @ (if m = n then [packet m kind at] else [])"
  by (simp add: packets_of_def)

lemma packets_of_fresh: "\<forall>p \<in> set ps. pk_Episode p < n \<Longrightarrow> packets_of n ps = []"
  by (auto simp: packets_of_def filter_empty_conv)

lemma offer_clear:
  assumes "offer_inv o' k s" and "due_clear o' s (int k * 1000 div lo_Rate o')"
  shows "offer_inv o' (Suc k) (add_packet (hd (sd_Pending s)) ''clear'' (int k * 1000 div lo_Rate o') (s\<lparr>sd_Pending := tl (sd_Pending s)\<rparr>))"
proof -
  from assms(2) obtain n rest where p: "sd_Pending s = n # rest"
      "clear_millis o' \<le> int k * 1000 div lo_Rate o' - sd_Created s ! n"
    by (auto simp: due_clear_def split: list.splits)
  then show ?thesis
    using assms(1) lived_clear [of "sd_Created s ! n" "clear_millis o'" n "sd_Repeated s ! n" "packets_of n (sd_Packets s)"
        "int k * 1000 div lo_Rate o'"]
    by (auto simp: offer_inv_def add_packet_def)
qed

lemma offer_repeat:
  assumes "offer_inv o' k s" and "find (repeatable o' s (int k * 1000 div lo_Rate o')) (sd_Pending s) = Some n"
  shows "offer_inv o' (Suc k) (add_packet n ''repeat'' (int k * 1000 div lo_Rate o') (s\<lparr>sd_Repeated := (sd_Repeated s)[n := True]\<rparr>))"
proof -
  from assms(2) have n: "n \<in> set (sd_Pending s)" "repeatable o' s (int k * 1000 div lo_Rate o') n"
    by (auto simp: find_Some_iff)
  then show ?thesis
    using assms(1) lived_repeat [of "sd_Created s ! n" "clear_millis o'" n "packets_of n (sd_Packets s)" "int k * 1000 div lo_Rate o'"]
    by (auto simp: offer_inv_def add_packet_def repeatable_def nth_list_update)
qed

lemma offer_problem:
  assumes "offer_inv o' k s" and "new_problem runID o' (int k * 1000 div lo_Rate o') s = Inr t"
  shows "offer_inv o' (Suc k) t"
proof -
  let ?n = "length (sd_Episodes s)" and ?at = "int k * 1000 div lo_Rate o'"
  from assms(2) obtain e where t: "t = add_packet ?n ''problem'' ?at (s\<lparr>sd_Episodes := sd_Episodes s @ [e],
      sd_Created := sd_Created s @ [?at], sd_Repeated := sd_Repeated s @ [False], sd_Pending := sd_Pending s @ [?n]\<rparr>)"
    by (auto simp: new_problem_def Let_def split: sum.splits)
  have "packets_of ?n (sd_Packets s) = []"
    using assms(1) by (intro packets_of_fresh) (simp add: offer_inv_def)
  then show ?thesis
    using assms(1) lived_problem [of ?at "clear_millis o'" ?n]
    unfolding t offer_inv_def add_packet_def by (auto simp: nth_append less_Suc_eq)
qed

lemma offer_step_inv: "offer_inv o' k s \<Longrightarrow> offer_step runID o' s k = Inr t \<Longrightarrow> offer_inv o' (Suc k) t"
  unfolding offer_step_def Let_def
  by (auto split: if_splits option.splits dest: offer_clear offer_repeat offer_problem)

lemma offer_loop:
  "foldE (offer_step runID o') s [k..<n] = Inr t \<Longrightarrow> k \<le> n \<Longrightarrow> offer_inv o' k s \<Longrightarrow> offer_inv o' n t"
proof (induction "n - k" arbitrary: k s)
  case (Suc d)
  then have "k < n" by simp
  then have "[k..<n] = k # [Suc k..<n]" by (rule upt_conv_Cons)
  with Suc.prems(1) obtain u where u: "offer_step runID o' s k = Inr u" "foldE (offer_step runID o') u [Suc k..<n] = Inr t"
    by (auto split: sum.splits)
  show ?case
    by (rule Suc.hyps(1) [OF _ u(2) _ offer_step_inv [OF Suc.prems(3) u(1)]]) (use Suc.hyps(2) \<open>k < n\<close> in simp_all)
qed simp

lemma load_Compile_Inr:
  assumes "load_Compile runID o' = Inr p"
  obtains s where "options_Validate o' = None" and "offer_inv o' (nat (lo_Rate o' * lo_Duration o')) s"
    and "foldE (offer_step runID o') no_schedule [0..<nat (lo_Rate o' * lo_Duration o')] = Inr s"
    and "lp_Episodes p = sd_Episodes s" and "lp_Options p = o'" and "lp_RunID p = runID"
    and "lp_OfferPackets p = lo_Rate o' * lo_Duration o'"
    and "lp_Packets p = sd_Packets s @ drain o' (sd_Created s) (lo_Duration o' * 1000) (sd_Pending s)"
proof -
  from assms obtain s where s: "options_Validate o' = None"
      "foldE (offer_step runID o') no_schedule [0..<nat (lo_Rate o' * lo_Duration o')] = Inr s"
      "lp_Episodes p = sd_Episodes s" "lp_Options p = o'" "lp_RunID p = runID" "lp_OfferPackets p = lo_Rate o' * lo_Duration o'"
      "lp_Packets p = sd_Packets s @ drain o' (sd_Created s) (lo_Duration o' * 1000) (sd_Pending s)"
    by (auto simp: load_Compile_def Let_def split: option.splits sum.splits)
  have "offer_inv o' 0 no_schedule" by (simp add: offer_inv_def no_schedule_def)
  from that [OF s(1) offer_loop [OF s(2) _ this] s(2-)] show ?thesis by simp
qed

lemma drain_other: "n \<notin> set pending \<Longrightarrow> packets_of n (drain o' created at pending) = []"
  by (induction pending arbitrary: at) (auto simp: packets_of_def Let_def)

lemma drain_own:
  "distinct pending \<Longrightarrow> n \<in> set pending \<Longrightarrow>
   \<exists>gone. created ! n + clear_millis o' \<le> gone \<and> packets_of n (drain o' created at pending) = [packet n ''clear'' gone]"
proof (induction pending arbitrary: at)
  case (Cons m rest)
  show ?case
  proof (cases "m = n")
    case True
    with Cons.prems(1) have "packets_of n (drain o' created t rest) = []" for t by (auto intro: drain_other)
    with True show ?thesis by (simp add: packets_of_def Let_def)
  next
    case False
    with Cons.prems Cons.IH show ?thesis by (auto simp: packets_of_def Let_def)
  qed
qed simp

lemma drain_episodes: "p \<in> set (drain o' created at pending) \<Longrightarrow> pk_Episode p \<in> set pending"
  by (induction pending arbitrary: at) (auto simp: Let_def)

definition demo_options :: LoadOptions where
  "demo_options = \<lparr>lo_Port = 162, lo_Profile = ''mixed'', lo_Rate = 2, lo_Duration = 10, lo_ClearDelay = 3, lo_DrainTimeout = 60\<rparr>"

lemma demo_load: "\<exists>p. load_Compile ''crt_1'' demo_options = Inr p \<and> length (lp_Episodes p) = 11 \<and> length (lp_Packets p) = 24"
proof -
  have "(case load_Compile ''crt_1'' demo_options of Inl e \<Rightarrow> False | Inr p \<Rightarrow>
      length (lp_Episodes p) = 11 \<and> length (lp_Packets p) = 24)"
    by code_simp
  then show ?thesis by (auto split: sum.splits)
qed

text \<open>
  C24. Every episode of a compiled load runs its whole life: its packets are one problem, at most one
  repeat, at least a second after the problem and a second before the clear is due, and exactly
  one clear, not before the configured delay; and no packet belongs to an episode that is not in
  the plan.
\<close>

theorem load_lives_complete:
  assumes "load_Compile runID o' = Inr p"
  shows "(\<forall>n < length (lp_Episodes p). \<exists>c repeated.
      lived c (lo_ClearDelay (lp_Options p) * 1000) n repeated True (packets_of n (lp_Packets p))) \<and>
    list_all (\<lambda>q. pk_Episode q < length (lp_Episodes p)) (lp_Packets p)"
proof -
  from load_Compile_Inr [OF assms] obtain s where inv: "offer_inv o' (nat (lo_Rate o' * lo_Duration o')) s"
    and p: "lp_Episodes p = sd_Episodes s" "lp_Options p = o'"
      "lp_Packets p = sd_Packets s @ drain o' (sd_Created s) (lo_Duration o' * 1000) (sd_Pending s)" by metis
  let ?drained = "drain o' (sd_Created s) (lo_Duration o' * 1000) (sd_Pending s)"
  have "\<exists>c repeated. lived c (lo_ClearDelay o' * 1000) n repeated True (packets_of n (sd_Packets s @ ?drained))"
    if n: "n < length (sd_Episodes s)" for n
  proof (cases "n \<in> set (sd_Pending s)")
    case True
    with inv n have life: "lived (sd_Created s ! n) (clear_millis o') n (sd_Repeated s ! n) False (packets_of n (sd_Packets s))"
      by (auto simp: offer_inv_def)
    from inv have "distinct (sd_Pending s)" by (simp add: offer_inv_def)
    from drain_own [OF this True] obtain gone where "sd_Created s ! n + clear_millis o' \<le> gone"
      "packets_of n ?drained = [packet n ''clear'' gone]" by blast
    with lived_clear [OF life, of gone] show ?thesis by (auto simp: packets_of_def clear_millis_def)
  next
    case False
    from inv n have "lived (sd_Created s ! n) (clear_millis o') n (sd_Repeated s ! n) (n \<notin> set (sd_Pending s)) (packets_of n (sd_Packets s))"
      by (simp add: offer_inv_def)
    with False have "lived (sd_Created s ! n) (clear_millis o') n (sd_Repeated s ! n) True (packets_of n (sd_Packets s))" by simp
    moreover have "packets_of n (sd_Packets s @ ?drained) = packets_of n (sd_Packets s)"
      using drain_other [OF False] by (simp add: packets_of_def)
    ultimately show ?thesis unfolding clear_millis_def by metis
  qed
  moreover have "list_all (\<lambda>q. pk_Episode q < length (sd_Episodes s)) (sd_Packets s @ ?drained)"
    using inv drain_episodes by (fastforce simp: offer_inv_def list_all_iff)
  ultimately show ?thesis by (simp add: p)
qed

theorem load_lives_complete_witness:
  "\<exists>p. load_Compile ''crt_1'' demo_options = Inr p \<and>
     (\<exists>c repeated. lived c 3000 0 repeated True (packets_of 0 (lp_Packets p)))"
proof -
  from demo_load obtain p where p: "load_Compile ''crt_1'' demo_options = Inr p" "length (lp_Episodes p) = 11" by blast
  from load_Compile_Inr [OF p(1)] have "lp_Options p = demo_options" by metis
  with load_lives_complete [OF p(1)] p show ?thesis by (auto simp: demo_options_def)
qed

section \<open>The pace of a load\<close>

lemma drain_pace:
  assumes "0 \<le> drain_gap o'"
  shows "j < length pending \<Longrightarrow> at + int j * drain_gap o' \<le> pk_AtMillis (drain o' created at pending ! j)"
proof (induction pending arbitrary: at j)
  case (Cons n rest)
  let ?at = "max at (created ! n + clear_millis o')"
  show ?case
  proof (cases j)
    case (Suc i)
    with Cons have "?at + drain_gap o' + int i * drain_gap o' \<le> pk_AtMillis (drain o' created (?at + drain_gap o') rest ! i)" by simp
    with Suc show ?thesis by (simp add: Let_def algebra_simps)
  qed (simp add: Let_def)
qed simp

lemma length_drain [simp]: "length (drain o' created at pending) = length pending"
  by (induction pending arbitrary: at) (simp_all add: Let_def)

lemma drain_spaced:
  assumes "0 \<le> drain_gap o'"
  shows "i \<le> j \<Longrightarrow> j < length pending \<Longrightarrow>
    pk_AtMillis (drain o' created at pending ! i) + int (j - i) * drain_gap o' \<le> pk_AtMillis (drain o' created at pending ! j)"
proof (induction pending arbitrary: at i j)
  case (Cons n rest)
  let ?at = "max at (created ! n + clear_millis o')"
  show ?case
  proof (cases i)
    case 0
    show ?thesis
    proof (cases j)
      case (Suc k)
      with Cons.prems have "?at + drain_gap o' + int k * drain_gap o' \<le> pk_AtMillis (drain o' created (?at + drain_gap o') rest ! k)"
        by (intro drain_pace [OF assms]) simp
      with 0 Suc show ?thesis by (simp add: Let_def algebra_simps)
    qed (use 0 in simp)
  next
    case (Suc k)
    with Cons.prems obtain l where "j = Suc l" by (cases j) auto
    with Suc Cons show ?thesis by (simp add: Let_def)
  qed
qed simp

lemma drain_gap_covers: "0 < lo_Rate o' \<Longrightarrow> 1000 \<le> drain_gap o' * lo_Rate o'"
proof -
  assume "0 < lo_Rate o'"
  then show ?thesis
    using div_mult_mod_eq [of "1000 + lo_Rate o' - 1" "lo_Rate o'"] pos_mod_bound [of "lo_Rate o'" "1000 + lo_Rate o' - 1"]
    unfolding drain_gap_def by linarith
qed

lemma window:
  assumes "0 < r" shows "(i + int (nat r)) * 1000 div r = i * 1000 div r + 1000"
proof -
  have "(i + int (nat r)) * 1000 = i * 1000 + r * 1000" using assms by (simp add: algebra_simps)
  then show ?thesis using assms by simp
qed

lemma below_drain:
  assumes "0 < r" and "1000 \<le> gap * r" shows "int j * 1000 div r \<le> int j * gap"
proof -
  have "int j * 1000 \<le> int j * gap * r" using mult_left_mono [OF assms(2), of "int j"] by (simp add: algebra_simps)
  then have "int j * 1000 div r \<le> int j * gap * r div r" using assms(1) by (rule zdiv_mono1)
  with assms(1) show ?thesis by simp
qed

text \<open>
  C25. A compiled load keeps its rate from the first packet to the last: between any packet and the
  one \<open>rate\<close> places later at least a second passes, during the offer, across its end and while
  the pending episodes are cleared.
\<close>

theorem load_keeps_rate:
  assumes "load_Compile runID o' = Inr p" and "i + nat (lo_Rate o') < length (lp_Packets p)"
  shows "pk_AtMillis (lp_Packets p ! i) + 1000 \<le> pk_AtMillis (lp_Packets p ! (i + nat (lo_Rate o')))"
proof -
  let ?r = "lo_Rate o'" let ?R = "nat ?r" and ?D = "lo_Duration o'"
  let ?N = "nat (?r * ?D)" and ?gap = "drain_gap o'"
  from load_Compile_Inr [OF assms(1)] obtain s where valid: "options_Validate o' = None" and inv: "offer_inv o' ?N s"
    and p: "lp_Packets p = sd_Packets s @ drain o' (sd_Created s) (?D * 1000) (sd_Pending s)" by metis
  let ?d = "drain o' (sd_Created s) (?D * 1000) (sd_Pending s)"
  from valid have bounds: "0 < ?r" "0 < ?D" by (auto simp: options_Validate_def split: if_splits)
  note gap = drain_gap_covers [OF bounds(1)]
  have gap0: "0 \<le> ?gap" using bounds by (simp add: drain_gap_def pos_imp_zdiv_nonneg_iff)
  from inv have offered: "map pk_AtMillis (sd_Packets s) = map (\<lambda>i. int i * 1000 div ?r) [0..<?N]" by (simp add: offer_inv_def)
  from arg_cong [OF offered, of length] have N: "length (sd_Packets s) = ?N" by simp
  have sent: "pk_AtMillis (sd_Packets s ! k) = int k * 1000 div ?r" if "k < ?N" for k
    using arg_cong [OF offered, of "\<lambda>xs. xs ! k"] that N by simp
  have N': "int ?N = ?r * ?D" using bounds by simp
  consider "i + ?R < ?N" | "i < ?N" "?N \<le> i + ?R" | "?N \<le> i" by linarith
  then show ?thesis
  proof cases
    case 1
    then show ?thesis using sent [of i] sent [of "i + ?R"] window [OF bounds(1), of "int i"] by (simp add: p N nth_append)
  next
    case 2
    define j where "j = i + ?R - ?N"
    have i: "int i = (?D - 1) * ?r + int j" using 2 N' bounds by (simp add: j_def algebra_simps)
    have j: "j < length (sd_Pending s)" using assms(2) 2 N by (simp add: p j_def)
    have "int i * 1000 div ?r = (int j * 1000 + ?r * ((?D - 1) * 1000)) div ?r" by (simp add: i algebra_simps)
    also have "\<dots> = int j * 1000 div ?r + (?D - 1) * 1000" using bounds(1) by simp
    also have "\<dots> \<le> int j * ?gap + (?D - 1) * 1000" using below_drain [OF bounds(1) gap, of j] by simp
    finally show ?thesis
      using 2 N sent [of i] drain_pace [OF gap0 j, of "?D * 1000" "sd_Created s"] by (simp add: p nth_append j_def algebra_simps)
  next
    case 3
    have R: "int ?R = ?r" using bounds by simp
    have "pk_AtMillis (?d ! (i - ?N)) + int (i + ?R - ?N - (i - ?N)) * ?gap \<le> pk_AtMillis (?d ! (i + ?R - ?N))"
      using assms(2) 3 N by (intro drain_spaced [OF gap0]) (auto simp: p)
    moreover have "i + ?R - ?N - (i - ?N) = ?R" using 3 by simp
    ultimately show ?thesis using 3 N gap R by (simp add: p nth_append mult.commute)
  qed
qed

theorem load_keeps_rate_witness:
  "\<exists>p. load_Compile ''crt_1'' demo_options = Inr p \<and>
     pk_AtMillis (lp_Packets p ! 19) + 1000 \<le> pk_AtMillis (lp_Packets p ! 21)"
proof -
  from demo_load obtain p where p: "load_Compile ''crt_1'' demo_options = Inr p" "length (lp_Packets p) = 24" by blast
  from load_keeps_rate [OF p(1), of 19] p show ?thesis by (auto simp: demo_options_def)
qed

end
