(* ===== verification/Go_Strings.thy ===== *)
theory Go_Strings
  imports Go_Format "HOL-Library.Sublist"
begin

text \<open>
  The functions of Go's \<^verbatim>\<open>strings\<close> package that the smaller components use, and the equality
  of maps, with the facts about cutting, splitting and trimming that their proofs share.
  \<^verbatim>\<open>HasPrefix\<close> and \<^verbatim>\<open>HasSuffix\<close> are the library's \<^const>\<open>prefix\<close> and \<^const>\<open>suffix\<close>.
\<close>

section \<open>Searching and cutting\<close>

definition contains :: "string \<Rightarrow> string \<Rightarrow> bool" where
  "contains s sub \<longleftrightarrow> list_ex (prefix sub) (suffixes s)"

definition contains_any :: "string \<Rightarrow> string \<Rightarrow> bool" where
  "contains_any s chars \<longleftrightarrow> list_ex (\<lambda>c. c \<in> set chars) s"

definition trim_prefix :: "string \<Rightarrow> string \<Rightarrow> string" where
  "trim_prefix p s = (if prefix p s then drop (length p) s else s)"

definition trim_suffix :: "string \<Rightarrow> string \<Rightarrow> string" where
  "trim_suffix p s = (if suffix p s then take (length s - length p) s else s)"

text \<open>\<^verbatim>\<open>strings.Index\<close> of a separator, and \<^verbatim>\<open>strings.Cut\<close> at it.\<close>

fun cut_at :: "string \<Rightarrow> string \<Rightarrow> (string \<times> string) option" where
  "cut_at sep s =
     (if prefix sep s then Some ('''', drop (length sep) s)
      else case s of
        [] \<Rightarrow> None
      | c # rest \<Rightarrow> (case cut_at sep rest of None \<Rightarrow> None | Some (l, r) \<Rightarrow> Some (c # l, r)))"

declare cut_at.simps [simp del]

text \<open>\<^verbatim>\<open>strings.Split\<close> at a single byte.\<close>

fun split_at :: "char \<Rightarrow> string \<Rightarrow> string list" where
  "split_at sep [] = ['''']"
| "split_at sep (c # s) =
     (if c = sep then '''' # split_at sep s
      else case split_at sep s of [] \<Rightarrow> [[c]] | part # parts \<Rightarrow> (c # part) # parts)"

lemma split_at_ne [simp]: "split_at sep s \<noteq> []"
  by (cases s) (auto split: list.splits)

lemma split_at_clean [simp]: "sep \<notin> set s \<Longrightarrow> split_at sep s = [s]"
  by (induction s) auto

lemma split_at_append: "sep \<notin> set s \<Longrightarrow> split_at sep (s @ sep # t) = s # split_at sep t"
  by (induction s) auto

lemma split_at_part: "part \<in> set (split_at sep s) \<Longrightarrow> sep \<notin> set part"
  by (induction s arbitrary: part) (auto split: if_splits list.splits)

lemma join_split_at: "join [sep] (split_at sep s) = s"
proof (induction s)
  case (Cons c s)
  obtain part parts where "split_at sep s = part # parts" by (cases "split_at sep s") auto
  with Cons show ?case by (cases parts) auto
qed simp

lemma cut_char: "c \<notin> set s \<Longrightarrow> cut_at [c] (s @ c # t) = Some (s, t)"
  by (induction s) (auto simp: cut_at.simps)

lemma cut_SomeD: "cut_at sep s = Some (l, r) \<Longrightarrow> s = l @ sep @ r"
proof (induction s arbitrary: l r)
  case Nil
  then show ?case by (auto simp: cut_at.simps [of sep "[]"] split: if_splits)
next
  case (Cons c s)
  then show ?case by (auto simp: cut_at.simps [of sep "c # s"] prefix_def split: if_splits option.splits)
qed

lemma cut_None: "cut_at sep s = None \<longleftrightarrow> \<not> contains s sep"
proof (induction s)
  case Nil
  show ?case by (auto simp: contains_def cut_at.simps [of sep "[]"])
next
  case (Cons c s)
  then show ?case by (auto simp: contains_def cut_at.simps [of sep "c # s"] split: option.splits)
qed

section \<open>Equal maps\<close>

definition same_map :: "('k, 'v) gomap \<Rightarrow> ('k, 'v) gomap \<Rightarrow> bool" where
  "same_map a b \<longleftrightarrow> list_all (\<lambda>k. map_of a k = map_of b k) (map fst a @ map fst b)"

lemma same_map_iff: "same_map a b \<longleftrightarrow> map_of a = map_of b"
proof
  assume "same_map a b"
  then have shared: "\<And>k. k \<in> fst ` set a \<union> fst ` set b \<Longrightarrow> map_of a k = map_of b k"
    unfolding same_map_def list_all_iff by auto
  show "map_of a = map_of b"
  proof
    fix k show "map_of a k = map_of b k"
      using shared [of k] by (cases "k \<in> fst ` set a \<union> fst ` set b") (auto simp: map_of_eq_None_iff [THEN iffD2])
  qed
qed (simp add: same_map_def list_all_iff)

section \<open>Trimming\<close>

lemma ascii_no_rune:
  assumes "byte c < 128"
  shows "\<not> is_space2 a c" "\<not> is_space2 c a" "\<not> is_space3 a b c" "\<not> is_space3 a c b" "\<not> is_space3 c a b"
  using assms by (simp_all add: is_space2_def is_space3_def)

lemma trim_left_id: "byte a < 128 \<Longrightarrow> \<not> is_space1 a \<Longrightarrow> trim_left (a # s) = a # s"
  by (simp add: ascii_no_rune split: list.splits)

lemma trim_right_id: "byte c < 128 \<Longrightarrow> \<not> is_space1 c \<Longrightarrow> trim_right_rev (c # s) = c # s"
  by (simp add: ascii_no_rune split: list.splits)

lemma trim_left_suffix: "suffix (trim_left s) s"
  by (induction s rule: trim_left.induct) (auto split: list.splits intro: suffix_ConsI simp: suffix_Cons)

lemma trim_right_suffix: "suffix (trim_right_rev s) s"
  by (induction s rule: trim_right_rev.induct) (auto split: list.splits intro: suffix_ConsI simp: suffix_Cons)

lemma suffix_same_length: "suffix s t \<Longrightarrow> length t \<le> length s \<Longrightarrow> s = t"
  by (auto simp: suffix_def)

lemma trim_space_fixed: "trim_space s = s \<longleftrightarrow> trim_left s = s \<and> trim_right_rev (rev s) = rev s"
proof
  assume fixed: "trim_space s = s"
  then have "length s \<le> length (trim_right_rev (rev (trim_left s)))" by (metis length_rev trim_space_def order_refl)
  also have "\<dots> \<le> length (trim_left s)" using suffix_length_le [OF trim_right_suffix [of "rev (trim_left s)"]] by simp
  finally have "trim_left s = s" by (intro suffix_same_length [OF trim_left_suffix])
  with fixed show "trim_left s = s \<and> trim_right_rev (rev s) = rev s" unfolding trim_space_def by (metis rev_rev_ident)
qed (simp add: trim_space_def)

lemma trim_left_blank:
  assumes "is_space1 c" and "byte c < 128"
  shows "trim_left (s @ [c]) = (if trim_left s = [] then [] else trim_left s @ [c])"
proof (induction s rule: trim_left.induct)
  case (2 a s)
  consider "is_space1 a" | "\<not> is_space1 a" "s = []" | b s' where "\<not> is_space1 a" "s = b # s'" "is_space2 a b"
    | b where "\<not> is_space1 a" "s = [b]" "\<not> is_space2 a b"
    | b d s' where "\<not> is_space1 a" "s = b # d # s'" "\<not> is_space2 a b"
    by (cases s; cases "tl s") auto
  then show ?case by cases (use 2 assms in \<open>simp_all add: ascii_no_rune\<close>)
qed (simp add: assms)

lemma trim_space_blank: "is_space1 c \<Longrightarrow> byte c < 128 \<Longrightarrow> trim_space (s @ [c]) = trim_space s"
  by (simp add: trim_space_def trim_left_blank)

text \<open>A text whose ends are neither blank nor parts of a longer rune stays as it is.\<close>

lemma trim_space_ends:
  assumes "byte a < 128" "\<not> is_space1 a" and "byte c < 128" "\<not> is_space1 c"
  shows "trim_space (a # s @ [c]) = a # s @ [c]"
  unfolding trim_space_fixed using assms by (simp add: trim_left_id trim_right_id del: trim_left.simps trim_right_rev.simps)

lemma trim_right_shorter: "length (trim_right_rev s) \<le> length s"
  by (rule suffix_length_le [OF trim_right_suffix])

lemma trim_right_after:
  assumes fixed: "trim_right_rev (c # s) = c # s" and "byte e < 128"
  shows "trim_right_rev (c # s @ e # t) = c # s @ e # t"
proof -
  have c: "\<not> is_space1 c" using fixed trim_right_shorter [of s] by (auto dest: arg_cong [of _ _ length])
  consider "s = []" | b where "s = [b]" | b a s' where "s = b # a # s'" by (cases s; cases "tl s") auto
  then show ?thesis
  proof cases
    case 1
    with c assms(2) show ?thesis by (simp add: ascii_no_rune split: list.splits)
  next
    case (2 b)
    with fixed c have "\<not> is_space2 b c" by (auto split: if_splits)
    with 2 c assms(2) show ?thesis by (simp add: ascii_no_rune)
  next
    case (3 b a s')
    from fixed c 3 trim_right_shorter [of s'] trim_right_shorter [of "a # s'"] have "\<not> is_space2 b c" "\<not> is_space3 a b c"
      by (auto simp del: trim_right_rev.simps(2) simp: trim_right_rev.simps(2) [of c] dest: arg_cong [of _ _ length] split: if_splits)
    with 3 c show ?thesis by simp
  qed
qed

section \<open>Decimal numbers\<close>

lemma digit_byte: "(n :: nat) < 10 \<Longrightarrow> byte (char_of (48 + n)) = 48 + n"
  by (simp add: byte_def)

lemma digit_char [simp]: "(n :: nat) < 10 \<Longrightarrow> is_digit (char_of (48 + n))"
  by (simp add: is_digit_def digit_byte)

lemma atoi_digits_snoc:
  "digits_value (s @ [c]) v = (case digits_value s v of None \<Rightarrow> None | Some w \<Rightarrow> if is_digit c then Some (w * 10 + (byte c - 48)) else None)"
  by (induction s arbitrary: v) auto

lemma atoi_digits_nat_str [simp]: "digits_value (nat_str n) 0 = Some n"
proof (induction n rule: nat_str.induct)
  case (1 n)
  show ?case
  proof (cases "n < 10")
    case True
    then show ?thesis by (simp add: digit_byte)
  next
    case False
    with 1 show ?thesis by (simp add: nat_str_step [OF False] atoi_digits_snoc digit_byte)
  qed
qed

lemma nat_str_ne [simp]: "nat_str n \<noteq> []"
  by (cases "n < 10") (simp_all add: nat_str_step)

lemma nat_str_digits: "c \<in> set (nat_str n) \<Longrightarrow> is_digit c"
proof (induction n rule: nat_str.induct)
  case (1 n)
  then show ?case by (cases "n < 10") (auto simp: nat_str_step)
qed

lemma atoi_itoa:
  assumes "0 \<le> n" and "int64 n" shows "atoi (itoa n) = Some n"
proof -
  obtain c s where cs: "nat_str (nat n) = c # s" by (cases "nat_str (nat n)") simp_all
  with nat_str_digits [of c "nat n"] have "is_digit c" by simp
  then have "c \<noteq> CHR ''-''" "c \<noteq> CHR ''+''" by (auto simp: is_digit_def byte_def)
  moreover from cs atoi_digits_nat_str [of "nat n"] have "digits_value (c # s) 0 = Some (nat n)" by simp
  ultimately show ?thesis using assms cs by (simp add: atoi_def itoa_def)
qed

lemma itoa_clean: "0 \<le> n \<Longrightarrow> \<not> is_digit c \<Longrightarrow> c \<notin> set (itoa n)"
  using nat_str_digits by (auto simp: itoa_def)

end
