(* ===== verification/Snmp_Reconcile.thy ===== *)
theory Snmp_Reconcile
  imports Snmp_Load Go_Strings
begin

text \<open>
  The reconciliation of a load's episodes with the History rows OSCAR returned
  (\<^verbatim>\<open>internal/snmpload/observe.go\<close>), and what its verdicts mean: a row read twice counts once, and an
  episode is \<open>resolved\<close> only on the evidence of exactly one problem row and one clear row. The rows
  come from the client, whose maps are never nil and whose instants of one row have one text.
\<close>

section \<open>Reconcile\<close>

record LoadObservation =
  ob_ProblemFiring :: bool
  ob_Episode :: nat
  ob_State :: string
  ob_HistoryID :: string
  ob_Fingerprint :: string
  ob_ClearHistoryID :: string
  ob_ClearFingerprint :: string

definition named_row :: "HistoryRecord \<Rightarrow> bool" where
  "named_row r \<longleftrightarrow> hr_ID r \<noteq> '''' \<and> hr_ID r \<noteq> ''<nil>''"

text \<open>\<^verbatim>\<open>reflect.DeepEqual\<close> of two rows.\<close>

definition same_row :: "HistoryRecord \<Rightarrow> HistoryRecord \<Rightarrow> bool" where
  "same_row a b \<longleftrightarrow>
     a\<lparr>hr_Labels := [], hr_Annotations := []\<rparr> = b\<lparr>hr_Labels := [], hr_Annotations := []\<rparr> \<and>
     same_map (hr_Labels a) (hr_Labels b) \<and> same_map (hr_Annotations a) (hr_Annotations b)"

definition row_key :: "HistoryRecord \<Rightarrow> string" where
  "row_key r = hr_AlertName r @ nul @ sget (hr_Labels r) ''alert_key''"

definition episode_key :: "Episode \<Rightarrow> string" where
  "episode_key e = ep_AlertName e @ nul @ ep_AlertKey e"

type_synonym row_index = "string \<Rightarrow> HistoryRecord list"

definition index_row :: "row_index \<Rightarrow> HistoryRecord \<Rightarrow> row_index" where
  "index_row indexed r =
     (let k = row_key r
      in if list_ex (\<lambda>previous. named_row r \<and> same_row previous r) (indexed k) then indexed
         else indexed(k := indexed k @ [r]))"

definition is_resolution :: "HistoryRecord \<Rightarrow> bool" where
  "is_resolution r \<longleftrightarrow> sget (hr_Labels r) ''is_resolution'' = ''true''"

definition repeated_state :: "HistoryRecord list \<Rightarrow> string" where
  "repeated_state rows =
     (if named_row (hd rows) \<and> list_all (\<lambda>r. hr_ID r = hr_ID (hd rows)) (tl rows) then ''unstable'' else ''duplicate'')"

definition owned_row :: "Episode \<Rightarrow> HistoryRecord \<Rightarrow> bool" where
  "owned_row e r \<longleftrightarrow> list_ex (\<lambda>(_, v). contains v (ep_Token e)) (hr_Labels r) \<or>
     list_ex (\<lambda>(_, v). contains v (ep_Token e)) (hr_Annotations r)"

definition problem_matches :: "Episode \<Rightarrow> HistoryRecord \<Rightarrow> bool" where
  "problem_matches e r \<longleftrightarrow> owned_row e r \<and> named_row r \<and> hr_Fingerprint r \<noteq> '''' \<and>
     sget (hr_Labels r) ''agent'' = ep_Agent e \<and> equal_fold (sget (hr_Labels r) ''alert_group'') (ep_AlertGroup e) \<and>
     hr_OriginalSeverity r = Some (ep_Severity e)"

definition clear_matches :: "Episode \<Rightarrow> HistoryRecord \<Rightarrow> HistoryRecord \<Rightarrow> bool" where
  "clear_matches e problem clear \<longleftrightarrow>
     (let key = sget (hr_Labels problem) ''correlation_key''; label = sget (hr_Labels clear)
      in named_row clear \<and> hr_ID clear \<noteq> hr_ID problem \<and> hr_Fingerprint clear \<noteq> '''' \<and>
         hr_Fingerprint clear \<noteq> hr_Fingerprint problem \<and> hr_OriginalSeverity clear = Some ''info'' \<and>
         hr_Status clear = ''resolved'' \<and> label ''agent'' = ep_Agent e \<and>
         equal_fold (label ''alert_group'') (ep_AlertGroup e) \<and> key \<noteq> '''' \<and> label ''correlation_key'' = key \<and>
         label ''correlation_value'' = key \<and> label ''correlation_status'' = ''success'' \<and>
         label ''correlation_resolved_count'' = ''1'')"

text \<open>The first half of an iteration judges the problem rows, the second the clear rows.\<close>

definition judge_problem :: "Episode \<Rightarrow> HistoryRecord list \<Rightarrow> LoadObservation \<Rightarrow> LoadObservation" where
  "judge_problem e matches o' =
     (case matches of
        [] \<Rightarrow> o'
      | [row] \<Rightarrow> o'\<lparr>ob_HistoryID := hr_ID row, ob_Fingerprint := hr_Fingerprint row,
          ob_State := (if problem_matches e row \<and> (hr_Status row = ''resolved'' \<or> hr_Status row = ''firing'')
                       then hr_Status row else ''mismatch'')\<rparr>
      | _ \<Rightarrow> o'\<lparr>ob_State := repeated_state matches\<rparr>)"

definition judge_clear :: "Episode \<Rightarrow> HistoryRecord list \<Rightarrow> HistoryRecord list \<Rightarrow> LoadObservation \<Rightarrow> LoadObservation" where
  "judge_clear e matches clears o' =
     (if 1 < length clears then
        (let clearState = repeated_state clears
         in if clearState = ''duplicate'' \<or> (ob_State o' \<noteq> ''duplicate'' \<and> ob_State o' \<noteq> ''mismatch'')
            then o'\<lparr>ob_State := clearState\<rparr> else o')
      else if length matches = 1 \<and> length clears = 1 \<and> (ob_State o' = ''resolved'' \<or> ob_State o' = ''firing'') then
        (let problem = hd matches; clear = hd clears;
             o'' = o'\<lparr>ob_ClearHistoryID := hr_ID clear, ob_ClearFingerprint := hr_Fingerprint clear\<rparr>
         in if clear_matches e problem clear then o'' else o''\<lparr>ob_State := ''mismatch''\<rparr>)
      else if ob_State o' = ''resolved'' \<and> clears = [] then o'\<lparr>ob_State := ''clear-missing''\<rparr>
      else o')"

definition judge_episode :: "HistoryRecord list \<Rightarrow> nat \<Rightarrow> Episode \<Rightarrow> LoadObservation" where
  "judge_episode rows i e =
     (let matches = filter (\<lambda>r. \<not> is_resolution r) rows; clears = filter is_resolution rows;
          o' = \<lparr>ob_ProblemFiring = list_ex (\<lambda>r. \<not> is_resolution r \<and> hr_Status r = ''firing'') rows, ob_Episode = i,
            ob_State = ''missing'', ob_HistoryID = '''', ob_Fingerprint = '''', ob_ClearHistoryID = '''',
            ob_ClearFingerprint = ''''\<rparr>
      in judge_clear e matches clears (judge_problem e matches o'))"

definition Reconcile :: "Episode list \<Rightarrow> HistoryRecord list \<Rightarrow> LoadObservation list" where
  "Reconcile episodes rows =
     (let indexed = foldl index_row (\<lambda>_. []) rows
      in map (\<lambda>(i, e). judge_episode (indexed (episode_key e)) i e) (enumerate 0 episodes))"

section \<open>The index of the rows\<close>

lemma same_row_refl [simp]: "same_row r r"
  by (simp add: same_row_def same_map_iff)

lemma same_row_key: "same_row a b \<Longrightarrow> row_key a = row_key b"
  unfolding same_row_def by (cases a; cases b) (simp add: row_key_def sget_def same_map_iff)

lemma indexed_sound: "r \<in> set (foldl index_row ix rows k) \<Longrightarrow> r \<in> set (ix k) \<or> (r \<in> set rows \<and> row_key r = k)"
proof (induction rows arbitrary: ix)
  case (Cons x rows)
  from Cons.IH Cons.prems have "r \<in> set (index_row ix x k) \<or> (r \<in> set rows \<and> row_key r = k)" by simp
  then show ?case by (auto simp: index_row_def Let_def split: if_splits)
qed simp

lemma indexed_grows: "r \<in> set (ix k) \<Longrightarrow> r \<in> set (foldl index_row ix rows k)"
proof (induction rows arbitrary: ix)
  case (Cons x rows)
  then have "r \<in> set (index_row ix x k)" by (auto simp: index_row_def Let_def)
  with Cons.IH show ?case by simp
qed simp

lemma indexed_complete: "r \<in> set rows \<Longrightarrow> \<exists>q \<in> set (foldl index_row ix rows (row_key r)). q = r \<or> (named_row r \<and> same_row q r)"
proof (induction rows arbitrary: ix)
  case (Cons x rows)
  have "\<exists>q \<in> set (index_row ix x (row_key x)). q = x \<or> (named_row x \<and> same_row q x)"
    by (auto simp: index_row_def Let_def list_ex_iff)
  with Cons show ?case using indexed_grows by (fastforce simp del: foldl.simps(1))
qed simp

lemma index_row_known:
  "named_row r \<Longrightarrow> q \<in> set (ix (row_key r)) \<Longrightarrow> same_row q r \<Longrightarrow> index_row ix r = ix"
  by (auto simp: index_row_def Let_def list_ex_iff)

lemma index_again:
  "list_all (\<lambda>r. named_row r \<and> (\<exists>q \<in> set (ix (row_key r)). same_row q r)) again \<Longrightarrow> foldl index_row ix again = ix"
  by (induction again) (auto dest: index_row_known)

text \<open>
  C40. A History row that is read again, on an overlapping page or in an overlapping time window,
  changes no verdict: reconciling the rows followed by any rows that were among them, all of them
  with an identity, gives the observations of the rows alone.
\<close>

theorem overlap_harmless:
  assumes "list_all named_row again" and "set again \<subseteq> set rows"
  shows "Reconcile episodes (rows @ again) = Reconcile episodes rows"
proof -
  have "\<exists>q \<in> set (foldl index_row (\<lambda>_. []) rows (row_key r)). same_row q r" if "r \<in> set again" for r
    using that assms(2) indexed_complete [of r rows "\<lambda>_. []"] same_row_refl by blast
  with assms(1) have "foldl index_row (foldl index_row (\<lambda>_. []) rows) again = foldl index_row (\<lambda>_. []) rows"
    by (intro index_again) (auto simp: list_all_iff)
  then show ?thesis by (simp add: Reconcile_def)
qed

section \<open>What a resolved episode rests on\<close>

lemma judge_resolved:
  assumes "ob_State (judge_episode rows i e) = ''resolved''"
  obtains problem clear where "filter (\<lambda>r. \<not> is_resolution r) rows = [problem]" and "filter is_resolution rows = [clear]"
    and "problem_matches e problem" and "hr_Status problem = ''resolved''" and "clear_matches e problem clear"
proof -
  let ?ps = "filter (\<lambda>r. \<not> is_resolution r) rows" and ?cs = "filter is_resolution rows"
  have states: "repeated_state xs \<noteq> ''resolved''" for xs by (simp add: repeated_state_def)
  from assms consider "1 < length ?cs" | "?cs = []" | clear where "?cs = [clear]"
    by (cases ?cs; cases "tl ?cs") auto
  then show thesis
  proof cases
    case 1
    with assms states show ?thesis
      by (cases ?ps; cases "tl ?ps") (auto simp: judge_episode_def judge_clear_def judge_problem_def Let_def split: if_splits list.splits)
  next
    case 2
    with assms show ?thesis by (simp add: judge_episode_def judge_clear_def Let_def split: if_splits)
  next
    case (3 clear)
    with assms states obtain problem where "?ps = [problem]"
      by (cases ?ps; cases "tl ?ps") (auto simp: judge_episode_def judge_clear_def judge_problem_def Let_def split: if_splits)
    with 3 assms that show ?thesis
      by (auto simp: judge_episode_def judge_clear_def judge_problem_def Let_def split: if_splits)
  qed
qed

text \<open>
  C23. An episode is reported resolved only on the evidence of one problem and one clear: among the
  rows read there is a resolved problem row that carries the episode's token, agent, group and
  severity and a clear row with an identity of its own that names the same correlation key with
  success, and every row under the episode's alert name and key is one of these two.
\<close>

theorem resolved_is_evidenced:
  assumes "i < length episodes" and "ob_State (Reconcile episodes rows ! i) = ''resolved''"
  shows "\<exists>problem \<in> set rows. \<exists>clear \<in> set rows.
    \<not> is_resolution problem \<and> is_resolution clear \<and> problem_matches (episodes ! i) problem \<and>
    hr_Status problem = ''resolved'' \<and> clear_matches (episodes ! i) problem clear \<and>
    list_all (\<lambda>r. row_key r = episode_key (episodes ! i) \<longrightarrow> same_row problem r \<or> same_row clear r) rows"
proof -
  let ?e = "episodes ! i" and ?ix = "foldl index_row (\<lambda>_. []) rows"
  let ?found = "?ix (episode_key ?e)"
  from assms have "ob_State (judge_episode ?found i ?e) = ''resolved''"
    by (simp add: Reconcile_def nth_enumerate_eq)
  then obtain problem clear where sides: "filter (\<lambda>r. \<not> is_resolution r) ?found = [problem]" "filter is_resolution ?found = [clear]"
    and ok: "problem_matches ?e problem" "hr_Status problem = ''resolved''" "clear_matches ?e problem clear"
    by (rule judge_resolved)
  have "r \<in> set ?found \<longleftrightarrow> r \<in> set (filter (\<lambda>r. \<not> is_resolution r) ?found) \<or> r \<in> set (filter is_resolution ?found)" for r
    by auto
  then have in_found: "r \<in> set ?found \<longleftrightarrow> r = problem \<or> r = clear" for r unfolding sides by simp
  have kinds: "\<not> is_resolution problem" "is_resolution clear"
    using arg_cong [OF sides(1), of set] arg_cong [OF sides(2), of set] by auto
  have "problem \<in> set rows" "clear \<in> set rows" using in_found indexed_sound [of _ "\<lambda>_. []" rows "episode_key ?e"] by auto
  moreover have "same_row problem r \<or> same_row clear r" if "r \<in> set rows" "row_key r = episode_key ?e" for r
  proof -
    from indexed_complete [OF that(1), of "\<lambda>_. []"] that(2) obtain q where "q \<in> set ?found" "q = r \<or> same_row q r" by auto
    with in_found show ?thesis by auto
  qed
  ultimately show ?thesis using kinds ok by (auto simp: list_all_iff)
qed

section \<open>A load of one episode\<close>

definition demo_episode :: Episode where
  "demo_episode = aaa_fixture ''aaa-server'' ''ct-crt_1-0''"

definition demo_row :: "string \<Rightarrow> string \<Rightarrow> labels \<Rightarrow> HistoryRecord" where
  "demo_row identity severity extra =
     \<lparr>hr_OriginalSeverity = Some severity, hr_Severity = None, hr_StartsAt = 1, hr_ID = identity,
      hr_AlertName = ep_AlertName demo_episode, hr_Fingerprint = ''f'' @ identity, hr_Status = ''resolved'', hr_CreatedAt = 1,
      hr_Labels = [(''alert_key'', ep_AlertKey demo_episode), (''agent'', ep_Agent demo_episode),
        (''alert_group'', ''JNXACCESSAUTHSERVERSTATUS''), (''correlation_key'', ''k1'')] @ extra,
      hr_Annotations = []\<rparr>"

definition demo_problem :: HistoryRecord where
  "demo_problem = demo_row ''1'' ''critical'' []"

definition demo_clear :: HistoryRecord where
  "demo_clear = demo_row ''2'' ''info'' [(''is_resolution'', ''true''), (''correlation_value'', ''k1''),
     (''correlation_status'', ''success''), (''correlation_resolved_count'', ''1'')]"

theorem overlap_harmless_witness:
  "Reconcile [demo_episode] ([demo_problem, demo_clear] @ [demo_problem]) = Reconcile [demo_episode] [demo_problem, demo_clear]"
  by (rule overlap_harmless) (simp_all add: named_row_def demo_problem_def demo_row_def)

theorem resolved_is_evidenced_witness:
  "\<exists>problem \<in> set [demo_problem, demo_clear, demo_problem]. \<exists>clear \<in> set [demo_problem, demo_clear, demo_problem].
    \<not> is_resolution problem \<and> is_resolution clear \<and> problem_matches demo_episode problem \<and> clear_matches demo_episode problem clear"
proof -
  have "ob_State (Reconcile [demo_episode] [demo_problem, demo_clear, demo_problem] ! 0) = ''resolved''" by code_simp
  from resolved_is_evidenced [OF _ this] show ?thesis by fastforce
qed

end
