(* ===== verification/Env_File.thy ===== *)
theory Env_File
  imports Go_Strings
begin

text \<open>
  The managed dotenv overlay (\<^verbatim>\<open>internal/envfile/store.go\<close>): opening the file, resolving a key over
  the live overlay, the environment of the process and the managed file, and rewriting the file
  when a key is replaced or cleared. The state holds the bytes of the file on disk; the outcome of
  the atomic write is an argument of the operations (a failed write leaves the old file). The
  mutex makes each operation one step. \<^verbatim>\<open>strconv.Quote\<close> and \<^verbatim>\<open>Unquote\<close> are those of texts whose bytes
  above 127 form printable runes, which both leave as they are.
\<close>

section \<open>Quoted text (strconv)\<close>

definition hex_digit :: "nat \<Rightarrow> char" where
  "hex_digit n = char_of (if n < 10 then 48 + n else 87 + n)"

definition hex_value :: "char \<Rightarrow> nat option" where
  "hex_value c =
     (if is_digit c then Some (byte c - 48)
      else if 97 \<le> byte c \<and> byte c \<le> 102 then Some (byte c - 87)
      else if 65 \<le> byte c \<and> byte c \<le> 70 then Some (byte c - 55)
      else None)"

definition escapes :: "(char \<times> char) list" where
  "escapes = [(CHR ''a'', CHR 0x07), (CHR ''b'', CHR 0x08), (CHR ''f'', CHR 0x0C), (CHR ''n'', CHR 0x0A),
     (CHR ''r'', CHR 0x0D), (CHR ''t'', CHR 0x09), (CHR ''v'', CHR 0x0B), (CHR 0x5C, CHR 0x5C), (CHR 0x22, CHR 0x22)]"

definition quote_char :: "char \<Rightarrow> string" where
  "quote_char c =
     (case map_of (map prod.swap escapes) c of
        Some e \<Rightarrow> [CHR 0x5C, e]
      | None \<Rightarrow>
          if byte c < 32 \<or> byte c = 127 then [CHR 0x5C, CHR ''x'', hex_digit (byte c div 16), hex_digit (byte c mod 16)]
          else [c])"

definition Quote :: "string \<Rightarrow> string" where
  "Quote s = CHR 0x22 # concat (map quote_char s) @ [CHR 0x22]"

definition rune_bytes :: "nat \<Rightarrow> string" where
  "rune_bytes r = map char_of
     (if r < 128 then [r]
      else if r < 2048 then [192 + r div 64, 128 + r mod 64]
      else if r < 65536 then [224 + r div 4096, 128 + r div 64 mod 64, 128 + r mod 64]
      else [240 + r div 262144, 128 + r div 4096 mod 64, 128 + r div 64 mod 64, 128 + r mod 64])"

definition valid_rune :: "nat \<Rightarrow> bool" where
  "valid_rune r \<longleftrightarrow> r < 55296 \<or> 57344 \<le> r \<and> r < 1114112"

fun take_hex :: "nat \<Rightarrow> string \<Rightarrow> nat \<Rightarrow> (nat \<times> string) option" where
  "take_hex 0 s v = Some (v, s)"
| "take_hex (Suc n) [] v = None"
| "take_hex (Suc n) (c # s) v = (case hex_value c of None \<Rightarrow> None | Some d \<Rightarrow> take_hex n s (v * 16 + d))"

definition octal_value :: "char \<Rightarrow> nat option" where
  "octal_value c = (if 48 \<le> byte c \<and> byte c \<le> 55 then Some (byte c - 48) else None)"

text \<open>What follows a backslash in \<^verbatim>\<open>UnquoteChar\<close>.\<close>

definition unescape :: "string \<Rightarrow> (string \<times> string) option" where
  "unescape s =
     (case s of
        [] \<Rightarrow> None
      | e # rest \<Rightarrow>
          (case map_of escapes e of
             Some c \<Rightarrow> Some ([c], rest)
           | None \<Rightarrow>
               if e = CHR ''x'' then
                 (case take_hex 2 rest 0 of None \<Rightarrow> None | Some (v, more) \<Rightarrow> Some ([char_of v], more))
               else if e = CHR ''u'' \<or> e = CHR ''U'' then
                 (case take_hex (if e = CHR ''u'' then 4 else 8) rest 0 of
                    None \<Rightarrow> None
                  | Some (v, more) \<Rightarrow> if valid_rune v then Some (rune_bytes v, more) else None)
               else
                 (case octal_value e of
                    None \<Rightarrow> None
                  | Some a \<Rightarrow>
                      (case rest of
                         b # c # more \<Rightarrow>
                           (case (octal_value b, octal_value c) of
                              (Some b', Some c') \<Rightarrow>
                                if 255 < a * 64 + b' * 8 + c' then None else Some ([char_of (a * 64 + b' * 8 + c')], more)
                            | _ \<Rightarrow> None)
                       | _ \<Rightarrow> None))))"

lemma take_hex_shorter: "take_hex n s v = Some (w, rest) \<Longrightarrow> length rest \<le> length s"
  by (induction n s v rule: take_hex.induct) (auto split: option.splits)

lemma unescape_shorter: "unescape s = Some (v, rest) \<Longrightarrow> length rest < length s"
  by (auto simp: unescape_def less_Suc_eq_le split: list.splits option.splits if_splits dest: take_hex_shorter)

text \<open>The text up to the closing quote, and what follows it.\<close>

function unquote_text :: "string \<Rightarrow> (string \<times> string) option" where
  "unquote_text s =
     (case s of
        [] \<Rightarrow> None
      | c # rest \<Rightarrow>
          if c = CHR 0x22 then Some ('''', rest)
          else if c = CHR 0x0A then None
          else case (if c = CHR 0x5C then unescape rest else Some ([c], rest)) of
              None \<Rightarrow> None
            | Some (v, more) \<Rightarrow>
                (case unquote_text more of None \<Rightarrow> None | Some (t, after) \<Rightarrow> Some (v @ t, after)))"
  by pat_completeness auto
termination
  by (relation "measure length") (auto split: if_splits dest: unescape_shorter)

declare unquote_text.simps [simp del]

definition Unquote :: "string \<Rightarrow> string option" where
  "Unquote s =
     (case s of
        c # rest \<Rightarrow>
          if c = CHR 0x22 then (case unquote_text rest of Some (t, []) \<Rightarrow> Some t | _ \<Rightarrow> None) else None
      | [] \<Rightarrow> None)"

section \<open>Lines\<close>

datatype EnvError =
    PathRequired | FileTooLarge | ParseFailed nat EnvError | InvalidKey | InvalidValue | WriteFailed
  | InvalidAssignment | UnterminatedQuote | InvalidQuoted

definition key_valid :: "string \<Rightarrow> bool" where
  "key_valid s \<longleftrightarrow>
     (case s of
        [] \<Rightarrow> False
      | c # rest \<Rightarrow> (65 \<le> byte c \<and> byte c \<le> 90 \<or> c = CHR ''_'') \<and>
          list_all (\<lambda>d. 65 \<le> byte d \<and> byte d \<le> 90 \<or> is_digit d \<or> d = CHR ''_'') rest)"

definition parse_value :: "string \<Rightarrow> EnvError + string" where
  "parse_value raw =
     (case raw of
        [] \<Rightarrow> Inr ''''
      | c # rest \<Rightarrow>
          if c = CHR 0x27 then
            (if length raw < 2 \<or> last raw \<noteq> CHR 0x27 then Inl UnterminatedQuote else Inr (butlast rest))
          else if c = CHR 0x22 then (case Unquote raw of None \<Rightarrow> Inl InvalidQuoted | Some v \<Rightarrow> Inr v)
          else case cut_at '' #'' raw of
              Some (before, _) \<Rightarrow> Inr (trim_space before)
            | None \<Rightarrow> Inr raw)"

text \<open>\<^term>\<open>Inr None\<close> is a blank line or a comment.\<close>

definition parse_line :: "string \<Rightarrow> EnvError + (string \<times> string) option" where
  "parse_line line =
     (let trimmed = trim_space line
      in if trimmed = '''' \<or> prefix ''#'' trimmed then Inr None
         else
           let assigned = (if prefix ''export '' trimmed then trim_space (trim_prefix ''export '' trimmed) else trimmed)
           in case cut_at ''='' assigned of
                None \<Rightarrow> Inl InvalidAssignment
              | Some (left, right) \<Rightarrow>
                  if \<not> key_valid (trim_space left) then Inl InvalidAssignment
                  else case parse_value (trim_space right) of
                      Inl e \<Rightarrow> Inl e
                    | Inr v \<Rightarrow> Inr (Some (trim_space left, v)))"

definition encodeValue :: "string \<Rightarrow> string" where
  "encodeValue v = (if v = '''' \<or> contains_any v [CHR '' '', CHR 0x09, CHR ''#'', CHR 0x27, CHR 0x22] then Quote v else v)"

text \<open>
  \<^verbatim>\<open>bufio.Scanner\<close> with lines that keep their ending. Its buffer holds 65536 bytes: a last line of
  that length without an ending is not delivered.
\<close>

fun scan_lines :: "string \<Rightarrow> string list" where
  "scan_lines [] = []"
| "scan_lines (c # s) =
     (if c = CHR 0x0A then [c] # scan_lines s
      else case scan_lines s of [] \<Rightarrow> [[c]] | line # more \<Rightarrow> (c # line) # more)"

definition splitLines :: "string \<Rightarrow> string list" where
  "splitLines s = filter (\<lambda>line. suffix [CHR 0x0A] line \<or> int (length line) < 65536) (scan_lines s)"

definition line_body :: "string \<Rightarrow> string" where
  "line_body line = trim_suffix [CHR 0x0D] (trim_suffix [CHR 0x0A] line)"

section \<open>The store\<close>

datatype EnvSource = SourceUnset | SourceExternal | SourceManaged | SourceLiveOverride

record KeyStatus =
  ks_Configured :: bool
  ks_Source :: EnvSource
  ks_ExternalResumesOnRestart :: bool

record EnvStore =
  es_lookup :: "string \<Rightarrow> string option"
  es_managed :: labels
  es_live :: "(string, string option) gomap"
  es_lines :: "string list"
  es_newline :: string
  es_file :: string

definition maxFileBytes :: int where "maxFileBytes = 65536"
definition maxValueBytes :: int where "maxValueBytes = 16384"

definition assign_line :: "labels \<Rightarrow> nat \<times> string \<Rightarrow> EnvError + labels" where
  "assign_line m = (\<lambda>(i, line).
     case parse_line (line_body line) of
       Inl e \<Rightarrow> Inl (ParseFailed (i + 1) e)
     | Inr None \<Rightarrow> Inr m
     | Inr (Some (k, v)) \<Rightarrow> Inr (gput k v m))"

definition Open :: "string \<Rightarrow> (string \<Rightarrow> string option) \<Rightarrow> string \<Rightarrow> EnvError + EnvStore" where
  "Open path lookup data =
     (if trim_space path = '''' then Inl PathRequired
      else if maxFileBytes < int (length data) then Inl FileTooLarge
      else let lines = splitLines data
           in case foldE assign_line [] (enumerate 0 lines) of
                Inl e \<Rightarrow> Inl e
              | Inr managed \<Rightarrow> Inr
                  \<lparr>es_lookup = lookup, es_managed = managed, es_live = [], es_lines = lines,
                   es_newline = (if contains data [CHR 0x0D, CHR 0x0A] then [CHR 0x0D, CHR 0x0A] else [CHR 0x0A]),
                   es_file = data\<rparr>)"

definition Getenv :: "EnvStore \<Rightarrow> string \<Rightarrow> string" where
  "Getenv s key =
     (case map_of (es_live s) key of
        Some (Some v) \<Rightarrow> v
      | Some None \<Rightarrow> ''''
      | None \<Rightarrow>
          (case es_lookup s key of
             Some v \<Rightarrow> if v \<noteq> '''' then v else sget (es_managed s) key
           | None \<Rightarrow> sget (es_managed s) key))"

definition Status :: "EnvStore \<Rightarrow> string \<Rightarrow> KeyStatus" where
  "Status s key =
     (let externalSet = (case es_lookup s key of Some v \<Rightarrow> v \<noteq> '''' | None \<Rightarrow> False)
      in case map_of (es_live s) key of
           Some v \<Rightarrow> \<lparr>ks_Configured = (v \<noteq> None \<and> v \<noteq> Some ''''), ks_Source = SourceLiveOverride,
             ks_ExternalResumesOnRestart = externalSet\<rparr>
         | None \<Rightarrow>
             if externalSet then \<lparr>ks_Configured = True, ks_Source = SourceExternal, ks_ExternalResumesOnRestart = False\<rparr>
             else if sget (es_managed s) key \<noteq> '''' then
               \<lparr>ks_Configured = True, ks_Source = SourceManaged, ks_ExternalResumesOnRestart = False\<rparr>
             else \<lparr>ks_Configured = False, ks_Source = SourceUnset, ks_ExternalResumesOnRestart = False\<rparr>)"

definition validate_env :: "string \<Rightarrow> string \<Rightarrow> EnvError option" where
  "validate_env key v =
     (if \<not> key_valid key then Some InvalidKey
      else if maxValueBytes < int (length v) \<or> contains_any v [CHR 0x0D, CHR 0x0A, CHR 0x00] then Some InvalidValue
      else None)"

definition assigns :: "string \<Rightarrow> string \<Rightarrow> bool" where
  "assigns key line \<longleftrightarrow> (case parse_line (line_body line) of Inr (Some (k, _)) \<Rightarrow> k = key | _ \<Rightarrow> False)"

definition finish_last :: "string \<Rightarrow> string list \<Rightarrow> string list" where
  "finish_last newline lines =
     (if lines \<noteq> [] \<and> \<not> suffix [CHR 0x0A] (last lines) then butlast lines @ [last lines @ newline] else lines)"

definition rewritten :: "EnvStore \<Rightarrow> string \<Rightarrow> string option \<Rightarrow> string list" where
  "rewritten s key v =
     (let kept = filter (\<lambda>line. \<not> assigns key line) (es_lines s)
      in case v of
           None \<Rightarrow> kept
         | Some w \<Rightarrow> finish_last (es_newline s) kept @ [key @ ''='' @ encodeValue w @ es_newline s])"

definition rewrite_env :: "bool \<Rightarrow> EnvStore \<Rightarrow> string \<Rightarrow> string option \<Rightarrow> EnvError + EnvStore" where
  "rewrite_env written s key v =
     (let lines = rewritten s key v; doc = concat lines
      in if maxFileBytes < int (length doc) then Inl FileTooLarge
         else if \<not> written then Inl WriteFailed
         else Inr (s\<lparr>es_file := doc, es_lines := lines,
           es_managed := (case v of None \<Rightarrow> gdel key (es_managed s) | Some w \<Rightarrow> gput key w (es_managed s)),
           es_live := gput key v (es_live s)\<rparr>))"

definition Replace :: "bool \<Rightarrow> EnvStore \<Rightarrow> string \<Rightarrow> string \<Rightarrow> EnvError + EnvStore" where
  "Replace written s key v =
     (case validate_env key v of Some e \<Rightarrow> Inl e | None \<Rightarrow> rewrite_env written s key (Some v))"

definition Clear :: "bool \<Rightarrow> EnvStore \<Rightarrow> string \<Rightarrow> EnvError + EnvStore" where
  "Clear written s key = (if key_valid key then rewrite_env written s key None else Inl InvalidKey)"

end
