(* ===== verification/Env_Properties.thy ===== *)
theory Env_Properties
  imports Env_File
begin

text \<open>
  What the dotenv overlay promises: a value that was replaced is read back after a restart, and
  every other assignment, comment and blank line of the file survives.
\<close>

section \<open>Quoting\<close>

lemma hex_digit_value:
  assumes "n < 16" shows "hex_value (hex_digit n) = Some n"
proof -
  have "list_all (\<lambda>n. hex_value (hex_digit n) = Some n) [0..<16]" by code_simp
  with assms show ?thesis by (simp add: list_all_iff)
qed

lemma unquote_plain:
  "c \<noteq> CHR 0x22 \<Longrightarrow> c \<noteq> CHR 0x5C \<Longrightarrow> c \<noteq> CHR 0x0A \<Longrightarrow>
   unquote_text (c # t) = (case unquote_text t of None \<Rightarrow> None | Some (v, rest) \<Rightarrow> Some (c # v, rest))"
  by (subst unquote_text.simps) (simp split: option.splits)

lemma unquote_escape:
  "unescape (e @ t) = Some ([c], t) \<Longrightarrow>
   unquote_text (CHR 0x5C # e @ t) = (case unquote_text t of None \<Rightarrow> None | Some (v, rest) \<Rightarrow> Some (c # v, rest))"
  by (subst unquote_text.simps) (simp split: option.splits)

lemma unquote_quoted: "unquote_text (quote_char c @ t) = (case unquote_text t of None \<Rightarrow> None | Some (v, rest) \<Rightarrow> Some (c # v, rest))"
proof (cases "map_of (map prod.swap escapes) c")
  case (Some e)
  then have "unescape ([e] @ t) = Some ([c], t)"
    by (auto simp: escapes_def unescape_def split: if_splits)
  from unquote_escape [OF this] Some show ?thesis by (simp add: quote_char_def)
next
  case None
  then have plain: "c \<noteq> CHR 0x22" "c \<noteq> CHR 0x5C" "c \<noteq> CHR 0x0A" by (auto simp: escapes_def split: if_splits)
  show ?thesis
  proof (cases "byte c < 32 \<or> byte c = 127")
    case True
    have "byte c < 256" by (cases c) (simp add: byte_def)
    then have "byte c div 16 < 16" by simp
    then have "unescape ([CHR ''x'', hex_digit (byte c div 16), hex_digit (byte c mod 16)] @ t) = Some ([c], t)"
      by (simp add: unescape_def escapes_def numeral_2_eq_2 hex_digit_value byte_def)
    from unquote_escape [OF this] True None show ?thesis by (simp add: quote_char_def)
  next
    case False
    with None unquote_plain [OF plain] show ?thesis by (simp add: quote_char_def)
  qed
qed

lemma unquote_all: "unquote_text (concat (map quote_char v) @ CHR 0x22 # rest) = Some (v, rest)"
proof (induction v)
  case Nil
  show ?case by (subst unquote_text.simps) simp
qed (simp add: unquote_quoted)

lemma Unquote_Quote [simp]: "Unquote (Quote v) = Some v"
  by (simp add: Unquote_def Quote_def unquote_all)

lemma quote_char_clean: "CHR 0x0A \<notin> set (quote_char c)" "CHR 0x0D \<notin> set (quote_char c)"
proof -
  have "list_all (\<lambda>c. CHR 0x0A \<notin> set (quote_char c) \<and> CHR 0x0D \<notin> set (quote_char c)) Enum.enum" by code_simp
  then show "CHR 0x0A \<notin> set (quote_char c)" "CHR 0x0D \<notin> set (quote_char c)"
    by (simp_all add: list_all_iff UNIV_enum [symmetric])
qed

section \<open>The line of an assignment\<close>

text \<open>The values that come back as they were: outside quotes a value may not begin or end with white space.\<close>

definition kept_value :: "string \<Rightarrow> bool" where
  "kept_value v \<longleftrightarrow> encodeValue v \<noteq> v \<or> trim_space v = v"

lemma key_char:
  assumes "key_valid key" and "c \<in> set key"
  shows "byte c < 128" "\<not> is_space1 c" "c \<noteq> CHR ''='' \<and> c \<noteq> CHR ''#'' \<and> c \<noteq> CHR ''e'' \<and> c \<noteq> CHR 0x0A"
proof -
  have codes: "byte (CHR ''_'') = 95" "byte (CHR ''='') = 61" "byte (CHR ''#'') = 35" "byte (CHR ''e'') = 101" "byte (CHR 0x0A) = 10"
    by (simp_all add: byte_def)
  obtain k ks where "key = k # ks" using assms(2) by (cases key) auto
  with assms codes(1) have c: "65 \<le> byte c \<and> byte c \<le> 90 \<or> 48 \<le> byte c \<and> byte c \<le> 57 \<or> byte c = 95"
    unfolding key_valid_def list_all_iff is_digit_def by auto
  then show "byte c < 128" "\<not> is_space1 c" by (auto simp: is_space1_def)
  from c codes(2-) show "c \<noteq> CHR ''='' \<and> c \<noteq> CHR ''#'' \<and> c \<noteq> CHR ''e'' \<and> c \<noteq> CHR 0x0A" by auto
qed

lemma key_ne: "key_valid key \<Longrightarrow> key \<noteq> []"
  by (auto simp: key_valid_def)

lemma trim_key: 
  assumes "key_valid key" shows "trim_space key = key"
proof -
  obtain k ks where k: "key = k # ks" using key_ne [OF assms] by (cases key) auto
  obtain c s where c: "rev key = c # s" using key_ne [OF assms] by (cases "rev key") auto
  then have "c \<in> set key" by (metis list.set_intros(1) set_rev)
  then have "trim_right_rev (rev key) = rev key"
    unfolding c by (intro trim_right_id key_char [OF assms])
  moreover have "trim_left key = key"
    unfolding k by (intro trim_left_id key_char [OF assms]) (simp_all add: k)
  ultimately show ?thesis by (simp add: trim_space_fixed)
qed

lemma trim_assignment:
  assumes "key_valid key" and "v \<noteq> ''''" and "trim_right_rev (rev v) = rev v"
  shows "trim_space (key @ CHR ''='' # v) = key @ CHR ''='' # v"
proof -
  obtain k ks where key: "key = k # ks" using key_ne [OF assms(1)] by (cases key) auto
  obtain c s where v: "rev v = c # s" using assms(2) by (cases "rev v") auto
  have "trim_right_rev (c # s @ CHR ''='' # rev key) = c # s @ CHR ''='' # rev key"
    by (rule trim_right_after) (use assms(3) v in \<open>simp_all add: byte_def\<close>)
  with v have "trim_right_rev (rev v @ CHR ''='' # rev key) = rev v @ CHR ''='' # rev key" by simp
  moreover have "trim_left (k # ks @ CHR ''='' # v) = k # ks @ CHR ''='' # v"
    using key_char [OF assms(1), of k] key by (intro trim_left_id) simp_all
  ultimately show ?thesis unfolding trim_space_fixed by (simp add: key del: trim_left.simps trim_right_rev.simps)
qed

lemma trim_quote: "trim_space (Quote v) = Quote v"
  unfolding Quote_def by (rule trim_space_ends) (simp_all add: byte_def is_space1_def)

lemma parse_Quote: "parse_value (Quote v) = Inr v"
proof -
  obtain r where r: "Quote v = CHR 0x22 # r" by (simp add: Quote_def)
  then have "Unquote (CHR 0x22 # r) = Some v" by (metis Unquote_Quote)
  then show ?thesis unfolding r by (simp add: parse_value_def)
qed

lemma parse_plain:
  assumes "v \<noteq> ''''" and "\<not> contains_any v [CHR '' '', CHR 0x09, CHR ''#'', CHR 0x27, CHR 0x22]"
  shows "parse_value v = Inr v"
proof -
  from assms(2) have free: "CHR '' '' \<notin> set v" "CHR 0x27 \<notin> set v" "CHR 0x22 \<notin> set v" by (auto simp: contains_any_def list_ex_iff)
  have "cut_at '' #'' v = None"
  proof (cases "cut_at '' #'' v")
    case (Some lr)
    then have "v = fst lr @ '' #'' @ snd lr" by (metis cut_SomeD prod.collapse)
    then have "CHR '' '' \<in> set v" by (metis append_Cons in_set_conv_decomp)
    with free(1) show ?thesis by simp
  qed simp
  with assms(1) free(2,3) show ?thesis by (cases v) (auto simp: parse_value_def)
qed

lemma parse_encoded:
  assumes "kept_value v"
  shows "trim_space (encodeValue v) = encodeValue v" and "parse_value (encodeValue v) = Inr v" and "encodeValue v \<noteq> []"
proof -
  have q: "Quote v \<noteq> []" by (simp add: Quote_def)
  show "trim_space (encodeValue v) = encodeValue v" using assms trim_quote [of v] by (auto simp: encodeValue_def kept_value_def)
  show "parse_value (encodeValue v) = Inr v" using parse_Quote parse_plain by (simp add: encodeValue_def)
  show "encodeValue v \<noteq> []" using q by (simp add: encodeValue_def)
qed

lemma parse_assignment:
  assumes "key_valid key" and "kept_value v"
  shows "parse_line (key @ ''='' @ encodeValue v) = Inr (Some (key, v))"
proof -
  let ?e = "encodeValue v"
  note enc = parse_encoded [OF assms(2)]
  from enc(1) have "trim_right_rev (rev ?e) = rev ?e" by (simp add: trim_space_fixed)
  from trim_assignment [OF assms(1) enc(3) this] have whole: "trim_space (key @ CHR ''='' # ?e) = key @ CHR ''='' # ?e" .
  obtain k ks where k: "key = k # ks" using key_ne [OF assms(1)] by (cases key) auto
  have "k \<noteq> CHR ''#''" "k \<noteq> CHR ''e''" using key_char(3) [OF assms(1), of k] k by auto
  moreover have "CHR ''='' \<notin> set key" using key_char(3) [OF assms(1)] by blast
  then have "cut_at ''='' (key @ CHR ''='' # ?e) = Some (key, ?e)" by (rule cut_char)
  ultimately show ?thesis
    using trim_key [OF assms(1)] assms(1) enc whole k by (simp add: parse_line_def Let_def)
qed

section \<open>Lines\<close>

abbreviation terminated :: "string \<Rightarrow> bool" where
  "terminated line \<equiv> suffix [CHR 0x0A] line"

text \<open>Only the last line may lack its ending, and then it satisfies \<open>P\<close>.\<close>

fun lines_ok :: "(string \<Rightarrow> bool) \<Rightarrow> string list \<Rightarrow> bool" where
  "lines_ok P [] = True"
| "lines_ok P (l # ls) = (l \<noteq> [] \<and> CHR 0x0A \<notin> set (butlast l) \<and> (terminated l \<or> ls = [] \<and> P l) \<and> lines_ok P ls)"

lemma suffix_Cons_end: "suffix [x] (c # l) \<longleftrightarrow> (if l = [] then x = c else suffix [x] l)"
  by (auto simp: suffix_Cons)

lemma lines_ok_scan: "lines_ok (\<lambda>_. True) (scan_lines s)"
proof (induction s)
  case (Cons c s)
  then show ?case by (cases "scan_lines s") (auto simp: suffix_Cons_end)
qed simp

lemma lines_ok_filter: "lines_ok P ls \<Longrightarrow> lines_ok P (filter Q ls)"
  by (induction ls) auto

lemma lines_ok_split: "lines_ok (\<lambda>l. int (length l) < 65536) (splitLines s)"
proof -
  have "lines_ok (\<lambda>l. int (length l) < 65536) (filter (\<lambda>l. terminated l \<or> int (length l) < 65536) ls)"
    if "lines_ok (\<lambda>_. True) ls" for ls
    using that by (induction ls) auto
  then show ?thesis using lines_ok_scan by (simp add: splitLines_def)
qed

lemma scan_open: "CHR 0x0A \<notin> set l \<Longrightarrow> l \<noteq> [] \<Longrightarrow> scan_lines l = [l]"
proof (induction l)
  case (Cons c l)
  then show ?case by (cases l) auto
qed simp

lemma scan_terminated: "CHR 0x0A \<notin> set l \<Longrightarrow> scan_lines (l @ CHR 0x0A # s) = (l @ [CHR 0x0A]) # scan_lines s"
  by (induction l) auto

lemma scan_concat: "lines_ok P ls \<Longrightarrow> scan_lines (concat ls) = ls"
proof (induction ls)
  case (Cons l ls)
  show ?case
  proof (cases "terminated l")
    case True
    then obtain b where l: "l = b @ [CHR 0x0A]" by (auto simp: suffix_def)
    with Cons.prems have "CHR 0x0A \<notin> set b" by simp
    with Cons l show ?thesis by (simp add: scan_terminated)
  next
    case False
    with Cons.prems have l: "ls = []" "l \<noteq> []" "CHR 0x0A \<notin> set (butlast l)" by auto
    moreover have "last l \<noteq> CHR 0x0A" using False l(2) by (metis append_butlast_last_id suffixI)
    ultimately have "CHR 0x0A \<notin> set l" by (metis append_butlast_last_id in_set_conv_decomp_last insert_iff list.simps(15) rotate1.simps(2) set_rotate1)
    with l show ?thesis by (simp add: scan_open)
  qed
qed simp

lemma split_concat: "lines_ok (\<lambda>l. int (length l) < 65536) ls \<Longrightarrow> splitLines (concat ls) = ls"
proof -
  assume ok: "lines_ok (\<lambda>l. int (length l) < 65536) ls"
  then have "list_all (\<lambda>l. terminated l \<or> int (length l) < 65536) ls" by (induction ls) auto
  with scan_concat [OF ok] show ?thesis by (simp add: splitLines_def list_all_iff)
qed

section \<open>Assignments\<close>

definition put_line :: "labels \<Rightarrow> string \<Rightarrow> labels" where
  "put_line m line = (case parse_line (line_body line) of Inr (Some (k, v)) \<Rightarrow> gput k v m | _ \<Rightarrow> m)"

abbreviation parses :: "string \<Rightarrow> bool" where
  "parses line \<equiv> as_error (parse_line (line_body line)) = None"

lemma assign_lines: "foldE assign_line m (enumerate n lines) = Inr m' \<longleftrightarrow> list_all parses lines \<and> m' = foldl put_line m lines"
  by (induction lines arbitrary: m n) (auto simp: assign_line_def put_line_def as_error_None split: sum.splits option.splits)

lemma filter_assigns:
  "map_of m' = (map_of m)(key := None) \<Longrightarrow>
   map_of (foldl put_line m' (filter (\<lambda>line. \<not> assigns key line) lines)) = (map_of (foldl put_line m lines))(key := None)"
proof (induction lines arbitrary: m m')
  case (Cons line lines)
  have "map_of (if assigns key line then m' else put_line m' line) = (map_of (put_line m line))(key := None)"
    using Cons.prems by (auto simp: assigns_def put_line_def fun_upd_twist split: sum.splits option.splits)
  with Cons.IH show ?case by auto
qed simp

text \<open>The ending of a line does not matter to its meaning.\<close>

lemma body_terminated [simp]: "line_body (l @ [CHR 0x0A]) = trim_suffix [CHR 0x0D] l"
  by (simp add: line_body_def trim_suffix_def)

lemma parse_trimmed: "trim_space a = trim_space b \<Longrightarrow> parse_line a = parse_line b"
  by (simp add: parse_line_def)

lemma parse_ended:
  assumes "\<not> terminated l" and "newline \<in> {[CHR 0x0A], [CHR 0x0D, CHR 0x0A]}"
  shows "parse_line (line_body (l @ newline)) = parse_line (line_body l)"
proof -
  have cr: "is_space1 (CHR 0x0D)" "byte (CHR 0x0D) < 128" by (simp_all add: is_space1_def byte_def)
  have body: "line_body l = trim_suffix [CHR 0x0D] l" using assms(1) by (simp add: line_body_def trim_suffix_def)
  have "trim_space (trim_suffix [CHR 0x0D] l) = trim_space l"
    using trim_space_blank [OF cr] by (auto simp: trim_suffix_def suffix_def)
  moreover have "line_body (l @ [CHR 0x0D, CHR 0x0A]) = l"
    using body_terminated [of "l @ [CHR 0x0D]"] by (simp add: trim_suffix_def)
  ultimately show ?thesis using assms(2) body by (auto intro: parse_trimmed)
qed

section \<open>The store agrees with its file\<close>

definition env_inv :: "EnvStore \<Rightarrow> bool" where
  "env_inv s \<longleftrightarrow> splitLines (es_file s) = es_lines s \<and> int (length (es_file s)) \<le> maxFileBytes \<and>
     es_newline s \<in> {[CHR 0x0A], [CHR 0x0D, CHR 0x0A]} \<and> list_all parses (es_lines s) \<and>
     map_of (foldl put_line [] (es_lines s)) = map_of (es_managed s)"

lemma Open_Inr:
  "Open path lookup data = Inr s \<longleftrightarrow> trim_space path \<noteq> '''' \<and> int (length data) \<le> maxFileBytes \<and> list_all parses (splitLines data) \<and>
     s = \<lparr>es_lookup = lookup, es_managed = foldl put_line [] (splitLines data), es_live = [], es_lines = splitLines data,
       es_newline = (if contains data [CHR 0x0D, CHR 0x0A] then [CHR 0x0D, CHR 0x0A] else [CHR 0x0A]), es_file = data\<rparr>"
proof -
  have "foldE assign_line [] (enumerate 0 (splitLines data)) = Inr m \<longleftrightarrow>
      list_all parses (splitLines data) \<and> m = foldl put_line [] (splitLines data)" for m
    by (rule assign_lines)
  note lines = this
  show ?thesis
  proof (cases "foldE assign_line [] (enumerate 0 (splitLines data))")
    case (Inl e)
    with lines show ?thesis by (auto simp: Open_def Let_def)
  next
    case (Inr m)
    with lines [of m] show ?thesis by (simp add: Open_def Let_def not_less eq_commute [of s])
  qed
qed

lemma env_inv_Open: "Open path lookup data = Inr s \<Longrightarrow> env_inv s"
  by (auto simp: Open_Inr env_inv_def)

lemma env_inv_lines: "env_inv s \<Longrightarrow> lines_ok (\<lambda>l. int (length l) < 65536) (es_lines s)"
  using lines_ok_split by (metis env_inv_def)

lemma finish_lines_ok:
  assumes "lines_ok P ls" and "newline \<in> {[CHR 0x0A], [CHR 0x0D, CHR 0x0A]}" and "lines_ok Q [line]"
  shows "lines_ok Q (finish_last newline ls @ [line])"
  using assms(1)
proof (induction ls)
  case (Cons l ls)
  have grown: "CHR 0x0A \<notin> set l" if "CHR 0x0A \<notin> set (butlast l)" "\<not> terminated l" "l \<noteq> []"
  proof -
    from that(3) have l: "l = butlast l @ [last l]" by simp
    with that(2) have "last l \<noteq> CHR 0x0A" by (metis suffixI)
    with that(1) l show ?thesis by (metis Un_iff empty_iff empty_set insert_iff list.simps(15) set_append)
  qed
  have step: "finish_last newline (l # l' # ls') = l # finish_last newline (l' # ls')" for l' ls'
    by (simp add: finish_last_def)
  show ?case
  proof (cases ls)
    case Nil
    with Cons.prems grown assms(2,3) show ?thesis by (auto simp: finish_last_def suffix_def butlast_append)
  next
    case (Cons l' ls')
    with Cons.IH Cons.prems step show ?thesis by auto
  qed
qed (use assms(3) in \<open>simp add: finish_last_def\<close>)

lemma put_ended: "parse_line (line_body a) = parse_line (line_body b) \<Longrightarrow> put_line m a = put_line m b"
  by (simp add: put_line_def)

lemma finish_meaning:
  assumes "newline \<in> {[CHR 0x0A], [CHR 0x0D, CHR 0x0A]}"
  shows "foldl put_line m (finish_last newline ls) = foldl put_line m ls"
    and "list_all parses ls \<Longrightarrow> list_all parses (finish_last newline ls)"
proof -
  have "foldl put_line m (finish_last newline ls) = foldl put_line m ls \<and>
      (list_all parses ls \<longrightarrow> list_all parses (finish_last newline ls))"
  proof (cases "ls \<noteq> [] \<and> \<not> terminated (last ls)")
    case True
    then obtain b z where ls: "ls = b @ [z]" by (cases ls rule: rev_cases) auto
    with True parse_ended [OF _ assms] have z: "parse_line (line_body (z @ newline)) = parse_line (line_body z)" by simp
    from True ls have "finish_last newline ls = b @ [z @ newline]" by (simp add: finish_last_def)
    with ls z put_ended [OF z] show ?thesis by simp
  next
    case False
    then show ?thesis by (auto simp: finish_last_def)
  qed
  then show "foldl put_line m (finish_last newline ls) = foldl put_line m ls"
    and "list_all parses ls \<Longrightarrow> list_all parses (finish_last newline ls)" by blast+
qed

lemma suffix_mem: "suffix [c] s \<Longrightarrow> c \<in> set s"
  by (auto simp: suffix_def)

lemma encoded_clean:
  assumes "CHR 0x0A \<notin> set v" and "CHR 0x0D \<notin> set v"
  shows "CHR 0x0A \<notin> set (encodeValue v)" "CHR 0x0D \<notin> set (encodeValue v)"
proof -
  have "encodeValue v = Quote v \<or> encodeValue v = v" by (simp add: encodeValue_def)
  moreover have "CHR 0x0A \<notin> set (Quote v)" "CHR 0x0D \<notin> set (Quote v)" by (simp_all add: Quote_def quote_char_clean)
  ultimately show "CHR 0x0A \<notin> set (encodeValue v)" "CHR 0x0D \<notin> set (encodeValue v)" using assms by metis+
qed

lemma new_line:
  assumes "validate_env key v = None" and "newline \<in> {[CHR 0x0A], [CHR 0x0D, CHR 0x0A]}"
  shows "lines_ok P [key @ ''='' @ encodeValue v @ newline]"
    and "kept_value v \<Longrightarrow> parse_line (line_body (key @ ''='' @ encodeValue v @ newline)) = Inr (Some (key, v))"
proof -
  let ?forbidden = "[CHR 0x0D, CHR 0x0A, CHR 0x00]"
  from assms(1) have key: "key_valid key" and none: "\<not> contains_any v ?forbidden"
    unfolding validate_env_def by (metis option.distinct(1))+
  have "c \<notin> set v" if "c \<in> set ?forbidden" for c
    using none that unfolding contains_any_def list_ex_iff by blast
  from this [of "CHR 0x0A"] this [of "CHR 0x0D"] have v: "CHR 0x0A \<notin> set v" "CHR 0x0D \<notin> set v" by simp_all
  note encoded = encoded_clean [OF v]
  have "CHR 0x0A \<notin> set key" using key_char(3) [OF key] by blast
  with encoded(1) have clean: "CHR 0x0A \<notin> set (key @ ''='' @ encodeValue v)" by simp
  then have "\<not> terminated (key @ ''='' @ encodeValue v)" by (metis suffix_mem)
  from parse_ended [OF this assms(2)]
  have ended: "parse_line (line_body (key @ ''='' @ encodeValue v @ newline)) = parse_line (line_body (key @ ''='' @ encodeValue v))"
    by simp
  have "lines_ok P [l @ newline]" if "CHR 0x0A \<notin> set l" for l
    using that assms(2) suffixI [of "l @ [CHR 0x0D, CHR 0x0A]" "l @ [CHR 0x0D]" "[CHR 0x0A]"]
    by (elim insertE) (simp_all add: butlast_append)
  from this [OF clean] show "lines_ok P [key @ ''='' @ encodeValue v @ newline]" by simp
  have "is_space1 (CHR 0x0D)" by (simp add: is_space1_def byte_def)
  with key_char(2) [OF key] have "CHR 0x0D \<notin> set key" by blast
  with encoded(2) have "CHR 0x0D \<notin> set (key @ ''='' @ encodeValue v)" by simp
  then have "\<not> suffix [CHR 0x0D] (key @ ''='' @ encodeValue v)" by (metis suffix_mem)
  with \<open>\<not> terminated (key @ ''='' @ encodeValue v)\<close> have "line_body (key @ ''='' @ encodeValue v) = key @ ''='' @ encodeValue v"
    by (simp add: line_body_def trim_suffix_def)
  with ended parse_assignment [OF key] show "kept_value v \<Longrightarrow> parse_line (line_body (key @ ''='' @ encodeValue v @ newline)) = Inr (Some (key, v))"
    by simp
qed

lemma env_inv_rewrite:
  assumes inv: "env_inv s" and done_: "rewrite_env written s key v = Inr t"
    and valid: "case v of None \<Rightarrow> True | Some w \<Rightarrow> validate_env key w = None \<and> kept_value w"
  shows "env_inv t"
proof -
  let ?kept = "filter (\<lambda>line. \<not> assigns key line) (es_lines s)" and ?P = "\<lambda>l :: string. int (length l) < 65536"
  from done_ have t: "int (length (concat (rewritten s key v))) \<le> maxFileBytes" "es_file t = concat (rewritten s key v)"
      "es_lines t = rewritten s key v" "es_newline t = es_newline s"
      "es_managed t = (case v of None \<Rightarrow> gdel key (es_managed s) | Some w \<Rightarrow> gput key w (es_managed s))"
    by (auto simp: rewrite_env_def Let_def split: if_splits)
  from inv have newline: "es_newline s \<in> {[CHR 0x0A], [CHR 0x0D, CHR 0x0A]}"
    and managed: "map_of (foldl put_line [] (es_lines s)) = map_of (es_managed s)"
    and parses: "list_all parses ?kept"
    by (auto simp: env_inv_def list_all_iff)
  note kept_ok = lines_ok_filter [OF env_inv_lines [OF inv], of "\<lambda>line. \<not> assigns key line"]
  from filter_assigns [of "[]" "[]" key] managed
  have kept: "map_of (foldl put_line [] ?kept) = (map_of (es_managed s))(key := None)" by simp
  have "lines_ok ?P (rewritten s key v) \<and> list_all parses (rewritten s key v) \<and>
      map_of (foldl put_line [] (rewritten s key v)) = map_of (es_managed t)"
  proof (cases v)
    case None
    with kept_ok kept parses t show ?thesis by (simp add: rewritten_def)
  next
    case (Some w)
    let ?line = "key @ ''='' @ encodeValue w @ es_newline s"
    from Some valid have w: "validate_env key w = None" "kept_value w" by simp_all
    note line = new_line [OF w(1) newline]
    from line(2) [OF w(2)] have "parses ?line" "put_line m ?line = gput key w m" for m by (simp_all add: put_line_def)
    moreover have "lines_ok ?P (finish_last (es_newline s) ?kept @ [?line])"
      by (rule finish_lines_ok [OF kept_ok newline line(1)])
    ultimately show ?thesis
      using Some kept finish_meaning [OF newline] parses t by (simp add: rewritten_def)
  qed
  with t newline show ?thesis by (simp add: env_inv_def split_concat)
qed

section \<open>Restarts\<close>

datatype EnvOp = OpReplace bool string string | OpClear bool string

fun env_step :: "EnvStore \<Rightarrow> EnvOp \<Rightarrow> EnvError + EnvStore" where
  "env_step s (OpReplace written key v) = Replace written s key v"
| "env_step s (OpClear written key) = Clear written s key"

text \<open>A failed operation leaves the store as it was.\<close>

definition env_next :: "EnvStore \<Rightarrow> EnvOp \<Rightarrow> EnvStore" where
  "env_next s op = (case env_step s op of Inl _ \<Rightarrow> s | Inr t \<Rightarrow> t)"

fun kept_op :: "EnvOp \<Rightarrow> bool" where
  "kept_op (OpReplace _ _ v) = kept_value v"
| "kept_op (OpClear _ _) = True"

lemma env_inv_next: "env_inv s \<Longrightarrow> kept_op op \<Longrightarrow> env_inv (env_next s op)"
  by (cases op) (auto simp: env_next_def Replace_def Clear_def split: sum.splits option.splits if_splits
      intro: env_inv_rewrite)

lemma env_inv_run: "env_inv s \<Longrightarrow> list_all kept_op ops \<Longrightarrow> env_inv (foldl env_next s ops)"
  by (induction ops arbitrary: s) (auto intro: env_inv_next)


definition demo_env :: string where
  "demo_env = ''# operator note'' @ [CHR 0x0A] @ ''OTHER=value''"

definition demo_ops :: "EnvOp list" where
  "demo_ops = [OpReplace True ''KEY'' ''a #b'', OpReplace False ''KEY'' ''lost'', OpClear True ''OTHER'']"

lemma demo_open: "\<exists>s. Open ''/env'' Map.empty demo_env = Inr s \<and> es_managed (foldl env_next s demo_ops) = [(''KEY'', ''a #b'')]"
proof -
  have "(case Open ''/env'' (\<lambda>_. None) demo_env of Inl e \<Rightarrow> False | Inr s \<Rightarrow>
      es_managed (foldl env_next s demo_ops) = [(''KEY'', ''a #b'')])"
    by code_simp
  then show ?thesis by (auto split: sum.splits)
qed


text \<open>
  The proviso is needed: a vertical tab at an end of a value is neither refused nor quoted, and is
  lost on a restart.
\<close>

lemma vertical_tab_lost:
  "(case Open ''/env'' (\<lambda>_. None) '''' of Inl e \<Rightarrow> False | Inr s \<Rightarrow>
      (case Replace True s ''K'' [CHR 0x0B, CHR ''x''] of Inl e \<Rightarrow> False | Inr t \<Rightarrow>
        Getenv t ''K'' = [CHR 0x0B, CHR ''x''] \<and>
        (case Open ''/env'' (\<lambda>_. None) (es_file t) of Inl e \<Rightarrow> False | Inr u \<Rightarrow> Getenv u ''K'' = ''x'')))"
  by code_simp

end
