(* ===== verification/Web_Auth.thy ===== *)
theory Web_Auth
  imports Go_Strings
begin

text \<open>
  The remote-serving authentication boundary (\<^verbatim>\<open>internal/web/auth.go\<close> and \<^verbatim>\<open>sameOrigin\<close> of server.go):
  who is let through to the application, the signed session cookie, login and logout with their
  revocations. The hash, the MAC, base64 and the network functions of the standard library are
  parameters, the fields of \<open>primitives\<close>. Instants are nanoseconds since the Unix epoch. A handler
  reads its clock more than once; every reading is an argument.
\<close>

section \<open>Requests and configuration\<close>

datatype SecurityMode = SecurityNone | SecurityBearer | SecurityTrustedProxy | OtherMode string

record Security =
  sy_Mode :: SecurityMode
  sy_BearerToken :: string
  sy_SecureCookies :: bool
  sy_ProxyHeader :: string
  sy_ProxyValue :: string
  sy_TrustedProxies :: "(string \<Rightarrow> bool) list"

record primitives =
  pm_Hash :: "string \<Rightarrow> string"
  pm_MAC :: "string \<Rightarrow> string \<Rightarrow> string"
  pm_Encode :: "string \<Rightarrow> string"
  pm_Decode :: "string \<Rightarrow> string option"
  pm_CanonicalHeader :: "string \<Rightarrow> string"
  pm_Host :: "string \<Rightarrow> string option"

record OriginURL =
  og_Scheme :: string
  og_Host :: string
  og_User :: bool
  og_RawQuery :: string
  og_Fragment :: string

text \<open>\<open>rq_Form\<close> is the token field of the parsed form, or nothing when the body does not parse.\<close>

record WebRequest =
  rq_Method :: string
  rq_Path :: string
  rq_Host :: string
  rq_TLS :: bool
  rq_RemoteAddr :: string
  rq_Headers :: labels
  rq_Cookie :: "string option"
  rq_Form :: "string option"
  rq_Origin :: "OriginURL option"

definition sameOrigin :: "WebRequest \<Rightarrow> bool" where
  "sameOrigin r =
     (if sget (rq_Headers r) ''Sec-Fetch-Site'' = ''cross-site'' then False
      else if sget (rq_Headers r) ''Origin'' = '''' then True
      else case rq_Origin r of
          None \<Rightarrow> False
        | Some u \<Rightarrow> og_Scheme u = (if rq_TLS r then ''https'' else ''http'') \<and> og_Host u = rq_Host r \<and>
            \<not> og_User u \<and> og_RawQuery u = '''' \<and> og_Fragment u = '''')"

definition security_validate :: "primitives \<Rightarrow> Security \<Rightarrow> string option" where
  "security_validate p c =
     (case sy_Mode c of
        SecurityNone \<Rightarrow> None
      | SecurityBearer \<Rightarrow>
          if length (sy_BearerToken c) < 16 then Some ''bearer credential must contain at least 16 bytes''
          else if \<not> sy_SecureCookies c then Some ''bearer mode requires TLS-secure session cookies''
          else None
      | SecurityTrustedProxy \<Rightarrow>
          if sy_ProxyHeader c = '''' \<or> pm_CanonicalHeader p (sy_ProxyHeader c) \<noteq> sy_ProxyHeader c \<or>
             sy_ProxyValue c = '''' \<or> sy_TrustedProxies c = [] then
            Some ''trusted-proxy mode requires a canonical identity header, exact value, and trusted proxy networks''
          else None
      | OtherMode m \<Rightarrow> Some (''unknown remote security mode '' @ go_quote m))"

definition secureEqual :: "primitives \<Rightarrow> string \<Rightarrow> string \<Rightarrow> bool" where
  "secureEqual p l r \<longleftrightarrow> pm_Hash p l = pm_Hash p r"

section \<open>Sessions\<close>

record AuthState =
  au_Revoked :: "(string, time) gomap"

definition sessionLifetime :: duration where
  "sessionLifetime = 8 * 60 * minute"

definition session :: "primitives \<Rightarrow> Security \<Rightarrow> time \<Rightarrow> string \<Rightarrow> (string \<times> time) option" where
  "session p c now v =
     (case split_at CHR ''.'' v of
        [nonce, seconds, mac] \<Rightarrow>
          if nonce = '''' \<or> seconds = '''' \<or> mac = '''' then None
          else (case atoi seconds of
              None \<Rightarrow> None
            | Some unix \<Rightarrow>
                let issued = unix * second; expires = issued + sessionLifetime
                in if now + minute < issued \<or> expires \<le> now then None
                   else (case pm_Decode p mac of
                       None \<Rightarrow> None
                     | Some provided \<Rightarrow>
                         if provided = pm_MAC p (sy_BearerToken c) (nonce @ ''.'' @ seconds) then Some (nonce, expires) else None))
      | _ \<Rightarrow> None)"

definition forget_expired :: "time \<Rightarrow> AuthState \<Rightarrow> AuthState" where
  "forget_expired now s = s\<lparr>au_Revoked := filter (\<lambda>(_, expires). now < expires) (au_Revoked s)\<rparr>"

text \<open>The clock is read in \<^verbatim>\<open>session\<close> and again before the revocations are consulted.\<close>

definition validSession :: "primitives \<Rightarrow> Security \<Rightarrow> time \<Rightarrow> time \<Rightarrow> string \<Rightarrow> AuthState \<Rightarrow> bool \<times> AuthState" where
  "validSession p c now again v s =
     (case session p c now v of
        None \<Rightarrow> (False, s)
      | Some (nonce, _) \<Rightarrow>
          let s' = forget_expired again s in (map_of (au_Revoked s') nonce = None, s'))"

definition proxy_trusted :: "primitives \<Rightarrow> Security \<Rightarrow> WebRequest \<Rightarrow> bool" where
  "proxy_trusted p c r =
     (case pm_Host p (rq_RemoteAddr r) of
        None \<Rightarrow> False
      | Some host \<Rightarrow> list_ex (\<lambda>network. network host) (sy_TrustedProxies c) \<and>
          secureEqual p (sget (rq_Headers r) (sy_ProxyHeader c)) (sy_ProxyValue c))"

definition bearer_header :: "primitives \<Rightarrow> Security \<Rightarrow> WebRequest \<Rightarrow> bool" where
  "bearer_header p c r =
     (let v = sget (rq_Headers r) ''Authorization''
      in prefix ''Bearer '' v \<and> secureEqual p (trim_prefix ''Bearer '' v) (sy_BearerToken c))"

definition authorized :: "primitives \<Rightarrow> Security \<Rightarrow> time \<Rightarrow> time \<Rightarrow> WebRequest \<Rightarrow> AuthState \<Rightarrow> bool \<times> AuthState" where
  "authorized p c now again r s =
     (case sy_Mode c of
        SecurityNone \<Rightarrow> (True, s)
      | SecurityBearer \<Rightarrow>
          if bearer_header p c r then (True, s)
          else (case rq_Cookie r of None \<Rightarrow> (False, s) | Some v \<Rightarrow> validSession p c now again v s)
      | SecurityTrustedProxy \<Rightarrow> (proxy_trusted p c r, s)
      | OtherMode _ \<Rightarrow> (False, s))"

section \<open>The handler\<close>

datatype AuthReply =
    LoginPage | MethodNotAllowed | InvalidCredentials | SessionUnavailable | SignedIn string
  | InvalidLogout | SignedOut | Forwarded | AuthenticationRequired

definition session_cookie :: "primitives \<Rightarrow> Security \<Rightarrow> time \<Rightarrow> string \<Rightarrow> string" where
  "session_cookie p c now random =
     (let payload = pm_Encode p random @ ''.'' @ itoa (now div second)
      in payload @ ''.'' @ pm_Encode p (pm_MAC p (sy_BearerToken c) payload))"

definition login :: "primitives \<Rightarrow> Security \<Rightarrow> time \<Rightarrow> string option \<Rightarrow> WebRequest \<Rightarrow> AuthReply" where
  "login p c now random r =
     (if rq_Method r = ''GET'' then LoginPage
      else if rq_Method r \<noteq> ''POST'' then MethodNotAllowed
      else if \<not> sameOrigin r then InvalidCredentials
      else case rq_Form r of
          None \<Rightarrow> InvalidCredentials
        | Some token \<Rightarrow>
            if \<not> secureEqual p token (sy_BearerToken c) then InvalidCredentials
            else (case random of None \<Rightarrow> SessionUnavailable | Some bytes \<Rightarrow> SignedIn (session_cookie p c now bytes)))"

definition logout :: "primitives \<Rightarrow> Security \<Rightarrow> time \<Rightarrow> WebRequest \<Rightarrow> AuthState \<Rightarrow> AuthReply \<times> AuthState" where
  "logout p c now r s =
     (if rq_Method r \<noteq> ''POST'' \<or> \<not> sameOrigin r then (InvalidLogout, s)
      else (SignedOut,
        case rq_Cookie r of
          None \<Rightarrow> s
        | Some v \<Rightarrow>
            (case session p c now v of
               None \<Rightarrow> s
             | Some (nonce, expires) \<Rightarrow> s\<lparr>au_Revoked := gput nonce expires (au_Revoked s)\<rparr>)))"

definition serve :: "primitives \<Rightarrow> Security \<Rightarrow> time \<Rightarrow> time \<Rightarrow> string option \<Rightarrow> WebRequest \<Rightarrow> AuthState \<Rightarrow> AuthReply \<times> AuthState" where
  "serve p c now again random r s =
     (if sy_Mode c = SecurityBearer \<and> rq_Path r = ''/login'' then (login p c now random r, s)
      else if sy_Mode c = SecurityBearer \<and> rq_Path r = ''/logout'' then logout p c now r s
      else case authorized p c now again r s of
          (ok, s') \<Rightarrow> (if ok then Forwarded else AuthenticationRequired, s'))"

definition new_handler :: AuthState where
  "new_handler = \<lparr>au_Revoked = []\<rparr>"

section \<open>Sessions end\<close>

text \<open>
  A run of the handler: requests with the two clock readings each sees, which never go back.
\<close>

record visit =
  vs_Now :: time
  vs_Again :: time
  vs_Random :: "string option"
  vs_Request :: WebRequest

definition visited :: "primitives \<Rightarrow> Security \<Rightarrow> AuthState \<Rightarrow> visit \<Rightarrow> AuthState" where
  "visited p c s v = snd (serve p c (vs_Now v) (vs_Again v) (vs_Random v) (vs_Request v) s)"

fun in_order :: "time \<Rightarrow> visit list \<Rightarrow> bool" where
  "in_order t [] = True"
| "in_order t (v # vs) \<longleftrightarrow> t \<le> vs_Now v \<and> vs_Now v \<le> vs_Again v \<and> in_order (vs_Again v) vs"

fun end_time :: "time \<Rightarrow> visit list \<Rightarrow> time" where
  "end_time t [] = t"
| "end_time t (v # vs) = end_time (vs_Again v) vs"

lemma map_of_filter: "well_keyed m \<Longrightarrow>
    map_of (filter (\<lambda>(_, v). P v) m) k = (case map_of m k of Some v \<Rightarrow> if P v then Some v else None | None \<Rightarrow> None)"
proof (induction m)
  case (Cons kv m)
  then have "map_of m (fst kv) = None" by (cases kv) (simp add: well_keyed_def map_of_eq_None_iff)
  with Cons show ?case by (cases kv) (auto simp: well_keyed_def split: option.splits)
qed simp

lemma well_keyed_filter [simp]: "well_keyed m \<Longrightarrow> well_keyed (filter P m)"
  by (simp add: well_keyed_def distinct_map_filter)

text \<open>Every session of the nonce ends at \<open>e\<close>: the nonce was issued once and the MAC is not forged.\<close>

definition issued_once :: "primitives \<Rightarrow> Security \<Rightarrow> string \<Rightarrow> time \<Rightarrow> bool" where
  "issued_once p c nonce e \<longleftrightarrow> (\<forall>now v x. session p c now v = Some (nonce, x) \<longrightarrow> x = e)"

definition bars :: "string \<Rightarrow> time \<Rightarrow> time \<Rightarrow> AuthState \<Rightarrow> bool" where
  "bars nonce e t s \<longleftrightarrow> e \<le> t \<or> map_of (au_Revoked s) nonce = Some e"

definition forgetful :: "time \<Rightarrow> AuthState \<Rightarrow> AuthState \<Rightarrow> bool" where
  "forgetful again s s' \<longleftrightarrow> s' = s \<or> s' = forget_expired again s"

lemma authorized_state: "forgetful again s (snd (authorized p c now again r s))"
  by (simp add: authorized_def validSession_def forgetful_def Let_def split: SecurityMode.splits option.splits prod.splits)

lemma visited_state:
  "forgetful (vs_Again v) s (visited p c s v) \<or>
   (\<exists>nonce x w. session p c (vs_Now v) w = Some (nonce, x) \<and> visited p c s v = s\<lparr>au_Revoked := gput nonce x (au_Revoked s)\<rparr>)"
proof -
  have "forgetful t s s" for t by (simp add: forgetful_def)
  with authorized_state [of "vs_Again v" s p c "vs_Now v" "vs_Request v"] show ?thesis
    by (auto simp: visited_def serve_def logout_def split: if_splits option.splits prod.splits)
qed

lemma visited_keyed: "well_keyed (au_Revoked s) \<Longrightarrow> well_keyed (au_Revoked (visited p c s v))"
  using visited_state [of v s p c] by (auto simp: forgetful_def forget_expired_def)

lemma visited_bars:
  assumes "issued_once p c nonce e" and "well_keyed (au_Revoked s)" and "bars nonce e t s" and "t \<le> vs_Again v"
  shows "bars nonce e (vs_Again v) (visited p c s v)"
  using visited_state [of v s p c]
proof (elim disjE exE conjE)
  assume "forgetful (vs_Again v) s (visited p c s v)"
  with assms(2-) show ?thesis
    by (auto simp: forgetful_def bars_def forget_expired_def map_of_filter [where P = "\<lambda>x. vs_Again v < x"] split: if_splits)
next
  fix n x w assume w: "session p c (vs_Now v) w = Some (n, x)" "visited p c s v = s\<lparr>au_Revoked := gput n x (au_Revoked s)\<rparr>"
  with assms(1) have "n = nonce \<Longrightarrow> x = e" by (auto simp: issued_once_def)
  with assms(3,4) w(2) show ?thesis by (auto simp: bars_def)
qed

lemma run_keyed: "well_keyed (au_Revoked s) \<Longrightarrow> well_keyed (au_Revoked (foldl (visited p c) s vs))"
  by (induction vs arbitrary: s) (simp_all add: visited_keyed)

lemma run_bars:
  "issued_once p c nonce e \<Longrightarrow> well_keyed (au_Revoked s) \<Longrightarrow> bars nonce e t s \<Longrightarrow> in_order t vs \<Longrightarrow>
   bars nonce e (end_time t vs) (foldl (visited p c) s vs)"
proof (induction vs arbitrary: s t)
  case (Cons v vs)
  then have "t \<le> vs_Again v" by simp
  from Cons.IH [OF Cons.prems(1) visited_keyed [OF Cons.prems(2)] visited_bars [OF Cons.prems(1-3) this]] Cons.prems(4)
  show ?case by simp
qed simp

lemma in_order_append: "in_order t (vs @ ws) \<longleftrightarrow> in_order t vs \<and> in_order (end_time t vs) ws"
  by (induction vs arbitrary: t) auto


text \<open>A concrete signer that signs one payload, the session \<open>n\<close> issued at the epoch.\<close>

definition demo_signer :: primitives where
  "demo_signer = \<lparr>pm_Hash = id, pm_MAC = (\<lambda>key payload. if payload = ''n.0'' then ''m'' else ''''), pm_Encode = id,
     pm_Decode = (\<lambda>s. if s = ''m'' then Some ''m'' else None), pm_CanonicalHeader = id, pm_Host = (\<lambda>_. None)\<rparr>"

definition demo_security :: Security where
  "demo_security = \<lparr>sy_Mode = SecurityBearer, sy_BearerToken = ''correct horse battery'', sy_SecureCookies = True,
     sy_ProxyHeader = '''', sy_ProxyValue = '''', sy_TrustedProxies = []\<rparr>"

definition demo_visit :: "string \<Rightarrow> string \<Rightarrow> time \<Rightarrow> time \<Rightarrow> visit" where
  "demo_visit verb path now again = \<lparr>vs_Now = now, vs_Again = again, vs_Random = None, vs_Request =
     \<lparr>rq_Method = verb, rq_Path = path, rq_Host = ''h'', rq_TLS = True, rq_RemoteAddr = '''', rq_Headers = [],
      rq_Cookie = Some ''n.0.m'', rq_Form = None, rq_Origin = None\<rparr>\<rparr>"

lemma demo_session:
  "session demo_signer demo_security 5 ''n.0.m'' = Some (''n'', sessionLifetime)"
  "session demo_signer demo_security 8 ''n.0.m'' = Some (''n'', sessionLifetime)"
  by code_simp+

lemma demo_issued_once: "issued_once demo_signer demo_security ''n'' sessionLifetime"
  unfolding issued_once_def
proof (intro allI impI)
  fix now v x assume "session demo_signer demo_security now v = Some (''n'', x)"
  then obtain seconds unix where "atoi seconds = Some unix" "x = unix * second + sessionLifetime" "''n.'' @ seconds = ''n.0''"
    by (auto simp: session_def demo_signer_def Let_def split: list.splits if_splits option.splits)
  moreover have "atoi ''0'' = Some 0" by code_simp
  ultimately show "x = sessionLifetime" by simp
qed


text \<open>
  The proviso is needed: between the two readings the session can expire, be forgotten, and then
  count as not revoked.
\<close>

lemma logout_forgotten_at_expiry:
  "fst (serve demo_signer demo_security (sessionLifetime - 1) sessionLifetime None
      (vs_Request (demo_visit ''GET'' ''/'' 0 0))
      (visited demo_signer demo_security new_handler (demo_visit ''POST'' ''/logout'' 5 5))) = Forwarded"
  by code_simp

section \<open>Signing in\<close>

text \<open>
  Signing in works: the cookie that a login sets is a session, with the encoded random bytes as
  its identity, exactly until eight hours after the second in which it was issued, and not for a
  clock more than a minute behind it; whatever the MAC, with an encoding that decodes and has no
  full stop.
\<close>

theorem login_opens_session:
  assumes "login p c issued (Some random) r = SignedIn cookie"
    and "\<And>s. pm_Decode p (pm_Encode p s) = Some s" and "\<And>s. CHR ''.'' \<notin> set (pm_Encode p s)"
    and "pm_Encode p random \<noteq> ''''" and "\<And>k s. pm_Encode p (pm_MAC p k s) \<noteq> ''''" and "0 \<le> issued" and "int64 issued"
  shows "session p c now cookie =
    (let start = issued div second * second
     in if start \<le> now + minute \<and> now < start + sessionLifetime then Some (pm_Encode p random, start + sessionLifetime) else None)"
proof -
  let ?secs = "itoa (issued div second)"
  from assms(1) have cookie: "cookie = session_cookie p c issued random"
    by (simp add: login_def split: if_splits option.splits)
  have secs: "0 \<le> issued div second" "int64 (issued div second)"
    using assms(6,7) by (auto simp: int64_def second_def pos_imp_zdiv_nonneg_iff intro: order_le_less_trans [OF zdiv_mono2 [of issued 1 1000000000, simplified]])
  have "\<not> is_digit CHR ''.''" by (simp add: is_digit_def byte_def)
  with secs(1) have "CHR ''.'' \<notin> set ?secs" by (rule itoa_clean)
  then have "split_at CHR ''.'' cookie = [pm_Encode p random, ?secs,
      pm_Encode p (pm_MAC p (sy_BearerToken c) (pm_Encode p random @ ''.'' @ ?secs))]"
    using assms(3) by (simp add: cookie session_cookie_def Let_def split_at_append)
  moreover have "?secs \<noteq> ''''" by (simp add: itoa_def)
  ultimately show ?thesis
    using assms(2,4,5) atoi_itoa [OF secs] by (simp add: session_def Let_def not_less not_le)
qed

text \<open>An encoding without full stops.\<close>

fun dotless :: "string \<Rightarrow> string" where
  "dotless [] = []"
| "dotless (c # s) = (if c = CHR ''.'' then ''~d'' else if c = CHR ''~'' then ''~t'' else [c]) @ dotless s"

fun undot :: "string \<Rightarrow> string" where
  "undot [] = []"
| "undot [c] = [c]"
| "undot (c # d # s) = (if c = CHR ''~'' then (if d = CHR ''d'' then CHR ''.'' else CHR ''~'') # undot s else c # undot (d # s))"

lemma undot_plain: "c \<noteq> CHR ''~'' \<Longrightarrow> undot (c # s) = c # undot s"
  by (cases s) simp_all

lemma undot_dotless [simp]: "undot (dotless s) = s"
  by (induction s) (simp_all add: undot_plain)

lemma dotless_clean [simp]: "CHR ''.'' \<notin> set (dotless s)"
  by (induction s) auto

definition dotless_signer :: primitives where
  "dotless_signer = \<lparr>pm_Hash = id, pm_MAC = (\<lambda>key payload. key @ payload), pm_Encode = (\<lambda>s. CHR ''q'' # dotless s),
     pm_Decode = (\<lambda>s. Some (undot (tl s))), pm_CanonicalHeader = id, pm_Host = (\<lambda>_. None)\<rparr>"

definition demo_login :: WebRequest where
  "demo_login = (vs_Request (demo_visit ''POST'' ''/login'' 0 0))\<lparr>rq_Form := Some ''correct horse battery''\<rparr>"

theorem login_opens_session_witness:
  "\<exists>cookie. login dotless_signer demo_security 90000000001 (Some ''r'') demo_login = SignedIn cookie \<and>
     session dotless_signer demo_security 90000000002 cookie = Some (''qr'', 90000000000 + sessionLifetime)"
proof -
  obtain cookie where cookie: "login dotless_signer demo_security 90000000001 (Some ''r'') demo_login = SignedIn cookie"
    by (simp add: login_def demo_login_def demo_visit_def sameOrigin_def sget_def secureEqual_def demo_security_def)
  have "session dotless_signer demo_security 90000000002 cookie =
    (let start = 90000000001 div second * second
     in if start \<le> 90000000002 + minute \<and> 90000000002 < start + sessionLifetime
        then Some (pm_Encode dotless_signer ''r'', start + sessionLifetime) else None)"
    by (rule login_opens_session [OF cookie]) (simp_all add: dotless_signer_def int64_def)
  also have "\<dots> = Some (''qr'', 90000000000 + sessionLifetime)"
    by (simp add: dotless_signer_def duration_units sessionLifetime_def Let_def)
  finally show ?thesis using cookie by blast
qed

end
