(* ===== verification/Test_Oscar.thy ===== *)
theory Test_Oscar
  imports Runner_World Oscar_Requests Go_Strings
begin

text \<open>
  The correlation model of OSCAR that the runner is tested against (\<^verbatim>\<open>internal/testoscar/model.go\<close>):
  its clock, rules and alerts, the trigger of every pattern, and the History and audit rows it
  answers with; at the end the model as an \<^verbatim>\<open>API\<close> of the runner. The first twelve hex digits of the
  SHA-256 of a text are a parameter, \<open>digest\<close>. An index that the code reports as -1 is \<^term>\<open>None\<close>.
\<close>

section \<open>State\<close>

record model_alert =
  ma_Plan :: AlertPlan
  ma_Fingerprint :: string
  ma_At :: time

record oscar_model =
  tm_Now :: time
  tm_NextID :: int
  tm_Rules :: "(int, RulePlan) gomap"
  tm_Alerts :: "model_alert list"
  tm_Deleted :: "int list"

definition NewModel :: "time \<Rightarrow> oscar_model" where
  "NewModel start = \<lparr>tm_Now = start, tm_NextID = 70, tm_Rules = [], tm_Alerts = [], tm_Deleted = []\<rparr>"

section \<open>Dynamic values\<close>

text \<open>\<^verbatim>\<open>fmt.Sprint\<close>; a map is printed in the order of its keys.\<close>

fun sprint :: "anyval \<Rightarrow> string" where
  "sprint (AnyString s) = s"
| "sprint (AnyInt n) = itoa n"
| "sprint (AnyLabels m) = ''map['' @ join '' '' (map (\<lambda>(k, v). k @ '':'' @ v) (sort_key fst m)) @ '']''"
| "sprint (AnyMap m) = ''map['' @ join '' '' (map (\<lambda>(k, v). k @ '':'' @ v) (sort_key fst (map (\<lambda>(k, v). (k, sprint v)) m))) @ '']''"
| "sprint (AnyList xs) = ''['' @ join '' '' (map sprint xs) @ '']''"
| "sprint (AnyStrings xs) = ''['' @ join '' '' xs @ '']''"

definition asInt :: "anyval option \<Rightarrow> int" where
  "asInt v = (case v of Some (AnyInt n) \<Rightarrow> n | _ \<Rightarrow> 0)"

definition stringMap :: "anyval option \<Rightarrow> labels" where
  "stringMap v = (case v of Some (AnyLabels m) \<Rightarrow> m | Some (AnyMap m) \<Rightarrow> map (\<lambda>(k, w). (k, sprint w)) m | _ \<Rightarrow> [])"

definition matchList :: "anyval option \<Rightarrow> labels list" where
  "matchList v = (case v of Some (AnyList xs) \<Rightarrow> map (\<lambda>x. stringMap (Some x)) xs | _ \<Rightarrow> [])"

definition criterion_of :: "RulePlan \<Rightarrow> string \<Rightarrow> anyval option" where
  "criterion_of rule key = map_of (rp_MatchCriteria rule) key"

section \<open>Events\<close>

definition labelFingerprint :: "(string \<Rightarrow> string) \<Rightarrow> labels \<Rightarrow> string" where
  "labelFingerprint digest m =
     (let keys = sort (filter (\<lambda>k. k \<noteq> ''oscar_fingerprint'' \<and> k \<noteq> ''am_fingerprint'') (map fst m))
      in digest (concat (map (\<lambda>k. k @ nul @ sget m k @ nul) keys)))"

definition matches :: "model_alert \<Rightarrow> labels \<Rightarrow> bool" where
  "matches a m = list_all (\<lambda>(k, v). sget (ap_Labels (ma_Plan a)) k = v) m"

definition matchesAny :: "model_alert \<Rightarrow> labels list \<Rightarrow> bool" where
  "matchesAny a ms = list_ex (matches a) ms"

definition resolved :: "model_alert \<Rightarrow> bool" where
  "resolved a \<longleftrightarrow> ap_Status (ma_Plan a) = ''resolved''"

definition ruleEvents :: "oscar_model \<Rightarrow> string \<Rightarrow> nat list" where
  "ruleEvents m name =
     filter (\<lambda>i. sget (ap_Labels (ma_Plan (tm_Alerts m ! i))) ''oscar_test_rule_name'' = name) [0..<length (tm_Alerts m)]"

definition alertIndex :: "oscar_model \<Rightarrow> string \<Rightarrow> nat option" where
  "alertIndex m fingerprint = find (\<lambda>i. ma_Fingerprint (tm_Alerts m ! i) = fingerprint) (rev [0..<length (tm_Alerts m)])"

definition ruleByName :: "oscar_model \<Rightarrow> string \<Rightarrow> (int \<times> RulePlan) option" where
  "ruleByName m name = find (\<lambda>(_, rule). rp_Name rule = name) (tm_Rules m)"

definition event_time :: "model_alert \<Rightarrow> time" where
  "event_time a = (if ap_StartsAt (ma_Plan a) = 0 then ma_At a else ap_StartsAt (ma_Plan a))"

text \<open>\<^verbatim>\<open>UnixMilli\<close>, and the division of Go.\<close>

definition unix_milli :: "time \<Rightarrow> int" where
  "unix_milli t = (t - 62135596800 * second) div millisecond"

definition go_div :: "int \<Rightarrow> int \<Rightarrow> int" where
  "go_div a b = (if a < 0 then - ((- a) div b) else a div b)"

definition group_key :: "(string \<Rightarrow> string) \<Rightarrow> RulePlan \<Rightarrow> model_alert \<Rightarrow> string" where
  "group_key digest rule a =
     labelFingerprint digest (map (\<lambda>l. (l, sget (ap_Labels (ma_Plan a)) l)) (remdups (rp_GroupBy rule)))"

section \<open>Triggers\<close>

text \<open>A loop over the events of a rule that returns the first index at which its step fires.\<close>

fun trigger_loop :: "('s \<Rightarrow> nat \<Rightarrow> 's \<times> bool) \<Rightarrow> 's \<Rightarrow> nat list \<Rightarrow> nat option" where
  "trigger_loop step s [] = None"
| "trigger_loop step s (i # is) = (case step s i of (s', fired) \<Rightarrow> if fired then Some i else trigger_loop step s' is)"

definition flood_step :: "oscar_model \<Rightarrow> RulePlan \<Rightarrow> string list \<Rightarrow> nat \<Rightarrow> string list \<times> bool" where
  "flood_step m rule seen i =
     (let a = tm_Alerts m ! i
      in if matches a (stringMap (criterion_of rule ''match'')) \<and> \<not> resolved a then
           (let seen' = List.insert (ma_Fingerprint a) seen
            in (seen', asInt (criterion_of rule ''min_count'') \<le> int (length seen')))
         else (seen, False))"

type_synonym fields_table = "(string, (string, int) gomap) gomap"

text \<open>Enter \<open>field\<close> at \<open>at\<close> into the table of a group, after dropping what the window has left behind.\<close>

definition enter_field :: "RulePlan \<Rightarrow> string \<Rightarrow> string \<Rightarrow> int \<Rightarrow> fields_table \<Rightarrow> (string, int) gomap" where
  "enter_field rule key field at groups =
     gput field at (filter (\<lambda>(_, stored). \<not> stored < at - rp_WindowSeconds rule * 1000)
       (case map_of groups key of None \<Rightarrow> [] | Some entries \<Rightarrow> entries))"

definition coOccurrence_step :: "(string \<Rightarrow> string) \<Rightarrow> oscar_model \<Rightarrow> RulePlan \<Rightarrow> fields_table \<Rightarrow> nat \<Rightarrow> fields_table \<times> bool" where
  "coOccurrence_step digest m rule groups i =
     (let a = tm_Alerts m ! i
      in if resolved a \<or> \<not> matchesAny a (matchList (criterion_of rule ''required_matches'')) then (groups, False)
         else
           let key = group_key digest rule a;
               entries = enter_field rule key (sget (ap_Labels (ma_Plan a)) ''alertname'') (unix_milli (event_time a)) groups
           in (gput key entries groups, asInt (criterion_of rule ''min_matches'') \<le> int (length entries)))"

definition required_sources :: "RulePlan \<Rightarrow> labels" where
  "required_sources rule =
     (case criterion_of rule ''required_sources'' of
        Some (AnyList raw) \<Rightarrow>
          foldl (\<lambda>required x. case x of
              AnyMap item \<Rightarrow>
                (case map_of item ''source'' of
                   Some (AnyString source) \<Rightarrow>
                     if source \<noteq> '''' then gput source (sget (stringMap (map_of item ''match'')) ''alertname'') required
                     else required
                 | _ \<Rightarrow> required)
            | _ \<Rightarrow> required) [] raw
      | _ \<Rightarrow> [])"

definition crossSource_step :: "(string \<Rightarrow> string) \<Rightarrow> oscar_model \<Rightarrow> RulePlan \<Rightarrow> fields_table \<Rightarrow> nat \<Rightarrow> fields_table \<times> bool" where
  "crossSource_step digest m rule groups i =
     (let a = tm_Alerts m ! i; label = sget (ap_Labels (ma_Plan a)); required = required_sources rule;
          source = (if label ''oscar_source'' = '''' then label ''source'' else label ''oscar_source'')
      in if resolved a then (groups, False)
         else case map_of required source of
             None \<Rightarrow> (groups, False)
           | Some expected \<Rightarrow>
               if source = '''' \<or> (expected \<noteq> '''' \<and> label ''alertname'' \<noteq> expected) then (groups, False)
               else
                 let key = group_key digest rule a; entries = enter_field rule key source (unix_milli (event_time a)) groups
                 in (gput key entries groups, length required \<le> length entries))"

type_synonym bucket_table = "(string \<times> int, string list) gomap"

definition bucket_of :: "(string \<Rightarrow> string) \<Rightarrow> RulePlan \<Rightarrow> model_alert \<Rightarrow> string \<times> int" where
  "bucket_of digest rule a = (group_key digest rule a, go_div (unix_milli (event_time a)) (rp_WindowSeconds rule * 1000))"

definition threshold_step :: "(string \<Rightarrow> string) \<Rightarrow> oscar_model \<Rightarrow> RulePlan \<Rightarrow> string \<Rightarrow> bucket_table \<Rightarrow> nat \<Rightarrow> bucket_table \<times> bool" where
  "threshold_step digest m rule distinct_label buckets i =
     (let a = tm_Alerts m ! i; v = sget (ap_Labels (ma_Plan a)) distinct_label
      in if resolved a \<or> \<not> matches a (stringMap (criterion_of rule ''match'')) \<or> v = '''' then (buckets, False)
         else
           let key = bucket_of digest rule a;
               entries = List.insert v (case map_of buckets key of None \<Rightarrow> [] | Some vs \<Rightarrow> vs)
           in (gput key entries buckets, asInt (criterion_of rule ''min_distinct_count'') \<le> int (length entries)))"

definition thresholdExactSetTriggerIndex :: "(string \<Rightarrow> string) \<Rightarrow> oscar_model \<Rightarrow> RulePlan \<Rightarrow> nat list \<Rightarrow> nat option" where
  "thresholdExactSetTriggerIndex digest m rule events =
     (let d = (case criterion_of rule ''distinct_label'' of Some (AnyString s) \<Rightarrow> s | _ \<Rightarrow> '''')
      in if d = '''' \<or> rp_WindowSeconds rule * 1000 \<le> 0 then None
         else trigger_loop (threshold_step digest m rule d) [] events)"

type_synonym sequence_table = "(string, nat list) gomap"

definition stamp :: "oscar_model \<Rightarrow> nat \<Rightarrow> int" where
  "stamp m i = unix_milli (event_time (tm_Alerts m ! i))"

definition sequence_step :: "(string \<Rightarrow> string) \<Rightarrow> oscar_model \<Rightarrow> RulePlan \<Rightarrow> labels list \<Rightarrow> sequence_table \<Rightarrow> nat \<Rightarrow> sequence_table \<times> bool" where
  "sequence_step digest m rule steps groups i =
     (let a = tm_Alerts m ! i
      in if resolved a \<or> \<not> matchesAny a steps then (groups, False)
         else
           let key = group_key digest rule a;
               before = (case map_of groups key of None \<Rightarrow> [] | Some kept \<Rightarrow> kept);
               all_kept = filter (\<lambda>j. ma_Fingerprint (tm_Alerts m ! j) \<noteq> ma_Fingerprint a) before @ [i];
               limit = max (2 * length steps + 10) 20;
               kept = drop (length all_kept - limit) all_kept;
               chronological = sort_key (stamp m) (filter (\<lambda>j. stamp m i - rp_WindowSeconds rule * 1000 \<le> stamp m j) kept);
               tail = drop (length chronological - length steps) chronological
           in (gput key kept groups,
               length steps \<le> length chronological \<and> list_all2 (\<lambda>j step. matches (tm_Alerts m ! j) step) tail steps))"

definition sequenceTriggerIndex :: "(string \<Rightarrow> string) \<Rightarrow> oscar_model \<Rightarrow> RulePlan \<Rightarrow> nat list \<Rightarrow> nat option" where
  "sequenceTriggerIndex digest m rule events =
     (let steps = matchList (criterion_of rule ''sequence'')
      in if length steps < 2 then None else trigger_loop (sequence_step digest m rule steps) [] events)"

text \<open>Persistence: the first timer that comes due. \<open>pending\<close> maps a group to its first unresolved event.\<close>

definition deadline :: "oscar_model \<Rightarrow> duration \<Rightarrow> nat \<Rightarrow> time" where
  "deadline m d i = (let a = tm_Alerts m ! i in max (event_time a + d) (ma_At a))"

definition first_due :: "oscar_model \<Rightarrow> duration \<Rightarrow> (string, nat) gomap \<Rightarrow> time \<Rightarrow> nat option" where
  "first_due m d pending until =
     foldl (\<lambda>first (_, i).
         if deadline m d i \<le> until \<and> (case first of None \<Rightarrow> True | Some f \<Rightarrow>
              deadline m d i < deadline m d f \<or> (deadline m d i = deadline m d f \<and> i < f)) then Some i
         else first) None pending"

fun persistence_loop :: "(string \<Rightarrow> string) \<Rightarrow> oscar_model \<Rightarrow> RulePlan \<Rightarrow> duration \<Rightarrow> (string, nat) gomap \<Rightarrow> nat list \<Rightarrow> nat option" where
  "persistence_loop digest m rule d pending [] = first_due m d pending (tm_Now m)"
| "persistence_loop digest m rule d pending (i # is) =
     (let a = tm_Alerts m ! i
      in case first_due m d pending (ma_At a) of
           Some fired \<Rightarrow> Some fired
         | None \<Rightarrow>
             if \<not> matches a (stringMap (criterion_of rule ''match'')) then persistence_loop digest m rule d pending is
             else
               let key = group_key digest rule a
               in persistence_loop digest m rule d
                    (if resolved a then gdel key pending
                     else if map_of pending key = None then gput key i pending else pending) is)"

definition persistenceTriggerIndex :: "(string \<Rightarrow> string) \<Rightarrow> oscar_model \<Rightarrow> RulePlan \<Rightarrow> nat list \<Rightarrow> nat option" where
  "persistenceTriggerIndex digest m rule events =
     (let d = wrap64 (asInt (criterion_of rule ''unresolved_for_seconds'') * second)
      in if d \<le> 0 then None else persistence_loop digest m rule d [] events)"

definition absenceTrigger :: "oscar_model \<Rightarrow> RulePlan \<Rightarrow> nat list \<Rightarrow> nat option" where
  "absenceTrigger m rule events =
     (let seconds = asInt (criterion_of rule ''absent_for_seconds'');
          latest = foldl (\<lambda>(t, found) i.
              let a = tm_Alerts m ! i
              in if \<not> resolved a \<and> matches a (stringMap (criterion_of rule ''expected_match'')) \<and> t < ma_At a
                 then (ma_At a, Some i) else (t, found)) (0, None) events
      in case latest of
           (t, Some i) \<Rightarrow> if tm_Now m < t + wrap64 (seconds * second) then None else Some i
         | (t, None) \<Rightarrow> None)"

definition triggerIndex :: "(string \<Rightarrow> string) \<Rightarrow> oscar_model \<Rightarrow> RulePlan \<Rightarrow> nat option" where
  "triggerIndex digest m rule =
     (let events = ruleEvents m (rp_Name rule); p = rp_Pattern rule
      in if events = [] then None
         else if p = ''flood'' then trigger_loop (flood_step m rule) [] events
         else if p = ''co_occurrence'' then trigger_loop (coOccurrence_step digest m rule) [] events
         else if p = ''sequence'' then sequenceTriggerIndex digest m rule events
         else if p = ''cross_source'' then trigger_loop (crossSource_step digest m rule) [] events
         else if p = ''threshold'' then thresholdExactSetTriggerIndex digest m rule events
         else if p = ''persistence'' then persistenceTriggerIndex digest m rule events
         else if p = ''absence'' then absenceTrigger m rule events
         else None)"

section \<open>Operations\<close>

definition model_Sleep :: "go_error option \<Rightarrow> duration \<Rightarrow> oscar_model \<Rightarrow> go_error option \<times> oscar_model" where
  "model_Sleep cancelled delay m =
     (case cancelled of Some e \<Rightarrow> (Some e, m) | None \<Rightarrow> (None, m\<lparr>tm_Now := tm_Now m + delay\<rparr>))"

definition model_ValidateRule :: "RulePlan \<Rightarrow> go_error option" where
  "model_ValidateRule rule =
     (if rp_Name rule = '''' \<or> rp_Pattern rule = '''' \<or> rp_MatchCriteria rule = [] then Some (Err ''invalid rule'') else None)"

definition rule_view :: "int \<Rightarrow> RulePlan \<Rightarrow> Rule" where
  "rule_view i rule = \<lparr>ru_ID = i, ru_Name = rp_Name rule, ru_Pattern = rp_Pattern rule, ru_Description = rp_Description rule\<rparr>"

definition model_CreateRule :: "RulePlan \<Rightarrow> oscar_model \<Rightarrow> Rule \<times> oscar_model" where
  "model_CreateRule rule m =
     (let i = tm_NextID m + 1 in (rule_view i rule, m\<lparr>tm_NextID := i, tm_Rules := gput i rule (tm_Rules m)\<rparr>))"

definition model_GetRule :: "int \<Rightarrow> oscar_model \<Rightarrow> Rule option" where
  "model_GetRule i m =
     (case map_of (tm_Rules m) i of
        None \<Rightarrow> None
      | Some rule \<Rightarrow> if i \<in> set (tm_Deleted m) then None else Some (rule_view i rule))"

definition model_FindRules :: "string \<Rightarrow> oscar_model \<Rightarrow> Rule list" where
  "model_FindRules name m =
     map (\<lambda>(i, rule). rule_view i rule)
       (filter (\<lambda>(i, rule). i \<notin> set (tm_Deleted m) \<and> rp_Name rule = name) (tm_Rules m))"

definition model_DeleteRule :: "int \<Rightarrow> oscar_model \<Rightarrow> oscar_model" where
  "model_DeleteRule i m =
     (case map_of (tm_Rules m) i of None \<Rightarrow> m | Some rule \<Rightarrow> m\<lparr>tm_Deleted := List.insert i (tm_Deleted m)\<rparr>)"

definition accepted_result :: InjectionResult where
  "accepted_result = no_result\<lparr>ir_Class := InjectionAccepted, ir_StatusCode := 200\<rparr>"

definition model_Inject :: "(string \<Rightarrow> string) \<Rightarrow> AlertPlan \<Rightarrow> oscar_model \<Rightarrow> InjectionResult \<times> oscar_model" where
  "model_Inject digest alert m =
     (accepted_result, m\<lparr>tm_Alerts := tm_Alerts m @
        [\<lparr>ma_Plan = alert, ma_Fingerprint = labelFingerprint digest (ap_Labels alert), ma_At = tm_Now m\<rparr>]\<rparr>)"

definition model_ResolveHistory :: "HistoryRecord \<Rightarrow> InjectionResult \<times> go_error option" where
  "model_ResolveHistory row =
     (if hr_Fingerprint row = '''' \<or> sget (hr_Labels row) ''oscar_test_run_id'' = ''''
      then (no_result, Some (Err ''unsafe cleanup identity''))
      else (accepted_result, None))"

definition history_row :: "nat \<Rightarrow> model_alert \<Rightarrow> HistoryRecord" where
  "history_row i a =
     \<lparr>hr_OriginalSeverity = None, hr_Severity = None, hr_StartsAt = 0, hr_ID = ''history-'' @ itoa (int i + 1),
      hr_AlertName = ap_Name (ma_Plan a), hr_Fingerprint = ma_Fingerprint a, hr_Status = ap_Status (ma_Plan a),
      hr_CreatedAt = ma_At a, hr_Labels = ap_Labels (ma_Plan a), hr_Annotations = ap_Annotations (ma_Plan a)\<rparr>"

definition parent_labels :: "RulePlan \<Rightarrow> labels" where
  "parent_labels rule = gput ''alertname'' (rp_EmitAlertName rule) (rp_EmitLabels rule)"

definition parent_row :: "(string \<Rightarrow> string) \<Rightarrow> time \<Rightarrow> int \<Rightarrow> RulePlan \<Rightarrow> HistoryRecord" where
  "parent_row digest at i rule =
     \<lparr>hr_OriginalSeverity = None, hr_Severity = None, hr_StartsAt = 0, hr_ID = ''parent-'' @ itoa i,
      hr_AlertName = rp_EmitAlertName rule, hr_Fingerprint = labelFingerprint digest (parent_labels rule),
      hr_Status = ''firing'', hr_CreatedAt = at, hr_Labels = parent_labels rule,
      hr_Annotations = [(''summary'', ''semantic model parent'')]\<rparr>"

definition model_FindHistory :: "(string \<Rightarrow> string) \<Rightarrow> HistoryQuery \<Rightarrow> oscar_model \<Rightarrow> HistoryRecord list" where
  "model_FindHistory digest q m =
     (let own = map (\<lambda>(i, a). history_row i a)
          (filter (\<lambda>(i, a). ap_Name (ma_Plan a) = hq_AlertName q) (List.enumerate 0 (tm_Alerts m)))
      in if own \<noteq> [] then own
         else map (\<lambda>(i, rule). parent_row digest (tm_Now m) i rule)
           (filter (\<lambda>(i, rule). rp_EmitAlertName rule = hq_AlertName q \<and> rp_EmitAlertName rule \<noteq> '''' \<and>
              triggerIndex digest m rule \<noteq> None) (tm_Rules m)))"

definition hasPriorParent :: "oscar_model \<Rightarrow> RulePlan \<Rightarrow> nat \<Rightarrow> bool" where
  "hasPriorParent m rule child =
     list_ex (\<lambda>i. i < child \<and> matches (tm_Alerts m ! i) (stringMap (criterion_of rule ''parent_match'')) \<and>
       \<not> resolved (tm_Alerts m ! i)) (ruleEvents m (rp_Name rule))"

definition childMatches :: "RulePlan \<Rightarrow> labels list" where
  "childMatches rule = matchList (criterion_of rule ''child_matches'')"

definition audit_outcome :: "(string \<Rightarrow> string) \<Rightarrow> oscar_model \<Rightarrow> int \<Rightarrow> RulePlan \<Rightarrow> nat \<Rightarrow> string \<times> string" where
  "audit_outcome digest m i rule index =
     (if rp_Pattern rule = ''parent_child'' then
        (if \<not> matchesAny (tm_Alerts m ! index) (childMatches rule) then (''no_trigger'', '''')
         else if hasPriorParent m rule index then (''suppressed_per_notifier'', ''semantic-parent-'' @ itoa i)
         else (''released_no_trigger'', ''''))
      else if triggerIndex digest m rule = Some index then
        (''parent_emitted'', labelFingerprint digest (parent_labels rule))
      else (''no_trigger'', ''''))"

definition model_CorrelationAudit :: "(string \<Rightarrow> string) \<Rightarrow> string \<Rightarrow> oscar_model \<Rightarrow> AuditRecord list" where
  "model_CorrelationAudit digest fingerprint m =
     (case alertIndex m fingerprint of
        None \<Rightarrow> []
      | Some index \<Rightarrow>
          (case ruleByName m (sget (ap_Labels (ma_Plan (tm_Alerts m ! index))) ''oscar_test_rule_name'') of
             None \<Rightarrow> []
           | Some (i, rule) \<Rightarrow>
               (case audit_outcome digest m i rule index of
                  (outcome, parent) \<Rightarrow>
                    [\<lparr>au_RuleIdentityNull = False, au_ID = i * 1000 + int index + 1, au_CreatedAt = tm_Now m,
                      au_AlertFingerprint = fingerprint, au_RuleID = i, au_RuleName = rp_Name rule,
                      au_Pattern = rp_Pattern rule, au_Outcome = outcome, au_SuppressedNotifiers = [],
                      au_ParentFingerprint = parent, au_AddedLabels = [], au_Reason = ''''\<rparr>])))"

definition suppressed_notifiers :: "RulePlan \<Rightarrow> string list" where
  "suppressed_notifiers rule =
     (case criterion_of rule ''suppress_children_for_notifiers'' of
        Some (AnyStrings names) \<Rightarrow> names
      | Some (AnyList xs) \<Rightarrow> map sprint xs
      | _ \<Rightarrow> [])"

definition model_NotificationAudit :: "string \<Rightarrow> oscar_model \<Rightarrow> NotificationRecord list" where
  "model_NotificationAudit fingerprint m =
     (case alertIndex m fingerprint of
        None \<Rightarrow> []
      | Some index \<Rightarrow>
          let a = tm_Alerts m ! index
          in (case ruleByName m (sget (ap_Labels (ma_Plan a)) ''oscar_test_rule_name'') of
                None \<Rightarrow> []
              | Some (i, rule) \<Rightarrow>
                  if rp_Pattern rule \<noteq> ''parent_child'' \<or> \<not> matchesAny a (childMatches rule) \<or>
                     \<not> hasPriorParent m rule index then []
                  else map (\<lambda>(k, notifier). \<lparr>nt_ID = ''notification-'' @ itoa (int k + 1),
                      nt_AlertFingerprint = fingerprint, nt_NotifierType = notifier, nt_Status = ''suppressed'',
                      nt_CreatedAt = tm_Now m, nt_Labels = ap_Labels (ma_Plan a)\<rparr>)
                    (List.enumerate 0 (suppressed_notifiers rule))))"

section \<open>The model as the API of a runner\<close>

text \<open>\<^verbatim>\<open>InjectRecorded\<close>: the evidence is prepared and recorded before the model gets the alert.\<close>

definition model_InjectRecorded :: "codec \<Rightarrow> (string \<Rightarrow> string) \<Rightarrow> AlertPlan \<Rightarrow> oscar_model recorder \<Rightarrow>
    (oscar_model, InjectionResult \<times> go_error option) action" where
  "model_InjectRecorded co digest alert rec =
     (case PrepareInjection co alert ''test-model'' ''https://model.invalid/api/v1/alerts'' of
        Inl e \<Rightarrow> State_Monad.return (no_result, Some e)
      | Inr (evidence, body) \<Rightarrow> do {
          refused \<leftarrow> rec evidence;
          case refused of
            Some e \<Rightarrow> State_Monad.return (no_result, Some e)
          | None \<Rightarrow> outside (\<lambda>m. let (result, m) = model_Inject digest alert m in ((result, None), m))
        })"

definition model_runner :: "codec \<Rightarrow> (string \<Rightarrow> string) \<Rightarrow> oscar_model runner \<Rightarrow> oscar_model runner" where
  "model_runner co digest r = r
     \<lparr>rn_Now := (\<lambda>m. (tm_Now m, m)),
      rn_Sleep := (\<lambda>ctx d m. case rn_CtxErr r ctx m of (cancelled, m) \<Rightarrow> model_Sleep cancelled d m),
      api_ValidateRule := (\<lambda>ctx rule m. (model_ValidateRule rule, m)),
      api_CreateRule := (\<lambda>ctx rule m. map_prod Inr id (model_CreateRule rule m)),
      api_FindRules := (\<lambda>ctx name m. (Inr (model_FindRules name m), m)),
      api_DeleteRule := (\<lambda>ctx i m. (None, model_DeleteRule i m)),
      api_InjectRecorded := (\<lambda>ctx. model_InjectRecorded co digest),
      api_ResolveHistory := (\<lambda>ctx row m. (model_ResolveHistory row, m)),
      api_FindHistory := (\<lambda>ctx q m. (Inr (model_FindHistory digest q m), m)),
      api_CorrelationAudit := (\<lambda>ctx f m. (Inr (model_CorrelationAudit digest f m), m)),
      api_NotificationAudit := (\<lambda>ctx f start until m. (Inr (model_NotificationAudit f m), m)),
      api_InputPath := None, api_InputEndpoint := None, api_ValidateInputBudget := None,
      api_UnresolvedInputCleanup := None, api_ResolveHistoryRecorded := None\<rparr>"

end
