(* ===== verification/Test_Oscar_Properties.thy ===== *)
theory Test_Oscar_Properties
  imports Test_Oscar Runner_Logic
begin

text \<open>
  What the OSCAR model of the tests means by a trigger, and that it honours the contract the
  runner's theorems ask of an \<^verbatim>\<open>API\<close>, so that they hold of runs against it.
\<close>

section \<open>The runner against the model\<close>

lemma model_InjectRecorded_keeps:
  assumes "outside_stable I" and "\<And>q. preserves I (rec q)"
  shows "preserves I (model_InjectRecorded co digest alert rec)"
  unfolding model_InjectRecorded_def
  by (intro preserve_rules assms(2) preserves_outside_stable [OF assms(1)])

interpretation simulated: recording_api "model_runner co digest r" for co digest r
proof
  fix I :: "oscar_model world \<Rightarrow> bool" and ctx alert and rec :: "oscar_model recorder"
  assume "outside_stable I" and "\<And>q. preserves I (rec q)"
  then show "preserves I (api_InjectRecorded (model_runner co digest r) ctx alert rec)"
    by (simp add: model_runner_def model_InjectRecorded_keeps)
qed (simp add: model_runner_def)

interpretation simulated_run: run_closure "model_runner co digest r" "rtranclp ledger_step s" for co digest r s
proof
qed (fastforce intro: rtranclp.rtrancl_into_rtrancl ledger_step.intros)

section \<open>Counting triggers\<close>

lemma ruleEvents_sorted: "sorted_wrt (<) (ruleEvents m name)"
  unfolding ruleEvents_def by (rule sorted_wrt_filter) simp

text \<open>A step decided by what came before it makes the loop a search.\<close>

lemma trigger_loop_find:
  assumes "\<And>prior i s. ok prior s \<Longrightarrow> ok (prior @ [i]) (fst (step s i)) \<and> snd (step s i) = fires prior i"
  shows "ok prior s \<Longrightarrow> sorted_wrt (<) (prior @ events) \<Longrightarrow>
    trigger_loop step s events = find (\<lambda>i. fires (filter (\<lambda>j. j < i) (prior @ events)) i) events"
proof (induction events arbitrary: prior s)
  case (Cons i rest)
  note step = assms [OF Cons.prems(1), of i]
  have "filter (\<lambda>j. j < i) prior = prior" "filter (\<lambda>j. j < i) rest = []"
    using Cons.prems(2) by (auto simp: sorted_wrt_append filter_id_conv filter_empty_conv)
  then have "filter (\<lambda>j. j < i) (prior @ i # rest) = prior" by simp
  with step Cons.IH [of "prior @ [i]" "fst (step s i)"] Cons.prems(2) show ?case
    by (cases "step s i") auto
qed simp

lemma insert_counts:
  assumes "distinct xs" and "set xs = A"
  shows "distinct (List.insert x xs) \<and> set (List.insert x xs) = insert x A \<and> int (length (List.insert x xs)) = int (card (insert x A))"
  using assms distinct_card [of "List.insert x xs"] by simp

definition flood_counts :: "oscar_model \<Rightarrow> RulePlan \<Rightarrow> nat \<Rightarrow> bool" where
  "flood_counts m rule i \<longleftrightarrow> matches (tm_Alerts m ! i) (stringMap (criterion_of rule ''match'')) \<and> \<not> resolved (tm_Alerts m ! i)"

definition threshold_counts :: "oscar_model \<Rightarrow> RulePlan \<Rightarrow> string \<Rightarrow> nat \<Rightarrow> bool" where
  "threshold_counts m rule d i \<longleftrightarrow> \<not> resolved (tm_Alerts m ! i) \<and>
     matches (tm_Alerts m ! i) (stringMap (criterion_of rule ''match'')) \<and> sget (ap_Labels (ma_Plan (tm_Alerts m ! i))) d \<noteq> ''''"

abbreviation identity_of :: "oscar_model \<Rightarrow> nat \<Rightarrow> string" where
  "identity_of m i \<equiv> ma_Fingerprint (tm_Alerts m ! i)"

abbreviation label_of :: "oscar_model \<Rightarrow> string \<Rightarrow> nat \<Rightarrow> string" where
  "label_of m d i \<equiv> sget (ap_Labels (ma_Plan (tm_Alerts m ! i))) d"

abbreviation bucket :: "(string \<Rightarrow> string) \<Rightarrow> oscar_model \<Rightarrow> RulePlan \<Rightarrow> nat \<Rightarrow> string \<times> int" where
  "bucket digest m rule i \<equiv> bucket_of digest rule (tm_Alerts m ! i)"

lemma flood_loop:
  assumes "sorted_wrt (<) events"
  shows "trigger_loop (flood_step m rule) [] events =
    find (\<lambda>i. flood_counts m rule i \<and> asInt (criterion_of rule ''min_count'') \<le>
      int (card (insert (identity_of m i) (identity_of m ` {j \<in> set (filter (\<lambda>j. j < i) events). flood_counts m rule j})))) events"
proof -
  let ?inv = "\<lambda>prior seen. distinct seen \<and> set seen = identity_of m ` {j \<in> set prior. flood_counts m rule j}"
  let ?fires = "\<lambda>prior i. flood_counts m rule i \<and> asInt (criterion_of rule ''min_count'') \<le>
      int (card (insert (identity_of m i) (identity_of m ` {j \<in> set prior. flood_counts m rule j})))"
  have step: "?inv (prior @ [i]) (fst (flood_step m rule seen i)) \<and> snd (flood_step m rule seen i) = ?fires prior i"
    if "?inv prior seen" for prior i seen
  proof (cases "flood_counts m rule i")
    case True
    have grown: "{j \<in> set (prior @ [i]). flood_counts m rule j} = insert i {j \<in> set prior. flood_counts m rule j}" using True by auto
    from True have "flood_step m rule seen i = (List.insert (identity_of m i) seen,
        asInt (criterion_of rule ''min_count'') \<le> int (length (List.insert (identity_of m i) seen)))"
      by (simp add: flood_step_def flood_counts_def Let_def)
    with insert_counts [of seen _ "identity_of m i"] that True show ?thesis unfolding grown by simp
  next
    case False
    have "{j \<in> set (prior @ [i]). flood_counts m rule j} = {j \<in> set prior. flood_counts m rule j}" using False by auto
    moreover from False have "flood_step m rule seen i = (seen, False)" by (auto simp: flood_step_def flood_counts_def Let_def)
    ultimately show ?thesis using that False by simp
  qed
  from trigger_loop_find [where ok = ?inv and fires = ?fires and prior = "[]" and s = "[]" and events = events, OF step] assms show ?thesis by simp
qed

definition held_values :: "bucket_table \<Rightarrow> string \<times> int \<Rightarrow> string list" where
  "held_values T k = (case map_of T k of None \<Rightarrow> [] | Some vs \<Rightarrow> vs)"

lemma held_values_gput [simp]: "held_values (gput k e T) k' = (if k' = k then e else held_values T k')"
  by (simp add: held_values_def)

lemma held_values_Nil [simp]: "held_values [] k = []"
  by (simp add: held_values_def)

lemma threshold_loop:
  assumes "sorted_wrt (<) events"
  shows "trigger_loop (threshold_step digest m rule d) [] events =
    find (\<lambda>i. threshold_counts m rule d i \<and> asInt (criterion_of rule ''min_distinct_count'') \<le>
      int (card (insert (label_of m d i) (label_of m d ` {j \<in> set (filter (\<lambda>j. j < i) events).
        threshold_counts m rule d j \<and> bucket digest m rule j = bucket digest m rule i})))) events"
proof -
  let ?look = held_values
  let ?ours = "\<lambda>prior k. {j \<in> set prior. threshold_counts m rule d j \<and> bucket digest m rule j = k}"
  let ?inv = "\<lambda>prior T. \<forall>k. distinct (?look T k) \<and> set (?look T k) = label_of m d ` ?ours prior k"
  let ?fires = "\<lambda>prior i. threshold_counts m rule d i \<and> asInt (criterion_of rule ''min_distinct_count'') \<le>
      int (card (insert (label_of m d i) (label_of m d ` ?ours prior (bucket digest m rule i))))"
  have step: "?inv (prior @ [i]) (fst (threshold_step digest m rule d T i)) \<and> snd (threshold_step digest m rule d T i) = ?fires prior i"
    if inv: "?inv prior T" for prior i T
  proof (cases "threshold_counts m rule d i")
    case True
    let ?k = "bucket digest m rule i"
    let ?e = "List.insert (label_of m d i) (?look T ?k)"
    have grown: "?ours (prior @ [i]) k = (if k = ?k then insert i (?ours prior k) else ?ours prior k)" for k using True by auto
    from True have eval: "threshold_step digest m rule d T i = (gput ?k ?e T, asInt (criterion_of rule ''min_distinct_count'') \<le> int (length ?e))"
      by (simp add: threshold_step_def threshold_counts_def held_values_def Let_def)
    note counts = insert_counts [of "?look T ?k" "label_of m d ` ?ours prior ?k" "label_of m d i"]
    have "distinct (?look T ?k) \<and> set (?look T ?k) = label_of m d ` ?ours prior ?k" using inv by blast
    with counts have e: "distinct ?e" "set ?e = insert (label_of m d i) (label_of m d ` ?ours prior ?k)"
      "int (length ?e) = int (card (insert (label_of m d i) (label_of m d ` ?ours prior ?k)))" by blast+
    have "?inv (prior @ [i]) (gput ?k ?e T)"
      unfolding grown using inv e by simp
    with eval e(3) True show ?thesis by simp
  next
    case False
    have "?ours (prior @ [i]) k = ?ours prior k" for k using False by auto
    moreover from False have "threshold_step digest m rule d T i = (T, False)"
      by (auto simp: threshold_step_def threshold_counts_def Let_def)
    ultimately show ?thesis using inv False by simp
  qed
  from trigger_loop_find [where ok = ?inv and fires = ?fires and prior = "[]" and s = "[]" and events = events, OF step] assms show ?thesis by simp
qed

text \<open>
  C21. The two counting patterns of the model trigger exactly when their count is reached. A flood
  triggers at the first unresolved matching event that brings the distinct identities seen so far to
  the minimum; a threshold, with a label and a positive window, at the first that brings the
  distinct values of that label, among the events of its group and of its time bucket, to the
  minimum. Nothing triggers earlier, and nothing later.
\<close>

theorem counting_triggers_exact:
  assumes "rp_Pattern flood = ''flood''" and "rp_Pattern threshold = ''threshold''"
    and "criterion_of threshold ''distinct_label'' = Some (AnyString d)" and "d \<noteq> ''''" and "0 < rp_WindowSeconds threshold"
  shows "triggerIndex digest m flood = find (\<lambda>i. flood_counts m flood i \<and> asInt (criterion_of flood ''min_count'') \<le>
      int (card (insert (identity_of m i) (identity_of m ` {j \<in> set (filter (\<lambda>j. j < i) (ruleEvents m (rp_Name flood))).
        flood_counts m flood j})))) (ruleEvents m (rp_Name flood)) \<and>
    triggerIndex digest m threshold = find (\<lambda>i. threshold_counts m threshold d i \<and> asInt (criterion_of threshold ''min_distinct_count'') \<le>
      int (card (insert (label_of m d i) (label_of m d ` {j \<in> set (filter (\<lambda>j. j < i) (ruleEvents m (rp_Name threshold))).
        threshold_counts m threshold d j \<and> bucket digest m threshold j = bucket digest m threshold i}))))
      (ruleEvents m (rp_Name threshold))"
  using assms flood_loop [OF ruleEvents_sorted] threshold_loop [OF ruleEvents_sorted]
  by (auto simp: triggerIndex_def thresholdExactSetTriggerIndex_def Let_def)

section \<open>The persistence timer\<close>

text \<open>Alerts arrive in the order of the clock, and none after it.\<close>

definition timed :: "oscar_model \<Rightarrow> bool" where
  "timed m \<longleftrightarrow> sorted (map ma_At (tm_Alerts m)) \<and> (\<forall>a \<in> set (tm_Alerts m). ma_At a \<le> tm_Now m)"

lemma timed_New: "timed (NewModel t)"
  by (simp add: timed_def NewModel_def)

lemma timed_Inject: "timed m \<Longrightarrow> timed (snd (model_Inject digest alert m))"
  by (auto simp: timed_def model_Inject_def sorted_append)

lemma timed_Sleep: "timed m \<Longrightarrow> 0 \<le> d \<Longrightarrow> timed (snd (model_Sleep c d m))"
  by (fastforce simp: timed_def model_Sleep_def split: option.splits)

lemma timed_nth:
  assumes "timed m" and "i \<le> j" and "j < length (tm_Alerts m)"
  shows "ma_At (tm_Alerts m ! i) \<le> ma_At (tm_Alerts m ! j)" and "ma_At (tm_Alerts m ! j) \<le> tm_Now m"
  using assms sorted_nth_mono [of "map ma_At (tm_Alerts m)" i j] by (auto simp: timed_def)

lemma first_due_Some:
  assumes "first_due m d pending until = Some i" shows "i \<in> snd ` set pending" and "deadline m d i \<le> until"
proof -
  let ?step = "\<lambda>first (key :: string, i). if deadline m d i \<le> until \<and> (case first of None \<Rightarrow> True | Some f \<Rightarrow>
      deadline m d i < deadline m d f \<or> (deadline m d i = deadline m d f \<and> i < f)) then Some i else first"
  have "foldl ?step first xs = Some i \<Longrightarrow> first = Some i \<or> (i \<in> snd ` set xs \<and> deadline m d i \<le> until)" for first xs
    by (induction xs arbitrary: first) (force split: if_splits prod.splits)+
  with assms show "i \<in> snd ` set pending" "deadline m d i \<le> until" unfolding first_due_def by blast+
qed

text \<open>A matching event that ends the wait of the group of \<open>i\<close>.\<close>

definition ends_wait :: "(string \<Rightarrow> string) \<Rightarrow> oscar_model \<Rightarrow> RulePlan \<Rightarrow> nat \<Rightarrow> nat \<Rightarrow> bool" where
  "ends_wait digest m rule i j \<longleftrightarrow> i < j \<and> resolved (tm_Alerts m ! j) \<and>
     matches (tm_Alerts m ! j) (stringMap (criterion_of rule ''match'')) \<and>
     group_key digest rule (tm_Alerts m ! j) = group_key digest rule (tm_Alerts m ! i)"

definition waiting :: "(string \<Rightarrow> string) \<Rightarrow> oscar_model \<Rightarrow> RulePlan \<Rightarrow> nat list \<Rightarrow> (string, nat) gomap \<Rightarrow> bool" where
  "waiting digest m rule prior pending \<longleftrightarrow> well_keyed pending \<and> (\<forall>(key, i) \<in> set pending.
     i \<in> set prior \<and> flood_counts m rule i \<and> key = group_key digest rule (tm_Alerts m ! i) \<and>
     (\<forall>j \<in> set prior. \<not> ends_wait digest m rule i j))"

lemma set_gput: "well_keyed p \<Longrightarrow> set (gput k v p) = insert (k, v) {e \<in> set p. fst e \<noteq> k}"
  by (induction p) (auto simp: well_keyed_def image_iff)

lemma set_gdel: "set (gdel k p) = {e \<in> set p. fst e \<noteq> k}"
  by (auto simp: AList.delete_eq)

lemma waiting_step:
  assumes w: "waiting digest m rule prior pending" and order: "\<forall>j \<in> set prior. j < i"
    and match: "matches (tm_Alerts m ! i) (stringMap (criterion_of rule ''match''))"
  shows "waiting digest m rule (prior @ [i]) (let key = group_key digest rule (tm_Alerts m ! i) in
    if resolved (tm_Alerts m ! i) then gdel key pending else if map_of pending key = None then gput key i pending else pending)"
proof -
  have alone: "\<not> ends_wait digest m rule i j" if "j \<in> set (prior @ [i])" for j
    using that order by (auto simp: ends_wait_def)
  show ?thesis
  proof (cases "resolved (tm_Alerts m ! i)")
    case True
    with w show ?thesis by (auto simp: waiting_def set_gdel ends_wait_def Let_def)
  next
    case False
    then have "\<not> ends_wait digest m rule j i" for j by (simp add: ends_wait_def)
    with False w match alone show ?thesis by (auto simp: waiting_def set_gput flood_counts_def Let_def split: if_splits)
  qed
qed

lemma waiting_skip:
  "waiting digest m rule prior pending \<Longrightarrow> \<not> matches (tm_Alerts m ! i) (stringMap (criterion_of rule ''match'')) \<Longrightarrow>
   waiting digest m rule (prior @ [i]) pending"
  by (auto simp: waiting_def ends_wait_def)

lemma persistence_loop_held:
  assumes "timed m"
  shows "persistence_loop digest m rule d pending rest = Some i \<Longrightarrow> waiting digest m rule prior pending \<Longrightarrow>
    sorted_wrt (<) (prior @ rest) \<Longrightarrow> set (prior @ rest) \<subseteq> {..<length (tm_Alerts m)} \<Longrightarrow>
    i \<in> set (prior @ rest) \<and> flood_counts m rule i \<and> deadline m d i \<le> tm_Now m \<and>
    list_all (\<lambda>j. ends_wait digest m rule i j \<longrightarrow> deadline m d i \<le> ma_At (tm_Alerts m ! j)) (prior @ rest)"
proof (induction rest arbitrary: prior pending)
  case Nil
  from Nil.prems(1) have "i \<in> snd ` set pending" "deadline m d i \<le> tm_Now m"
    using first_due_Some [of m d pending "tm_Now m" i] by simp_all
  with Nil.prems(2) show ?case by (fastforce simp: waiting_def list_all_iff)
next
  case (Cons k rest)
  show ?case
  proof (cases "first_due m d pending (ma_At (tm_Alerts m ! k))")
    case (Some f)
    with Cons.prems(1) have "f = i" by simp
    with Some first_due_Some have i: "i \<in> snd ` set pending" "deadline m d i \<le> ma_At (tm_Alerts m ! k)" by blast+
    with Cons.prems(2) have held: "i \<in> set prior" "flood_counts m rule i" "\<forall>j \<in> set prior. \<not> ends_wait digest m rule i j"
      by (fastforce simp: waiting_def)+
    have later: "deadline m d i \<le> ma_At (tm_Alerts m ! j)" if "j \<in> set (k # rest)" for j
    proof -
      have "k \<le> j" "j < length (tm_Alerts m)" using that Cons.prems(3,4) by (auto simp: sorted_wrt_append)
      with timed_nth(1) [OF assms] i(2) show ?thesis by fastforce
    qed
    have "k < length (tm_Alerts m)" using Cons.prems(4) by simp
    with timed_nth(2) [OF assms order_refl] i(2) have "deadline m d i \<le> tm_Now m" by fastforce
    with held later show ?thesis by (auto simp: list_all_iff)
  next
    case None
    have order: "\<forall>j \<in> set prior. j < k" using Cons.prems(3) by (auto simp: sorted_wrt_append)
    show ?thesis
    proof (cases "matches (tm_Alerts m ! k) (stringMap (criterion_of rule ''match''))")
      case True
      from Cons.IH [OF _ waiting_step [OF Cons.prems(2) order True]] Cons.prems None True show ?thesis by (simp add: Let_def)
    next
      case False
      from Cons.IH [OF _ waiting_skip [OF Cons.prems(2) False]] Cons.prems None False show ?thesis by simp
    qed
  qed
qed

text \<open>
  C22. A persistence trigger was held: when the model reports the trigger of a persistence rule, it
  is an unresolved matching event of the rule, its timer has come due by the clock, and no resolution
  in its group arrived before the timer, provided the alerts arrived in the order of the clock, which
  every operation of the model keeps.
\<close>

theorem persistence_trigger_held:
  assumes "timed m" and "rp_Pattern rule = ''persistence''" and "triggerIndex digest m rule = Some i"
  shows "i \<in> set (ruleEvents m (rp_Name rule)) \<and> flood_counts m rule i \<and>
    (let d = wrap64 (asInt (criterion_of rule ''unresolved_for_seconds'') * second)
     in 0 < d \<and> deadline m d i \<le> tm_Now m \<and>
        list_all (\<lambda>j. ends_wait digest m rule i j \<longrightarrow> deadline m d i \<le> ma_At (tm_Alerts m ! j)) (ruleEvents m (rp_Name rule)))"
proof -
  let ?d = "wrap64 (asInt (criterion_of rule ''unresolved_for_seconds'') * second)" and ?events = "ruleEvents m (rp_Name rule)"
  from assms(2,3) have loop: "0 < ?d" "persistence_loop digest m rule ?d [] ?events = Some i"
    by (auto simp: triggerIndex_def persistenceTriggerIndex_def Let_def split: if_splits)
  have "waiting digest m rule [] []" by (simp add: waiting_def)
  moreover have "set ?events \<subseteq> {..<length (tm_Alerts m)}" by (auto simp: ruleEvents_def)
  ultimately show ?thesis
    using persistence_loop_held [OF assms(1) loop(2), of "[]"] ruleEvents_sorted [of m] loop(1) by (simp add: Let_def)
qed

section \<open>A model with two alerts\<close>

definition demo_rule :: "string \<Rightarrow> criteria \<Rightarrow> RulePlan" where
  "demo_rule pattern criteria = \<lparr>rp_Name = ''r'', rp_Pattern = pattern, rp_WindowSeconds = 60, rp_GroupBy = [''device''],
     rp_MatchCriteria = criteria, rp_EmitAlertName = '''', rp_EmitLabels = [], rp_EmitAnnotations = [], rp_Description = ''''\<rparr>"

definition demo_alert :: "string \<Rightarrow> string \<Rightarrow> AlertPlan" where
  "demo_alert status port = \<lparr>ap_Source = '''', ap_Name = ''A'', ap_Status = status,
     ap_Labels = [(''alertname'', ''A''), (''oscar_test_rule_name'', ''r''), (''device'', ''d''), (''port'', port)],
     ap_Annotations = [], ap_Delay = 0, ap_EpisodeOffset = None, ap_StartsAt = 0, ap_EndsAt = 0\<rparr>"

text \<open>Two alerts a second apart, then a wait of forty seconds.\<close>

definition demo_model :: oscar_model where
  "demo_model =
     snd (model_Sleep None (40 * second) (snd (model_Inject id (demo_alert ''firing'' ''2'')
       (snd (model_Sleep None second (snd (model_Inject id (demo_alert ''firing'' ''1'') (NewModel (63000000000 * second)))))))))"

definition demo_threshold :: RulePlan where
  "demo_threshold = demo_rule ''threshold''
     [(''match'', AnyLabels [(''alertname'', ''A'')]), (''distinct_label'', AnyString ''port''), (''min_distinct_count'', AnyInt 2)]"

definition demo_flooded :: RulePlan where
  "demo_flooded = demo_rule ''flood'' [(''match'', AnyLabels [(''alertname'', ''A'')]), (''min_count'', AnyInt 2)]"

theorem counting_triggers_exact_witness:
  "triggerIndex id demo_model demo_flooded = Some 1 \<and>
   triggerIndex id demo_model demo_flooded = find (\<lambda>i. flood_counts demo_model demo_flooded i \<and> asInt (criterion_of demo_flooded ''min_count'') \<le>
      int (card (insert (identity_of demo_model i) (identity_of demo_model ` {j \<in> set (filter (\<lambda>j. j < i) (ruleEvents demo_model ''r'')).
        flood_counts demo_model demo_flooded j})))) (ruleEvents demo_model ''r'')"
proof -
  have "triggerIndex id demo_model demo_flooded = Some 1" by code_simp
  moreover have "rp_Name demo_flooded = ''r''" by (simp add: demo_flooded_def demo_rule_def)
  ultimately show ?thesis
    using counting_triggers_exact [of demo_flooded demo_threshold "''port''" id demo_model]
    by (simp add: demo_flooded_def demo_threshold_def demo_rule_def criterion_of_def)
qed

definition demo_persistent :: RulePlan where
  "demo_persistent = demo_rule ''persistence'' [(''match'', AnyLabels [(''alertname'', ''A'')]), (''unresolved_for_seconds'', AnyInt 30)]"

theorem persistence_trigger_held_witness:
  "triggerIndex id demo_model demo_persistent = Some 0 \<and>
   deadline demo_model (wrap64 (asInt (criterion_of demo_persistent ''unresolved_for_seconds'') * second)) 0 \<le> tm_Now demo_model"
proof -
  have trigger: "triggerIndex id demo_model demo_persistent = Some 0" by code_simp
  have "timed demo_model" unfolding demo_model_def by (intro timed_Sleep timed_Inject timed_New) (simp_all add: second_def)
  moreover have "rp_Pattern demo_persistent = ''persistence''" by (simp add: demo_persistent_def demo_rule_def)
  ultimately show ?thesis using persistence_trigger_held [OF _ _ trigger] trigger by (simp add: Let_def)
qed

end
