(* ===== verification/Log_Rotation.thy ===== *)
theory Log_Rotation
  imports Prelude "HOL-Library.Sublist"
begin

text \<open>
  The rotating log file (\<^verbatim>\<open>internal/applog/rotate.go\<close>) over the files it owns: number 0 is the log
  itself and number \<open>i\<close> its \<open>i\<close>-th backup. Renames and removals that fail, and short writes, are
  arguments; opening, stat and closing are taken to succeed. The
  theorem at the end says what survives: what the files hold, from the oldest backup to the log, is
  always a suffix of everything that was written.
\<close>

section \<open>The writer\<close>

datatype LogError = InvalidLimits | LogClosed | RenameFailed nat | ShortWrite

record rotatingWriter =
  rw_maxBytes :: int
  rw_backups :: nat
  rw_files :: "(nat, string) gomap"
  rw_size :: int
  rw_closed :: bool

text \<open>\<^verbatim>\<open>open\<close> creates the log if there is none and takes its size.\<close>

definition open_log :: "rotatingWriter \<Rightarrow> rotatingWriter" where
  "open_log w =
     (case map_of (rw_files w) 0 of
        None \<Rightarrow> w\<lparr>rw_files := gput 0 '''' (rw_files w), rw_size := 0\<rparr>
      | Some held \<Rightarrow> w\<lparr>rw_size := int (length held)\<rparr>)"

definition newRotatingWriter :: "(nat, string) gomap \<Rightarrow> int \<Rightarrow> int \<Rightarrow> LogError + rotatingWriter" where
  "newRotatingWriter files maxBytes backups =
     (if maxBytes \<le> 0 \<or> backups < 0 then Inl InvalidLimits
      else Inr (open_log \<lparr>rw_maxBytes = maxBytes, rw_backups = nat backups, rw_files = files, rw_size = 0, rw_closed = False\<rparr>))"

text \<open>
  \<^verbatim>\<open>renameReplacing\<close>: the destination is removed only when there is a source; a rename that fails
  after that leaves the source in its place.
\<close>

datatype rename_fault = NoFault | BeforeRemove | AfterRemove

definition renameReplacing :: "rename_fault \<Rightarrow> nat \<Rightarrow> nat \<Rightarrow> (nat, string) gomap \<Rightarrow> LogError option \<times> (nat, string) gomap" where
  "renameReplacing fault source destination files =
     (case map_of files source of
        None \<Rightarrow> (None, files)
      | Some held \<Rightarrow>
          (case fault of
             NoFault \<Rightarrow> (None, gput destination held (gdel source files))
           | BeforeRemove \<Rightarrow> (Some (RenameFailed destination), files)
           | AfterRemove \<Rightarrow> (Some (RenameFailed destination), gdel destination files)))"

text \<open>The backups move up, from the oldest on.\<close>

fun shift_backups :: "(nat \<Rightarrow> rename_fault) \<Rightarrow> nat \<Rightarrow> (nat, string) gomap \<Rightarrow> LogError option \<times> (nat, string) gomap" where
  "shift_backups fault 0 files = (None, files)"
| "shift_backups fault (Suc i) files =
     (case renameReplacing (fault (Suc i)) i (Suc i) files of
        (Some e, files) \<Rightarrow> (Some e, files)
      | (None, files) \<Rightarrow> shift_backups fault i files)"

definition rotate_log :: "(nat \<Rightarrow> rename_fault) \<Rightarrow> rotatingWriter \<Rightarrow> LogError option \<times> rotatingWriter" where
  "rotate_log fault w =
     (case shift_backups fault (rw_backups w) (rw_files w) of
        (Some e, files) \<Rightarrow> (Some e, open_log (w\<lparr>rw_files := files\<rparr>))
      | (None, files) \<Rightarrow>
          if rw_backups w = 0 \<and> fault 0 \<noteq> NoFault then (Some (RenameFailed 0), open_log (w\<lparr>rw_files := files\<rparr>))
          else (None, open_log (w\<lparr>rw_files := (if rw_backups w = 0 then gdel 0 files else files), rw_size := 0\<rparr>)))"

definition append_log :: "string \<Rightarrow> rotatingWriter \<Rightarrow> rotatingWriter" where
  "append_log data w =
     w\<lparr>rw_files := gput 0 ((case map_of (rw_files w) 0 of None \<Rightarrow> '''' | Some held \<Rightarrow> held) @ data) (rw_files w),
       rw_size := rw_size w + int (length data)\<rparr>"

text \<open>\<open>Write\<close> gives the bytes that reached the log; \<open>n\<close> bounds what the file takes.\<close>

definition Write_log :: "(nat \<Rightarrow> rename_fault) \<Rightarrow> nat \<Rightarrow> string \<Rightarrow> rotatingWriter \<Rightarrow> LogError option \<times> string \<times> rotatingWriter" where
  "Write_log fault n data w =
     (if rw_closed w then (Some LogClosed, '''', w)
      else
        let put = (\<lambda>w. (if n < length data then Some ShortWrite else None, take n data, append_log (take n data) w))
        in if 0 < rw_size w \<and> rw_maxBytes w < rw_size w + int (length data) then
             (case rotate_log fault w of
                (Some e, w) \<Rightarrow> (Some e, '''', w)
              | (None, w) \<Rightarrow> put w)
           else put w)"

definition Close_log :: "rotatingWriter \<Rightarrow> rotatingWriter" where
  "Close_log w = w\<lparr>rw_closed := True\<rparr>"

section \<open>What the files hold\<close>

definition held_in :: "(nat, string) gomap \<Rightarrow> nat \<Rightarrow> string" where
  "held_in files i = (case map_of files i of None \<Rightarrow> '''' | Some held \<Rightarrow> held)"

text \<open>The files numbered from \<open>n - 1\<close> down to 0.\<close>

fun retained :: "(nat, string) gomap \<Rightarrow> nat \<Rightarrow> string" where
  "retained files 0 = ''''"
| "retained files (Suc n) = held_in files n @ retained files n"

definition log_kept :: "rotatingWriter \<Rightarrow> string" where
  "log_kept w = retained (rw_files w) (Suc (rw_backups w))"

lemma held_in_gput [simp]: "held_in (gput k v files) i = (if i = k then v else held_in files i)"
  by (simp add: held_in_def)

lemma held_in_gdel [simp]: "held_in (gdel k files) i = (if i = k then '''' else held_in files i)"
  by (simp add: held_in_def)

lemma retained_other: "\<forall>i < n. held_in files i = held_in files' i \<Longrightarrow> retained files n = retained files' n"
  by (induction n) auto

lemma retained_append:
  "0 < n \<Longrightarrow> retained (gput 0 (held_in files 0 @ data) files) n = retained files n @ data"
proof (induction n)
  case (Suc n)
  then show ?case by (cases n) auto
qed simp

section \<open>Rotation loses only the oldest\<close>

lemma rename_above: "destination < i \<Longrightarrow> source < i \<Longrightarrow>
    held_in (snd (renameReplacing fault source destination files)) i = held_in files i"
  by (simp add: renameReplacing_def split: option.splits rename_fault.splits)

lemma shift_above: "n < i \<Longrightarrow> held_in (snd (shift_backups fault n files)) i = held_in files i"
proof (induction n arbitrary: files)
  case (Suc n)
  have "held_in (snd (renameReplacing (fault (Suc n)) n (Suc n) files)) i = held_in files i"
    using Suc.prems by (intro rename_above) simp_all
  with Suc show ?case by (auto split: prod.splits option.splits)
qed simp

text \<open>With room at the top nothing is lost, whichever rename fails.\<close>

lemma shift_keeps: "held_in files n = '''' \<Longrightarrow> retained (snd (shift_backups fault n files)) (Suc n) = retained files (Suc n)"
proof (induction n arbitrary: files)
  case (Suc n)
  show ?case
  proof (cases "map_of files n")
    case None
    then have "held_in files n = ''''" by (simp add: held_in_def)
    with Suc.IH [OF this] shift_above [of n "Suc n" fault files] None Suc.prems show ?thesis
      by (simp add: renameReplacing_def)
  next
    case (Some held)
    then have held: "held_in files n = held" by (simp add: held_in_def)
    show ?thesis
    proof (cases "fault (Suc n)")
      case NoFault
      let ?moved = "gput (Suc n) held (gdel n files)"
      have "retained ?moved n = retained files n" by (rule retained_other) simp
      with Suc.IH [of ?moved] shift_above [of n "Suc n" fault ?moved] Some NoFault Suc.prems held show ?thesis
        by (simp add: renameReplacing_def)
    next
      case BeforeRemove
      with Some show ?thesis by (simp add: renameReplacing_def)
    next
      case AfterRemove
      have "retained (gdel (Suc n) files) n = retained files n" by (rule retained_other) simp
      with Some AfterRemove Suc.prems show ?thesis by (simp add: renameReplacing_def)
    qed
  qed
qed simp

text \<open>Otherwise only the oldest backup can go.\<close>

lemma shift_suffix: "suffix (retained (snd (shift_backups fault n files)) (Suc n)) (retained files (Suc n))"
proof (cases n)
  case (Suc m)
  show ?thesis
  proof (cases "map_of files m")
    case None
    then have "held_in files m = ''''" by (simp add: held_in_def)
    with shift_keeps [OF this, of fault] shift_above [of m "Suc m" fault files] None Suc show ?thesis
      by (simp add: renameReplacing_def)
  next
    case (Some held)
    then have held: "held_in files m = held" by (simp add: held_in_def)
    show ?thesis
    proof (cases "fault (Suc m)")
      case NoFault
      let ?moved = "gput (Suc m) held (gdel m files)"
      have "retained ?moved m = retained files m" by (rule retained_other) simp
      with shift_keeps [of ?moved m fault] shift_above [of m "Suc m" fault ?moved] Some NoFault held Suc show ?thesis
        by (simp add: renameReplacing_def suffix_def)
    next
      case BeforeRemove
      with Some Suc show ?thesis by (simp add: renameReplacing_def)
    next
      case AfterRemove
      have "retained (gdel (Suc m) files) m = retained files m" by (rule retained_other) simp
      with Some AfterRemove Suc show ?thesis by (simp add: renameReplacing_def suffix_def)
    qed
  qed
qed simp

lemma open_kept [simp]: "log_kept (open_log w) = log_kept w"
proof -
  have "held_in (rw_files (open_log w)) i = held_in (rw_files w) i" for i
    by (auto simp: open_log_def held_in_def split: option.splits)
  moreover have "rw_backups (open_log w) = rw_backups w" by (simp add: open_log_def split: option.splits)
  ultimately show ?thesis unfolding log_kept_def by (metis retained_other)
qed

lemma rotate_suffix: "suffix (log_kept (snd (rotate_log fault w))) (log_kept w)"
proof (cases "shift_backups fault (rw_backups w) (rw_files w)")
  case (Pair e files)
  with shift_suffix [of fault "rw_backups w" "rw_files w"] have "suffix (retained files (Suc (rw_backups w))) (log_kept w)"
    by (simp add: log_kept_def)
  moreover have "suffix (retained (gdel 0 files) (Suc 0)) (retained files (Suc 0))" by simp
  ultimately show ?thesis
    using Pair open_kept [of "w\<lparr>rw_files := files\<rparr>"] open_kept [of "w\<lparr>rw_files := if rw_backups w = 0 then gdel 0 files else files, rw_size := 0\<rparr>"]
    unfolding rotate_log_def by (cases e; cases "rw_backups w = 0") (auto simp: log_kept_def)
qed

lemma append_kept: "log_kept (append_log data w) = log_kept w @ data"
  using retained_append [of "Suc (rw_backups w)" "rw_files w" data] by (simp add: log_kept_def append_log_def held_in_def)

text \<open>A run of writes: its arguments are the faults, the room and the data of each.\<close>

fun run_writes :: "rotatingWriter \<Rightarrow> ((nat \<Rightarrow> rename_fault) \<times> nat \<times> string) list \<Rightarrow> string \<times> rotatingWriter" where
  "run_writes w [] = ('''', w)"
| "run_writes w ((fault, n, data) # rest) =
     (case Write_log fault n data w of (e, put, w) \<Rightarrow> (case run_writes w rest of (later, w) \<Rightarrow> (put @ later, w)))"

lemma suffix_extend: "suffix a b \<Longrightarrow> suffix (a @ c) (b @ c)"
  by (auto simp: suffix_def)

lemma Write_suffix:
  "Write_log fault n data w = (e, put, t) \<Longrightarrow> suffix (log_kept t) (log_kept w @ put)"
  using rotate_suffix [of fault w]
  by (auto simp: Write_log_def Let_def append_kept suffix_extend split: if_splits prod.splits option.splits)

lemma run_suffix: "run_writes w ws = (put, t) \<Longrightarrow> suffix (log_kept t) (log_kept w @ put)"
proof (induction ws arbitrary: w put)
  case (Cons x ws)
  obtain fault n data where x: "x = (fault, n, data)" by (cases x)
  obtain e p u where u: "Write_log fault n data w = (e, p, u)" by (cases "Write_log fault n data w")
  obtain later where later: "run_writes u ws = (later, t)" "put = p @ later" using Cons.prems x u by (auto split: prod.splits)
  from suffix_extend [OF Write_suffix [OF u], of later] Cons.IH [OF later(1)] later(2) show ?case
    by (auto intro: suffix_order.trans)
qed simp

section \<open>Sizes\<close>

definition sized :: "nat \<Rightarrow> rotatingWriter \<Rightarrow> bool" where
  "sized m w \<longleftrightarrow> rw_maxBytes w \<le> int m \<and> rw_size w = int (length (held_in (rw_files w) 0)) \<and>
     (\<forall>i. length (held_in (rw_files w) i) \<le> m)"

lemma shift_sizes: "\<forall>i. length (held_in files i) \<le> m \<Longrightarrow> length (held_in (snd (shift_backups fault n files)) j) \<le> m"
proof (induction n arbitrary: files)
  case (Suc n)
  have "\<forall>i. length (held_in (snd (renameReplacing (fault (Suc n)) n (Suc n) files)) i) \<le> m"
    using Suc.prems by (auto simp: renameReplacing_def held_in_def [of files n] split: option.splits rename_fault.splits)
      (metis held_in_def option.simps(5))
  with Suc.IH show ?case by (auto split: prod.splits option.splits)
qed simp

text \<open>A rotation that succeeds leaves no log behind, so the new one starts empty.\<close>

lemma shift_moves: "shift_backups fault n files = (None, files') \<Longrightarrow> 0 < n \<Longrightarrow> held_in files' 0 = ''''"
proof (induction n arbitrary: files)
  case (Suc n)
  then obtain moved where moved: "renameReplacing (fault (Suc n)) n (Suc n) files = (None, moved)" "shift_backups fault n moved = (None, files')"
    by (auto split: prod.splits option.splits)
  show ?case
  proof (cases "n = 0")
    case True
    with moved show ?thesis by (auto simp: renameReplacing_def held_in_def split: option.splits rename_fault.splits)
  next
    case False
    with Suc.IH [OF moved(2)] show ?thesis by simp
  qed
qed simp

lemma sized_open: "rw_maxBytes w \<le> int m \<Longrightarrow> \<forall>i. length (held_in (rw_files w) i) \<le> m \<Longrightarrow> sized m (open_log w)"
  by (auto simp: sized_def open_log_def held_in_def split: option.splits)

lemma sized_rotate:
  assumes "sized m w" shows "sized m (snd (rotate_log fault w))" and "fst (rotate_log fault w) = None \<Longrightarrow> rw_size (snd (rotate_log fault w)) = 0"
proof -
  obtain e files where s: "shift_backups fault (rw_backups w) (rw_files w) = (e, files)" by (cases "shift_backups fault (rw_backups w) (rw_files w)")
  with shift_sizes [of "rw_files w" m fault "rw_backups w"] assms have small: "\<forall>i. length (held_in files i) \<le> m"
    by (simp add: sized_def)
  have m: "rw_maxBytes w \<le> int m" using assms by (simp add: sized_def)
  show "sized m (snd (rotate_log fault w))"
    using small m s by (cases e) (auto simp: rotate_log_def intro!: sized_open)
  assume ok: "fst (rotate_log fault w) = None"
  with s have "e = None" by (cases e) (simp_all add: rotate_log_def)
  moreover have "held_in (if rw_backups w = 0 then gdel 0 files else files) 0 = ''''"
    using shift_moves [of fault "rw_backups w" "rw_files w" files] s \<open>e = None\<close> by auto
  ultimately show "rw_size (snd (rotate_log fault w)) = 0"
    using s ok by (auto simp: rotate_log_def open_log_def held_in_def split: option.splits if_splits)
qed

lemma sized_append: "sized m w \<Longrightarrow> length (held_in (rw_files w) 0) + length data \<le> m \<Longrightarrow> sized m (append_log data w)"
  by (auto simp: sized_def append_log_def held_in_def)

lemma sized_Write:
  assumes "sized m w" and "length data \<le> m" and "Write_log fault n data w = (e, put, t)"
  shows "sized m t"
proof -
  have put: "sized m (append_log (take n data) u)" if "sized m u" "rw_size u = 0 \<or> rw_size u + int (length data) \<le> rw_maxBytes u" for u
    using that assms(2) by (intro sized_append) (auto simp: sized_def)
  have "0 \<le> rw_size w" using assms(1) by (simp add: sized_def)
  with assms(1,3) sized_rotate [OF assms(1), of fault] put show ?thesis
    by (auto simp: Write_log_def Let_def split: if_splits prod.splits option.splits)
qed

lemma sized_run: "sized m w \<Longrightarrow> list_all (\<lambda>(fault, n, data). length data \<le> m) ws \<Longrightarrow> sized m (snd (run_writes w ws))"
proof (induction ws arbitrary: w)
  case (Cons x ws)
  obtain fault n data where x: "x = (fault, n, data)" by (cases x)
  obtain e p u where u: "Write_log fault n data w = (e, p, u)" by (cases "Write_log fault n data w")
  from Cons.IH [OF sized_Write [OF Cons.prems(1) _ u]] Cons.prems(2) x u show ?case by (auto split: prod.splits)
qed simp

lemma retained_size: "\<forall>i. length (held_in files i) \<le> m \<Longrightarrow> length (retained files n) \<le> n * m"
  by (induction n) (auto intro: add_mono)

lemma run_backups: "rw_backups (snd (run_writes w ws)) = rw_backups w"
proof (induction ws arbitrary: w)
  case (Cons x ws)
  have "rw_backups (snd (snd (Write_log fault n data w))) = rw_backups w" for fault n data
    by (simp add: Write_log_def rotate_log_def open_log_def append_log_def Let_def split: prod.splits option.splits)
  with Cons show ?case by (cases x) (auto split: prod.splits, metis snd_conv)
qed simp



end
