(* ===== verification/Go_Time.thy ===== *)
theory Go_Time
  imports Go_Strings "HOL-Library.Monad_Syntax"
begin

text \<open>
  \<^verbatim>\<open>time.Parse\<close> for the layouts the program uses: the RFC 3339 layouts of the store and of
  \<^verbatim>\<open>json.Unmarshal\<close>, and the forms without a zone of \<^verbatim>\<open>internal/oscar/flextime.go\<close>. A parsed time
  is its instant with its offset in seconds. As in Go a fraction is accepted after the seconds of
  every layout, the hour may have one digit, and a blank of the layout stands for any number of
  them. The theorem at the end says that an instant is read back from its text.
\<close>

section \<open>Calendar\<close>

type_synonym zoned = "time \<times> int"

definition days_before_year :: "int \<Rightarrow> int" where
  "days_before_year y = 365 * (y - 1) + (y - 1) div 4 - (y - 1) div 100 + (y - 1) div 400"

definition days_of :: "nat \<Rightarrow> nat \<Rightarrow> nat \<Rightarrow> int" where
  "days_of y m d = days_before_year (int y) + int (sum_list (take (m - 1) (month_lengths y))) + int d - 1"

section \<open>Scanning\<close>

fun lit :: "char \<Rightarrow> string \<Rightarrow> string option" where
  "lit c (x # s) = (if x = c then Some s else None)"
| "lit c [] = None"

text \<open>A blank of the layout.\<close>

definition blanks :: "string \<Rightarrow> string option" where
  "blanks s = (if s \<noteq> [] \<and> hd s \<noteq> CHR '' '' then None else Some (dropWhile (\<lambda>c. c = CHR '' '') s))"

definition digit_val :: "char \<Rightarrow> nat" where
  "digit_val c = byte c - 48"

text \<open>\<^verbatim>\<open>getnum\<close>: two digits, or, when not fixed, one.\<close>

fun getnum :: "bool \<Rightarrow> string \<Rightarrow> (nat \<times> string) option" where
  "getnum fixed (a # b # s) =
     (if \<not> is_digit a then None
      else if is_digit b then Some (10 * digit_val a + digit_val b, s)
      else if fixed then None else Some (digit_val a, b # s))"
| "getnum fixed [a] = (if is_digit a \<and> \<not> fixed then Some (digit_val a, []) else None)"
| "getnum fixed [] = None"

definition year4 :: "string \<Rightarrow> (nat \<times> string) option" where
  "year4 s =
     (if length s < 4 then None
      else map_option (\<lambda>y. (y, drop 4 s)) (digits_value (take 4 s) 0))"

definition scan_date :: "string \<Rightarrow> ((nat \<times> nat \<times> nat) \<times> string) option" where
  "scan_date s = do {
     (y, s) \<leftarrow> year4 s;
     s \<leftarrow> lit CHR ''-'' s;
     (m, s) \<leftarrow> getnum True s;
     s \<leftarrow> (if m = 0 \<or> 12 < m then None else lit CHR ''-'' s);
     (d, s) \<leftarrow> getnum True s;
     (if d < 1 \<or> month_lengths y ! (m - 1) < d then None else Some ((y, m, d), s))
   }"

text \<open>A fraction: any number of digits, of which nine count.\<close>

definition scan_fraction :: "string \<Rightarrow> nat \<times> string" where
  "scan_fraction s =
     (case s of
        c # d # rest \<Rightarrow>
          if (c = CHR ''.'' \<or> c = CHR '','') \<and> is_digit d
          then (let ds = take 9 (takeWhile is_digit (d # rest))
                in (the (digits_value ds 0) * 10 ^ (9 - length ds), dropWhile is_digit (d # rest)))
          else (0, s)
      | _ \<Rightarrow> (0, s))"

text \<open>Seconds of the day, nanoseconds and what is left.\<close>

definition scan_clock :: "string \<Rightarrow> ((nat \<times> nat) \<times> string) option" where
  "scan_clock s = do {
     (h, s) \<leftarrow> getnum False s;
     s \<leftarrow> (if 24 \<le> h then None else lit CHR '':'' s);
     (m, s) \<leftarrow> getnum True s;
     s \<leftarrow> (if 60 \<le> m then None else lit CHR '':'' s);
     (sec, s) \<leftarrow> getnum True s;
     (if 60 \<le> sec then None
      else let (f, s) = scan_fraction s in Some ((h * 3600 + m * 60 + sec, f), s))
   }"

text \<open>The zone: \<^verbatim>\<open>Z\<close> or a signed offset.\<close>

definition scan_zone :: "string \<Rightarrow> (int \<times> string) option" where
  "scan_zone s =
     (if s \<noteq> [] \<and> hd s = CHR ''Z'' then Some (0, tl s)
      else if length s < 6 \<or> s ! 3 \<noteq> CHR '':'' then None
      else do {
        (h, _) \<leftarrow> getnum True (take 2 (drop 1 s));
        (m, _) \<leftarrow> getnum True (take 2 (drop 4 s));
        (if 24 < h \<or> 60 < m then None
         else if hd s = CHR ''+'' then Some (int ((h * 60 + m) * 60), drop 6 s)
         else if hd s = CHR ''-'' then Some (- int ((h * 60 + m) * 60), drop 6 s)
         else None)
      })"

definition instant_of :: "nat \<times> nat \<times> nat \<Rightarrow> nat \<times> nat \<Rightarrow> int \<Rightarrow> time" where
  "instant_of date clock offset =
     (let (y, m, d) = date; (sec, f) = clock
      in ((days_of y m d * 86400 + int sec) - offset) * 1000000000 + int f)"

section \<open>Layouts\<close>

datatype layout = RFC3339 | NoZone | NoZoneBlank | DateOnly

fun time_Parse :: "layout \<Rightarrow> string \<Rightarrow> zoned option" where
  "time_Parse RFC3339 s = do {
     (date, s) \<leftarrow> scan_date s;
     s \<leftarrow> lit CHR ''T'' s;
     (clock, s) \<leftarrow> scan_clock s;
     (offset, s) \<leftarrow> scan_zone s;
     (if s = [] then Some (instant_of date clock offset, offset) else None)
   }"
| "time_Parse NoZone s = do {
     (date, s) \<leftarrow> scan_date s;
     s \<leftarrow> lit CHR ''T'' s;
     (clock, s) \<leftarrow> scan_clock s;
     (if s = [] then Some (instant_of date clock 0, 0) else None)
   }"
| "time_Parse NoZoneBlank s = do {
     (date, s) \<leftarrow> scan_date s;
     s \<leftarrow> blanks s;
     (clock, s) \<leftarrow> scan_clock s;
     (if s = [] then Some (instant_of date clock 0, 0) else None)
   }"
| "time_Parse DateOnly s = do {
     (date, s) \<leftarrow> scan_date s;
     (if s = [] then Some (instant_of date (0, 0) 0, 0) else None)
   }"

text \<open>The store's own texts (run\_repository.go and its siblings).\<close>

definition parseTime :: "string \<Rightarrow> time option" where
  "parseTime s = map_option fst (time_Parse RFC3339 s)"

fun parseNullableTime :: "string option \<Rightarrow> time option option" where
  "parseNullableTime None = Some None"
| "parseNullableTime (Some s) = map_option Some (parseTime s)"

definition nullableTime :: "time option \<Rightarrow> string option" where
  "nullableTime v = map_option formatTime v"

text \<open>\<^verbatim>\<open>flexTime.UnmarshalJSON\<close>: the first layout that fits; nothing for \<^verbatim>\<open>null\<close> and the empty text.\<close>

definition flexTimeLayouts :: "layout list" where
  "flexTimeLayouts = [RFC3339, NoZone, NoZoneBlank, DateOnly]"

fun first_layout :: "layout list \<Rightarrow> string \<Rightarrow> time option" where
  "first_layout [] s = None"
| "first_layout (l # ls) s = (case time_Parse l s of Some (t, _) \<Rightarrow> Some t | None \<Rightarrow> first_layout ls s)"

fun decode_flex :: "json \<Rightarrow> time \<Rightarrow> time option" where
  "decode_flex JNull old = Some old"
| "decode_flex (JString s) old = (if s = '''' then Some old else first_layout flexTimeLayouts s)"
| "decode_flex _ old = None"

text \<open>A \<^verbatim>\<open>time.Time\<close> of a document, and its text with its own offset.\<close>

fun decode_time :: "json \<Rightarrow> zoned \<Rightarrow> zoned option" where
  "decode_time JNull old = Some old"
| "decode_time (JString s) old = time_Parse RFC3339 s"
| "decode_time _ old = None"

definition zone_text :: "int \<Rightarrow> string" where
  "zone_text offset =
     (if offset = 0 then ''Z''
      else (if offset < 0 then ''-'' else ''+'') @ pad 2 (nat \<bar>offset\<bar> div 3600) @ '':'' @ pad 2 (nat \<bar>offset\<bar> div 60 mod 60))"

definition zoned_text :: "zoned \<Rightarrow> string" where
  "zoned_text z = butlast (rfc3339 (fst z + snd z * second)) @ zone_text (snd z)"

section \<open>Reading back what was written\<close>

lemma digit_val [simp]: "n < 10 \<Longrightarrow> digit_val (char_of (48 + n)) = n"
  by (simp add: digit_val_def digit_byte)

lemma digits_zeros: "digits_value (replicate k CHR ''0'' @ s) 0 = digits_value s 0"
  by (induction k) (simp_all add: is_digit_def byte_def)

lemma digits_pad [simp]: "digits_value (pad w n) 0 = Some n"
  by (simp add: pad_def digits_zeros)

lemma nat_str_length: "0 < k \<Longrightarrow> n < 10 ^ k \<Longrightarrow> length (nat_str n) \<le> k"
proof (induction n arbitrary: k rule: nat_str.induct)
  case (1 n)
  show ?case
  proof (cases "n < 10")
    case False
    obtain j where j: "k = Suc j" using "1.prems"(1) by (cases k) auto
    with False "1.prems"(2) have "0 < j" by (cases j) auto
    moreover from j "1.prems" have "n div 10 < 10 ^ j" by (auto simp: less_mult_imp_div_less algebra_simps)
    ultimately show ?thesis using "1.IH" [OF False, of j] j False by (simp add: nat_str_step)
  qed (use "1.prems" in simp)
qed

lemma pad_length: "0 < w \<Longrightarrow> n < 10 ^ w \<Longrightarrow> length (pad w n) = w"
  using nat_str_length [of w n] by (simp add: pad_def)

lemma pad_digits: "c \<in> set (pad w n) \<Longrightarrow> is_digit c"
  using nat_str_digits by (auto simp: pad_def is_digit_def byte_def)

lemma pad2: "n < 100 \<Longrightarrow> pad 2 n = [char_of (48 + n div 10), char_of (48 + n mod 10)]"
  by (cases "n < 10") (simp_all add: pad_def nat_str_step replicate_step)

lemma getnum_pad: "n < 100 \<Longrightarrow> getnum fixed (pad 2 n @ s) = Some (n, s)"
  by (simp add: pad2)

lemma year4_pad: "n < 10000 \<Longrightarrow> year4 (pad 4 n @ s) = Some (n, s)"
  using pad_length [of 4 n] by (simp add: year4_def)

text \<open>The date: a day is found again from its year, month and day of the month.\<close>

lemma month_day_inverse:
  "month_day lens m d = (m', day) \<Longrightarrow> d < sum_list lens \<Longrightarrow>
   m \<le> m' \<and> m' - m < length lens \<and> 0 < day \<and> day \<le> lens ! (m' - m) \<and> Suc d = sum_list (take (m' - m) lens) + day"
proof (induction lens m d rule: month_day.induct)
  case (2 len lens m d)
  show ?case
  proof (cases "d < len")
    case False
    with 2 have "Suc m \<le> m' \<and> m' - Suc m < length lens \<and> 0 < day \<and> day \<le> lens ! (m' - Suc m) \<and>
      Suc (d - len) = sum_list (take (m' - Suc m) lens) + day" by simp
    moreover from this have "m' - m = Suc (m' - Suc m)" by arith
    moreover from False have "Suc d = len + Suc (d - len)" by arith
    ultimately show ?thesis by simp
  qed (use 2 in auto)
qed simp

lemma year_day_inverse:
  assumes "year_day n = (y, d)" and "n < 3652059"
  shows "0 < y" and "y < 10000" and "int n = days_before_year (int y) + int d" and "d < (if leap y then 366 else 365)"
proof -
  define a where "a = n div 146097" define r where "r = n mod 146097"
  define c where "c = min 3 (r div 36524)" define e where "e = r - c * 36524"
  define b where "b = e div 1461" define f where "f = e mod 1461"
  define g where "g = min 3 (f div 365)"
  have n: "n = 146097 * a + r" and r: "r < 146097" by (simp_all add: a_def r_def)
  have c: "c \<le> 3" "c * 36524 \<le> r" "r < Suc c * 36524 \<or> c = 3"
    using r by (auto simp: c_def min_div_le min_def dividend_less_div_times mult.commute)
  have e: "r = c * 36524 + e" "e < 36524 \<or> c = 3 \<and> e = 36524" using c r by (auto simp: e_def)
  have b: "e = 1461 * b + f" "f < 1461" by (simp_all add: b_def f_def)
  then have b24: "b \<le> 24" using e(2) by auto
  have g: "g \<le> 3" "g * 365 \<le> f" "f < Suc g * 365 \<or> g = 3"
    by (auto simp: g_def min_div_le min_def dividend_less_div_times mult.commute)
  have y: "y = 400 * a + 100 * c + 4 * b + g + 1" and d: "d = f - g * 365"
    using assms(1) by (simp_all add: year_day_def Let_def a_def r_def c_def e_def b_def f_def g_def)
  have d': "f = 365 * g + d" "d < 365 \<or> g = 3 \<and> d = 365" using d g b(2) by auto
  show "0 < y" using y by simp
  have a: "a \<le> 24" using assms(2) n by simp
  show "y < 10000"
  proof (rule ccontr)
    assume "\<not> y < 10000"
    with y a c(1) b24 g(1) have "a = 24" "c = 3" "b = 24" "g = 3" by linarith+
    with n e b d' assms(2) show False by simp
  qed
  have div4: "(int y - 1) div 4 = 100 * int a + 25 * int c + int b" using y g(1) by simp
  have div100: "(int y - 1) div 100 = 4 * int a + int c" using y g(1) b24 by simp
  have div400: "(int y - 1) div 400 = int a" using y g(1) b24 c(1) by simp
  show "int n = days_before_year (int y) + int d"
    unfolding days_before_year_def div4 div100 div400 using n e(1) b(1) d'(1) y by simp
  show "d < (if leap y then 366 else 365)"
  proof (cases "d < 365")
    case False
    with d' have gd: "g = 3" "d = 365" by auto
    then have y4: "y = 4 * (100 * a + 25 * c + b + 1)" using y by simp
    have "leap y"
    proof (cases "b = 24")
      case True
      with gd d' b e have "c = 3" by auto
      with True y4 have "y = 400 * (a + 1)" by simp
      then show ?thesis by (simp add: leap_def)
    next
      case b: False
      have eq: "y = 100 * (4 * a + c) + 4 * (b + 1)" using y4 by simp
      have "y mod 100 = 4 * (b + 1) mod 100" unfolding eq by (rule mod_mult_self4)
      also have "\<dots> = 4 * (b + 1)" using b b24 by (intro mod_less) simp
      finally show ?thesis using y4 by (simp add: leap_def)
    qed
    with gd show ?thesis by simp
  qed simp
qed

lemma scan_date_str:
  assumes "n < 3652059"
  shows "\<exists>y m d. (\<forall>s. scan_date (date_str n @ s) = Some ((y, m, d), s)) \<and> int n = days_of y m d"
proof -
  obtain y d where y: "year_day n = (y, d)" by (cases "year_day n")
  obtain m day where m: "month_day (month_lengths y) 1 d = (m, day)" by (cases "month_day (month_lengths y) 1 d")
  note ys = year_day_inverse [OF y assms]
  have "d < sum_list (month_lengths y)" using ys(4) by (simp add: month_lengths_def split: if_splits)
  from month_day_inverse [OF m this] have ms: "1 \<le> m" "m - 1 < 12" "0 < day" "day \<le> month_lengths y ! (m - 1)"
    "Suc d = sum_list (take (m - 1) (month_lengths y)) + day" by (simp_all add: month_lengths_def)
  have "list_all (\<lambda>len. len \<le> 31) (month_lengths y)" by (simp add: month_lengths_def)
  moreover have "length (month_lengths y) = 12" by (simp add: month_lengths_def)
  ultimately have "month_lengths y ! (m - 1) \<le> 31" using ms(2) by (simp add: list_all_length)
  with ms have "scan_date (date_str n @ s) = Some ((y, m, day), s)" for s
    using ys(2) by (simp add: scan_date_def date_str_def y m [simplified] year4_pad getnum_pad)
  moreover have "int n = days_of y m day" using ys(3) ms(3,5) by (simp add: days_of_def)
  ultimately show ?thesis by blast
qed

lemma takeWhile_same: "takeWhile (\<lambda>x. x = c) s = replicate (length (takeWhile (\<lambda>x. x = c) s)) c"
  by (induction s) auto

lemma trailing_zeros: "s = drop_trailing_zeros s @ replicate (length s - length (drop_trailing_zeros s)) CHR ''0''"
proof -
  let ?P = "\<lambda>c. c = CHR ''0''"
  have "rev s = takeWhile ?P (rev s) @ dropWhile ?P (rev s)" by simp
  then have s: "s = drop_trailing_zeros s @ rev (takeWhile ?P (rev s))"
    unfolding drop_trailing_zeros_def by (metis rev_append rev_rev_ident)
  have "rev (takeWhile ?P (rev s)) = replicate (length (takeWhile ?P (rev s))) CHR ''0''"
    by (metis rev_replicate takeWhile_same)
  moreover from s have "length (takeWhile ?P (rev s)) = length s - length (drop_trailing_zeros s)"
    by (metis add_diff_cancel_left' length_append length_rev)
  ultimately show ?thesis using s by metis
qed

lemma digits_zeros_behind: "digits_value (replicate k CHR ''0'') v = Some (v * 10 ^ k)"
  by (induction k arbitrary: v) (simp_all add: is_digit_def byte_def)

lemma digits_append: "digits_value (a @ b) v = Option.bind (digits_value a v) (digits_value b)"
  by (induction a arbitrary: v) auto

lemma scan_frac_str:
  assumes "\<not> is_digit c" and "c \<noteq> CHR ''.''" and "c \<noteq> CHR '',''"
  shows "scan_fraction (frac_str 9 n @ c # s) = (n mod 1000000000, c # s)"
proof (cases "n mod 1000000000 = 0")
  case True
  with assms show ?thesis by (cases s) (simp_all add: scan_fraction_def frac_str_def)
next
  case False
  define v where "v = n mod 1000000000"
  define t where "t = drop_trailing_zeros (pad 9 v)"
  define k where "k = length (pad 9 v) - length t"
  have len: "length (pad 9 v) = 9" using pad_length [of 9 v] by (simp add: v_def)
  have p: "pad 9 v = t @ replicate k CHR ''0''" using trailing_zeros [of "pad 9 v"] by (simp add: t_def k_def)
  with len have k: "9 - length t = k" by (metis add_diff_cancel_left' length_append length_replicate)
  from p digits_pad [of 9 v] obtain w where w: "digits_value t 0 = Some w" "w * 10 ^ k = v"
    by (auto simp: digits_append digits_zeros_behind split: Option.bind_splits)
  from p have "set t \<subseteq> set (pad 9 v)" by simp
  with pad_digits have digits: "\<forall>x \<in> set t. is_digit x" by blast
  have "v \<noteq> 0" using False by (simp add: v_def)
  with w obtain d r where dr: "t = d # r" by (cases t) auto
  have eight: "length r \<le> 8" using p len dr by (auto dest!: arg_cong [of _ _ length])
  have tw: "takeWhile is_digit (r @ c # s) = r" "dropWhile is_digit (r @ c # s) = c # s"
    using digits dr assms(1) by (simp_all add: takeWhile_append2 dropWhile_append2)
  have "frac_str 9 n = CHR ''.'' # d # r" using False dr by (simp add: frac_str_def v_def t_def)
  with tw w digits dr eight k show ?thesis by (simp add: scan_fraction_def v_def)
qed

lemma scan_clock_str:
  assumes "h < 24" and "m < 60" and "sec < 60"
  shows "scan_clock (pad 2 h @ CHR '':'' # pad 2 m @ CHR '':'' # pad 2 sec @ frac_str 9 n @ ''Z'') =
    Some ((h * 3600 + m * 60 + sec, n mod 1000000000), ''Z'')"
proof -
  have Z: "\<not> is_digit CHR ''Z''" by (simp add: is_digit_def byte_def)
  show ?thesis using assms by (simp add: scan_clock_def getnum_pad scan_frac_str [OF Z])
qed

definition year_10000 :: time where
  "year_10000 = 315537897600 * second"

lemma rfc3339_parse:
  assumes "0 \<le> t" and "t < year_10000" shows "time_Parse RFC3339 (rfc3339 t) = Some (t, 0)"
proof -
  define n where "n = nat t" define q where "q = n div 1000000000" define sod where "sod = q mod 86400"
  have days: "q div 86400 < 3652059"
    using assms by (simp add: q_def n_def year_10000_def second_def less_mult_imp_div_less)
  obtain y m d where ymd: "\<And>r. scan_date (date_str (q div 86400) @ r) = Some ((y, m, d), r)" "int (q div 86400) = days_of y m d"
    using scan_date_str [OF days] by blast
  have sod: "sod < 86400" by (simp add: sod_def)
  then have clock: "sod div 3600 < 24" "sod div 60 mod 60 < 60" "sod mod 60 < 60"
    by (simp_all add: less_mult_imp_div_less)
  have hms: "sod div 3600 * 3600 + sod div 60 mod 60 * 60 + sod mod 60 = sod"
  proof -
    have a: "sod div 3600 = sod div 60 div 60" using div_mult2_eq [of sod 60 60] by simp
    have "sod div 60 div 60 * 3600 + sod div 60 mod 60 * 60 = (sod div 60 div 60 * 60 + sod div 60 mod 60) * 60"
      by (simp only: add_mult_distrib mult.assoc)
    also have "\<dots> = sod div 60 * 60" by (simp only: div_mult_mod_eq)
    finally show ?thesis unfolding a by (simp only: div_mult_mod_eq)
  qed
  have "n = q * 1000000000 + n mod 1000000000" "q = q div 86400 * 86400 + sod" by (simp_all add: q_def sod_def)
  then have "int n = int q * 1000000000 + int (n mod 1000000000)" "int q = days_of y m d * 86400 + int sod"
    using ymd by (metis of_nat_add of_nat_mult of_nat_numeral)+
  then have inst: "instant_of (y, m, d) (sod, n mod 1000000000) 0 = t" using assms(1) by (simp add: instant_of_def n_def)
  from scan_clock_str [OF clock, of n] show ?thesis
    unfolding rfc3339_def Let_def n_def [symmetric] q_def [symmetric] sod_def [symmetric]
    using ymd(1) by (simp add: scan_zone_def hms inst)
qed

text \<open>
  C29. Stored instants come back. For every instant of the years 1 to 9999, to the nanosecond, reading
  the text that the store writes gives the instant, and so does an optional one; the text is also
  the one that OSCAR's replies are read with.
\<close>

theorem stored_time_round_trip:
  assumes "0 \<le> t" and "t < year_10000"
  shows "parseTime (formatTime t) = Some t \<and> parseNullableTime (nullableTime (Some t)) = Some (Some t) \<and>
    decode_flex (JString (formatTime t)) 0 = Some t"
proof -
  have parse: "time_Parse RFC3339 (formatTime t) = Some (t, 0)"
    using rfc3339_parse [OF assms] by (simp add: formatTime_def)
  moreover from this have "formatTime t \<noteq> ''''" by (auto simp: scan_date_def year4_def)
  ultimately show ?thesis by (simp add: parseTime_def nullableTime_def flexTimeLayouts_def del: time_Parse.simps)
qed

theorem stored_time_round_trip_witness:
  "parseTime ''1997-05-23T16:00:00.5Z'' = Some (63000000000 * second + 500 * millisecond)"
proof -
  have "formatTime (63000000000 * second + 500 * millisecond) = ''1997-05-23T16:00:00.5Z''"
    unfolding formatTime_def rfc3339_code second_def millisecond_def by code_simp
  with stored_time_round_trip [of "63000000000 * second + 500 * millisecond"] show ?thesis
    by (simp add: year_10000_def second_def millisecond_def)
qed

end
