(* ===== verification/Oscar_Lists.thy ===== *)
theory Oscar_Lists
  imports Oscar_Client Go_Time
begin

text \<open>
  The lists the client of \<^verbatim>\<open>internal/oscar/client.go\<close> reads: History, the correlation audit and the
  notification audit with their wire forms, and the label probe. The one loop over pages that the
  three readers write out is \<open>list_pages\<close>. The text of a JSON number that is read as a \<^verbatim>\<open>float64\<close> is
  a parameter, which is \<^term>\<open>None\<close> when the number does not fit.
\<close>

section \<open>Values of any type\<close>

text \<open>\<^verbatim>\<open>fmt.Sprint\<close> of a value decoded into an \<^verbatim>\<open>any\<close>.\<close>

fun sprint_any :: "(string \<Rightarrow> string option) \<Rightarrow> json \<Rightarrow> string option" where
  "sprint_any ff JNull = Some ''<nil>''"
| "sprint_any ff (JBool b) = Some (if b then ''true'' else ''false'')"
| "sprint_any ff (JNumber s) = ff s"
| "sprint_any ff (JString s) = Some s"
| "sprint_any ff (JArray js) = map_option (\<lambda>xs. ''['' @ join '' '' xs @ '']'') (those (map (sprint_any ff) js))"
| "sprint_any ff (JObject members) =
     map_option (\<lambda>kvs. ''map['' @ join '' '' (map (\<lambda>(k, v). k @ '':'' @ v)
         (sort_key fst (foldl (\<lambda>m (k, v). gput k v m) [] kvs))) @ '']'')
       (those (map (\<lambda>(k, v). map_option (Pair k) (sprint_any ff v)) members))"

definition decode_any :: "(string \<Rightarrow> string option) \<Rightarrow> json \<Rightarrow> json \<Rightarrow> json option" where
  "decode_any ff j old = map_option (\<lambda>_. j) (sprint_any ff j)"

section \<open>Wire forms\<close>

record history_wire =
  hw_OriginalSeverity :: "string option"
  hw_Severity :: "string option"
  hw_StartsAt :: time
  hw_ID :: json
  hw_AlertName :: string
  hw_Fingerprint :: string
  hw_Status :: string
  hw_CreatedAt :: time
  hw_Labels :: "(string \<times> string) list"
  hw_Annotations :: "(string \<times> string) list"

text \<open>\<^verbatim>\<open>labelWire\<close> and \<^verbatim>\<open>annotationWire\<close> differ in the name of their first field.\<close>

definition decode_pair :: "string \<Rightarrow> json \<Rightarrow> (string \<times> string) option" where
  "decode_pair tag j = do {
     k \<leftarrow> unmarshal_field tag decode_string '''' (Doc j);
     v \<leftarrow> unmarshal_field ''Value'' decode_string '''' (Doc j);
     Some (k, v)
   }"

definition decode_history :: "(string \<Rightarrow> string option) \<Rightarrow> json \<Rightarrow> history_wire option" where
  "decode_history ff j = do {
     original \<leftarrow> unmarshal_field ''original_severity'' (decode_pointer decode_string '''') None (Doc j);
     severity \<leftarrow> unmarshal_field ''severity'' (decode_pointer decode_string '''') None (Doc j);
     starts \<leftarrow> unmarshal_field ''startsAt'' decode_flex 0 (Doc j);
     i \<leftarrow> unmarshal_field ''id'' (decode_any ff) JNull (Doc j);
     name \<leftarrow> unmarshal_field ''alertname'' decode_string '''' (Doc j);
     fingerprint \<leftarrow> unmarshal_field ''fingerprint'' decode_string '''' (Doc j);
     status \<leftarrow> unmarshal_field ''status'' decode_string '''' (Doc j);
     created \<leftarrow> unmarshal_field ''createdAt'' decode_flex 0 (Doc j);
     labels \<leftarrow> unmarshal_field ''labels'' (decode_list (decode_pair ''Label'')) [] (Doc j);
     annotations \<leftarrow> unmarshal_field ''annotations'' (decode_list (decode_pair ''Annotation'')) [] (Doc j);
     Some \<lparr>hw_OriginalSeverity = original, hw_Severity = severity, hw_StartsAt = starts, hw_ID = i, hw_AlertName = name,
       hw_Fingerprint = fingerprint, hw_Status = status, hw_CreatedAt = created, hw_Labels = labels,
       hw_Annotations = annotations\<rparr>
   }"

definition collect :: "(string \<times> string) list \<Rightarrow> labels" where
  "collect kvs = foldl (\<lambda>m (k, v). gput k v m) [] kvs"

text \<open>\<^verbatim>\<open>historyWire.normalized\<close>: the alert name is folded back into the labels.\<close>

definition normalized_history :: "(string \<Rightarrow> string option) \<Rightarrow> history_wire \<Rightarrow> HistoryRecord" where
  "normalized_history ff w =
     (let labels = collect (hw_Labels w)
      in \<lparr>hr_OriginalSeverity = hw_OriginalSeverity w, hr_Severity = hw_Severity w, hr_StartsAt = hw_StartsAt w,
          hr_ID = (case sprint_any ff (hw_ID w) of None \<Rightarrow> '''' | Some s \<Rightarrow> s), hr_AlertName = hw_AlertName w,
          hr_Fingerprint = hw_Fingerprint w, hr_Status = hw_Status w, hr_CreatedAt = hw_CreatedAt w,
          hr_Labels = (if hw_AlertName w \<noteq> '''' \<and> map_of labels ''alertname'' = None
             then gput ''alertname'' (hw_AlertName w) labels else labels),
          hr_Annotations = collect (hw_Annotations w)\<rparr>)"

record history_list =
  hl_TotalRecords :: int
  hl_TotalPages :: int
  hl_Page :: int
  hl_PerPage :: int
  hl_Records :: "history_wire list"

definition no_history_list :: history_list where
  "no_history_list = \<lparr>hl_TotalRecords = 0, hl_TotalPages = 0, hl_Page = 0, hl_PerPage = 0, hl_Records = []\<rparr>"

definition decode_history_list :: "(string \<Rightarrow> string option) \<Rightarrow> raw \<Rightarrow> history_list option" where
  "decode_history_list ff body = do {
     records \<leftarrow> unmarshal_field ''total_records'' decode_int 0 body;
     pages \<leftarrow> unmarshal_field ''total_pages'' decode_int 0 body;
     page \<leftarrow> unmarshal_field ''page'' decode_int 0 body;
     per \<leftarrow> unmarshal_field ''per_page'' decode_int 0 body;
     rows \<leftarrow> unmarshal_field ''records'' (decode_list (decode_history ff)) [] body;
     Some \<lparr>hl_TotalRecords = records, hl_TotalPages = pages, hl_Page = page, hl_PerPage = per, hl_Records = rows\<rparr>
   }"

text \<open>
  \<^verbatim>\<open>auditWire.UnmarshalJSON\<close>: the rule identity is null when the three keys, spelled exactly, have
  the value \<^verbatim>\<open>null\<close>. Its fields are those of the public record, which \<^verbatim>\<open>normalized\<close> copies.
\<close>

fun members :: "json \<Rightarrow> (string \<times> json) list" where
  "members (JObject ms) = ms"
| "members _ = []"

definition explicit_null :: "json \<Rightarrow> string \<Rightarrow> bool" where
  "explicit_null j key = (map_of (rev (members j)) key = Some JNull)"

definition decode_audit :: "json \<Rightarrow> AuditRecord option" where
  "decode_audit j = do {
     i \<leftarrow> unmarshal_field ''id'' decode_int 0 (Doc j);
     created \<leftarrow> unmarshal_field ''created_at'' decode_flex 0 (Doc j);
     fingerprint \<leftarrow> unmarshal_field ''alert_fingerprint'' decode_string '''' (Doc j);
     rule \<leftarrow> unmarshal_field ''rule_id'' decode_int 0 (Doc j);
     name \<leftarrow> unmarshal_field ''rule_name'' decode_string '''' (Doc j);
     pattern \<leftarrow> unmarshal_field ''pattern'' decode_string '''' (Doc j);
     outcome \<leftarrow> unmarshal_field ''outcome'' decode_string '''' (Doc j);
     suppressed \<leftarrow> unmarshal_field ''suppressed_notifiers'' (decode_list (\<lambda>v. decode_string v '''')) [] (Doc j);
     parent \<leftarrow> unmarshal_field ''parent_fingerprint'' decode_string '''' (Doc j);
     added \<leftarrow> unmarshal_field ''added_labels'' decode_string_map [] (Doc j);
     reason \<leftarrow> unmarshal_field ''reason'' decode_string '''' (Doc j);
     Some \<lparr>au_RuleIdentityNull = list_all (explicit_null j) [''rule_id'', ''rule_name'', ''pattern''], au_ID = i,
       au_CreatedAt = created, au_AlertFingerprint = fingerprint, au_RuleID = rule, au_RuleName = name,
       au_Pattern = pattern, au_Outcome = outcome, au_SuppressedNotifiers = suppressed,
       au_ParentFingerprint = parent, au_AddedLabels = added, au_Reason = reason\<rparr>
   }"

record audit_list =
  al_Rows :: "AuditRecord list"
  al_Total :: int
  al_PerPage :: int

definition decode_audit_list :: "raw \<Rightarrow> audit_list option" where
  "decode_audit_list body = do {
     rows \<leftarrow> unmarshal_field ''rows'' (decode_list decode_audit) [] body;
     declared \<leftarrow> unmarshal_field ''total'' decode_int 0 body;
     page \<leftarrow> unmarshal_field ''page'' decode_int 0 body;
     per \<leftarrow> unmarshal_field ''perPage'' decode_int 0 body;
     Some \<lparr>al_Rows = rows, al_Total = declared, al_PerPage = per\<rparr>
   }"

definition decode_notification :: "json \<Rightarrow> NotificationRecord option" where
  "decode_notification j = do {
     i \<leftarrow> unmarshal_field ''id'' decode_string '''' (Doc j);
     fingerprint \<leftarrow> unmarshal_field ''alert_fingerprint'' decode_string '''' (Doc j);
     kind \<leftarrow> unmarshal_field ''notifier_type'' decode_string '''' (Doc j);
     status \<leftarrow> unmarshal_field ''status'' decode_string '''' (Doc j);
     created \<leftarrow> unmarshal_field ''created_at'' decode_flex 0 (Doc j);
     labels \<leftarrow> unmarshal_field ''labels'' decode_string_map [] (Doc j);
     Some \<lparr>nt_ID = i, nt_AlertFingerprint = fingerprint, nt_NotifierType = kind, nt_Status = status,
       nt_CreatedAt = created, nt_Labels = labels\<rparr>
   }"

record notification_list =
  nl_Wires :: "NotificationRecord list"
  nl_Total :: int
  nl_PerPage :: int

text \<open>The rows are under one of three keys: the first that is not empty.\<close>

definition decode_notification_list :: "raw \<Rightarrow> notification_list option" where
  "decode_notification_list body = do {
     items \<leftarrow> unmarshal_field ''items'' (decode_list decode_notification) [] body;
     rows \<leftarrow> unmarshal_field ''rows'' (decode_list decode_notification) [] body;
     records \<leftarrow> unmarshal_field ''records'' (decode_list decode_notification) [] body;
     declared \<leftarrow> unmarshal_field ''total'' decode_int 0 body;
     per \<leftarrow> unmarshal_field ''per_page'' decode_int 0 body;
     Some \<lparr>nl_Wires = (if items \<noteq> [] then items else if rows \<noteq> [] then rows else records),
       nl_Total = declared, nl_PerPage = per\<rparr>
   }"

section \<open>Pages\<close>

text \<open>
  The pages left, the reading of a page, the number of its rows, whether a page ends the list (given
  its number and the rows seen), what is taken of it, and the error of a list that does not end.
\<close>

fun list_pages :: "nat \<Rightarrow> (int \<Rightarrow> 'x \<Rightarrow> (go_error + 'p) \<times> 'x) \<Rightarrow> ('p \<Rightarrow> nat) \<Rightarrow> (int \<Rightarrow> int \<Rightarrow> 'p \<Rightarrow> bool) \<Rightarrow>
  ('p \<Rightarrow> 'r list) \<Rightarrow> go_error \<Rightarrow> int \<Rightarrow> int \<Rightarrow> 'r list \<Rightarrow> 'x \<Rightarrow> (go_error + 'r list) \<times> 'x" where
  "list_pages 0 get rows_of complete pick limit page seen found x = (Inl limit, x)"
| "list_pages (Suc left) get rows_of complete pick limit page seen found x =
     (let (answer, y) = get page x
      in case answer of
           Inl e \<Rightarrow> (Inl e, y)
         | Inr p \<Rightarrow>
             if complete page (seen + int (rows_of p)) p then (Inr (found @ pick p), y)
             else list_pages left get rows_of complete pick limit (page + 1) (seen + int (rows_of p)) (found @ pick p) y)"

definition get_page :: "'x transport \<Rightarrow> context_kind \<Rightarrow> string \<Rightarrow> query \<Rightarrow> (raw \<Rightarrow> 'p option) \<Rightarrow> 'p \<Rightarrow> int \<Rightarrow> 'x \<Rightarrow>
  (go_error + 'p) \<times> 'x" where
  "get_page tr ctx path q output zero page = doJSON tr ctx ''GET'' path (q @ [(''page'', itoa page)]) None output zero"

definition FindHistory :: "(string \<Rightarrow> string option) \<Rightarrow> 'x transport \<Rightarrow> context_kind \<Rightarrow> HistoryQuery \<Rightarrow> 'x \<Rightarrow>
  (go_error + HistoryRecord list) \<times> 'x" where
  "FindHistory ff tr ctx q =
     list_pages maxListPages
       (get_page tr ctx historyPath
          (historyQueryValues (hq_AlertName q) (formatTime (hq_Start q)) (formatTime (hq_End q)))
          (decode_history_list ff) no_history_list)
       (\<lambda>p. length (hl_Records p))
       (\<lambda>page seen p. listComplete seen (hl_TotalRecords p) (int (length (hl_Records p))) (hl_PerPage p) \<or>
          0 < hl_TotalPages p \<and> hl_TotalPages p \<le> page)
       (\<lambda>p. map (normalized_history ff) (filter (\<lambda>w. hw_AlertName w = hq_AlertName q) (hl_Records p)))
       (paginationLimitError ''GET /api/v1/alerts/history'') 1 0 []"

definition CorrelationAudit :: "'x transport \<Rightarrow> context_kind \<Rightarrow> string \<Rightarrow> 'x \<Rightarrow> (go_error + AuditRecord list) \<times> 'x" where
  "CorrelationAudit tr ctx fingerprint =
     list_pages maxListPages
       (get_page tr ctx correlationAuditPath (correlationAuditQueryValues fingerprint) decode_audit_list
          \<lparr>al_Rows = [], al_Total = 0, al_PerPage = 0\<rparr>)
       (\<lambda>p. length (al_Rows p))
       (\<lambda>page seen p. listComplete seen (al_Total p) (int (length (al_Rows p))) (al_PerPage p))
       al_Rows (paginationLimitError ''GET /api/v1/correlation_rules/audit'') 1 0 []"

definition NotificationAudit :: "'x transport \<Rightarrow> context_kind \<Rightarrow> string \<Rightarrow> time \<Rightarrow> time \<Rightarrow> 'x \<Rightarrow>
  (go_error + NotificationRecord list) \<times> 'x" where
  "NotificationAudit tr ctx fingerprint start fin =
     list_pages maxListPages
       (get_page tr ctx notificationAuditPath
          (notificationAuditQueryValues fingerprint (formatTime start) (formatTime fin)) decode_notification_list
          \<lparr>nl_Wires = [], nl_Total = 0, nl_PerPage = 0\<rparr>)
       (\<lambda>p. length (nl_Wires p))
       (\<lambda>page seen p. listComplete seen (nl_Total p) (int (length (nl_Wires p))) (nl_PerPage p))
       (\<lambda>p. filter (\<lambda>w. nt_AlertFingerprint w = fingerprint) (nl_Wires p))
       (paginationLimitError ''GET /api/v1/notification-audit/'') 1 0 []"

section \<open>The label probe\<close>

record LabelProbeResult =
  lp_Accepted :: bool
  lp_HistoryFound :: bool
  lp_Fingerprint :: string
  lp_Labels :: labels
  lp_MissingLabels :: "string list"

definition no_probe :: "bool \<Rightarrow> LabelProbeResult" where
  "no_probe accepted = \<lparr>lp_Accepted = accepted, lp_HistoryFound = False, lp_Fingerprint = '''', lp_Labels = [], lp_MissingLabels = []\<rparr>"

definition probe_found :: "labels \<Rightarrow> HistoryRecord \<Rightarrow> LabelProbeResult" where
  "probe_found sent r =
     \<lparr>lp_Accepted = True, lp_HistoryFound = True, lp_Fingerprint = hr_Fingerprint r, lp_Labels = hr_Labels r,
      lp_MissingLabels = sort (map fst (filter (\<lambda>(k, v). k \<noteq> ''severity'' \<and> sget (hr_Labels r) k \<noteq> v) sent))\<rparr>"

text \<open>The polls of the history; \<^term>\<open>None\<close> when they have not ended within the fuel.\<close>

fun probe_polls :: "nat \<Rightarrow> (string \<Rightarrow> string option) \<Rightarrow> 'x runner \<Rightarrow> 'x transport \<Rightarrow> duration \<Rightarrow> AlertPlan \<Rightarrow> time \<Rightarrow> 'x \<Rightarrow>
  (LabelProbeResult \<times> go_error option) option \<times> 'x" where
  "probe_polls 0 ff r tr interval alert start x = (None, x)"
| "probe_polls (Suc fuel) ff r tr interval alert start x =
     (let (at, x) = rn_Now r x;
          (answer, x) = FindHistory ff tr Execution \<lparr>hq_AlertName = ap_Name alert, hq_Start = start, hq_End = at + minute\<rparr> x
      in case answer of
           Inl e \<Rightarrow> (Some (no_probe True, Some e), x)
         | Inr [] \<Rightarrow>
             let (cancelled, x) = rn_Sleep r Execution interval x
             in (case cancelled of
                   Some e \<Rightarrow> (Some (no_probe True, Some e), x)
                 | None \<Rightarrow> probe_polls fuel ff r tr interval alert start x)
         | Inr [record] \<Rightarrow> (Some (probe_found (ap_Labels alert) record, None), x)
         | Inr (_ # _ # _) \<Rightarrow> (Some (no_probe True, Some (Err ''label probe history identity was not unique'')), x))"

definition ProbeLabelSurvival :: "nat \<Rightarrow> (string \<Rightarrow> string option) \<Rightarrow> client \<Rightarrow> 'x runner \<Rightarrow> 'x transport \<Rightarrow> duration \<Rightarrow>
  string \<Rightarrow> string \<Rightarrow> 'x \<Rightarrow> (LabelProbeResult \<times> go_error option) option \<times> 'x" where
  "ProbeLabelSurvival fuel ff c r tr interval runID shortToken x =
     (case BuildLabelProbeAlert runID shortToken of
        Inl e \<Rightarrow> (Some (no_probe False, Some e), x)
      | Inr alert \<Rightarrow>
          let ((result, failed), x) = Inject c tr Execution alert x
          in case failed of
               Some e \<Rightarrow> (Some (no_probe False, Some e), x)
             | None \<Rightarrow>
                 if ir_Class result \<noteq> InjectionAccepted then (Some (no_probe False, None), x)
                 else let (at, x) = rn_Now r x
                      in probe_polls fuel ff r tr interval alert (at - 5 * second) x)"

section \<open>The API with its readers\<close>

definition reading_client :: "(string \<Rightarrow> string option) \<Rightarrow> client \<Rightarrow> 'x transport \<Rightarrow> 'x runner \<Rightarrow> 'x runner" where
  "reading_client ff c tr r = (direct_client c tr r)
     \<lparr>api_FindHistory := FindHistory ff tr, api_CorrelationAudit := CorrelationAudit tr,
      api_NotificationAudit := NotificationAudit tr\<rparr>"

end
