(* ===== verification/List_Properties.thy ===== *)
theory List_Properties
  imports Oscar_Lists
begin

text \<open>
  What the readers of \<^theory_text>\<open>Oscar_Lists\<close> promise: against a list that holds still, served in pages, a
  reader returns the whole of it, whatever the number of pages; a list of more than 100 pages gives
  an error and never a part of it.
\<close>

section \<open>Reading a list in pages\<close>

lemma decode_all_take: "decode_all d js = Some ws \<Longrightarrow> decode_all d (take n js) = Some (take n ws)"
  by (induction js arbitrary: ws n) (auto simp: take_Cons split: option.splits nat.splits)

lemma decode_all_drop: "decode_all d js = Some ws \<Longrightarrow> decode_all d (drop n js) = Some (drop n ws)"
  by (induction js arbitrary: ws n) (auto simp: drop_Cons split: option.splits nat.splits)

lemma decode_all_length: "decode_all d js = Some ws \<Longrightarrow> length ws = length js"
  by (induction js arbitrary: ws) (auto split: option.splits)

text \<open>The part of a list that is on a page.\<close>

definition on_page :: "nat \<Rightarrow> 'a list \<Rightarrow> 'a list" where
  "on_page page xs = take 100 (drop (100 * (page - 1)) xs)"

lemma decode_on_page: "decode_all d js = Some ws \<Longrightarrow> decode_all d (on_page n js) = Some (on_page n ws)"
  by (simp add: on_page_def decode_all_take decode_all_drop)

text \<open>
  A reader of pages that hold \<open>ws\<close>, each answered from the same list, and that stops when it has
  seen them all.
\<close>

definition reads_list :: "(int \<Rightarrow> 'x \<Rightarrow> (go_error + 'p) \<times> 'x) \<Rightarrow> ('p \<Rightarrow> nat) \<Rightarrow> (int \<Rightarrow> int \<Rightarrow> 'p \<Rightarrow> bool) \<Rightarrow>
  ('p \<Rightarrow> 'r list) \<Rightarrow> ('w \<Rightarrow> 'r list) \<Rightarrow> 'w list \<Rightarrow> bool" where
  "reads_list get rows_of complete pick each ws \<longleftrightarrow>
     (\<forall>page x. 1 \<le> page \<and> page \<le> 100 \<longrightarrow>
        (\<exists>p. get (int page) x = (Inr p, x) \<and> rows_of p = length (on_page page ws) \<and>
           pick p = concat (map each (on_page page ws)) \<and>
           complete (int page) (int (min (100 * page) (length ws))) p = (length ws \<le> 100 * page)))"

lemma list_pages_read:
  assumes "reads_list get rows_of complete pick each ws" and "1 \<le> page" and "page + left = 101"
    and "page = 1 \<or> 100 * (page - 1) < length ws"
  shows "list_pages left get rows_of complete pick limit (int page) (int (min (100 * (page - 1)) (length ws))) found x =
    (if left = 0 \<or> 10000 < length ws then Inl limit else Inr (found @ concat (map each (drop (100 * (page - 1)) ws))), x)"
  using assms(2-)
proof (induction left arbitrary: page found)
  case 0
  then show ?case by simp
next
  case (Suc left)
  obtain p where p: "get (int page) x = (Inr p, x)" "rows_of p = length (on_page page ws)"
    "pick p = concat (map each (on_page page ws))"
    "complete (int page) (int (min (100 * page) (length ws))) p = (length ws \<le> 100 * page)"
    using assms(1) [unfolded reads_list_def, rule_format, of page x] Suc.prems by auto
  have seen: "int (min (100 * (page - 1)) (length ws)) + int (rows_of p) = int (min (100 * page) (length ws))"
    using Suc.prems p(2) by (cases page) (auto simp: on_page_def min_def)
  show ?case
  proof (cases "length ws \<le> 100 * page")
    case True
    then have "on_page page ws = drop (100 * (page - 1)) ws" "length ws \<le> 10000"
      using Suc.prems by (cases page; auto simp: on_page_def)+
    with True p seen show ?thesis by simp
  next
    case False
    have rest: "drop (100 * (page - 1)) ws = on_page page ws @ drop (100 * page) ws"
      using Suc.prems(1) unfolding on_page_def
      by (cases page) (simp_all, metis add.commute append_take_drop_id drop_drop)
    have "list_pages left get rows_of complete pick limit (int (Suc page)) (int (min (100 * (Suc page - 1)) (length ws)))
        (found @ pick p) x =
      (if left = 0 \<or> 10000 < length ws then Inl limit else Inr ((found @ pick p) @ concat (map each (drop (100 * (Suc page - 1)) ws))), x)"
      using False Suc.prems by (intro Suc.IH) auto
    with False p seen rest Suc.prems show ?thesis by (auto simp: add.commute)
  qed
qed

lemma list_read:
  assumes "reads_list get rows_of complete pick each ws"
  shows "list_pages maxListPages get rows_of complete pick limit 1 0 [] x =
    (if 10000 < length ws then Inl limit else Inr (concat (map each ws)), x)"
  using list_pages_read [OF assms, of 1 100 limit "[]" x] by (simp add: maxListPages_def)

section \<open>A list that holds still\<close>

text \<open>The page a request asks for, and the replies of a server with the rows \<open>js\<close>.\<close>

definition asked_page :: "http_request \<Rightarrow> int" where
  "asked_page q = (case map_of (tq_Query q) ''page'' of None \<Rightarrow> 0 | Some s \<Rightarrow> (case atoi s of None \<Rightarrow> 0 | Some n \<Rightarrow> n))"

definition history_server :: "json list \<Rightarrow> 'x transport" where
  "history_server js ctx q x =
     (let page = asked_page q
      in (Reply 200 (Doc (JObject [(''total_records'', jint (int (length js))), (''total_pages'', jint (int ((length js + 99) div 100))),
            (''page'', jint page), (''per_page'', jint 100), (''records'', JArray (on_page (nat page) js))])), x))"

definition audit_server :: "json list \<Rightarrow> 'x transport" where
  "audit_server js ctx q x =
     (let page = asked_page q
      in (Reply 200 (Doc (JObject [(''rows'', JArray (on_page (nat page) js)), (''total'', jint (int (length js))),
            (''page'', jint page), (''perPage'', jint 100)])), x))"

lemma asked_page_last: "map_of q ''page'' = None \<Longrightarrow> 0 \<le> page \<Longrightarrow> int64 page \<Longrightarrow>
   asked_page \<lparr>tq_Method = m, tq_Path = path, tq_Query = q @ [(''page'', itoa page)], tq_Body = b\<rparr> = page"
  by (simp add: asked_page_def map_add_def atoi_itoa)

lemma decode_jint [simp]: "0 \<le> n \<Longrightarrow> int64 n \<Longrightarrow> decode_int (jint n) old = Some n"
  by (simp add: jint_def atoi_itoa)

lemma history_queries: "map_of (historyQueryValues name a b) ''page'' = None"
  and audit_queries: "map_of (correlationAuditQueryValues f) ''page'' = None"
  by (simp_all add: historyQueryValues_def correlationAuditQueryValues_def)

lemma listed: "listComplete (int (min (100 * page) n)) (int n) (int (length (on_page page xs))) 100 = (n \<le> 100 * page)"
  if "length xs = n" and "1 \<le> page" for n page :: nat and xs
  using that by (cases "n = 0") (auto simp: listComplete_def on_page_def min_def)

lemma history_reads:
  assumes "decode_all (decode_history ff) js = Some ws" and "int64 (int (length js))"
  shows "reads_list (get_page (history_server js) ctx historyPath (historyQueryValues name a b) (decode_history_list ff) no_history_list)
     (\<lambda>p. length (hl_Records p))
     (\<lambda>page seen p. listComplete seen (hl_TotalRecords p) (int (length (hl_Records p))) (hl_PerPage p) \<or>
          0 < hl_TotalPages p \<and> hl_TotalPages p \<le> page)
     (\<lambda>p. map (normalized_history ff) (filter (\<lambda>w. hw_AlertName w = name) (hl_Records p)))
     (\<lambda>w. if hw_AlertName w = name then [normalized_history ff w] else []) ws"
  unfolding reads_list_def
proof (intro allI impI)
  fix page :: nat and x assume page: "1 \<le> page \<and> page \<le> 100"
  let ?n = "length js" let ?pages = "(?n + 99) div 100"
  let ?p = "\<lparr>hl_TotalRecords = int ?n, hl_TotalPages = int ?pages, hl_Page = int page, hl_PerPage = 100, hl_Records = on_page page ws\<rparr>"
  have p64: "int64 (int page)" "int64 100" using page by (simp_all add: int64_def)
  have t64: "int64 (int ?pages)" using assms(2) by (simp add: int64_def)
  have "?n \<le> 100 * page \<longleftrightarrow> ?pages \<le> page" by auto
  moreover have "(m + 99) div 100 = 0 \<longleftrightarrow> m = 0" for m :: nat by (simp add: div_eq_0_iff)
  note this [of ?n]
  moreover have "length ws = ?n" using assms(1) by (rule decode_all_length)
  ultimately have stop: "(listComplete (int (min (100 * page) (length ws))) (int ?n) (int (length (on_page page ws))) 100 \<or>
      0 < int ?pages \<and> int ?pages \<le> int page) = (length ws \<le> 100 * page)"
    using listed [of ws ?n page] page by auto
  have "get_page (history_server js) ctx historyPath (historyQueryValues name a b) (decode_history_list ff) no_history_list (int page) x = (Inr ?p, x)"
    using assms p64 t64 decode_on_page [OF assms(1)]
    by (simp add: get_page_def doJSON_def do_call_def doBytes_def classify_reply_def history_server_def
        asked_page_last [OF history_queries] decode_history_list_def fold_names Let_def)
  moreover have "concat (map (\<lambda>w. if hw_AlertName w = name then [normalized_history ff w] else []) xs) =
      map (normalized_history ff) (filter (\<lambda>w. hw_AlertName w = name) xs)" for xs
    by (induction xs) auto
  ultimately show "\<exists>p. get_page (history_server js) ctx historyPath (historyQueryValues name a b) (decode_history_list ff) no_history_list (int page) x = (Inr p, x) \<and>
      length (hl_Records p) = length (on_page page ws) \<and>
      map (normalized_history ff) (filter (\<lambda>w. hw_AlertName w = name) (hl_Records p)) =
        concat (map (\<lambda>w. if hw_AlertName w = name then [normalized_history ff w] else []) (on_page page ws)) \<and>
      (listComplete (int (min (100 * page) (length ws))) (hl_TotalRecords p) (int (length (hl_Records p))) (hl_PerPage p) \<or>
        0 < hl_TotalPages p \<and> hl_TotalPages p \<le> int page) = (length ws \<le> 100 * page)"
    using stop by (intro exI [of _ ?p]) simp
qed

lemma audit_reads:
  assumes "decode_all decode_audit js = Some ws" and "int64 (int (length js))"
  shows "reads_list (get_page (audit_server js) ctx correlationAuditPath (correlationAuditQueryValues f) decode_audit_list
       \<lparr>al_Rows = [], al_Total = 0, al_PerPage = 0\<rparr>)
     (\<lambda>p. length (al_Rows p)) (\<lambda>page seen p. listComplete seen (al_Total p) (int (length (al_Rows p))) (al_PerPage p))
     al_Rows (\<lambda>w. [w]) ws"
  unfolding reads_list_def
proof (intro allI impI)
  fix page :: nat and x assume page: "1 \<le> page \<and> page \<le> 100"
  let ?p = "\<lparr>al_Rows = on_page page ws, al_Total = int (length js), al_PerPage = 100\<rparr>"
  have p64: "int64 (int page)" "int64 100" using page by (simp_all add: int64_def)
  have "get_page (audit_server js) ctx correlationAuditPath (correlationAuditQueryValues f) decode_audit_list
      \<lparr>al_Rows = [], al_Total = 0, al_PerPage = 0\<rparr> (int page) x = (Inr ?p, x)"
    using assms p64 decode_on_page [OF assms(1)]
    by (simp add: get_page_def doJSON_def do_call_def doBytes_def classify_reply_def audit_server_def
        asked_page_last [OF audit_queries] decode_audit_list_def fold_names Let_def)
  with listed [of ws "length js" page] page decode_all_length [OF assms(1)]
  show "\<exists>p. get_page (audit_server js) ctx correlationAuditPath (correlationAuditQueryValues f) decode_audit_list
        \<lparr>al_Rows = [], al_Total = 0, al_PerPage = 0\<rparr> (int page) x = (Inr p, x) \<and>
      length (al_Rows p) = length (on_page page ws) \<and> al_Rows p = concat (map (\<lambda>w. [w]) (on_page page ws)) \<and>
      listComplete (int (min (100 * page) (length ws))) (al_Total p) (int (length (al_Rows p))) (al_PerPage p) = (length ws \<le> 100 * page)"
    by (intro exI [of _ ?p]) simp
qed

text \<open>
  C30. The readers are exact. Of any rows that OSCAR serves in pages of 100 and that decode,
  \<^verbatim>\<open>FindHistory\<close> returns those with the name it was asked for, in order and none left out, and
  \<^verbatim>\<open>CorrelationAudit\<close> returns all of them; when there are more than 10000 either gives the error of an
  endless list and no rows.
\<close>

theorem listings_exact:
  assumes "decode_all (decode_history ff) js = Some ws" and "decode_all decode_audit audits = Some rows"
    and "int64 (int (length js))" and "int64 (int (length audits))"
  shows "FindHistory ff (history_server js) ctx q x =
      (if length js \<le> 10000 then Inr (map (normalized_history ff) (filter (\<lambda>w. hw_AlertName w = hq_AlertName q) ws))
       else Inl (paginationLimitError ''GET /api/v1/alerts/history''), x) \<and>
    CorrelationAudit (audit_server audits) ctx f x =
      (if length audits \<le> 10000 then Inr rows else Inl (paginationLimitError ''GET /api/v1/correlation_rules/audit''), x)"
proof
  have pick: "concat (map (\<lambda>w. if hw_AlertName w = name then [normalized_history ff w] else []) xs) =
      map (normalized_history ff) (filter (\<lambda>w. hw_AlertName w = name) xs)" for name xs
    by (induction xs) auto
  show "FindHistory ff (history_server js) ctx q x =
      (if length js \<le> 10000 then Inr (map (normalized_history ff) (filter (\<lambda>w. hw_AlertName w = hq_AlertName q) ws))
       else Inl (paginationLimitError ''GET /api/v1/alerts/history''), x)"
    unfolding FindHistory_def list_read [OF history_reads [OF assms(1,3)]] pick
    using decode_all_length [OF assms(1)] by simp
  show "CorrelationAudit (audit_server audits) ctx f x =
      (if length audits \<le> 10000 then Inr rows else Inl (paginationLimitError ''GET /api/v1/correlation_rules/audit''), x)"
    unfolding CorrelationAudit_def list_read [OF audit_reads [OF assms(2,4)]]
    using decode_all_length [OF assms(2)] by simp
qed

text \<open>Two History rows, of which one has the name, and an audit row.\<close>

definition history_row :: "string \<Rightarrow> string \<Rightarrow> json" where
  "history_row name fingerprint = JObject [(''id'', JString ''1''), (''alertname'', JString name),
     (''fingerprint'', JString fingerprint), (''startsAt'', JString ''2026-08-27T17:10:36.326000'')]"

definition audit_row :: json where
  "audit_row = JObject [(''id'', JNumber ''7''), (''rule_id'', JNull), (''rule_name'', JNull), (''pattern'', JNull)]"

lemma history_row_decodes:
  "decode_history (\<lambda>s. None) (history_row name fingerprint) =
     Some \<lparr>hw_OriginalSeverity = None, hw_Severity = None, hw_StartsAt = 63923447436326000000, hw_ID = JString ''1'',
       hw_AlertName = name, hw_Fingerprint = fingerprint, hw_Status = '''', hw_CreatedAt = 0, hw_Labels = [], hw_Annotations = []\<rparr>"
proof -
  have "decode_flex (JString ''2026-08-27T17:10:36.326000'') 0 = Some 63923447436326000000"
    by (simp add: flexTimeLayouts_def scan_date_def year4_def month_lengths_def leap_def is_digit_def byte_def digit_val_def
        scan_clock_def scan_fraction_def scan_zone_def instant_of_def days_of_def days_before_year_def)
  then show ?thesis
    by (simp add: decode_history_def history_row_def fold_names decode_any_def del: decode_flex.simps)
qed

lemma audit_row_decodes:
  "\<exists>a. decode_audit audit_row = Some a \<and> au_ID a = 7 \<and> au_RuleIdentityNull a"
proof -
  have "atoi ''7'' = Some 7" by code_simp
  then show ?thesis by (simp add: decode_audit_def audit_row_def fold_names explicit_null_def)
qed

theorem listings_exact_witness:
  "\<exists>r a. FindHistory (\<lambda>s. None) (history_server [history_row ''A'' ''f'', history_row ''B'' ''g'']) Execution
      \<lparr>hq_AlertName = ''A'', hq_Start = 0, hq_End = second\<rparr> () = (Inr [r], ()) \<and> hr_Fingerprint r = ''f'' \<and>
    CorrelationAudit (audit_server [audit_row]) Execution ''f'' () = (Inr [a], ()) \<and> au_ID a = 7 \<and> au_RuleIdentityNull a"
proof -
  obtain v w where rows: "decode_all (decode_history (\<lambda>s. None)) [history_row ''A'' ''f'', history_row ''B'' ''g''] = Some [v, w]"
    "hw_AlertName v = ''A''" "hw_AlertName w = ''B''" "hw_Fingerprint v = ''f''"
    by (simp add: history_row_decodes)
  obtain a where audit: "decode_all decode_audit [audit_row] = Some [a]" "au_ID a = 7" "au_RuleIdentityNull a"
    using audit_row_decodes by auto
  have "int64 2" "int64 1" by (simp_all add: int64_def)
  with listings_exact [OF rows(1) audit(1), of Execution "\<lparr>hq_AlertName = ''A'', hq_Start = 0, hq_End = second\<rparr>" "()" "''f''"]
  show ?thesis using rows audit by (simp add: normalized_history_def Let_def)
qed

end
