(* ===== verification/Feed_Manifest.thy ===== *)
theory Feed_Manifest
  imports Oscar_Lists
begin

text \<open>
  The frozen description of an existing feed (\<^verbatim>\<open>internal/oscar/existing_feed.go\<close> and
  existing\_feed\_history.go): a manifest is accepted only for one of two qualified fixtures, it
  determines six requests, and what Native and History report is compared with them. SHA-256 (as
  hex), base64, the reading of bytes as JSON and the parsing of URLs are parameters. A time is its
  instant with its offset.
\<close>

section \<open>Types\<close>

record full_url = url +
  fu_Hostname :: string
  fu_RawPath :: string

record feed_codec =
  fc_Sha256 :: "string \<Rightarrow> string"
  fc_Base64 :: "string \<Rightarrow> string"
  fc_Unbase64 :: "string \<Rightarrow> string option"
  fc_ParseJSON :: "string \<Rightarrow> raw"
  fc_ParseURL :: "string \<Rightarrow> full_url option"

record MappingSnapshot =
  ms_Source :: string
  ms_SHA256 :: string
  ms_BodyBase64 :: string

record ManifestSpec =
  mf_CohortID :: string
  mf_TargetID :: string
  mf_ReceiverOrigin :: string
  mf_Profile :: string
  mf_ProfileHash :: string
  mf_Mapping :: MappingSnapshot
  mf_UserAgent :: string
  mf_RequestHost :: string
  mf_StartsAt :: zoned

record FeedIdentity =
  fi_Labels :: labels
  fi_StartsAt :: zoned

record NativeObservation =
  no_Labels :: labels
  no_StartsAt :: zoned
  no_Fingerprint :: string

record FeedEvidence =
  fv_Manifest :: ManifestSpec
  fv_FixtureIndex :: int
  fv_Request :: RequestEvidence
  fv_Expected :: FeedIdentity

section \<open>Freezing\<close>

definition lower_hex :: "char \<Rightarrow> bool" where
  "lower_hex c \<longleftrightarrow> is_digit c \<or> byte c \<in> {97..102}"

definition hex_text :: "nat \<Rightarrow> string \<Rightarrow> bool" where
  "hex_text n s \<longleftrightarrow> length s = n \<and> list_all lower_hex s"

text \<open>The two qualified fixtures: the hash of the profile, and the hash and source of its Mapping.\<close>

definition fixture_of :: "string \<Rightarrow> (string \<times> string \<times> string) option" where
  "fixture_of profile =
     (if profile = ''splunk'' then
        Some (''91913d137828c67d014bdd40124096d7624e2924f19c6cf65910604cb6e5244b'',
          ''11a7c673edb751f5c0ce3524457977b503a39ee36979b51ce9a1c6a1f5213eae'',
          ''tests/oscar-webhookreceiver/fixtures/splunk/baseline.json'')
      else if profile = ''middleware_custom_alert'' then
        Some (''faff8119b0665b4d15b7fcce6c7bc65f160f092af83c928d2c5d2d35a0c8b51e'',
          ''bfcac60131c132c22385138f7346fbcd4d38dc1b96746429570ba24907deaffd'',
          ''tests/oscar-webhookreceiver/fixtures/middleware_custom_alert/EXT_CUSTOM_ALERTS.json'')
      else None)"

definition unix_seconds :: "time \<Rightarrow> int" where
  "unix_seconds t = t div second - 62135596800"

definition encoded_len :: "int \<Rightarrow> int" where
  "encoded_len n = (n + 2) div 3 * 4"

definition bad_start :: "zoned \<Rightarrow> bool" where
  "bad_start z \<longleftrightarrow> fst z = 0 \<or> unix_seconds (fst z) \<le> 0 \<or> fst z mod second \<noteq> 0 \<or> snd z \<noteq> 0 \<or> year_10000 \<le> fst z"

text \<open>An origin: scheme and host and nothing else.\<close>

definition bad_origin :: "feed_codec \<Rightarrow> string \<Rightarrow> bool" where
  "bad_origin co origin =
     (case fc_ParseURL co origin of
        None \<Rightarrow> True
      | Some u \<Rightarrow> fu_Hostname u = '''' \<or> ur_Scheme u \<noteq> ''http'' \<and> ur_Scheme u \<noteq> ''https'' \<or> ur_User u \<or> ur_Path u \<noteq> '''' \<or>
          fu_RawPath u \<noteq> '''' \<or> ur_RawQuery u \<noteq> '''' \<or> ur_ForceQuery u \<or> ur_Fragment u \<noteq> '''' \<or> contains origin ''#'')"

definition FreezeExistingFeedManifest :: "feed_codec \<Rightarrow> ManifestSpec \<Rightarrow> go_error + ManifestSpec" where
  "FreezeExistingFeedManifest co spec =
     (let mapping = mf_Mapping spec
      in case fixture_of (mf_Profile spec) of
           None \<Rightarrow> Inl (Err ''unsupported existing-feed fixture profile'')
         | Some (profileHash, mappingHash, mappingSource) \<Rightarrow>
             if mf_ProfileHash spec \<noteq> profileHash \<or> ms_SHA256 mapping \<noteq> mappingHash \<or> ms_Source mapping \<noteq> mappingSource
             then Inl (Err ''existing-feed profile or Mapping provenance differs from qualified fixture'')
             else if encoded_len maxRecordedInjectionBytes < int (length (ms_BodyBase64 mapping))
             then Inl (Err ''existing-feed Mapping snapshot exceeds 1 MiB'')
             else if map_option (fc_Sha256 co) (fc_Unbase64 co (ms_BodyBase64 mapping)) \<noteq> Some mappingHash
             then Inl (Err ''existing-feed Mapping snapshot absent or hash mismatch'')
             else if \<not> hex_text 32 (mf_CohortID spec) \<or> trim_space (mf_TargetID spec) = ''''
             then Inl (Err ''existing-feed requires owned cohort and target identity'')
             else if bad_start (mf_StartsAt spec)
             then Inl (Err ''existing-feed requires explicit whole-second UTC start'')
             else if mf_UserAgent spec \<noteq> ''owned-existing-feed/1'' \<or> mf_RequestHost spec \<noteq> ''owned-receiver''
             then Inl (Err ''existing-feed requires qualified normalization User-Agent and Host'')
             else if bad_origin co (mf_ReceiverOrigin spec)
             then Inl (Err ''existing-feed requires credential-free HTTP(S) receiver origin without path, query or fragment'')
             else Inr spec)"

section \<open>The six requests\<close>

definition fixture_host :: "ManifestSpec \<Rightarrow> int \<Rightarrow> string" where
  "fixture_host m index = ''owned-existing-'' @ mf_CohortID m @ ''-'' @ itoa index"

definition fixture_name :: "int \<Rightarrow> string" where
  "fixture_name index = (if index = 5 then ''OrdinaryWindowNoMatch'' else ''OrdinaryWindowProof'')"

text \<open>The layout \<^verbatim>\<open>2006-01-02T15:04:05-07:00\<close> of a whole second in UTC.\<close>

definition numeric_zone_text :: "zoned \<Rightarrow> string" where
  "numeric_zone_text z = butlast (rfc3339 (fst z)) @ ''+00:00''"

definition fixture_payload :: "ManifestSpec \<Rightarrow> int \<Rightarrow> json" where
  "fixture_payload m index =
     (let host = fixture_host m index; name = fixture_name index; site = ''NYC-'' @ mf_Profile m
      in if mf_Profile m = ''splunk'' then
           JObject [(''result'', JObject [(''_time'', JString (itoa (unix_seconds (fst (mf_StartsAt m))))), (''host'', JString host),
               (''severity'', JString ''critical''), (''site'', JString site)]),
             (''search_name'', JString name), (''sid'', JString (''owned-existing-'' @ mf_CohortID m @ ''-''))]
         else
           JObject [(''alertname'', JString name), (''event_timestamp'', JString (numeric_zone_text (mf_StartsAt m))),
             (''hostname'', JString host), (''site'', JString site), (''type'', JString ''alternate'')])"

definition fixture_labels :: "ManifestSpec \<Rightarrow> int \<Rightarrow> labels" where
  "fixture_labels m index =
     (let host = fixture_host m index; name = fixture_name index; site = ''NYC-'' @ mf_Profile m
      in if mf_Profile m = ''splunk'' then
           [(''alertname'', name), (''node'', host), (''severity'', ''critical''), (''source'', host), (''category'', ''webhook_splunk''),
            (''sid'', ''owned-existing-'' @ mf_CohortID m @ ''-''), (''site'', site), (''user_agent'', mf_UserAgent m),
            (''mapped'', ''true''), (''summary_copy'', name @ '' on '' @ host @ '' (critical)'')]
         else
           [(''alertname'', name), (''hostname'', host), (''site'', site), (''event_timestamp'', numeric_zone_text (mf_StartsAt m)),
            (''severity'', ''warning''), (''category'', ''alternate''), (''alert_type'', ''alternate''), (''application'', ''alternate''),
            (''instance'', host)])"

definition Prepare :: "feed_codec \<Rightarrow> ManifestSpec \<Rightarrow> int \<Rightarrow> go_error + (FeedEvidence \<times> string)" where
  "Prepare co m index =
     (if mf_Profile m = '''' \<or> index < 0 \<or> 5 < index
      then Inl (Err ''existing-feed requires frozen manifest and fixture index 0..5'')
      else
        let body = json_text (fixture_payload m index)
        in Inr (\<lparr>fv_Manifest = m, fv_FixtureIndex = index,
            fv_Request = \<lparr>rq_ProfilePrecondition = CHR 0x22 # mf_ProfileHash m @ [CHR 0x22],
              rq_Format = ''corrtest-existing-feed-request-v1'', rq_TargetID = mf_TargetID m, rq_APIProfile = mf_Profile m,
              rq_Method = ''POST'', rq_Endpoint = mf_ReceiverOrigin m @ ''/api/v1/webhookreceiver/webhook/'' @ mf_Profile m,
              rq_ContentType = ''application/json'', rq_BodyBytes = int (length body), rq_BodySHA256 = fc_Sha256 co body,
              rq_BodyBase64 = fc_Base64 co body\<rparr>,
            fv_Expected = \<lparr>fi_Labels = fixture_labels m index, fi_StartsAt = mf_StartsAt m\<rparr>\<rparr>, body))"

section \<open>Native and History\<close>

definition VerifyNative :: "feed_codec \<Rightarrow> ManifestSpec \<Rightarrow> int \<Rightarrow> NativeObservation list \<Rightarrow> go_error option" where
  "VerifyNative co m index rows =
     (case Prepare co m index of
        Inl e \<Rightarrow> Some e
      | Inr (evidence, body) \<Rightarrow>
          (case rows of
             [row] \<Rightarrow>
               if \<not> same_map (no_Labels row) (fi_Labels (fv_Expected evidence)) \<or>
                  fst (no_StartsAt row) \<noteq> fst (fi_StartsAt (fv_Expected evidence)) \<or> \<not> hex_text 16 (no_Fingerprint row)
               then Some (Err ''existing-feed Native identity missing, ambiguous or different from frozen fixture'') else None
           | _ \<Rightarrow> Some (Err ''existing-feed Native identity missing, ambiguous or different from frozen fixture'')))"

text \<open>\<^verbatim>\<open>existingFeedHistoryID\<close>: the text of a UUID of version 4.\<close>

definition uuid4 :: "string \<Rightarrow> bool" where
  "uuid4 s =
     (case split_at CHR ''-'' s of
        [a, b, c, d, e] \<Rightarrow> hex_text 8 a \<and> hex_text 4 b \<and> hex_text 4 c \<and> hd c = CHR ''4'' \<and> hex_text 4 d \<and>
          hd d \<in> {CHR ''8'', CHR ''9'', CHR ''a'', CHR ''b''} \<and> hex_text 12 e
      | _ \<Rightarrow> False)"

text \<open>One label of the Native identity in the History row.\<close>

definition label_verified :: "HistoryRecord \<Rightarrow> string \<times> string \<Rightarrow> go_error option" where
  "label_verified row = (\<lambda>(name, v).
     if name = ''alertname'' then
       (case map_of (hr_Labels row) name of
          Some promoted \<Rightarrow> if promoted \<noteq> v then Some (Err ''existing-feed History alertname conflicts with promoted value'') else None
        | None \<Rightarrow> None)
     else if \<not> MatchesInputLabel row name v
     then Some (Err (''existing-feed History input label '' @ go_quote name @ '' is missing or changed''))
     else None)"

definition VerifyHistory :: "feed_codec \<Rightarrow> ManifestSpec \<Rightarrow> int \<Rightarrow> NativeObservation \<Rightarrow> HistoryRecord list \<Rightarrow> go_error option" where
  "VerifyHistory co m index native rows =
     (case VerifyNative co m index [native] of
        Some e \<Rightarrow> Some e
      | None \<Rightarrow>
          (case rows of
             [row] \<Rightarrow>
               if \<not> uuid4 (hr_ID row) \<or> hr_Fingerprint row = '''' \<or> hr_AlertName row \<noteq> sget (no_Labels native) ''alertname'' \<or>
                  hr_Status row \<noteq> ''firing'' \<or> hr_StartsAt row \<noteq> fst (no_StartsAt native) \<or>
                  sget (hr_Labels row) ''am_fingerprint'' \<noteq> no_Fingerprint native \<or>
                  sget (hr_Labels row) ''oscar_fingerprint'' \<noteq> hr_Fingerprint row
               then Some (Err ''existing-feed History differs from original Native episode'')
               else first_error (map (label_verified row) (no_Labels native))
           | _ \<Rightarrow> Some (Err ''existing-feed History identity missing or ambiguous'')))"

section \<open>Documents\<close>

definition jzoned :: "zoned \<Rightarrow> json" where
  "jzoned z = JString (zoned_text z)"

definition marshal_mapping :: "MappingSnapshot \<Rightarrow> json" where
  "marshal_mapping s = JObject
     (fld ''source'' (JString (ms_Source s)) @ fld ''sha256'' (JString (ms_SHA256 s)) @
      fld ''bodyBase64'' (JString (ms_BodyBase64 s)))"

definition marshal_spec :: "ManifestSpec \<Rightarrow> json" where
  "marshal_spec m = JObject
     (fld ''cohortId'' (JString (mf_CohortID m)) @ fld ''targetId'' (JString (mf_TargetID m)) @
      fld ''receiverOrigin'' (JString (mf_ReceiverOrigin m)) @ fld ''profile'' (JString (mf_Profile m)) @
      fld ''profileHash'' (JString (mf_ProfileHash m)) @ fld ''mapping'' (marshal_mapping (mf_Mapping m)) @
      fld ''userAgent'' (JString (mf_UserAgent m)) @ fld ''requestHost'' (JString (mf_RequestHost m)) @
      fld ''startsAt'' (jzoned (mf_StartsAt m)))"

definition marshal_evidence :: "FeedEvidence \<Rightarrow> json" where
  "marshal_evidence e = JObject
     (fld ''manifest'' (marshal_spec (fv_Manifest e)) @ fld ''fixtureIndex'' (jint (fv_FixtureIndex e)) @
      fld ''request'' (marshal_request (fv_Request e)) @
      fld ''expected'' (JObject (fld ''labels'' (marshal_strings (fi_Labels (fv_Expected e))) @
        fld ''startsAt'' (jzoned (fi_StartsAt (fv_Expected e))))))"

definition marshal_native :: "NativeObservation \<Rightarrow> json" where
  "marshal_native n = JObject
     (fld ''labels'' (marshal_strings (no_Labels n)) @ fld ''startsAt'' (jzoned (no_StartsAt n)) @
      fld ''fingerprint'' (JString (no_Fingerprint n)))"

definition no_mapping :: MappingSnapshot where
  "no_mapping = \<lparr>ms_Source = '''', ms_SHA256 = '''', ms_BodyBase64 = ''''\<rparr>"

definition decode_mapping :: "json \<Rightarrow> MappingSnapshot \<Rightarrow> MappingSnapshot option" where
  "decode_mapping j old = do {
     source \<leftarrow> unmarshal_field ''source'' decode_string (ms_Source old) (Doc j);
     sha \<leftarrow> unmarshal_field ''sha256'' decode_string (ms_SHA256 old) (Doc j);
     body \<leftarrow> unmarshal_field ''bodyBase64'' decode_string (ms_BodyBase64 old) (Doc j);
     Some \<lparr>ms_Source = source, ms_SHA256 = sha, ms_BodyBase64 = body\<rparr>
   }"

definition decode_spec :: "raw \<Rightarrow> ManifestSpec option" where
  "decode_spec doc = do {
     cohort \<leftarrow> unmarshal_field ''cohortId'' decode_string '''' doc;
     target \<leftarrow> unmarshal_field ''targetId'' decode_string '''' doc;
     origin \<leftarrow> unmarshal_field ''receiverOrigin'' decode_string '''' doc;
     profile \<leftarrow> unmarshal_field ''profile'' decode_string '''' doc;
     hash \<leftarrow> unmarshal_field ''profileHash'' decode_string '''' doc;
     mapping \<leftarrow> unmarshal_field ''mapping'' decode_mapping no_mapping doc;
     agent \<leftarrow> unmarshal_field ''userAgent'' decode_string '''' doc;
     host \<leftarrow> unmarshal_field ''requestHost'' decode_string '''' doc;
     starts \<leftarrow> unmarshal_field ''startsAt'' decode_time (0, 0) doc;
     Some \<lparr>mf_CohortID = cohort, mf_TargetID = target, mf_ReceiverOrigin = origin, mf_Profile = profile,
       mf_ProfileHash = hash, mf_Mapping = mapping, mf_UserAgent = agent, mf_RequestHost = host, mf_StartsAt = starts\<rparr>
   }"

definition decode_native :: "json \<Rightarrow> NativeObservation option" where
  "decode_native j = do {
     labels \<leftarrow> unmarshal_field ''labels'' decode_string_map [] (Doc j);
     starts \<leftarrow> unmarshal_field ''startsAt'' decode_time (0, 0) (Doc j);
     fingerprint \<leftarrow> unmarshal_field ''fingerprint'' decode_string '''' (Doc j);
     Some \<lparr>no_Labels = labels, no_StartsAt = starts, no_Fingerprint = fingerprint\<rparr>
   }"

text \<open>What was written of a frozen manifest is read back.\<close>

lemma frozen_same: "FreezeExistingFeedManifest co spec = Inr m \<Longrightarrow> m = spec"
  by (auto simp: FreezeExistingFeedManifest_def Let_def split: option.splits if_splits)

lemma frozen_start: "FreezeExistingFeedManifest co spec = Inr m \<Longrightarrow> \<not> bad_start (mf_StartsAt spec)"
  by (auto simp: FreezeExistingFeedManifest_def Let_def split: option.splits if_splits)

lemma frozen_profile: "FreezeExistingFeedManifest co spec = Inr m \<Longrightarrow> mf_Profile spec \<in> {''splunk'', ''middleware_custom_alert''}"
  by (auto simp: FreezeExistingFeedManifest_def fixture_of_def Let_def split: option.splits if_splits)

lemma Prepare_Inr:
  "Prepare co m index = Inr (e, body) \<Longrightarrow> fv_Manifest e = m \<and> fv_FixtureIndex e = index \<and> 0 \<le> index \<and> index \<le> 5"
  by (auto simp: Prepare_def Let_def split: if_splits)

lemma zoned_text_utc: "zoned_text (t, 0) = rfc3339 t"
  by (simp add: zoned_text_def zone_text_def rfc3339_def Let_def butlast_append)

lemma decode_mapping_marshal: "decode_mapping (marshal_mapping s) old = Some s"
  by (simp add: decode_mapping_def marshal_mapping_def json_fields fold_names)

lemma decode_spec_marshal:
  assumes "\<not> bad_start (mf_StartsAt m)" shows "decode_spec (Doc (marshal_spec m)) = Some m"
proof -
  obtain t where t: "mf_StartsAt m = (t, 0)" "0 \<le> t" "t < year_10000"
    using assms by (cases "mf_StartsAt m") (auto simp: bad_start_def unix_seconds_def second_def)
  then have "decode_time (jzoned (mf_StartsAt m)) old = Some (t, 0)" for old
    by (simp add: jzoned_def zoned_text_utc rfc3339_parse del: time_Parse.simps)
  then show ?thesis
    using t(1) by (simp add: decode_spec_def marshal_spec_def json_fields fold_names decode_mapping_marshal del: decode_time.simps)
qed

end
