(* ===== verification/Feed_Journal.thy ===== *)
theory Feed_Journal
  imports Feed_Manifest Run_Ledger
begin

text \<open>
  The journal of an existing feed (\<^verbatim>\<open>internal/persistence/sqlite/existing_feed_repository.go\<close> with the
  tables of migrations/0004\_existing\_feed.sql) beside the run ledger: the frozen manifest of a run
  and the attempts of its six fixtures, each with its request and, once it is known, its result. A
  JSON column is the document its text reads as. An operation that fails leaves the store as it was.
\<close>

section \<open>Tables\<close>

record FeedRow =
  fr_RunID :: string
  fr_Profile :: string
  fr_CohortID :: string
  fr_ReceiverOrigin :: string
  fr_Manifest :: raw
  fr_CreatedAt :: time

record FeedAttemptRow =
  fa_RunID :: string
  fa_Profile :: string
  fa_Index :: int
  fa_Evidence :: raw
  fa_Result :: raw
  fa_RecordedAt :: time
  fa_CompletedAt :: "time option"

record feed_store =
  fs_Base :: store
  fs_Installed :: "string list"
  fs_Feeds :: "FeedRow list"
  fs_Attempts :: "FeedAttemptRow list"

record FeedAttempt =
  ea_Evidence :: FeedEvidence
  ea_Result :: "InjectionResult option"
  ea_TransportError :: string

record FeedResult =
  er_BodySHA256 :: string
  er_Result :: InjectionResult
  er_Error :: string

datatype FeedError =
    FeedStore StoreError | FeedTimeRequired | FeedRefused go_error | FeedStarted | FeedInstalled | FeedConstraint
  | FeedAbsent | FeedManifestCorrupt | FeedBindingChanged | FeedIndexGap | FeedEvidenceCorrupt
  | FeedResultCorrupt | FeedResultChanged | FeedEvidenceDiffers | FeedOutOfOrder | FeedUnresolved
  | FeedNotInjecting | FeedResultUnmatched | FeedResultBounds | FeedResultConflict | FeedResultClass

section \<open>Results\<close>

fun class_of :: "string \<Rightarrow> InjectionClass" where
  "class_of s =
     (if s = ''accepted'' then InjectionAccepted else if s = ''forwarded'' then InjectionForwarded
      else if s = ''rejected'' then InjectionRejected else if s = ''queued'' then InjectionQueued
      else if s = ''partial'' then InjectionPartial else if s = ''indeterminate'' then InjectionIndeterminate
      else InjectionOther s)"

fun decode_class :: "json \<Rightarrow> InjectionClass \<Rightarrow> InjectionClass option" where
  "decode_class JNull old = Some old"
| "decode_class (JString s) old = Some (class_of s)"
| "decode_class _ old = None"

fun decode_bytes :: "feed_codec \<Rightarrow> json \<Rightarrow> string \<Rightarrow> string option" where
  "decode_bytes co JNull old = Some ''''"
| "decode_bytes co (JString s) old = fc_Unbase64 co s"
| "decode_bytes co _ old = None"

definition marshal_injection :: "feed_codec \<Rightarrow> InjectionResult \<Rightarrow> json" where
  "marshal_injection co r = JObject
     (fld ''class'' (JString (class_str (ir_Class r))) @ fld ''statusCode'' (jint (ir_StatusCode r)) @
      fld_string ''taskId'' (ir_TaskID r) @
      fld_unless (ir_Body r = '''') ''body'' (JString (fc_Base64 co (ir_Body r))))"

definition decode_injection_result :: "feed_codec \<Rightarrow> json \<Rightarrow> InjectionResult \<Rightarrow> InjectionResult option" where
  "decode_injection_result co j old = do {
     c \<leftarrow> unmarshal_field ''class'' decode_class (ir_Class old) (Doc j);
     code \<leftarrow> unmarshal_field ''statusCode'' decode_int (ir_StatusCode old) (Doc j);
     task \<leftarrow> unmarshal_field ''taskId'' decode_string (ir_TaskID old) (Doc j);
     body \<leftarrow> unmarshal_field ''body'' (decode_bytes co) (ir_Body old) (Doc j);
     Some \<lparr>ir_Class = c, ir_StatusCode = code, ir_TaskID = task, ir_Body = body\<rparr>
   }"

definition marshal_feed_result :: "feed_codec \<Rightarrow> FeedResult \<Rightarrow> json" where
  "marshal_feed_result co saved = JObject
     (fld ''bodySha256'' (JString (er_BodySHA256 saved)) @ fld ''result'' (marshal_injection co (er_Result saved)) @
      fld_string ''error'' (er_Error saved))"

definition decode_feed_result :: "feed_codec \<Rightarrow> raw \<Rightarrow> FeedResult option" where
  "decode_feed_result co doc = do {
     sha \<leftarrow> unmarshal_field ''bodySha256'' decode_string '''' doc;
     result \<leftarrow> unmarshal_field ''result'' (decode_injection_result co) no_result doc;
     failed \<leftarrow> unmarshal_field ''error'' decode_string '''' doc;
     Some \<lparr>er_BodySHA256 = sha, er_Result = result, er_Error = failed\<rparr>
   }"

text \<open>The status that a response body declares.\<close>

definition body_status :: "feed_codec \<Rightarrow> string \<Rightarrow> string option" where
  "body_status co body = unmarshal_field ''status'' decode_string '''' (fc_ParseJSON co body)"

definition validateExistingFeedResult :: "feed_codec \<Rightarrow> FeedResult \<Rightarrow> FeedError option" where
  "validateExistingFeedResult co saved =
     (let r = er_Result saved
      in if 1048576 < int (length (ir_Body r)) \<or> 4096 < int (length (er_Error saved)) \<or> ir_StatusCode r < 0 \<or> 599 < ir_StatusCode r
         then Some FeedResultBounds
         else if ir_Class r = InjectionForwarded \<or> ir_Class r = InjectionRejected then
           err_if (er_Error saved \<noteq> '''' \<or> ir_StatusCode r \<noteq> 200 \<or>
             body_status co (ir_Body r) \<noteq> Some (if ir_Class r = InjectionRejected then ''acl_denied'' else ''ok'')) FeedResultConflict
         else if ir_Class r = InjectionIndeterminate then None
         else Some FeedResultClass)"

section \<open>Reading the journal\<close>

definition raw_size :: "raw \<Rightarrow> int" where
  "raw_size r = (case r of Doc j \<Rightarrow> int (length (json_text j)) | _ \<Rightarrow> 0)"

definition column_fits :: "raw \<Rightarrow> bool" where
  "column_fits r \<longleftrightarrow> 1 \<le> raw_size r \<and> raw_size r \<le> 2097152"

definition read_attempt :: "feed_codec \<Rightarrow> ManifestSpec \<Rightarrow> FeedAttempt list \<Rightarrow> FeedAttemptRow \<Rightarrow> FeedError + FeedAttempt list" where
  "read_attempt co m attempts row =
     (if fa_Index row \<noteq> int (length attempts) \<or> 5 < fa_Index row then Inl FeedIndexGap
      else case Prepare co m (fa_Index row) of
          Inl e \<Rightarrow> Inl (FeedRefused e)
        | Inr (evidence, body) \<Rightarrow>
            if Doc (marshal_evidence evidence) \<noteq> fa_Evidence row then Inl FeedEvidenceCorrupt
            else if fa_Result row = NoBytes
            then Inr (attempts @ [\<lparr>ea_Evidence = evidence, ea_Result = None, ea_TransportError = ''''\<rparr>])
            else if 2097152 < raw_size (fa_Result row) then Inl FeedResultCorrupt
            else (case decode_feed_result co (fa_Result row) of
                None \<Rightarrow> Inl FeedResultCorrupt
              | Some saved \<Rightarrow>
                  if Doc (marshal_feed_result co saved) \<noteq> fa_Result row \<or>
                     er_BodySHA256 saved \<noteq> rq_BodySHA256 (fv_Request evidence) then Inl FeedResultChanged
                  else (case validateExistingFeedResult co saved of
                      Some e \<Rightarrow> Inl e
                    | None \<Rightarrow> Inr (attempts @ [\<lparr>ea_Evidence = evidence, ea_Result = Some (er_Result saved),
                        ea_TransportError = er_Error saved\<rparr>]))))"

definition feed_key :: "string \<Rightarrow> string \<Rightarrow> FeedRow \<Rightarrow> bool" where
  "feed_key rid profile row \<longleftrightarrow> fr_RunID row = rid \<and> fr_Profile row = profile"

definition attempt_rows :: "feed_store \<Rightarrow> string \<Rightarrow> string \<Rightarrow> FeedAttemptRow list" where
  "attempt_rows s rid profile = filter (\<lambda>a. fa_RunID a = rid \<and> fa_Profile a = profile) (fs_Attempts s)"

definition readExistingFeed :: "feed_codec \<Rightarrow> feed_store \<Rightarrow> string \<Rightarrow> string \<Rightarrow> FeedError + (ManifestSpec \<times> FeedAttempt list)" where
  "readExistingFeed co s rid profile =
     (case find (feed_key rid profile) (fs_Feeds s) of
        None \<Rightarrow> Inl FeedAbsent
      | Some row \<Rightarrow>
          if 2097152 < raw_size (fr_Manifest row) then Inl FeedManifestCorrupt
          else (case decode_spec (fr_Manifest row) of
              None \<Rightarrow> Inl FeedManifestCorrupt
            | Some spec \<Rightarrow>
                if Doc (marshal_spec spec) \<noteq> fr_Manifest row \<or> mf_Profile spec \<noteq> profile \<or>
                   mf_CohortID spec \<noteq> fr_CohortID row \<or> mf_ReceiverOrigin spec \<noteq> fr_ReceiverOrigin row
                then Inl FeedBindingChanged
                else (case FreezeExistingFeedManifest co spec of
                    Inl e \<Rightarrow> Inl (FeedRefused e)
                  | Inr m \<Rightarrow> map_sum id (Pair m)
                      (foldE (read_attempt co m) [] (sort_key fa_Index (attempt_rows s rid profile))))))"

section \<open>Operations\<close>

definition RegisterExistingFeed :: "feed_codec \<Rightarrow> feed_store \<Rightarrow> string \<Rightarrow> ManifestSpec \<Rightarrow> time \<Rightarrow> FeedError + feed_store" where
  "RegisterExistingFeed co s rid spec at =
     (if \<not> st_Ready (fs_Base s) then Inl (FeedStore DatabaseReadOnly)
      else if at = 0 then Inl FeedTimeRequired
      else case FreezeExistingFeedManifest co spec of
          Inl e \<Rightarrow> Inl (FeedRefused e)
        | Inr m \<Rightarrow>
            (case GetRun (fs_Base s) rid of
               Inl e \<Rightarrow> Inl (FeedStore e)
             | Inr run \<Rightarrow>
                 if run_Status run \<notin> {RunQueued, RunPreflight, RunSettingUp} then Inl FeedStarted
                 else if rid \<in> set (fs_Installed s) then Inl FeedInstalled
                 else if list_ex (feed_key rid (mf_Profile spec)) (fs_Feeds s) \<or>
                   list_ex (\<lambda>f. fr_ReceiverOrigin f = mf_ReceiverOrigin spec \<and> fr_CohortID f = mf_CohortID spec \<and>
                     fr_Profile f = mf_Profile spec) (fs_Feeds s) \<or>
                   mf_Profile spec \<notin> {''splunk'', ''middleware_custom_alert''} \<or> \<not> column_fits (Doc (marshal_spec spec))
                 then Inl FeedConstraint
                 else Inr (s\<lparr>fs_Base := (fs_Base s)\<lparr>st_Pinned := rid # st_Pinned (fs_Base s)\<rparr>,
                   fs_Feeds := fs_Feeds s @ [\<lparr>fr_RunID = rid, fr_Profile = mf_Profile spec, fr_CohortID = mf_CohortID spec,
                     fr_ReceiverOrigin = mf_ReceiverOrigin spec, fr_Manifest = Doc (marshal_spec spec), fr_CreatedAt = at\<rparr>]\<rparr>)))"

definition resolved :: "FeedAttempt \<Rightarrow> bool" where
  "resolved a \<longleftrightarrow> (case ea_Result a of None \<Rightarrow> False | Some r \<Rightarrow> ir_Class r = InjectionForwarded) \<and> ea_TransportError a = ''''"

definition RecordExistingFeedAttempt :: "feed_codec \<Rightarrow> feed_store \<Rightarrow> string \<Rightarrow> FeedEvidence \<Rightarrow> time \<Rightarrow> FeedError + feed_store" where
  "RecordExistingFeedAttempt co s rid evidence at =
     (let profile = mf_Profile (fv_Manifest evidence);
          injecting = (\<lambda>r. run_ID r = rid \<and> run_Status r = RunInjecting);
          doc = Doc (marshal_evidence evidence)
      in if \<not> st_Ready (fs_Base s) then Inl (FeedStore DatabaseReadOnly)
         else if at = 0 then Inl FeedTimeRequired
         else case readExistingFeed co s rid profile of
             Inl e \<Rightarrow> Inl e
           | Inr (m, attempts) \<Rightarrow>
               (case Prepare co m (fv_FixtureIndex evidence) of
                  Inl e \<Rightarrow> Inl (FeedRefused e)
                | Inr (expected, body) \<Rightarrow>
                    if marshal_evidence evidence \<noteq> marshal_evidence expected then Inl FeedEvidenceDiffers
                    else if fv_FixtureIndex evidence \<noteq> int (length attempts) then Inl FeedOutOfOrder
                    else if \<not> list_all resolved attempts then Inl FeedUnresolved
                    else if affected injecting (st_Runs (fs_Base s)) \<noteq> 1 then Inl FeedNotInjecting
                    else if list_ex (\<lambda>a. fa_Index a = fv_FixtureIndex evidence) (attempt_rows s rid profile) \<or> \<not> column_fits doc
                    then Inl FeedConstraint
                    else (case appendEvent ((fs_Base s)\<lparr>st_Runs := update_where injecting
                            (\<lambda>r. r\<lparr>run_CleanupStatus := CleanupUnknown, run_UpdatedAt := at\<rparr>) (st_Runs (fs_Base s))\<rparr>)
                          (store_event rid ''alert.attempting'' ''info'' at ''Owned existing-feed request committed before send'' doc) of
                        Inl e \<Rightarrow> Inl (FeedStore e)
                      | Inr (stored, base) \<Rightarrow> Inr (s\<lparr>fs_Base := base, fs_Attempts := fs_Attempts s @
                          [\<lparr>fa_RunID = rid, fa_Profile = profile, fa_Index = fv_FixtureIndex evidence, fa_Evidence = doc,
                            fa_Result = NoBytes, fa_RecordedAt = at, fa_CompletedAt = None\<rparr>]\<rparr>))))"

definition CompleteExistingFeedAttempt :: "feed_codec \<Rightarrow> feed_store \<Rightarrow> string \<Rightarrow> string \<Rightarrow> int \<Rightarrow> string \<Rightarrow> InjectionResult \<Rightarrow>
  string \<Rightarrow> time \<Rightarrow> FeedError + feed_store" where
  "CompleteExistingFeedAttempt co s rid profile index sha result transportError at =
     (let saved = \<lparr>er_BodySHA256 = sha, er_Result = result, er_Error = transportError\<rparr>;
          doc = Doc (marshal_feed_result co saved);
          open_row = (\<lambda>a. fa_RunID a = rid \<and> fa_Profile a = profile \<and> fa_Index a = index \<and> fa_Result a = NoBytes)
      in if \<not> st_Ready (fs_Base s) then Inl (FeedStore DatabaseReadOnly)
         else if at = 0 then Inl FeedTimeRequired
         else case validateExistingFeedResult co saved of
             Some e \<Rightarrow> Inl e
           | None \<Rightarrow>
               (case readExistingFeed co s rid profile of
                  Inl e \<Rightarrow> Inl e
                | Inr (m, attempts) \<Rightarrow>
                    if index < 0 \<or> int (length attempts) \<le> index \<or> ea_Result (attempts ! nat index) \<noteq> None \<or>
                       rq_BodySHA256 (fv_Request (ea_Evidence (attempts ! nat index))) \<noteq> sha then Inl FeedResultUnmatched
                    else if \<not> column_fits doc then Inl FeedConstraint
                    else if affected open_row (fs_Attempts s) \<noteq> 1 then Inl FeedResultUnmatched
                    else Inr (s\<lparr>fs_Attempts := update_where open_row
                      (\<lambda>a. a\<lparr>fa_Result := doc, fa_CompletedAt := Some at\<rparr>) (fs_Attempts s)\<rparr>)))"

definition ListExistingFeedAttempts :: "feed_codec \<Rightarrow> feed_store \<Rightarrow> string \<Rightarrow> string \<Rightarrow> FeedError + FeedAttempt list" where
  "ListExistingFeedAttempts co s rid profile =
     (if \<not> st_Ready (fs_Base s) then Inl (FeedStore DatabaseReadOnly)
      else map_sum id snd (readExistingFeed co s rid profile))"

definition ReadExistingFeedSnapshot :: "feed_codec \<Rightarrow> feed_store \<Rightarrow> string \<Rightarrow> string \<Rightarrow> FeedError + (ManifestSpec \<times> FeedAttempt list)" where
  "ReadExistingFeedSnapshot co s rid profile =
     (if \<not> st_Ready (fs_Base s) then Inl (FeedStore DatabaseReadOnly)
      else case readExistingFeed co s rid profile of
          Inl e \<Rightarrow> Inl e
        | Inr (m, attempts) \<Rightarrow>
            (case Prepare co m 0 of Inl e \<Rightarrow> Inl (FeedRefused e) | Inr (prepared, body) \<Rightarrow> Inr (fv_Manifest prepared, attempts)))"

section \<open>Reachable journals\<close>

text \<open>
  The ledger moves on its own, except that a run with a feed stays pinned; the rows of installed
  packs are written elsewhere.
\<close>

inductive feed_step :: "feed_codec \<Rightarrow> feed_store \<Rightarrow> feed_store \<Rightarrow> bool" for co where
  ledger: "ledger_step (fs_Base s) b \<Longrightarrow> fr_RunID ` set (fs_Feeds s) \<subseteq> set (st_Pinned b) \<Longrightarrow> feed_step co s (s\<lparr>fs_Base := b\<rparr>)"
| register: "RegisterExistingFeed co s rid spec at = Inr t \<Longrightarrow> feed_step co s t"
| attempt: "RecordExistingFeedAttempt co s rid evidence at = Inr t \<Longrightarrow> feed_step co s t"
| complete: "CompleteExistingFeedAttempt co s rid profile index sha result failed at = Inr t \<Longrightarrow> feed_step co s t"
| installed: "feed_step co s (s\<lparr>fs_Installed := xs\<rparr>)"

definition fresh_feeds :: feed_store where
  "fresh_feeds = \<lparr>fs_Base = fresh_store, fs_Installed = [], fs_Feeds = [], fs_Attempts = []\<rparr>"

inductive feed_reachable :: "feed_codec \<Rightarrow> feed_store \<Rightarrow> bool" for co where
  fresh: "feed_reachable co fresh_feeds"
| step: "feed_reachable co s \<Longrightarrow> feed_step co s t \<Longrightarrow> feed_reachable co t"

end
