(* ===== verification/Feed_Journal_Properties.thy ===== *)
theory Feed_Journal_Properties
  imports Feed_Journal Ledger_Properties
begin

text \<open>
  What the journal of a feed holds in every reachable store: the fixtures attempted so far without a
  gap, each with the request its manifest determines, all but the last one forwarded; and what an
  operation can change of it.
\<close>

section \<open>Attempts as they are read\<close>

text \<open>Documented of the base64 encoding.\<close>

definition base64_ok :: "feed_codec \<Rightarrow> bool" where
  "base64_ok co \<longleftrightarrow> (\<forall>s. fc_Unbase64 co (fc_Base64 co s) = Some s)"

lemma read_attempt_Inr:
  assumes "read_attempt co m attempts row = Inr attempts'"
  shows "\<exists>evidence body a. Prepare co m (int (length attempts)) = Inr (evidence, body) \<and> attempts' = attempts @ [a] \<and>
    ea_Evidence a = evidence \<and> fa_Index row = int (length attempts) \<and> length attempts \<le> 5 \<and>
    (ea_Result a = None) = (fa_Result row = NoBytes) \<and> fa_Evidence row = Doc (marshal_evidence evidence)"
  using assms unfolding read_attempt_def by (auto split: if_splits sum.splits prod.splits option.splits)

lemma read_attempts:
  assumes "foldE (read_attempt co m) done_so_far rows = Inr attempts"
  shows "\<exists>new. attempts = done_so_far @ new \<and> length new = length rows \<and> (new = [] \<or> length attempts \<le> 6) \<and>
    map fa_Index rows = map int [length done_so_far..<length attempts] \<and>
    (\<forall>i < length new. \<exists>body. Prepare co m (int (length done_so_far + i)) = Inr (ea_Evidence (new ! i), body)) \<and>
    (\<forall>i < length new. (ea_Result (new ! i) = None) = (fa_Result (rows ! i) = NoBytes))"
  using assms
proof (induction rows arbitrary: done_so_far)
  case (Cons row rows)
  from Cons.prems obtain mid where mid: "read_attempt co m done_so_far row = Inr mid" "foldE (read_attempt co m) mid rows = Inr attempts"
    by (auto split: sum.splits)
  from read_attempt_Inr [OF mid(1)] obtain evidence body a where a: "Prepare co m (int (length done_so_far)) = Inr (evidence, body)"
    "mid = done_so_far @ [a]" "ea_Evidence a = evidence" "fa_Index row = int (length done_so_far)" "length done_so_far \<le> 5"
    "(ea_Result a = None) = (fa_Result row = NoBytes)" by (elim exE conjE) (rule that)
  from Cons.IH [OF mid(2)] obtain new where new: "attempts = mid @ new" "length new = length rows" "new = [] \<or> length attempts \<le> 6"
    "map fa_Index rows = map int [length mid..<length attempts]"
    "\<forall>i < length new. \<exists>body. Prepare co m (int (length mid + i)) = Inr (ea_Evidence (new ! i), body)"
    "\<forall>i < length new. (ea_Result (new ! i) = None) = (fa_Result (rows ! i) = NoBytes)" by blast
  have "[length done_so_far..<length attempts] = length done_so_far # [length mid..<length attempts]"
    using a(2) new(1) upt_conv_Cons [of "length done_so_far" "length attempts"] by simp
  with a new show ?case
    by (intro exI [of _ "a # new"]) (auto simp: nth_Cons algebra_simps split: nat.splits)
qed simp

lemma read_in_order:
  assumes "foldE (read_attempt co m) [] rows = Inr attempts"
  shows "length attempts = length rows" and "length attempts \<le> 6" and "map fa_Index rows = map int [0..<length attempts]"
    and "\<forall>i < length attempts. \<exists>body. Prepare co m (int i) = Inr (ea_Evidence (attempts ! i), body)"
    and "\<forall>i < length attempts. (ea_Result (attempts ! i) = None) = (fa_Result (rows ! i) = NoBytes)"
    and "sort_key fa_Index rows = rows"
proof -
  from read_attempts [OF assms] show "length attempts = length rows" "length attempts \<le> 6"
    and ids: "map fa_Index rows = map int [0..<length attempts]"
    and "\<forall>i < length attempts. \<exists>body. Prepare co m (int i) = Inr (ea_Evidence (attempts ! i), body)"
    and "\<forall>i < length attempts. (ea_Result (attempts ! i) = None) = (fa_Result (rows ! i) = NoBytes)" by auto
  have "sorted (map int [0..<length attempts])" by (simp add: sorted_map sorted_wrt_mono_rel [OF _ sorted_upt])
  with ids show "sort_key fa_Index rows = rows" by (simp add: sort_key_id_if_sorted)
qed

section \<open>The invariant\<close>

definition journal_ok :: "feed_codec \<Rightarrow> feed_store \<Rightarrow> string \<Rightarrow> string \<Rightarrow> bool" where
  "journal_ok co s rid profile \<longleftrightarrow>
     (case find (feed_key rid profile) (fs_Feeds s) of
        None \<Rightarrow> attempt_rows s rid profile = []
      | Some row \<Rightarrow> \<exists>m attempts. fr_Manifest row = Doc (marshal_spec m) \<and> FreezeExistingFeedManifest co m = Inr m \<and>
          mf_Profile m = profile \<and> mf_CohortID m = fr_CohortID row \<and> mf_ReceiverOrigin m = fr_ReceiverOrigin row \<and>
          raw_size (fr_Manifest row) \<le> 2097152 \<and>
          foldE (read_attempt co m) [] (attempt_rows s rid profile) = Inr attempts \<and> list_all resolved (butlast attempts))"

definition feed_ok :: "feed_codec \<Rightarrow> feed_store \<Rightarrow> bool" where
  "feed_ok co s \<longleftrightarrow> (\<forall>rid profile. journal_ok co s rid profile) \<and> store_ok (fs_Base s)"

lemma journal_read:
  assumes "journal_ok co s rid profile" and "find (feed_key rid profile) (fs_Feeds s) = Some row"
  shows "\<exists>m attempts. readExistingFeed co s rid profile = Inr (m, attempts) \<and> fr_Manifest row = Doc (marshal_spec m) \<and>
    FreezeExistingFeedManifest co m = Inr m \<and> mf_Profile m = profile \<and> mf_CohortID m = fr_CohortID row \<and>
    mf_ReceiverOrigin m = fr_ReceiverOrigin row \<and> raw_size (fr_Manifest row) \<le> 2097152 \<and>
    foldE (read_attempt co m) [] (attempt_rows s rid profile) = Inr attempts \<and> list_all resolved (butlast attempts)"
proof -
  from assms obtain m attempts where m: "fr_Manifest row = Doc (marshal_spec m)" "FreezeExistingFeedManifest co m = Inr m"
    "mf_Profile m = profile" "mf_CohortID m = fr_CohortID row" "mf_ReceiverOrigin m = fr_ReceiverOrigin row"
    "raw_size (fr_Manifest row) \<le> 2097152" "foldE (read_attempt co m) [] (attempt_rows s rid profile) = Inr attempts"
    "list_all resolved (butlast attempts)" by (auto simp: journal_ok_def)
  have "decode_spec (fr_Manifest row) = Some m" using decode_spec_marshal [OF frozen_start [OF m(2)]] m(1) by simp
  with m assms(2) read_in_order(6) [OF m(7)] have "readExistingFeed co s rid profile = Inr (m, attempts)"
    by (simp add: readExistingFeed_def)
  with m show ?thesis by blast
qed

lemma read_found: "readExistingFeed co s rid profile = Inr r \<Longrightarrow> \<exists>row. find (feed_key rid profile) (fs_Feeds s) = Some row"
  by (auto simp: readExistingFeed_def split: option.splits)

lemma journal_ok_frame:
  "find (feed_key rid profile) (fs_Feeds t) = find (feed_key rid profile) (fs_Feeds s) \<Longrightarrow>
   attempt_rows t rid profile = attempt_rows s rid profile \<Longrightarrow> journal_ok co s rid profile \<Longrightarrow>
   journal_ok co t rid profile"
  by (cases "find (feed_key rid profile) (fs_Feeds s)") (simp_all add: journal_ok_def)

section \<open>Every operation keeps it\<close>

lemma valid_result:
  assumes "validateExistingFeedResult co saved = None"
  shows "ir_Class (er_Result saved) \<in> {InjectionForwarded, InjectionRejected, InjectionIndeterminate}"
    and "0 \<le> ir_StatusCode (er_Result saved)" and "int64 (ir_StatusCode (er_Result saved))"
  using assms by (auto simp: validateExistingFeedResult_def Let_def int64_def split: if_splits)

lemma decode_feed_result_marshal:
  assumes "base64_ok co" and "validateExistingFeedResult co saved = None"
  shows "decode_feed_result co (Doc (marshal_feed_result co saved)) = Some saved"
proof -
  let ?r = "er_Result saved"
  have "decode_injection_result co (marshal_injection co ?r) no_result = Some ?r"
    using assms(1) valid_result [OF assms(2)] atoi_itoa [of "ir_StatusCode ?r"]
    by (auto simp: decode_injection_result_def marshal_injection_def json_fields fold_names no_result_def jint_def base64_ok_def)
  then show ?thesis by (simp add: decode_feed_result_def marshal_feed_result_def json_fields fold_names)
qed

lemma find_append: "find P (xs @ ys) = (case find P xs of None \<Rightarrow> find P ys | Some x \<Rightarrow> Some x)"
  by (induction xs) auto

lemma feed_register_ok:
  assumes "feed_ok co s" and "RegisterExistingFeed co s rid spec at = Inr t" shows "feed_ok co t"
proof -
  from assms(2) have m: "FreezeExistingFeedManifest co spec = Inr spec"
    using frozen_same by (auto simp: RegisterExistingFeed_def split: if_splits sum.splits)
  define row where "row = \<lparr>fr_RunID = rid, fr_Profile = mf_Profile spec, fr_CohortID = mf_CohortID spec,
    fr_ReceiverOrigin = mf_ReceiverOrigin spec, fr_Manifest = Doc (marshal_spec spec), fr_CreatedAt = at\<rparr>"
  from assms(2) have t: "t = s\<lparr>fs_Base := (fs_Base s)\<lparr>st_Pinned := rid # st_Pinned (fs_Base s)\<rparr>, fs_Feeds := fs_Feeds s @ [row]\<rparr>"
    and fresh: "\<not> list_ex (feed_key rid (mf_Profile spec)) (fs_Feeds s)" and fits: "column_fits (Doc (marshal_spec spec))"
    by (auto simp: RegisterExistingFeed_def row_def split: if_splits sum.splits)
  have "journal_ok co t rid' profile" for rid' profile
  proof (cases "rid' = rid \<and> profile = mf_Profile spec")
    case True
    with fresh have none: "find (feed_key rid' profile) (fs_Feeds s) = None" by (simp add: find_None_iff list_ex_iff)
    moreover from True have "feed_key rid' profile row" by (simp add: feed_key_def row_def)
    ultimately have "find (feed_key rid' profile) (fs_Feeds t) = Some row" by (simp add: t find_append)
    moreover have "journal_ok co s rid' profile" using assms(1) by (simp add: feed_ok_def)
    then have "attempt_rows s rid' profile = []" using none by (simp add: journal_ok_def)
    ultimately show ?thesis using True m fits
      by (auto simp: journal_ok_def row_def column_fits_def t attempt_rows_def intro!: exI [of _ spec])
  next
    case False
    then have "\<not> feed_key rid' profile row" by (auto simp: feed_key_def row_def)
    then have "find (feed_key rid' profile) (fs_Feeds t) = find (feed_key rid' profile) (fs_Feeds s)"
      by (simp add: t find_append split: option.split)
    moreover have "attempt_rows t rid' profile = attempt_rows s rid' profile" by (simp add: t attempt_rows_def)
    moreover have "journal_ok co s rid' profile" using assms(1) by (simp add: feed_ok_def)
    ultimately show ?thesis by (rule journal_ok_frame)
  qed
  moreover have "store_ok (fs_Base t)" using assms(1) by (simp add: t feed_ok_def store_ok_def run_states_def)
  ultimately show ?thesis by (simp add: feed_ok_def)
qed

lemma feed_record_Inr:
  assumes "RecordExistingFeedAttempt co s rid evidence at = Inr t"
  obtains m attempts expected body base stored where
    "readExistingFeed co s rid (mf_Profile (fv_Manifest evidence)) = Inr (m, attempts)"
    "Prepare co m (int (length attempts)) = Inr (expected, body)" "marshal_evidence evidence = marshal_evidence expected"
    "fv_FixtureIndex evidence = int (length attempts)" "list_all resolved attempts"
    "affected (\<lambda>r. run_ID r = rid \<and> run_Status r = RunInjecting) (st_Runs (fs_Base s)) = 1"
    "appendEvent ((fs_Base s)\<lparr>st_Runs := update_where (\<lambda>r. run_ID r = rid \<and> run_Status r = RunInjecting)
        (\<lambda>r. r\<lparr>run_CleanupStatus := CleanupUnknown, run_UpdatedAt := at\<rparr>) (st_Runs (fs_Base s))\<rparr>)
      (store_event rid ''alert.attempting'' ''info'' at ''Owned existing-feed request committed before send''
        (Doc (marshal_evidence evidence))) = Inr (stored, base)"
    "t = s\<lparr>fs_Base := base, fs_Attempts := fs_Attempts s @
      [\<lparr>fa_RunID = rid, fa_Profile = mf_Profile (fv_Manifest evidence), fa_Index = int (length attempts),
        fa_Evidence = Doc (marshal_evidence evidence), fa_Result = NoBytes, fa_RecordedAt = at, fa_CompletedAt = None\<rparr>]\<rparr>"
  using assms unfolding RecordExistingFeedAttempt_def Let_def by (auto split: if_splits sum.splits prod.splits)

lemma feed_record_read:
  assumes "feed_ok co s" and "RecordExistingFeedAttempt co s rid evidence at = Inr t"
  shows "\<exists>m attempts a. readExistingFeed co s rid (mf_Profile (fv_Manifest evidence)) = Inr (m, attempts) \<and>
    list_all resolved attempts \<and> ea_Result a = None \<and>
    foldE (read_attempt co m) [] (attempt_rows s rid (mf_Profile (fv_Manifest evidence))) = Inr attempts \<and>
    foldE (read_attempt co m) [] (attempt_rows t rid (mf_Profile (fv_Manifest evidence))) = Inr (attempts @ [a]) \<and>
    (\<forall>rid' profile. (rid', profile) \<noteq> (rid, mf_Profile (fv_Manifest evidence)) \<longrightarrow> attempt_rows t rid' profile = attempt_rows s rid' profile) \<and>
    fs_Feeds t = fs_Feeds s \<and> store_ok (fs_Base t)"
proof -
  let ?p = "mf_Profile (fv_Manifest evidence)"
  from assms(2) obtain m attempts expected body base stored where
    read: "readExistingFeed co s rid ?p = Inr (m, attempts)" and
    prep: "Prepare co m (int (length attempts)) = Inr (expected, body)" and
    same: "marshal_evidence evidence = marshal_evidence expected" and all: "list_all resolved attempts" and
    app: "appendEvent ((fs_Base s)\<lparr>st_Runs := update_where (\<lambda>r. run_ID r = rid \<and> run_Status r = RunInjecting)
        (\<lambda>r. r\<lparr>run_CleanupStatus := CleanupUnknown, run_UpdatedAt := at\<rparr>) (st_Runs (fs_Base s))\<rparr>)
      (store_event rid ''alert.attempting'' ''info'' at ''Owned existing-feed request committed before send''
        (Doc (marshal_evidence evidence))) = Inr (stored, base)" and
    t: "t = s\<lparr>fs_Base := base, fs_Attempts := fs_Attempts s @
      [\<lparr>fa_RunID = rid, fa_Profile = ?p, fa_Index = int (length attempts), fa_Evidence = Doc (marshal_evidence evidence),
        fa_Result = NoBytes, fa_RecordedAt = at, fa_CompletedAt = None\<rparr>]\<rparr>" by (rule feed_record_Inr)
  from read_found [OF read] obtain row where "find (feed_key rid ?p) (fs_Feeds s) = Some row" by blast
  from journal_read [OF _ this, of co] assms(1) read have fold: "foldE (read_attempt co m) [] (attempt_rows s rid ?p) = Inr attempts"
    by (auto simp: feed_ok_def)
  let ?a = "\<lparr>ea_Evidence = expected, ea_Result = None, ea_TransportError = ''''\<rparr>"
  have "length attempts \<le> 5" using prep by (auto simp: Prepare_def split: if_splits)
  with prep same fold have "foldE (read_attempt co m) [] (attempt_rows t rid ?p) = Inr (attempts @ [?a])"
    by (simp add: t attempt_rows_def foldE_append read_attempt_def)
  moreover have "store_ok base"
  proof (rule store_event_ok)
    show "store_ok (fs_Base s)" using assms(1) by (simp add: feed_ok_def)
    show "map_sum id snd (appendEvent ((fs_Base s)\<lparr>st_Runs := update_where (\<lambda>r. run_ID r = rid \<and> run_Status r = RunInjecting)
        (\<lambda>r. r\<lparr>run_CleanupStatus := CleanupUnknown, run_UpdatedAt := at\<rparr>) (st_Runs (fs_Base s))\<rparr>)
      (store_event rid ''alert.attempting'' ''info'' at ''Owned existing-feed request committed before send''
        (Doc (marshal_evidence evidence)))) = Inr base" using app by simp
  qed simp_all
  moreover have "\<forall>rid' profile. (rid', profile) \<noteq> (rid, ?p) \<longrightarrow> attempt_rows t rid' profile = attempt_rows s rid' profile"
    by (auto simp: t attempt_rows_def)
  ultimately show ?thesis using read all fold
    by (intro exI [of _ m] exI [of _ attempts] exI [of _ ?a]) (simp add: t)
qed

lemma rows_by_index:
  assumes "map fa_Index rows = map int [0..<length rows]" and "a \<in> set (butlast rows)"
  shows "fa_Index a < int (length rows - 1)"
proof -
  from assms(2) obtain i where i: "i < length rows - 1" "a = rows ! i" by (auto simp: in_set_conv_nth nth_butlast)
  have "fa_Index (rows ! i) = map fa_Index rows ! i" using i(1) by simp
  also have "\<dots> = int i" unfolding assms(1) using i(1) by simp
  finally show ?thesis using i by simp
qed

lemma feed_complete_Inr:
  assumes "CompleteExistingFeedAttempt co s rid profile index sha result failed at = Inr t"
  defines "saved \<equiv> \<lparr>er_BodySHA256 = sha, er_Result = result, er_Error = failed\<rparr>"
  defines "doc \<equiv> Doc (marshal_feed_result co saved)"
  obtains m attempts where "validateExistingFeedResult co saved = None" "readExistingFeed co s rid profile = Inr (m, attempts)"
    "0 \<le> index" "index < int (length attempts)" "ea_Result (attempts ! nat index) = None"
    "rq_BodySHA256 (fv_Request (ea_Evidence (attempts ! nat index))) = sha" "column_fits doc"
    "t = s\<lparr>fs_Attempts := update_where (\<lambda>a. fa_RunID a = rid \<and> fa_Profile a = profile \<and> fa_Index a = index \<and> fa_Result a = NoBytes)
      (\<lambda>a. a\<lparr>fa_Result := doc, fa_CompletedAt := Some at\<rparr>) (fs_Attempts s)\<rparr>"
  using assms unfolding CompleteExistingFeedAttempt_def Let_def
  by (auto split: if_splits sum.splits prod.splits option.splits)

lemma feed_complete_read:
  assumes ok: "feed_ok co s" and co: "base64_ok co"
    and complete: "CompleteExistingFeedAttempt co s rid profile index sha result failed at = Inr t"
  shows "\<exists>m attempts a b. readExistingFeed co s rid profile = Inr (m, attempts @ [a]) \<and> list_all resolved attempts \<and>
    ea_Result a = None \<and> b = a\<lparr>ea_Result := Some result, ea_TransportError := failed\<rparr> \<and>
    foldE (read_attempt co m) [] (attempt_rows s rid profile) = Inr (attempts @ [a]) \<and>
    foldE (read_attempt co m) [] (attempt_rows t rid profile) = Inr (attempts @ [b]) \<and>
    (\<forall>rid' profile'. (rid', profile') \<noteq> (rid, profile) \<longrightarrow> attempt_rows t rid' profile' = attempt_rows s rid' profile') \<and>
    fs_Feeds t = fs_Feeds s \<and> fs_Base t = fs_Base s \<and> index = int (length attempts)"
proof -
  define saved where "saved = \<lparr>er_BodySHA256 = sha, er_Result = result, er_Error = failed\<rparr>"
  define doc where "doc = Doc (marshal_feed_result co saved)"
  define here where "here = (\<lambda>a :: FeedAttemptRow. fa_RunID a = rid \<and> fa_Profile a = profile \<and> fa_Index a = index \<and> fa_Result a = NoBytes)"
  define put where "put = (\<lambda>a :: FeedAttemptRow. a\<lparr>fa_Result := doc, fa_CompletedAt := Some at\<rparr>)"
  from complete obtain m as where valid: "validateExistingFeedResult co saved = None" and
    read: "readExistingFeed co s rid profile = Inr (m, as)" and
    index: "0 \<le> index" "index < int (length as)" "ea_Result (as ! nat index) = None"
      "rq_BodySHA256 (fv_Request (ea_Evidence (as ! nat index))) = sha" and
    fits: "column_fits doc" and t: "t = s\<lparr>fs_Attempts := update_where here put (fs_Attempts s)\<rparr>"
    unfolding saved_def doc_def here_def put_def by (rule feed_complete_Inr)
  define rows where "rows = attempt_rows s rid profile"
  from read_found [OF read] obtain row where "find (feed_key rid profile) (fs_Feeds s) = Some row" by blast
  from journal_read [OF _ this, of co] ok read have fold: "foldE (read_attempt co m) [] rows = Inr as"
    and done_before: "list_all resolved (butlast as)" by (auto simp: feed_ok_def rows_def)
  note order = read_in_order [OF fold]
  have last_index: "nat index = length as - 1"
  proof (rule ccontr)
    assume "nat index \<noteq> length as - 1"
    with index have "nat index < length (butlast as)" by auto
    with done_before index(3) show False by (auto simp: list_all_length nth_butlast resolved_def)
  qed
  from index(2) index(1) have "as \<noteq> []" by auto
  then obtain attempts a where as: "as = attempts @ [a]" by (metis append_butlast_last_id)
  with order(1) have "rows \<noteq> []" by auto
  then obtain front x where rows: "rows = front @ [x]" by (metis append_butlast_last_id)
  with as order(1) have len: "length front = length attempts" by simp
  have ids: "map fa_Index rows = map int [0..<length rows]" using order(1,3) by simp
  with rows have x: "fa_Index x = int (length front)" by simp
  have index_is: "index = int (length attempts)" using last_index as index(1) by simp
  have a: "ea_Result a = None" "rq_BodySHA256 (fv_Request (ea_Evidence a)) = sha"
    using index(3,4) last_index as by simp_all
  have xnull: "fa_Result x = NoBytes" using order(5) [rule_format, of "length attempts"] as rows len a(1) by (simp add: nth_append)
  have "\<not> here y" if "y \<in> set front" for y
    using rows_by_index [OF ids, of y] that rows index_is len by (auto simp: here_def)
  then have front: "update_where here put front = front" by (auto simp: update_where_def map_idI)
  have "x \<in> set (attempt_rows s rid profile)" using rows by (simp add: rows_def [symmetric])
  then have "here x" using x index_is len xnull by (simp add: here_def attempt_rows_def)
  have "attempt_rows t rid profile = update_where here put rows"
    unfolding t rows_def attempt_rows_def update_where_def by (simp add: filter_map comp_def put_def if_distrib cong: if_cong)
  with front rows \<open>here x\<close> have rows': "attempt_rows t rid profile = front @ [put x]" by (simp add: update_where_def)
  from fold rows obtain mid where mid: "foldE (read_attempt co m) [] front = Inr mid" "read_attempt co m mid x = Inr as"
    by (auto simp: foldE_append split: sum.splits)
  from read_attempt_Inr [OF mid(2)] as have "mid = attempts" by auto
  from read_attempt_Inr [OF mid(2)] as \<open>mid = attempts\<close> obtain evidence body where
    p: "Prepare co m (int (length attempts)) = Inr (evidence, body)" "ea_Evidence a = evidence" "length attempts \<le> 5"
      "fa_Evidence x = Doc (marshal_evidence evidence)" by auto
  have "read_attempt co m attempts (put x) = Inr (attempts @ [a\<lparr>ea_Result := Some result, ea_TransportError := failed\<rparr>])"
    using p x len a(2) fits decode_feed_result_marshal [OF co valid] valid
    by (cases a) (simp add: read_attempt_def put_def doc_def column_fits_def saved_def)
  with mid \<open>mid = attempts\<close> rows' have fold': "foldE (read_attempt co m) [] (attempt_rows t rid profile) =
      Inr (attempts @ [a\<lparr>ea_Result := Some result, ea_TransportError := failed\<rparr>])"
    by (simp add: foldE_append)
  have "attempt_rows t rid' profile' = attempt_rows s rid' profile'" if "(rid', profile') \<noteq> (rid, profile)" for rid' profile'
  proof -
    have "filter (\<lambda>a. fa_RunID a = rid' \<and> fa_Profile a = profile') (update_where here put rs) =
        filter (\<lambda>a. fa_RunID a = rid' \<and> fa_Profile a = profile') rs" for rs
      using that by (induction rs) (auto simp: update_where_def here_def put_def)
    then show ?thesis by (simp add: t attempt_rows_def)
  qed
  with read as done_before a fold fold' index_is rows_def show ?thesis
    by (intro exI [of _ m] exI [of _ attempts] exI [of _ a] exI [of _ "a\<lparr>ea_Result := Some result, ea_TransportError := failed\<rparr>"]) (simp add: t)
qed

lemma read_same:
  assumes "find (feed_key rid profile) (fs_Feeds t) = find (feed_key rid profile) (fs_Feeds s)"
    and "attempt_rows t rid profile = attempt_rows s rid profile"
  shows "readExistingFeed co t rid profile = readExistingFeed co s rid profile"
  unfolding readExistingFeed_def assms by (rule refl)

lemma read_changed:
  assumes "readExistingFeed co s rid profile = Inr (m, attempts)" and "fs_Feeds t = fs_Feeds s"
    and "foldE (read_attempt co m) [] (attempt_rows t rid profile) = Inr new"
  shows "readExistingFeed co t rid profile = Inr (m, new)"
  using assms unfolding readExistingFeed_def
  by (auto simp: read_in_order(6) [OF assms(3)] map_sum_Inr split: option.splits if_splits sum.splits)

lemma journal_ok_changed:
  assumes "journal_ok co s rid profile" and "fs_Feeds t = fs_Feeds s" and "readExistingFeed co s rid profile = Inr (m, attempts)"
    and "foldE (read_attempt co m) [] (attempt_rows t rid profile) = Inr new" and "list_all resolved (butlast new)"
  shows "journal_ok co t rid profile"
proof -
  from read_found [OF assms(3)] obtain row where row: "find (feed_key rid profile) (fs_Feeds s) = Some row" by blast
  from journal_read [OF assms(1) row] assms(3) have "fr_Manifest row = Doc (marshal_spec m)" "FreezeExistingFeedManifest co m = Inr m"
    "mf_Profile m = profile" "mf_CohortID m = fr_CohortID row" "mf_ReceiverOrigin m = fr_ReceiverOrigin row"
    "raw_size (fr_Manifest row) \<le> 2097152" by auto
  with assms(4,5) show ?thesis unfolding journal_ok_def assms(2) row by auto
qed

lemma feed_step_ok:
  assumes "base64_ok co" and "feed_step co s t" and "feed_ok co s" shows "feed_ok co t"
  using assms(2,3)
proof (induction rule: feed_step.induct)
  case (ledger s b)
  have "journal_ok co (s\<lparr>fs_Base := b\<rparr>) rid profile" for rid profile
    by (rule journal_ok_frame [where s = s]) (use ledger(3) in \<open>simp_all add: attempt_rows_def feed_ok_def\<close>)
  with ledger_step_ok [OF ledger(1)] ledger(3) show ?case by (simp add: feed_ok_def)
next
  case (register s rid spec at t)
  then show ?case by (metis feed_register_ok)
next
  case (attempt s rid evidence at t)
  from feed_record_read [OF attempt(2,1)] obtain m attempts a where a:
    "readExistingFeed co s rid (mf_Profile (fv_Manifest evidence)) = Inr (m, attempts)" "list_all resolved attempts"
    "foldE (read_attempt co m) [] (attempt_rows t rid (mf_Profile (fv_Manifest evidence))) = Inr (attempts @ [a])"
    "\<forall>rid' profile. (rid', profile) \<noteq> (rid, mf_Profile (fv_Manifest evidence)) \<longrightarrow> attempt_rows t rid' profile = attempt_rows s rid' profile"
    "fs_Feeds t = fs_Feeds s" "store_ok (fs_Base t)" by blast
  have "journal_ok co t rid' profile" for rid' profile
  proof (cases "(rid', profile) = (rid, mf_Profile (fv_Manifest evidence))")
    case True
    with a attempt(2) show ?thesis by (auto simp: feed_ok_def intro: journal_ok_changed [OF _ a(5,1,3)])
  next
    case False
    show ?thesis by (rule journal_ok_frame [where s = s]) (use False a(4,5) attempt(2) in \<open>simp_all add: feed_ok_def\<close>)
  qed
  with a(6) show ?case by (simp add: feed_ok_def)
next
  case (complete s rid profile index sha result failed at t)
  from feed_complete_read [OF complete(2) assms(1) complete(1)] obtain m attempts a b where a:
    "readExistingFeed co s rid profile = Inr (m, attempts @ [a])" "list_all resolved attempts"
    "foldE (read_attempt co m) [] (attempt_rows t rid profile) = Inr (attempts @ [b])"
    "\<forall>rid' profile'. (rid', profile') \<noteq> (rid, profile) \<longrightarrow> attempt_rows t rid' profile' = attempt_rows s rid' profile'"
    "fs_Feeds t = fs_Feeds s" "fs_Base t = fs_Base s" by blast
  have "journal_ok co t rid' profile'" for rid' profile'
  proof (cases "(rid', profile') = (rid, profile)")
    case True
    with a complete(2) show ?thesis by (auto simp: feed_ok_def intro: journal_ok_changed [OF _ a(5,1,3)])
  next
    case False
    show ?thesis by (rule journal_ok_frame [where s = s]) (use False a(4,5) complete(2) in \<open>simp_all add: feed_ok_def\<close>)
  qed
  with a(6) complete(2) show ?case by (simp add: feed_ok_def)
next
  case (installed s xs)
  have "journal_ok co (s\<lparr>fs_Installed := xs\<rparr>) rid profile" for rid profile
    by (rule journal_ok_frame [where s = s]) (use installed in \<open>simp_all add: attempt_rows_def feed_ok_def\<close>)
  with installed show ?case by (simp add: feed_ok_def)
qed

lemma feed_reachable_ok: "feed_reachable co s \<Longrightarrow> base64_ok co \<Longrightarrow> feed_ok co s"
proof (induction rule: feed_reachable.induct)
  case fresh
  have "store_ok fresh_store" by (rule reachable_ok) (rule reachable.fresh)
  then show ?case by (simp add: feed_ok_def journal_ok_def attempt_rows_def fresh_feeds_def)
next
  case (step s t)
  then show ?case using feed_step_ok by blast
qed

section \<open>A concrete journal\<close>

text \<open>
  A codec whose base64 is the text itself and whose hash is always the one of the Splunk Mapping;
  every URL it parses is an origin.
\<close>

definition demo_codec :: feed_codec where
  "demo_codec = \<lparr>fc_Sha256 = (\<lambda>s. ''11a7c673edb751f5c0ce3524457977b503a39ee36979b51ce9a1c6a1f5213eae''), fc_Base64 = id,
     fc_Unbase64 = Some, fc_ParseJSON = (\<lambda>s. if s = '''' then NoBytes else Doc (JObject [(''status'', JString ''ok'')])),
     fc_ParseURL = (\<lambda>s. Some \<lparr>ur_Scheme = ''http'', ur_Host = ''lab'', ur_Path = '''', ur_User = False, ur_RawQuery = '''',
       ur_ForceQuery = False, ur_Fragment = '''', fu_Hostname = ''lab'', fu_RawPath = ''''\<rparr>)\<rparr>"

definition demo_spec :: ManifestSpec where
  "demo_spec = \<lparr>mf_CohortID = replicate 32 CHR ''0'', mf_TargetID = ''t'', mf_ReceiverOrigin = ''http://lab'', mf_Profile = ''splunk'',
     mf_ProfileHash = ''91913d137828c67d014bdd40124096d7624e2924f19c6cf65910604cb6e5244b'',
     mf_Mapping = \<lparr>ms_Source = ''tests/oscar-webhookreceiver/fixtures/splunk/baseline.json'',
       ms_SHA256 = ''11a7c673edb751f5c0ce3524457977b503a39ee36979b51ce9a1c6a1f5213eae'', ms_BodyBase64 = ''''\<rparr>,
     mf_UserAgent = ''owned-existing-feed/1'', mf_RequestHost = ''owned-receiver'', mf_StartsAt = (63000000000 * second, 0)\<rparr>"

text \<open>The length of a text without its characters.\<close>

fun text_bound :: "json \<Rightarrow> int" where
  "text_bound JNull = 4"
| "text_bound (JBool b) = 5"
| "text_bound (JNumber s) = int (length s)"
| "text_bound (JString s) = 6 * int (length s) + 2"
| "text_bound (JArray js) = 2 + sum_list (map (\<lambda>j. text_bound j + 1) js)"
| "text_bound (JObject ms) = 2 + sum_list (map (\<lambda>(k, v). 6 * int (length k) + text_bound v + 4) ms)"

lemma json_string_length: "length (json_string s) \<le> 6 * length s + 2"
proof -
  have "length (json_char c) \<le> 6" for c by (simp add: json_char_def Let_def)
  then have "length (concat (map json_char s)) \<le> 6 * length s" by (induction s) (auto intro: add_mono)
  then show ?thesis by (simp add: json_string_def)
qed

lemma join_length: "int (length (join [c] xs)) \<le> sum_list (map (\<lambda>x. int (length x) + 1) xs)"
  by (induction "[c]" xs rule: join.induct) auto

lemma text_bound: "int (length (json_text j)) \<le> text_bound j"
proof (induction j)
  case (JString s)
  then show ?case using json_string_length [of s] by simp
next
  case (JArray js)
  have "sum_list (map (\<lambda>x. int (length x) + 1) (map json_text js)) \<le> sum_list (map (\<lambda>j. text_bound j + 1) js)"
    unfolding map_map comp_def by (rule sum_list_mono) (use JArray in auto)
  moreover have "int (length (join '','' (map json_text js))) \<le> sum_list (map (\<lambda>x. int (length x) + 1) (map json_text js))"
    by (rule join_length)
  ultimately show ?case by simp
next
  case (JObject ms)
  let ?f = "\<lambda>(k, v). json_string k @ '':'' @ json_text v"
  have "sum_list (map (\<lambda>x. int (length x) + 1) (map ?f ms)) \<le> sum_list (map (\<lambda>(k, v). 6 * int (length k) + text_bound v + 4) ms)"
    unfolding map_map comp_def
  proof (rule sum_list_mono)
    fix m assume m: "m \<in> set ms"
    obtain k v where kv: "m = (k, v)" by (cases m)
    with JObject.IH [OF m, of v] have "int (length (json_text v)) \<le> text_bound v" by simp
    with kv json_string_length [of k] show "int (length (?f m)) + 1 \<le> (case m of (k, v) \<Rightarrow> 6 * int (length k) + text_bound v + 4)"
      by simp
  qed
  moreover have "int (length (join '','' (map ?f ms))) \<le> sum_list (map (\<lambda>x. int (length x) + 1) (map ?f ms))"
    by (rule join_length)
  ultimately show ?case by simp
qed simp_all

lemma demo_base64: "base64_ok demo_codec"
  by (simp add: base64_ok_def demo_codec_def)

lemma demo_frozen: "FreezeExistingFeedManifest demo_codec demo_spec = Inr demo_spec"
  by code_simp

text \<open>A step of the ledger inside the store of the feeds.\<close>

definition on_ledger :: "(store \<Rightarrow> StoreError + store) \<Rightarrow> feed_store \<Rightarrow> FeedError + feed_store" where
  "on_ledger f s =
     (case f (fs_Base s) of
        Inl e \<Rightarrow> Inl (FeedStore e)
      | Inr b \<Rightarrow> if list_all (\<lambda>row. fr_RunID row \<in> set (st_Pinned b)) (fs_Feeds s) then Inr (s\<lparr>fs_Base := b\<rparr>)
                else Inl FeedConstraint)"

definition demo_feed_ops :: "(feed_store \<Rightarrow> FeedError + feed_store) list" where
  "demo_feed_ops =
     [on_ledger (\<lambda>s. map_sum id snd (service_CreateRun s (replicate 16 255) 1 '''' '''' ''1'')),
      \<lambda>s. RegisterExistingFeed demo_codec s demo_id demo_spec 2,
      on_ledger (\<lambda>s. TransitionRun s demo_id RunPreflight 2 ''preflight''),
      on_ledger (\<lambda>s. TransitionRun s demo_id RunSettingUp 3 ''set up''),
      on_ledger (\<lambda>s. TransitionRun s demo_id RunInjecting 4 ''inject''),
      \<lambda>s. RecordExistingFeedAttempt demo_codec s demo_id (case Prepare demo_codec demo_spec 0 of Inr (e, b) \<Rightarrow> e) 5,
      \<lambda>s. CompleteExistingFeedAttempt demo_codec s demo_id ''splunk'' 0 (fc_Sha256 demo_codec '''')
        \<lparr>ir_Class = InjectionForwarded, ir_StatusCode = 200, ir_TaskID = '''', ir_Body = ''x''\<rparr> '''' 6]"

definition demo_feeds :: "nat \<Rightarrow> FeedError + feed_store" where
  "demo_feeds n = foldE (\<lambda>s f. f s) fresh_feeds (take n demo_feed_ops)"

lemma on_ledger_step: "(\<And>b. f (fs_Base s) = Inr b \<Longrightarrow> ledger_step (fs_Base s) b) \<Longrightarrow> on_ledger f s = Inr t \<Longrightarrow> feed_step co s t"
  by (auto simp: on_ledger_def list_all_iff split: sum.splits if_splits intro: feed_step.ledger)

lemma demo_feed_step: "f \<in> set demo_feed_ops \<Longrightarrow> f s = Inr t \<Longrightarrow> feed_step demo_codec s t"
  unfolding demo_feed_ops_def
  by (auto simp: map_sum_Inr intro: ledger_step.intros feed_step.register feed_step.attempt feed_step.complete elim!: on_ledger_step [rotated])

lemma demo_feeds_reachable:
  assumes "demo_feeds n = Inr s" shows "feed_reachable demo_codec s"
  using assms unfolding demo_feeds_def
proof (rule foldE_invariant)
  show "feed_reachable demo_codec fresh_feeds" by (rule feed_reachable.fresh)
  fix s f t assume "f \<in> set (take n demo_feed_ops)" "feed_reachable demo_codec s" "f s = Inr t"
  then show "feed_reachable demo_codec t" using demo_feed_step in_set_takeD feed_reachable.step by metis
qed

definition demo_evidence :: FeedEvidence where
  "demo_evidence = (case Prepare demo_codec demo_spec 0 of Inr (e, body) \<Rightarrow> e)"

lemma demo_prepared: "\<exists>body. Prepare demo_codec demo_spec 0 = Inr (demo_evidence, body)"
  by (simp add: demo_evidence_def Prepare_def demo_spec_def Let_def)

lemma demo_evidence_fits: "column_fits (Doc (marshal_evidence demo_evidence))"
proof -
  have "text_bound (marshal_evidence demo_evidence) \<le> 2097152" by code_simp
  with text_bound [of "marshal_evidence demo_evidence"] show ?thesis
    by (simp add: column_fits_def raw_size_def marshal_evidence_def)
qed

lemma demo_injecting_feeds:
  "case demo_feeds 5 of Inl e \<Rightarrow> False | Inr s \<Rightarrow>
     map (\<lambda>f. (fr_RunID f, fr_Profile f, fr_CohortID f, fr_ReceiverOrigin f)) (fs_Feeds s) =
       [(demo_id, ''splunk'', mf_CohortID demo_spec, mf_ReceiverOrigin demo_spec)] \<and>
     map fr_Manifest (fs_Feeds s) = [Doc (marshal_spec demo_spec)] \<and> fs_Attempts s = [] \<and> st_Ready (fs_Base s) \<and>
     affected (\<lambda>r. run_ID r = demo_id \<and> run_Status r = RunInjecting) (st_Runs (fs_Base s)) = 1 \<and> has_run (fs_Base s) demo_id \<and>
     raw_size (Doc (marshal_spec demo_spec)) \<le> 2097152"
  by code_simp

lemma demo_profile: "mf_Profile demo_spec = ''splunk''"
  by (simp add: demo_spec_def)

lemma demo_read:
  assumes "demo_feeds 5 = Inr s"
  shows "readExistingFeed demo_codec s demo_id ''splunk'' = Inr (demo_spec, [])"
proof -
  from demo_injecting_feeds assms obtain row where row: "fs_Feeds s = [row]" "feed_key demo_id ''splunk'' row"
    "fr_Manifest row = Doc (marshal_spec demo_spec)" "fr_CohortID row = mf_CohortID demo_spec"
    "fr_ReceiverOrigin row = mf_ReceiverOrigin demo_spec" "fs_Attempts s = []" "raw_size (fr_Manifest row) \<le> 2097152"
    by (auto simp: map_eq_Cons_conv feed_key_def)
  with decode_spec_marshal [OF frozen_start [OF demo_frozen]] demo_frozen demo_profile show ?thesis
    by (simp add: readExistingFeed_def attempt_rows_def)
qed

lemma demo_id_ne: "demo_id \<noteq> []"
  by (simp add: demo_id_def)

lemma demo_recorded:
  assumes "demo_feeds 5 = Inr s"
  shows "\<exists>t. RecordExistingFeedAttempt demo_codec s demo_id demo_evidence 5 = Inr t \<and> fs_Feeds t = fs_Feeds s"
proof -
  from demo_prepared obtain body where p: "Prepare demo_codec demo_spec 0 = Inr (demo_evidence, body)" by blast
  then have "fv_Manifest demo_evidence = demo_spec" "fv_FixtureIndex demo_evidence = 0"
    using Prepare_Inr by auto
  moreover have "has_run ((fs_Base s)\<lparr>st_Runs := update_where (\<lambda>r. run_ID r = demo_id \<and> run_Status r = RunInjecting)
      (\<lambda>r. r\<lparr>run_CleanupStatus := CleanupUnknown, run_UpdatedAt := 5\<rparr>) (st_Runs (fs_Base s))\<rparr>) demo_id"
    using demo_injecting_feeds assms by (simp add: has_run_states run_states_keep)
  ultimately show ?thesis
    using demo_injecting_feeds assms demo_read [OF assms] p demo_evidence_fits demo_profile
    by (auto simp: RecordExistingFeedAttempt_def attempt_rows_def appendEvent_def store_event_def Let_def demo_id_ne)
qed

lemma demo_attempt:
  "\<exists>s t a. demo_feeds 5 = Inr s \<and> RecordExistingFeedAttempt demo_codec s demo_id demo_evidence 5 = Inr t \<and>
     feed_reachable demo_codec s \<and> feed_reachable demo_codec t \<and> readExistingFeed demo_codec s demo_id ''splunk'' = Inr (demo_spec, []) \<and>
     readExistingFeed demo_codec t demo_id ''splunk'' = Inr (demo_spec, [a]) \<and>
     (\<exists>row \<in> set (fs_Feeds t). fr_RunID row = demo_id \<and> fr_Profile row = ''splunk'')"
proof -
  obtain s where s: "demo_feeds 5 = Inr s" using demo_injecting_feeds by (cases "demo_feeds 5") auto
  from demo_recorded [OF s] obtain t where t: "RecordExistingFeedAttempt demo_codec s demo_id demo_evidence 5 = Inr t" by blast
  have rs: "feed_reachable demo_codec s" using demo_feeds_reachable [OF s] .
  have rt: "feed_reachable demo_codec t" using feed_reachable.step [OF rs] feed_step.attempt [OF t] by blast
  have p: "mf_Profile (fv_Manifest demo_evidence) = ''splunk''" using demo_prepared Prepare_Inr demo_profile by auto
  note read = demo_read [OF s]
  from feed_record_read [OF feed_reachable_ok [OF rs demo_base64] t, unfolded p] read obtain a where
    a: "foldE (read_attempt demo_codec demo_spec) [] (attempt_rows t demo_id ''splunk'') = Inr [a]" "fs_Feeds t = fs_Feeds s" by auto
  from read_changed [OF read a(2,1)] have "readExistingFeed demo_codec t demo_id ''splunk'' = Inr (demo_spec, [a])" .
  moreover have "\<exists>row \<in> set (fs_Feeds t). fr_RunID row = demo_id \<and> fr_Profile row = ''splunk''"
    using demo_injecting_feeds s a(2) by (auto simp: map_eq_Cons_conv)
  ultimately show ?thesis using s t rs rt read by blast
qed

section \<open>The journal\<close>

text \<open>
  C18. The journal of a feed is always readable and has no gaps: in every reachable store a registered
  feed reads back as its frozen manifest and at most six attempts, which are the fixtures 0, 1, 2,
  and so on, once each, with exactly the request and identity that the manifest determines; and every
  attempt before the last was forwarded without an error, so that nothing is ever attempted after an
  unresolved or refused fixture.
\<close>

theorem journal_without_gaps:
  assumes "feed_reachable co s" and "base64_ok co" and "row \<in> set (fs_Feeds s)"
  shows "\<exists>m attempts. readExistingFeed co s (fr_RunID row) (fr_Profile row) = Inr (m, attempts) \<and> length attempts \<le> 6 \<and>
    map fa_Index (attempt_rows s (fr_RunID row) (fr_Profile row)) = map int [0..<length attempts] \<and>
    (\<forall>i < length attempts. \<exists>body. Prepare co m (int i) = Inr (ea_Evidence (attempts ! i), body)) \<and>
    (\<forall>i. Suc i < length attempts \<longrightarrow> resolved (attempts ! i))"
proof -
  obtain found where found: "find (feed_key (fr_RunID row) (fr_Profile row)) (fs_Feeds s) = Some found"
    using assms(3) by (cases "find (feed_key (fr_RunID row) (fr_Profile row)) (fs_Feeds s)") (auto simp: find_None_iff feed_key_def)
  have "journal_ok co s (fr_RunID row) (fr_Profile row)" using feed_reachable_ok [OF assms(1,2)] by (simp add: feed_ok_def)
  from journal_read [OF this found] obtain m attempts where m:
    "readExistingFeed co s (fr_RunID row) (fr_Profile row) = Inr (m, attempts)" "list_all resolved (butlast attempts)"
    "foldE (read_attempt co m) [] (attempt_rows s (fr_RunID row) (fr_Profile row)) = Inr attempts" by blast
  moreover have "resolved (attempts ! i)" if "Suc i < length attempts" for i
    using m(2) that by (auto simp: list_all_length nth_butlast)
  ultimately show ?thesis using read_in_order [OF m(3)] by blast
qed

theorem journal_without_gaps_witness:
  "\<exists>s attempts. readExistingFeed demo_codec s demo_id ''splunk'' = Inr (demo_spec, attempts) \<and> length attempts = 1 \<and>
     (\<exists>body. Prepare demo_codec demo_spec 0 = Inr (ea_Evidence (hd attempts), body))"
proof -
  from demo_attempt obtain t a row where t: "feed_reachable demo_codec t" "readExistingFeed demo_codec t demo_id ''splunk'' = Inr (demo_spec, [a])"
    "row \<in> set (fs_Feeds t)" "fr_RunID row = demo_id" "fr_Profile row = ''splunk''" by blast
  from journal_without_gaps [OF t(1) demo_base64 t(3)] t(2,4,5) have "\<exists>body. Prepare demo_codec demo_spec 0 = Inr (ea_Evidence a, body)"
    by auto
  with t(2) show ?thesis by (intro exI [of _ t] exI [of _ "[a]"]) simp
qed

text \<open>
  C19. The journal only grows. Whatever operation comes next, the manifest of a feed stays, its
  attempts stay in place with their requests, a result once stored stays as it is, and the operation
  either adds one attempt without a result behind attempts that were all forwarded, or gives the
  last attempt the result it did not have, or leaves the journal alone.
\<close>

theorem journal_only_grows:
  assumes "feed_reachable co s" and "base64_ok co" and "readExistingFeed co s rid profile = Inr (m, attempts)" and "feed_step co s t"
  shows "\<exists>new. readExistingFeed co t rid profile = Inr (m, new) \<and>
    (new = attempts \<or> (\<exists>a. new = attempts @ [a] \<and> ea_Result a = None \<and> list_all resolved attempts) \<or>
     (\<exists>front a result failed. attempts = front @ [a] \<and> ea_Result a = None \<and>
        new = front @ [a\<lparr>ea_Result := Some result, ea_TransportError := failed\<rparr>]))"
proof -
  have ok: "feed_ok co s" using feed_reachable_ok [OF assms(1,2)] .
  from read_found [OF assms(3)] obtain row where row: "find (feed_key rid profile) (fs_Feeds s) = Some row" by blast
  show ?thesis
    using assms(4)
  proof cases
    case (ledger b)
    then have "readExistingFeed co t rid profile = readExistingFeed co s rid profile"
      by (intro read_same) (simp_all add: attempt_rows_def)
    with assms(3) show ?thesis by simp
  next
    case (installed xs)
    then have "readExistingFeed co t rid profile = readExistingFeed co s rid profile"
      by (intro read_same) (simp_all add: attempt_rows_def)
    with assms(3) show ?thesis by simp
  next
    case (register rid' spec at)
    then obtain r where "fs_Feeds t = fs_Feeds s @ [r]" "fs_Attempts t = fs_Attempts s"
      by (auto simp: RegisterExistingFeed_def split: if_splits sum.splits)
    with row have "readExistingFeed co t rid profile = readExistingFeed co s rid profile"
      by (intro read_same) (simp_all add: attempt_rows_def find_append)
    with assms(3) show ?thesis by simp
  next
    case (attempt rid' evidence at)
    let ?p = "mf_Profile (fv_Manifest evidence)"
    from feed_record_read [OF ok attempt] obtain n as a where a: "readExistingFeed co s rid' ?p = Inr (n, as)" "list_all resolved as"
      "ea_Result a = None" "foldE (read_attempt co n) [] (attempt_rows t rid' ?p) = Inr (as @ [a])"
      "\<forall>rid'' profile. (rid'', profile) \<noteq> (rid', ?p) \<longrightarrow> attempt_rows t rid'' profile = attempt_rows s rid'' profile"
      "fs_Feeds t = fs_Feeds s" by blast
    show ?thesis
    proof (cases "(rid, profile) = (rid', ?p)")
      case True
      with a assms(3) have same: "n = m" "as = attempts" by auto
      with a(4,6) True have "readExistingFeed co t rid profile = Inr (m, attempts @ [a])"
        by (intro read_changed [OF assms(3)]) simp_all
      with a same show ?thesis by auto
    next
      case False
      with a(5,6) have "readExistingFeed co t rid profile = readExistingFeed co s rid profile"
        by (intro read_same) simp_all
      with assms(3) show ?thesis by simp
    qed
  next
    case (complete rid' profile' index sha result failed at)
    from feed_complete_read [OF ok assms(2) complete] obtain n front a where a: "readExistingFeed co s rid' profile' = Inr (n, front @ [a])"
      "ea_Result a = None"
      "foldE (read_attempt co n) [] (attempt_rows t rid' profile') = Inr (front @ [a\<lparr>ea_Result := Some result, ea_TransportError := failed\<rparr>])"
      "\<forall>rid'' profile. (rid'', profile) \<noteq> (rid', profile') \<longrightarrow> attempt_rows t rid'' profile = attempt_rows s rid'' profile"
      "fs_Feeds t = fs_Feeds s" by blast
    show ?thesis
    proof (cases "(rid, profile) = (rid', profile')")
      case True
      with a assms(3) have same: "n = m" "attempts = front @ [a]" by auto
      with a(3,5) True have "readExistingFeed co t rid profile = Inr (m, front @ [a\<lparr>ea_Result := Some result, ea_TransportError := failed\<rparr>])"
        by (intro read_changed [OF assms(3)]) simp_all
      with a same show ?thesis by auto
    next
      case False
      with a(4,5) have "readExistingFeed co t rid profile = readExistingFeed co s rid profile"
        by (intro read_same) simp_all
      with assms(3) show ?thesis by simp
    qed
  qed
qed

theorem journal_only_grows_witness:
  "\<exists>s t a. readExistingFeed demo_codec s demo_id ''splunk'' = Inr (demo_spec, []) \<and> feed_step demo_codec s t \<and>
     readExistingFeed demo_codec t demo_id ''splunk'' = Inr (demo_spec, [a]) \<and> ea_Result a = None"
proof -
  from demo_attempt obtain s t a where s: "feed_reachable demo_codec s" "readExistingFeed demo_codec s demo_id ''splunk'' = Inr (demo_spec, [])"
    "RecordExistingFeedAttempt demo_codec s demo_id demo_evidence 5 = Inr t" "readExistingFeed demo_codec t demo_id ''splunk'' = Inr (demo_spec, [a])" by blast
  note step = feed_step.attempt [OF s(3)]
  from journal_only_grows [OF s(1) demo_base64 s(2) step] s(2,4) step show ?thesis by auto
qed

end
