(* ===== verification/Spec2Isabelle.thy ===== *)
theory Spec2Isabelle
  imports Run_Release Run_Recording Client_Properties Compiled_Runs Snmp_Properties Snmp_Reconcile
    Env_Properties Web_Auth Test_Oscar_Properties Log_Rotation List_Properties Feed_Journal_Properties
begin

text \<open>
  A verification library for oscar-corrtest (\<^verbatim>\<open>src/\<close>), a Go program that runs correlation tests
  against an OSCAR alert system: it validates a scenario document, compiles it to a plan of rules and
  alerts, creates the rules, sends the alerts, observes what OSCAR makes of them, decides a verdict,
  removes what it created, and keeps a ledger of all of it that survives a crash.

  \<^bold>\<open>Conventions.\<close> \<^theory_text>\<open>Prelude\<close>, \<^theory_text>\<open>Json_Doc\<close>, \<^theory_text>\<open>Go_Format\<close> and \<^theory_text>\<open>Go_Strings\<close> hold the Go runtime as the
  models use it. A Go string is the list of its bytes. A map is an association list with distinct
  keys; its order stands for the unspecified order of iteration. A function that returns an error
  returns a sum or an option. Instants and durations are integers of nanoseconds, with \<open>wrap64\<close> where
  the code has not bounded the operands of a sum. A struct is a record, whose fields carry a prefix of
  two letters and the name in the source. A loop with an early return is \<open>foldE\<close>. What lies outside
  \<^verbatim>\<open>src/\<close> (OSCAR, the HTTP exchange, the clock, hashing, URL parsing) is a parameter.

  \<^bold>\<open>Scenarios and plans.\<close> \<^theory_text>\<open>Scenario_Model\<close>, \<^theory_text>\<open>Scenario_Semantics\<close> and \<^theory_text>\<open>Scenario_Validate\<close> are
  \<^verbatim>\<open>internal/scenario\<close> (model.go, contract.go, semantics.go, decode.go, checkpoints.go, no\_match.go).
  The checks of each pattern are shown to decide a formula over the expanded events
  (\<open>windowed_checks_exact\<close>, \<open>absence_check_exact\<close>), the stimuli and the schedule of an accepted
  document are bounded and never depend on a wrapped sum (\<open>accepted_schedule\<close>), and an accepted pair
  of cases discriminates. \<^theory_text>\<open>Plan_Compiler\<close> is \<^verbatim>\<open>internal/compiler\<close>; \<^theory_text>\<open>Plan_Properties\<close> shows what a
  compiled plan has: ownership labels, resolutions that repeat the identity of their event, unique
  event identifiers, the alert budget, controls that no rule matches. \<^theory_text>\<open>Plan_Json\<close> is the stored
  form of a plan, with its round trip.

  \<^bold>\<open>The ledger.\<close> \<^theory_text>\<open>Run_Domain\<close> is \<^verbatim>\<open>internal/domain\<close>: identifiers, the lifecycle of a run, resources
  and facts. \<^theory_text>\<open>Run_Store\<close> is the run half of \<^verbatim>\<open>internal/persistence/sqlite\<close> as tables with the
  constraints of the schema, one function per operation; an operation that fails returns an error and
  no new store, which is its rollback. \<^theory_text>\<open>Run_Ledger\<close> collects the operations in the step relation
  \<open>ledger_step\<close> and proves its invariant; \<^theory_text>\<open>Ledger_Properties\<close> draws the consequences: the events tell
  the status, sequences have no gaps, recovery after a crash is idempotent and never forgets an input
  that may have been sent, completion is all or nothing, a run is deleted only when it is safe.

  \<^bold>\<open>The client.\<close> \<^theory_text>\<open>Oscar_Types\<close>, \<^theory_text>\<open>Oscar_Requests\<close> and \<^theory_text>\<open>Oscar_Client\<close> are \<^verbatim>\<open>internal/oscar\<close> on the
  direct route: types, request bodies with the evidence of a recorded injection, exchange,
  classification of replies, pagination. \<^theory_text>\<open>Client_Properties\<close> bounds the listing of rules.

  \<^bold>\<open>The runner.\<close> \<^theory_text>\<open>Runner_World\<close> is what \<^verbatim>\<open>internal/runner\<close> acts on: the ledger, two variables of
  \<^verbatim>\<open>Execute\<close> and an abstract outside world, with actions as state transformers. \<^theory_text>\<open>Observation\<close>,
  \<^theory_text>\<open>Run_Report\<close>, \<^theory_text>\<open>Run_Cleanup\<close> and \<^theory_text>\<open>Run_Executor\<close> are the runner's files, up to \<^verbatim>\<open>Execute\<close> as a whole.
  The polling loop of an observation takes fuel, one unit per poll, and returns \<^term>\<open>None\<close> when it
  runs out; \<^theory_text>\<open>Run_Liveness\<close> shows that fuel for one poll per interval of the longest window is
  enough (\<open>execution_ends\<close>), so that no theorem about a result is empty. \<^theory_text>\<open>Action_Logic\<close> and
  \<^theory_text>\<open>Runner_Logic\<close> hold the program logic: the locale \<open>recording_api\<close> is the contract of an \<^verbatim>\<open>API\<close>,
  \<open>ledger_invariant\<close> and its extensions that of a \<^verbatim>\<open>Store\<close>, \<open>running\<close>, \<open>run_actions\<close> and \<open>whole_run\<close>
  what follows for the phases of a run. They are interpreted on the client, on the test model and
  on the ledger, and the properties rest on the interpretations: a stored PASS is earned by every
  case (\<^theory_text>\<open>Run_Properties\<close>), every step of a run is a step of the ledger, an alert is recorded before it
  is sent (\<^theory_text>\<open>Run_Recording\<close>), a clean run has released its rules (\<^theory_text>\<open>Run_Release\<close>).
  \<^theory_text>\<open>Observation_Properties\<close> and \<^theory_text>\<open>Compiled_Runs\<close> connect compiler, observation and ledger: the
  assertions of a plan can be evaluated, a violated zero count is never forgiven, and every attempt
  the runner reports is a row the ledger planned.

  \<^bold>\<open>The OSCAR test model.\<close> \<^theory_text>\<open>Test_Oscar\<close> is \<^verbatim>\<open>internal/testoscar/model.go\<close>, the simulator of the tests,
  up to its use as an \<^verbatim>\<open>API\<close>. \<^theory_text>\<open>Test_Oscar_Properties\<close> shows that its counting triggers are exact and
  that a persistence trigger was held, and that the runner's theorems apply to runs against it.

  \<^bold>\<open>SNMP load.\<close> \<^theory_text>\<open>Snmp_Load\<close> and \<^theory_text>\<open>Snmp_Reconcile\<close> are \<^verbatim>\<open>internal/snmpload\<close> (plan.go, observe.go).
  \<^theory_text>\<open>Snmp_Properties\<close> shows the life of every episode and the pace of the packets; the reconciliation
  reports an episode resolved only on complete evidence and does not depend on rows read twice.

  \<^bold>\<open>Environment file and web authentication.\<close> \<^theory_text>\<open>Env_File\<close> is \<^verbatim>\<open>internal/envfile/store.go\<close> over the bytes
  of its file; \<^theory_text>\<open>Env_Properties\<close> shows that a restart reads back what the process held. \<^theory_text>\<open>Web_Auth\<close> is
  \<^verbatim>\<open>internal/web/auth.go\<close>: a logout is final, and a login opens a session for exactly its lifetime.
  Both theorems carry a proviso, and a lemma beside each shows that the code needs it.

  \<^bold>\<open>Bounds.\<close> Numbers that the code checks before it adds them are plain integers; the theories say
  where. The word arithmetic of the run identifiers is \<^typ>\<open>32 word\<close>. Texts are ASCII where the code
  folds case; \<^verbatim>\<open>strconv.Quote\<close> is modelled for printable runes. Years end with 9999.

  \<^bold>\<open>Not modelled.\<close> Goroutines (every operation under a mutex or in a transaction is one step), SQL text,
  YAML decoding, the parsing of timestamps and of OSCAR's list replies for History and audits (the
  runner takes the records), the ordinary webhook route of the client, the runs of installed packs
  and existing feeds, and what only performs I/O or renders text: the command line, the web server
  behind its authentication, runtime wiring, archives, backups, logging, services.
\<close>

end
